(* ===== verification/Prelude.thy ===== *)
theory Prelude
  imports Complex_Main "HOL-Library.Word" "HOL-Library.AList" "HOL-Library.Multiset"
begin

text \<open>
  The shared base of the development: the integer widths of Go, its built-in map, the
  functions of the packages strings, strconv and encoding/hex the program calls, and the
  two generic interfaces several components are proved against (a state machine with an
  invariant, a keyed table). Go strings are byte sequences, and so is HOL's
  \<open>string\<close>: a character is one byte.
\<close>

unbundle bit_operations_syntax

named_theorems go_simps "evaluation rules for the library functions of Go"
named_theorems keep "lemmas: an operation keeps a component's invariant"

section \<open>Integers\<close>

type_synonym u8 = "8 word"
type_synonym u16 = "16 word"
type_synonym u32 = "32 word"
type_synonym u64 = "64 word"

text \<open>Go's \<open>int\<close> and \<open>int64\<close>: the result of an operation, reduced to 64 bits in two's
  complement.\<close>

definition wrap_i64 :: "int \<Rightarrow> int" where
  "wrap_i64 x = signed_take_bit 63 x"

lemma wrap_i64_id [go_simps]: "- (2 ^ 63) \<le> x \<Longrightarrow> x < 2 ^ 63 \<Longrightarrow> wrap_i64 x = x"
  by (simp add: wrap_i64_def signed_take_bit_int_eq_self)

text \<open>Integer division of Go truncates towards zero.\<close>

definition go_div :: "int \<Rightarrow> int \<Rightarrow> int" where
  "go_div a b = sgn a * sgn b * (\<bar>a\<bar> div \<bar>b\<bar>)"

lemma go_div_nonneg [go_simps]: "0 \<le> a \<Longrightarrow> 0 < b \<Longrightarrow> go_div a b = a div b"
  by (cases "a = 0") (simp_all add: go_div_def)

section \<open>Go maps\<close>

text \<open>
  A Go map is an association list with distinct keys. The language fixes no iteration
  order: every loop of the source that ranges over a map takes the order from a parameter
  \<open>ord\<close>, a function that permutes the entries.
\<close>

type_synonym ('k, 'v) gomap = "('k \<times> 'v) list"

definition is_gomap :: "('k, 'v) gomap \<Rightarrow> bool" where
  "is_gomap m \<longleftrightarrow> distinct (map fst m)"

definition is_order :: "('a list \<Rightarrow> 'a list) \<Rightarrow> bool" where
  "is_order ord \<longleftrightarrow> (\<forall>xs. mset (ord xs) = mset xs)"

lemma is_order_id: "is_order (\<lambda>xs. xs)"
  by (simp add: is_order_def)

lemma is_order_rev: "is_order rev"
  by (simp add: is_order_def)

lemma is_order_set: "is_order ord \<Longrightarrow> set (ord xs) = set xs"
  by (metis is_order_def set_mset_mset)

lemma is_order_length: "is_order ord \<Longrightarrow> length (ord xs) = length xs"
  by (metis is_order_def size_mset)

text \<open>The interface of a keyed table, as the components use it.\<close>

locale keyed_table =
  fixes none :: "'m"
    and put :: "'k \<Rightarrow> 'v \<Rightarrow> 'm \<Rightarrow> 'm"
    and del :: "'k \<Rightarrow> 'm \<Rightarrow> 'm"
    and look :: "'m \<Rightarrow> 'k \<Rightarrow> 'v option"
    and len :: "'m \<Rightarrow> nat"
    and ok :: "'m \<Rightarrow> bool"
  assumes ok_none: "ok none"
    and ok_put: "ok m \<Longrightarrow> ok (put k v m)"
    and ok_del: "ok m \<Longrightarrow> ok (del k m)"
    and look_none: "look none = Map.empty"
    and look_put: "look (put k v m) = (look m)(k \<mapsto> v)"
    and look_del: "look (del k m) = (look m)(k := None)"
    and len_none: "len none = 0"
    and len_put: "len (put k v m) = (if look m k = None then Suc (len m) else len m)"
    and len_del: "ok m \<Longrightarrow> len (del k m) = (if look m k = None then len m else len m - 1)"
    and del_absent: "look m k = None \<Longrightarrow> del k m = m"
    and del_put: "look m k = None \<Longrightarrow> del k (put k v m) = m"
begin

lemma look_put_same: "look (put k v m) k = Some v"
  by (simp add: look_put)

lemma look_del_same: "look (del k m) k = None"
  by (simp add: look_del)

lemma len_del_le: "ok m \<Longrightarrow> len (del k m) \<le> len m"
  by (simp add: len_del)

lemma len_put_del: "ok m \<Longrightarrow> len (put k v (del k m)) \<le> Suc (len m)"
  by (simp add: len_put len_del look_del)

lemma len_put_le: "len m < n \<Longrightarrow> len (put k v m) \<le> n"
  by (simp add: len_put)

end

lemma length_update: "length (AList.update k v m) =
    (if map_of m k = None then Suc (length m) else length m)"
  by (induction m) auto

lemma delete_absent: "map_of m k = None \<Longrightarrow> AList.delete k m = m"
  by (induction m) (auto split: if_splits)

lemma length_delete: "is_gomap m \<Longrightarrow> length (AList.delete k m) =
    (if map_of m k = None then length m else length m - 1)"
proof (induction m)
  case (Cons p m)
  show ?case
  proof (cases "fst p = k")
    case True
    with Cons.prems have "map_of m k = None" by (auto simp: is_gomap_def map_of_eq_None_iff)
    with True show ?thesis by (cases p) (simp add: delete_absent)
  next
    case False
    have "map_of m k \<noteq> None \<Longrightarrow> 0 < length m" by (cases m) auto
    with False Cons show ?thesis by (cases p) (auto simp: is_gomap_def)
  qed
qed simp

lemma delete_update_fresh: "map_of m k = None \<Longrightarrow> AList.delete k (AList.update k v m) = m"
  by (induction m) (auto simp: delete_absent split: if_splits)

interpretation gm: keyed_table "[]" AList.update AList.delete map_of length is_gomap
proof
  show "is_gomap []" by (simp add: is_gomap_def)
  show "is_gomap m \<Longrightarrow> is_gomap (AList.update k v m)" for m :: "('k, 'v) gomap" and k v
    by (simp add: is_gomap_def distinct_update)
  show "is_gomap m \<Longrightarrow> is_gomap (AList.delete k m)" for m :: "('k, 'v) gomap" and k
    by (simp add: is_gomap_def distinct_delete)
  show "map_of (AList.delete k m) = (map_of m)(k := None)" for m :: "('k, 'v) gomap" and k
    by (simp add: delete_conv')
qed (simp_all add: update_conv' length_update length_delete delete_absent delete_update_fresh)

lemmas gomap_laws = gm.ok_none gm.ok_put gm.ok_del gm.look_put gm.look_del gm.len_put gm.len_del

lemma gomap_entry: "is_gomap m \<Longrightarrow> (k, v) \<in> set m \<longleftrightarrow> map_of m k = Some v"
  by (simp add: is_gomap_def)

section \<open>State machines\<close>

text \<open>
  A component whose operations each keep an invariant: every run from a good state ends in
  a good state. Interpreted on the step function of each stateful component.
\<close>

locale invariant_machine =
  fixes step :: "'s \<Rightarrow> 'e \<Rightarrow> 's"
    and good :: "'s \<Rightarrow> bool"
  assumes step_good: "good s \<Longrightarrow> good (step s e)"
begin

lemma run_good: "good s \<Longrightarrow> good (foldl step s es)"
  by (induction es arbitrary: s) (simp_all add: step_good)

lemma run_prefix_good: "good s \<Longrightarrow> good (foldl step s (take n es))"
  by (rule run_good)

end

end
