(* ===== verification/GoStrings.thy ===== *)
theory GoStrings
  imports Prelude
begin

text \<open>
  The functions of the Go packages strings, strconv and encoding/hex that the program calls,
  on byte strings: searching a byte, trimming, prefixes, ASCII case folding, decimal
  printing and parsing, hexadecimal printing. The lemmas give the facts the components use:
  trimming is idempotent, hexadecimal and decimal printing are injective, printing and
  parsing are inverse.
\<close>

section \<open>Searching\<close>

text \<open>strings.IndexByte and strings.LastIndexByte: the position, or -1.\<close>

fun index_byte :: "string \<Rightarrow> char \<Rightarrow> int" where
  "index_byte [] c = -1"
| "index_byte (x # xs) c =
     (if x = c then 0 else if index_byte xs c < 0 then -1 else index_byte xs c + 1)"

fun last_index_byte :: "string \<Rightarrow> char \<Rightarrow> int" where
  "last_index_byte [] c = -1"
| "last_index_byte (x # xs) c =
     (if 0 \<le> last_index_byte xs c then last_index_byte xs c + 1 else if x = c then 0 else -1)"

lemma index_byte_bounds: "-1 \<le> index_byte s c \<and> index_byte s c < int (length s)"
  by (induction s) auto

lemma last_index_byte_bounds: "-1 \<le> last_index_byte s c \<and> last_index_byte s c < int (length s)"
  by (induction s) auto

lemma index_byte_neg: "index_byte s c < 0 \<longleftrightarrow> c \<notin> set s"
  by (induction s) auto

lemma last_index_byte_neg: "last_index_byte s c < 0 \<longleftrightarrow> c \<notin> set s"
  by (induction s) (auto split: if_splits)

lemma last_index_byte_split:
  "c \<notin> set b \<Longrightarrow> last_index_byte (a @ c # b) c = int (length a)"
proof (induction a)
  case Nil
  then have "last_index_byte b c < 0" by (simp add: last_index_byte_neg)
  then show ?case by simp
qed auto

lemma index_byte_split: "c \<notin> set a \<Longrightarrow> index_byte (a @ c # b) c = int (length a)"
  by (induction a) auto

text \<open>strings.TrimPrefix, strings.TrimSuffix, strings.Contains and strings.Join.\<close>

definition has_prefix :: "string \<Rightarrow> string \<Rightarrow> bool" where
  "has_prefix s p \<longleftrightarrow> take (length p) s = p"

definition trim_prefix :: "string \<Rightarrow> string \<Rightarrow> string" where
  "trim_prefix s p = (if has_prefix s p then drop (length p) s else s)"

definition trim_suffix :: "string \<Rightarrow> string \<Rightarrow> string" where
  "trim_suffix s p = rev (trim_prefix (rev s) (rev p))"

fun contains :: "string \<Rightarrow> string \<Rightarrow> bool" where
  "contains [] p = (p = [])"
| "contains (x # xs) p = (has_prefix (x # xs) p \<or> contains xs p)"

fun join :: "string list \<Rightarrow> string \<Rightarrow> string" where
  "join [] sep = []"
| "join [x] sep = x"
| "join (x # xs) sep = x @ sep @ join xs sep"

text \<open>strings.Split by a one-byte separator.\<close>

fun split_byte :: "char \<Rightarrow> string \<Rightarrow> string list" where
  "split_byte c [] = [[]]"
| "split_byte c (x # xs) =
     (if x = c then [] # split_byte c xs
      else case split_byte c xs of [] \<Rightarrow> [[x]] | y # ys \<Rightarrow> (x # y) # ys)"

lemma split_byte_nonempty: "split_byte c s \<noteq> []"
  by (cases s) (auto split: list.splits)

lemma join_cons: "xs \<noteq> [] \<Longrightarrow> join (x # xs) sep = x @ sep @ join xs sep"
  by (cases xs) auto

lemma join_split: "join (split_byte c s) [c] = s"
proof (induction s)
  case (Cons x xs)
  then obtain y ys where y: "split_byte c xs = y # ys"
    using split_byte_nonempty by (metis neq_Nil_conv)
  with Cons show ?case by (cases ys) auto
qed simp

text \<open>The last segment of a list produced by a split, as
  \<open>arrayElement(splitByChar(sep, s), -1)\<close> takes it.\<close>

definition last_segment :: "char \<Rightarrow> string \<Rightarrow> string" where
  "last_segment c s = last (split_byte c s)"

lemma split_byte_append:
  "split_byte c (a @ c # b) = split_byte c a @ split_byte c b"
  by (induction a) (auto split: list.splits simp: split_byte_nonempty)

lemma split_byte_absent: "c \<notin> set s \<Longrightarrow> split_byte c s = [s]"
  by (induction s) auto

lemma split_join:
  assumes "list_all (\<lambda>x. c \<notin> set x) xs" "xs \<noteq> []"
  shows "split_byte c (join xs [c]) = xs"
  using assms
proof (induction xs)
  case (Cons x xs)
  show ?case
  proof (cases xs)
    case Nil
    have "split_byte c x = [x]" using Cons.prems by (intro split_byte_absent) simp
    with Nil show ?thesis by simp
  next
    case (Cons y ys)
    have "split_byte c (x @ c # join xs [c]) = x # split_byte c (join xs [c])"
      using \<open>list_all (\<lambda>x. c \<notin> set x) (x # xs)\<close> by (simp add: split_byte_append split_byte_absent)
    with Cons Cons.IH Cons.prems show ?thesis by (simp add: join_cons)
  qed
qed simp

lemma last_segment_after: "c \<notin> set b \<Longrightarrow> last_segment c (a @ c # b) = b"
  by (simp add: last_segment_def split_byte_append split_byte_absent)

lemma last_segment_whole: "c \<notin> set b \<Longrightarrow> last_segment c b = b"
  by (simp add: last_segment_def split_byte_absent)


section \<open>Trimming\<close>

text \<open>
  strings.TrimSpace removes the white space of Unicode at both ends. \<open>space_len\<close> is the
  number of bytes of the white-space code point a string starts with, 0 for any other
  start: the ASCII spaces, U+0085 and U+00A0 (two bytes in UTF-8), and U+1680, U+2000 to
  U+200A, U+2028, U+2029, U+202F, U+205F, U+3000 (three bytes).
\<close>

definition ascii_space :: "char \<Rightarrow> bool" where
  "ascii_space c \<longleftrightarrow> c \<in> {CHR 0x09, CHR 0x0A, CHR 0x0B, CHR 0x0C, CHR 0x0D, CHR 0x20}"

definition wide_space2 :: "char \<Rightarrow> char \<Rightarrow> bool" where
  "wide_space2 a b \<longleftrightarrow> a = CHR 0xC2 \<and> b \<in> {CHR 0x85, CHR 0xA0}"

definition wide_space3 :: "char \<Rightarrow> char \<Rightarrow> char \<Rightarrow> bool" where
  "wide_space3 a b c \<longleftrightarrow>
     a = CHR 0xE1 \<and> b = CHR 0x9A \<and> c = CHR 0x80
   \<or> a = CHR 0xE2 \<and> b = CHR 0x80 \<and>
       c \<in> {CHR 0x80, CHR 0x81, CHR 0x82, CHR 0x83, CHR 0x84, CHR 0x85, CHR 0x86, CHR 0x87,
            CHR 0x88, CHR 0x89, CHR 0x8A, CHR 0xA8, CHR 0xA9, CHR 0xAF}
   \<or> a = CHR 0xE2 \<and> b = CHR 0x81 \<and> c = CHR 0x9F
   \<or> a = CHR 0xE3 \<and> b = CHR 0x80 \<and> c = CHR 0x80"

definition space_len :: "string \<Rightarrow> nat" where
  "space_len s =
     (case s of [] \<Rightarrow> 0 | a # r \<Rightarrow>
       if ascii_space a then 1
       else case r of [] \<Rightarrow> 0 | b # r2 \<Rightarrow>
         if wide_space2 a b then 2
         else case r2 of [] \<Rightarrow> 0 | c # r3 \<Rightarrow> if wide_space3 a b c then 3 else 0)"

text \<open>The same, for a reversed string: the code point is read backwards.\<close>

definition space_len_rev :: "string \<Rightarrow> nat" where
  "space_len_rev s =
     (case s of [] \<Rightarrow> 0 | a # r \<Rightarrow>
       if ascii_space a then 1
       else case r of [] \<Rightarrow> 0 | b # r2 \<Rightarrow>
         if wide_space2 b a then 2
         else case r2 of [] \<Rightarrow> 0 | c # r3 \<Rightarrow> if wide_space3 c b a then 3 else 0)"

function strip :: "(string \<Rightarrow> nat) \<Rightarrow> string \<Rightarrow> string" where
  "strip f s = (if s = [] \<or> f s = 0 then s else strip f (drop (f s) s))"
  by pat_completeness auto
termination
  by (relation "measure (\<lambda>(f, s). length s)") auto

declare strip.simps [simp del]

definition trim_space :: "string \<Rightarrow> string" where
  "trim_space s = rev (strip space_len_rev (rev (strip space_len s)))"

lemma strip_stops: "strip f s = [] \<or> f (strip f s) = 0"
proof (induction f s rule: strip.induct)
  case (1 f s)
  then show ?case by (subst (1 2) strip.simps) auto
qed

lemma strip_idle: "f s = 0 \<Longrightarrow> strip f s = s"
  by (subst strip.simps) simp

lemma strip_nil [simp]: "strip f [] = []"
  by (subst strip.simps) simp

lemma strip_suffix: "\<exists>a. s = a @ strip f s"
proof (induction f s rule: strip.induct)
  case (1 f s)
  show ?case
  proof (cases "s = [] \<or> f s = 0")
    case True
    then show ?thesis by (subst strip.simps) simp
  next
    case False
    with 1 obtain a where "drop (f s) s = a @ strip f (drop (f s) s)" by blast
    then have "s = (take (f s) s @ a) @ strip f (drop (f s) s)"
      by (metis append.assoc append_take_drop_id)
    with False show ?thesis by (metis strip.simps)
  qed
qed

lemma space_len_append: "s \<noteq> [] \<Longrightarrow> space_len (s @ t) = 0 \<Longrightarrow> space_len s = 0"
  by (auto simp: space_len_def split: list.splits if_splits)

text \<open>The result of TrimSpace starts and ends with no white space, so trimming twice is
  trimming once.\<close>

lemma trim_space_start: "trim_space s = [] \<or> space_len (trim_space s) = 0"
proof -
  let ?u = "strip space_len s"
  let ?t = "trim_space s"
  obtain a where "rev ?u = a @ strip space_len_rev (rev ?u)" using strip_suffix by blast
  then have "?u = ?t @ rev a" unfolding trim_space_def by (metis rev_append rev_rev_ident)
  then show ?thesis using strip_stops [of space_len s] space_len_append by fastforce
qed

lemma trim_space_end: "trim_space s = [] \<or> space_len_rev (rev (trim_space s)) = 0"
  unfolding trim_space_def using strip_stops [of space_len_rev] by auto

lemma trim_space_idem [simp]: "trim_space (trim_space s) = trim_space s"
proof (cases "trim_space s = []")
  case False
  then have "strip space_len (trim_space s) = trim_space s"
    "strip space_len_rev (rev (trim_space s)) = rev (trim_space s)"
    using trim_space_start trim_space_end strip_idle by blast+
  then show ?thesis by (simp add: trim_space_def [of "trim_space s"])
qed (simp add: trim_space_def [of "[]"])

section \<open>Case\<close>

text \<open>strings.ToLower on ASCII letters. strings.EqualFold against an ASCII constant: the two
  code points outside ASCII that fold to an ASCII letter are U+017F (long s) and U+212A
  (Kelvin sign).\<close>

definition lower_char :: "char \<Rightarrow> char" where
  "lower_char c = (let n = of_char c :: nat in if 65 \<le> n \<and> n \<le> 90 then char_of (n + 32) else c)"

definition to_lower :: "string \<Rightarrow> string" where
  "to_lower s = map lower_char s"

fun fold_ascii :: "string \<Rightarrow> string" where
  "fold_ascii (a # b # c # s) =
     (if a = CHR 0xE2 \<and> b = CHR 0x84 \<and> c = CHR 0xAA then CHR ''k'' # fold_ascii s
      else if a = CHR 0xC5 \<and> b = CHR 0xBF then CHR ''s'' # fold_ascii (c # s)
      else lower_char a # fold_ascii (b # c # s))"
| "fold_ascii [a, b] =
     (if a = CHR 0xC5 \<and> b = CHR 0xBF then [CHR ''s''] else [lower_char a, lower_char b])"
| "fold_ascii [a] = [lower_char a]"
| "fold_ascii [] = []"

definition equal_fold :: "string \<Rightarrow> string \<Rightarrow> bool" where
  "equal_fold s t \<longleftrightarrow> fold_ascii s = fold_ascii t"


section \<open>Decimal numbers\<close>

definition digit_char :: "nat \<Rightarrow> char" where
  "digit_char n = ''0123456789'' ! n"

definition is_digit :: "char \<Rightarrow> bool" where
  "is_digit c \<longleftrightarrow> c \<in> set ''0123456789''"

definition digit_value :: "char \<Rightarrow> nat" where
  "digit_value c = of_char c - 48"

fun nat_string :: "nat \<Rightarrow> string" where
  "nat_string n = (if n < 10 then [digit_char n] else nat_string (n div 10) @ [digit_char (n mod 10)])"

declare nat_string.simps [simp del]

text \<open>strconv.Itoa and strconv.FormatInt in base 10.\<close>

definition int_string :: "int \<Rightarrow> string" where
  "int_string i = (if i < 0 then CHR ''-'' # nat_string (nat (- i)) else nat_string (nat i))"

fun parse_digits :: "nat \<Rightarrow> string \<Rightarrow> nat option" where
  "parse_digits n [] = Some n"
| "parse_digits n (c # cs) = (if is_digit c then parse_digits (10 * n + digit_value c) cs else None)"

text \<open>strconv.ParseUint in base 10 with a bit size: no sign, no underscore, digits only and
  in range; \<open>None\<close> is the error.\<close>

definition parse_uint :: "nat \<Rightarrow> string \<Rightarrow> nat option" where
  "parse_uint bits s =
     (if s = [] then None
      else case parse_digits 0 s of None \<Rightarrow> None | Some n \<Rightarrow> if n < 2 ^ bits then Some n else None)"

text \<open>strconv.Atoi: an optional sign, digits, the range of \<open>int\<close>.\<close>

definition atoi :: "string \<Rightarrow> int option" where
  "atoi s =
     (case s of [] \<Rightarrow> None
      | c # cs \<Rightarrow>
          let body = (if c = CHR ''-'' \<or> c = CHR ''+'' then cs else s);
              neg = (c = CHR ''-'')
          in if body = [] then None
             else case parse_digits 0 body of None \<Rightarrow> None
                  | Some n \<Rightarrow>
                      if neg then (if n \<le> 2 ^ 63 then Some (- int n) else None)
                      else if n < 2 ^ 63 then Some (int n) else None)"

lemma digit_less_10: "n < 10 \<Longrightarrow> n \<in> {0, 1, 2, 3, 4, 5, 6, 7, 8, 9 :: nat}"
  by auto

lemma digit_char_value [simp]: "n < 10 \<Longrightarrow> digit_value (digit_char n) = n"
  by (drule digit_less_10) (auto simp: digit_char_def digit_value_def)

lemma digit_char_digit [simp]: "n < 10 \<Longrightarrow> is_digit (digit_char n)"
  unfolding is_digit_def digit_char_def by (rule nth_mem) simp

lemma parse_digits_append:
  "parse_digits n (a @ b) = (case parse_digits n a of None \<Rightarrow> None | Some m \<Rightarrow> parse_digits m b)"
  by (induction a arbitrary: n) auto

lemma parse_nat_string: "\<exists>k. \<forall>m. parse_digits m (nat_string n) = Some (k * m + n)"
proof (induction n rule: nat_string.induct)
  case (1 n)
  show ?case
  proof (cases "n < 10")
    case True
    then show ?thesis by (subst nat_string.simps) (auto intro: exI [of _ 10])
  next
    case False
    then obtain k where k: "\<And>m. parse_digits m (nat_string (n div 10)) = Some (k * m + n div 10)"
      using 1 by blast
    have "parse_digits m (nat_string n) = Some (10 * k * m + n)" for m
      using False by (subst nat_string.simps) (simp add: parse_digits_append k)
    then show ?thesis by blast
  qed
qed

lemma parse_digits_nat_string: "parse_digits 0 (nat_string n) = Some n"
  using parse_nat_string [of n] by auto

lemma nat_string_nonempty [simp]: "nat_string n \<noteq> []"
  by (subst nat_string.simps) simp

lemma nat_string_digits: "c \<in> set (nat_string n) \<Longrightarrow> is_digit c"
proof (induction n rule: nat_string.induct)
  case (1 n)
  then show ?case by (subst (asm) (2) nat_string.simps) (auto split: if_splits)
qed

lemma nat_string_inj: "nat_string m = nat_string n \<Longrightarrow> m = n"
  using parse_digits_nat_string by (metis option.inject)

text \<open>Parsing what was printed gives the number back.\<close>

lemma parse_uint_nat_string: "n < 2 ^ bits \<Longrightarrow> parse_uint bits (nat_string n) = Some n"
  by (simp add: parse_uint_def parse_digits_nat_string)

lemma parse_uint_bound: "parse_uint bits s = Some n \<Longrightarrow> n < 2 ^ bits"
  by (auto simp: parse_uint_def split: if_splits option.splits)

section \<open>Hexadecimal\<close>

text \<open>hex.EncodeToString.\<close>

definition hex_char :: "nat \<Rightarrow> char" where
  "hex_char n = ''0123456789abcdef'' ! n"

definition hex_byte :: "u8 \<Rightarrow> string" where
  "hex_byte b = [hex_char (unat b div 16), hex_char (unat b mod 16)]"

definition hex_encode :: "u8 list \<Rightarrow> string" where
  "hex_encode bs = concat (map hex_byte bs)"

lemma hex_char_inj: "m < 16 \<Longrightarrow> n < 16 \<Longrightarrow> hex_char m = hex_char n \<longleftrightarrow> m = n"
  by (simp add: hex_char_def nth_eq_iff_index_eq)

lemma hex_byte_inj: "hex_byte a = hex_byte b \<longleftrightarrow> a = b"
proof
  assume h: "hex_byte a = hex_byte b"
  have lt: "unat a < 16 * 16" "unat b < 16 * 16"
    by (rule order_less_le_trans [OF unsigned_less], simp)+
  then have "unat a div 16 = unat b div 16" "unat a mod 16 = unat b mod 16"
    using h by (simp_all add: hex_byte_def hex_char_inj less_mult_imp_div_less)
  then have "unat a = unat b" by (metis div_mult_mod_eq)
  then show "a = b" by (simp add: word_unat_eq_iff)
qed simp

lemma length_hex_encode [simp]: "length (hex_encode bs) = 2 * length bs"
  by (induction bs) (simp_all add: hex_encode_def hex_byte_def)

lemma hex_encode_inj: "hex_encode as = hex_encode bs \<Longrightarrow> as = bs"
proof (induction as arbitrary: bs)
  case Nil
  then have "length (hex_encode bs) = 0" by (metis length_hex_encode list.size(3) mult_0_right)
  then show ?case by simp
next
  case (Cons a as)
  then obtain b bs' where bs: "bs = b # bs'"
    by (metis length_hex_encode length_0_conv mult_eq_0_iff neq_Nil_conv zero_neq_numeral)
  have "length (hex_byte a) = length (hex_byte b)" by (simp add: hex_byte_def)
  with Cons.prems bs have "hex_byte a = hex_byte b" "hex_encode as = hex_encode bs'"
    by (simp_all add: hex_encode_def)
  with Cons.IH bs show ?case by (simp add: hex_byte_inj)
qed

end
