(* ===== verification/Span.thy ===== *)
theory Span
  imports GoStrings
begin

text \<open>
  internal/model/span.go: the span record, its kind and status codes, the service key and
  the error test. A time is its Unix nanoseconds; a \<open>map[string]string\<close> that may be nil is
  an optional Go map, \<open>None\<close> for nil.
\<close>

type_synonym time = int
type_synonym attrs = "(string, string) gomap option"

text \<open>Reading a key of a map that may be nil or lack the key gives the empty string.\<close>

definition attr :: "attrs \<Rightarrow> string \<Rightarrow> string" where
  "attr m k = (case m of None \<Rightarrow> [] | Some al \<Rightarrow> (case map_of al k of None \<Rightarrow> [] | Some v \<Rightarrow> v))"

definition attrs_len :: "attrs \<Rightarrow> nat" where
  "attrs_len m = (case m of None \<Rightarrow> 0 | Some al \<Rightarrow> length al)"

section \<open>Kind and status\<close>

type_synonym span_kind = u8
type_synonym status_code = u8

definition KindUnspecified :: span_kind where "KindUnspecified = 0"
definition KindInternal :: span_kind where "KindInternal = 1"
definition KindServer :: span_kind where "KindServer = 2"
definition KindClient :: span_kind where "KindClient = 3"
definition KindProducer :: span_kind where "KindProducer = 4"
definition KindConsumer :: span_kind where "KindConsumer = 5"

lemmas kind_defs = KindUnspecified_def KindInternal_def KindServer_def KindClient_def
  KindProducer_def KindConsumer_def

definition SpanKind_String :: "span_kind \<Rightarrow> string" where
  "SpanKind_String k =
     (if k = KindInternal then ''internal''
      else if k = KindServer then ''server''
      else if k = KindClient then ''client''
      else if k = KindProducer then ''producer''
      else if k = KindConsumer then ''consumer''
      else ''unspecified'')"

definition StatusUnset :: status_code where "StatusUnset = 0"
definition StatusOK :: status_code where "StatusOK = 1"
definition StatusError :: status_code where "StatusError = 2"

lemmas status_defs = StatusUnset_def StatusOK_def StatusError_def

definition StatusCode_String :: "status_code \<Rightarrow> string" where
  "StatusCode_String c =
     (if c = StatusOK then ''ok'' else if c = StatusError then ''error'' else ''unset'')"

section \<open>The span\<close>

record event =
  ev_Timestamp :: time
  ev_Name :: string
  ev_Attrs :: attrs

record link =
  ln_TraceID :: string
  ln_SpanID :: string
  ln_Attrs :: attrs

record span =
  sp_Timestamp :: time
  sp_TraceID :: string
  sp_SpanID :: string
  sp_ParentSpanID :: string
  sp_TraceState :: string
  sp_Flags :: u32
  sp_Name :: string
  sp_Kind :: span_kind
  sp_DurationNS :: u64
  sp_StatusCode :: status_code
  sp_StatusMessage :: string
  sp_ServiceName :: string
  sp_ServiceNamespace :: string
  sp_ServiceVersion :: string
  sp_ServiceInstance :: string
  sp_SDKLanguage :: string
  sp_K8sCluster :: string
  sp_K8sNamespace :: string
  sp_K8sPod :: string
  sp_K8sWorkload :: string
  sp_K8sNode :: string
  sp_K8sContainer :: string
  sp_HTTPMethod :: string
  sp_HTTPRoute :: string
  sp_HTTPStatusCode :: u16
  sp_HTTPURL :: string
  sp_DBSystem :: string
  sp_DBName :: string
  sp_DBStatement :: string
  sp_RPCSystem :: string
  sp_RPCService :: string
  sp_RPCMethod :: string
  sp_MessagingSystem :: string
  sp_MessagingDest :: string
  sp_PeerService :: string
  sp_PeerAddress :: string
  sp_PeerPort :: u16
  sp_ResourceAttrs :: attrs
  sp_SpanAttrs :: attrs
  sp_Events :: "event list"
  sp_Links :: "link list"

text \<open>The zero value of the struct, as \<open>make([]model.Span, total)\<close> fills it. The zero
  \<open>time.Time\<close> is overwritten before it is read and is 0 here.\<close>

definition zero_span :: span where
  "zero_span = \<lparr>sp_Timestamp = 0, sp_TraceID = [], sp_SpanID = [], sp_ParentSpanID = [],
     sp_TraceState = [], sp_Flags = 0, sp_Name = [], sp_Kind = 0, sp_DurationNS = 0,
     sp_StatusCode = 0, sp_StatusMessage = [], sp_ServiceName = [], sp_ServiceNamespace = [],
     sp_ServiceVersion = [], sp_ServiceInstance = [], sp_SDKLanguage = [], sp_K8sCluster = [],
     sp_K8sNamespace = [], sp_K8sPod = [], sp_K8sWorkload = [], sp_K8sNode = [],
     sp_K8sContainer = [], sp_HTTPMethod = [], sp_HTTPRoute = [], sp_HTTPStatusCode = 0,
     sp_HTTPURL = [], sp_DBSystem = [], sp_DBName = [], sp_DBStatement = [], sp_RPCSystem = [],
     sp_RPCService = [], sp_RPCMethod = [], sp_MessagingSystem = [], sp_MessagingDest = [],
     sp_PeerService = [], sp_PeerAddress = [], sp_PeerPort = 0, sp_ResourceAttrs = None,
     sp_SpanAttrs = None, sp_Events = [], sp_Links = []\<rparr>"

definition ServiceKey :: "span \<Rightarrow> string" where
  "ServiceKey s =
     (if sp_ServiceNamespace s \<noteq> [] then sp_ServiceNamespace s @ ''/'' @ sp_ServiceName s
      else sp_ServiceName s)"

definition IsError :: "span \<Rightarrow> bool" where
  "IsError s \<longleftrightarrow> sp_StatusCode s = StatusError \<or> 500 \<le> sp_HTTPStatusCode s"

text \<open>The service name is recovered from the key as its last segment when it has no slash
  itself: the authorization filter on the edges relies on it.\<close>

lemma ServiceKey_last_segment:
  "CHR ''/'' \<notin> set (sp_ServiceName s) \<Longrightarrow> last_segment (CHR ''/'') (ServiceKey s) = sp_ServiceName s"
  by (simp add: ServiceKey_def last_segment_after last_segment_whole)

end
