(* ===== verification/Topology.thy ===== *)
theory Topology
  imports Span
begin

text \<open>
  internal/topology/graph.go: the builder that derives the service graph from the span
  stream. Its state is the table of spans waiting for their pair, in two generations per
  shard, the edges aggregated since the last flush, and the counters. One definition per
  function of the source, in its order: the constructor, the observation of a span, the
  pairing, the aggregation, the rotation of the generations, the flush. The hash that
  spreads keys over shards (seeded at random when the builder is made) and the clock are
  parameters. The lock of a shard is held over the whole access to its tables and the lock
  of the aggregate over the whole update, so each is one step here.
\<close>

section \<open>Data\<close>

datatype conn_type = ConnService | ConnDatabase | ConnMessaging | ConnExternal | ConnEntry

fun conn_code :: "conn_type \<Rightarrow> nat" where
  "conn_code ConnService = 0"
| "conn_code ConnDatabase = 1"
| "conn_code ConnMessaging = 2"
| "conn_code ConnExternal = 3"
| "conn_code ConnEntry = 4"

instantiation conn_type :: linorder
begin

definition less_eq_conn_type :: "conn_type \<Rightarrow> conn_type \<Rightarrow> bool" where
  "less_eq_conn_type a b \<longleftrightarrow> conn_code a \<le> conn_code b"

definition less_conn_type :: "conn_type \<Rightarrow> conn_type \<Rightarrow> bool" where
  "less_conn_type a b \<longleftrightarrow> conn_code a < conn_code b"

instance
proof
  show "x \<le> y \<Longrightarrow> y \<le> x \<Longrightarrow> x = y" for x y :: conn_type
    by (cases x; cases y) (simp_all add: less_eq_conn_type_def)
qed (auto simp: less_eq_conn_type_def less_conn_type_def)

end

fun ConnType_String :: "conn_type \<Rightarrow> string" where
  "ConnType_String ConnDatabase = ''database''"
| "ConnType_String ConnMessaging = ''messaging''"
| "ConnType_String ConnExternal = ''external''"
| "ConnType_String ConnEntry = ''entry''"
| "ConnType_String ConnService = ''service''"

definition LatencyBounds :: "nat list" where
  "LatencyBounds = [1, 2, 5, 10, 25, 50, 100, 250, 500, 1000, 2500, 5000, 10000]"

definition BucketCount :: nat where
  "BucketCount = length LatencyBounds + 1"

record edge_key =
  ek_Client :: string
  ek_Server :: string
  ek_ClientNamespace :: string
  ek_ClientWorkload :: string
  ek_ServerNamespace :: string
  ek_ServerWorkload :: string
  ek_ClientNode :: string
  ek_ServerNode :: string
  ek_ConnType :: conn_type

record edge_sample =
  es_Bucket :: int \<comment> \<open>seconds, truncated to the minute\<close>
  es_Key :: edge_key
  es_Calls :: u64
  es_Errors :: u64
  es_DurationSumNS :: u64
  es_DurationMaxNS :: u64
  es_Buckets :: "u64 list"

record topo_config =
  tc_Shards :: int
  tc_PairTTL :: int
  tc_FlushInterval :: int
  tc_MaxPendingPerShard :: int
  tc_IncludeNodeDimension :: bool

definition DefaultConfig :: topo_config where
  "DefaultConfig = \<lparr>tc_Shards = 64, tc_PairTTL = 30 * 10 ^ 9, tc_FlushInterval = 15 * 10 ^ 9,
     tc_MaxPendingPerShard = 50000, tc_IncludeNodeDimension = False\<rparr>"

record topo_stats =
  ts_Paired :: u64
  ts_InferredPeers :: u64
  ts_EntryPoints :: u64
  ts_Evicted :: u64
  ts_EdgesWritten :: u64
  ts_PendingDropped :: u64

record node =
  nd_service :: string
  nd_namespace :: string
  nd_workload :: string
  nd_k8sNode :: string

record pending =
  pe_side :: u8 \<comment> \<open>1 = client, 2 = server\<close>
  pe_n :: node
  pe_durationNS :: u64
  pe_isError :: bool
  pe_connType :: conn_type
  pe_peer :: string

record shard =
  sh_cur :: "(string, pending) gomap"
  sh_prev :: "(string, pending) gomap"

type_synonym agg_key = "int \<times> edge_key"

record builder =
  tb_cfg :: topo_config
  tb_stats :: topo_stats
  tb_shards :: "shard list"
  tb_mask :: u64
  tb_agg :: "(agg_key, edge_sample) gomap"

section \<open>Construction\<close>

text \<open>The doubling loop of \<open>New\<close>; \<open>None\<close> is a loop that does not end.\<close>

partial_function (option) round_up_pow2 :: "int \<Rightarrow> int \<Rightarrow> int option" where
  "round_up_pow2 n shards =
     (if n < shards then round_up_pow2 (wrap_i64 (2 * n)) shards else Some n)"

definition empty_shard :: shard where
  "empty_shard = \<lparr>sh_cur = [], sh_prev = []\<rparr>"

definition zero_stats :: topo_stats where
  "zero_stats = \<lparr>ts_Paired = 0, ts_InferredPeers = 0, ts_EntryPoints = 0, ts_Evicted = 0,
     ts_EdgesWritten = 0, ts_PendingDropped = 0\<rparr>"

definition New :: "topo_config \<Rightarrow> builder option" where
  "New cfg0 =
     (let cfg = (if tc_Shards cfg0 \<le> 0 then DefaultConfig else cfg0)
      in case round_up_pow2 1 (tc_Shards cfg) of
           None \<Rightarrow> None
         | Some n \<Rightarrow> Some \<lparr>tb_cfg = cfg\<lparr>tc_Shards := n\<rparr>, tb_stats = zero_stats,
             tb_shards = replicate (nat n) empty_shard, tb_mask = word_of_int (n - 1),
             tb_agg = []\<rparr>)"

section \<open>What a span says\<close>

definition nodeOf :: "span \<Rightarrow> node" where
  "nodeOf s = \<lparr>nd_service = ServiceKey s, nd_namespace = sp_K8sNamespace s,
     nd_workload = sp_K8sWorkload s, nd_k8sNode = sp_K8sNode s\<rparr>"

definition connTypeOf :: "span \<Rightarrow> conn_type" where
  "connTypeOf s =
     (if sp_DBSystem s \<noteq> [] then ConnDatabase
      else if sp_MessagingSystem s \<noteq> [] then ConnMessaging
      else ConnExternal)"

definition peerNameOf :: "span \<Rightarrow> string" where
  "peerNameOf s =
     (if sp_DBSystem s \<noteq> [] then
        let name = (if sp_DBName s = [] then sp_PeerAddress s else sp_DBName s)
        in if name = [] then sp_DBSystem s else sp_DBSystem s @ '':'' @ name
      else if sp_MessagingSystem s \<noteq> [] then
        if sp_MessagingDest s \<noteq> [] then sp_MessagingSystem s @ '':'' @ sp_MessagingDest s
        else sp_MessagingSystem s
      else if sp_PeerService s \<noteq> [] then sp_PeerService s
      else if sp_RPCService s \<noteq> [] then sp_RPCService s
      else if sp_PeerAddress s \<noteq> [] then
        if sp_PeerPort s \<noteq> 0 then sp_PeerAddress s @ '':'' @ int_string (int (unat (sp_PeerPort s)))
        else sp_PeerAddress s
      else [])"

text \<open>
  \<open>bucketIndex\<close> divides in float64. Every bound times 1e6 is exact in float64, rounding is
  monotone, and next to a bound two consecutive nanosecond counts are further apart than
  the rounding error, so the comparison has the outcome of the exact quotient used here.
\<close>

fun bucket_from :: "rat \<Rightarrow> nat \<Rightarrow> nat list \<Rightarrow> nat" where
  "bucket_from ms i [] = BucketCount - 1"
| "bucket_from ms i (b # bs) = (if ms \<le> of_nat b then i else bucket_from ms (Suc i) bs)"

definition bucketIndex :: "u64 \<Rightarrow> nat" where
  "bucketIndex d = bucket_from (of_nat (unat d) / 1000000) 0 LatencyBounds"

section \<open>Aggregation\<close>

text \<open>\<open>time.Now().UTC().Truncate(time.Minute).Unix()\<close>\<close>

definition minute_of :: "time \<Rightarrow> int" where
  "minute_of now = now div (60 * 10 ^ 9) * 60"

definition new_sample :: "int \<Rightarrow> edge_key \<Rightarrow> edge_sample" where
  "new_sample bucket key = \<lparr>es_Bucket = bucket, es_Key = key, es_Calls = 0, es_Errors = 0,
     es_DurationSumNS = 0, es_DurationMaxNS = 0, es_Buckets = replicate BucketCount 0\<rparr>"

definition add_to_sample :: "edge_sample \<Rightarrow> u64 \<Rightarrow> bool \<Rightarrow> edge_sample" where
  "add_to_sample e d isError = e\<lparr>
     es_Calls := es_Calls e + 1,
     es_Errors := (if isError then es_Errors e + 1 else es_Errors e),
     es_DurationSumNS := es_DurationSumNS e + d,
     es_DurationMaxNS := (if es_DurationMaxNS e < d then d else es_DurationMaxNS e),
     es_Buckets := (es_Buckets e)[bucketIndex d := es_Buckets e ! bucketIndex d + 1]\<rparr>"

definition record_edge :: "time \<Rightarrow> builder \<Rightarrow> edge_key \<Rightarrow> u64 \<Rightarrow> bool \<Rightarrow> builder" where
  "record_edge now b key d isError =
     (let ak = (minute_of now, key);
          e = (case map_of (tb_agg b) ak of Some e \<Rightarrow> e | None \<Rightarrow> new_sample (fst ak) key)
      in b\<lparr>tb_agg := AList.update ak (add_to_sample e d isError) (tb_agg b)\<rparr>)"

definition nodeDim :: "builder \<Rightarrow> string \<Rightarrow> string" where
  "nodeDim b n = (if tc_IncludeNodeDimension (tb_cfg b) then n else [])"

text \<open>Counters are atomic and wrap at 64 bits.\<close>

definition upd_stats :: "(topo_stats \<Rightarrow> topo_stats) \<Rightarrow> builder \<Rightarrow> builder" where
  "upd_stats f b = b\<lparr>tb_stats := f (tb_stats b)\<rparr>"

definition pair_key :: "builder \<Rightarrow> pending \<Rightarrow> pending \<Rightarrow> edge_key" where
  "pair_key b client server = \<lparr>ek_Client = nd_service (pe_n client),
     ek_Server = nd_service (pe_n server),
     ek_ClientNamespace = nd_namespace (pe_n client), ek_ClientWorkload = nd_workload (pe_n client),
     ek_ServerNamespace = nd_namespace (pe_n server), ek_ServerWorkload = nd_workload (pe_n server),
     ek_ClientNode = nodeDim b (nd_k8sNode (pe_n client)),
     ek_ServerNode = nodeDim b (nd_k8sNode (pe_n server)), ek_ConnType = ConnService\<rparr>"

definition emitPair :: "time \<Rightarrow> builder \<Rightarrow> pending \<Rightarrow> pending \<Rightarrow> builder" where
  "emitPair now b0 client server =
     (let b = upd_stats (\<lambda>t. t\<lparr>ts_Paired := ts_Paired t + 1\<rparr>) b0;
          dur = (if pe_durationNS server = 0 then pe_durationNS client else pe_durationNS server)
      in record_edge now b (pair_key b client server) dur (pe_isError client \<or> pe_isError server))"

definition peer_key :: "builder \<Rightarrow> pending \<Rightarrow> edge_key" where
  "peer_key b p = \<lparr>ek_Client = nd_service (pe_n p), ek_Server = pe_peer p,
     ek_ClientNamespace = nd_namespace (pe_n p), ek_ClientWorkload = nd_workload (pe_n p),
     ek_ServerNamespace = [], ek_ServerWorkload = [],
     ek_ClientNode = nodeDim b (nd_k8sNode (pe_n p)), ek_ServerNode = [],
     ek_ConnType = pe_connType p\<rparr>"

definition emitInferred :: "time \<Rightarrow> builder \<Rightarrow> pending \<Rightarrow> builder" where
  "emitInferred now b0 p =
     (if pe_peer p = [] then b0
      else let b = upd_stats (\<lambda>t. t\<lparr>ts_InferredPeers := ts_InferredPeers t + 1\<rparr>) b0
           in record_edge now b (peer_key b p) (pe_durationNS p) (pe_isError p))"

section \<open>Pairing\<close>

definition shardFor :: "(string \<Rightarrow> u64) \<Rightarrow> builder \<Rightarrow> string \<Rightarrow> nat" where
  "shardFor hash b key = unat (hash key AND tb_mask b)"

definition take_pending :: "shard \<Rightarrow> string \<Rightarrow> pending option \<times> shard" where
  "take_pending sh key =
     (case map_of (sh_cur sh) key of
        Some p \<Rightarrow> (Some p, sh\<lparr>sh_cur := AList.delete key (sh_cur sh)\<rparr>)
      | None \<Rightarrow>
          (case map_of (sh_prev sh) key of
             Some p \<Rightarrow> (Some p, sh\<lparr>sh_prev := AList.delete key (sh_prev sh)\<rparr>)
           | None \<Rightarrow> (None, sh)))"

definition set_shard :: "builder \<Rightarrow> nat \<Rightarrow> shard \<Rightarrow> builder" where
  "set_shard b i sh = b\<lparr>tb_shards := (tb_shards b)[i := sh]\<rparr>"

definition client_pending :: "span \<Rightarrow> pending" where
  "client_pending s = \<lparr>pe_side = 1, pe_n = nodeOf s, pe_durationNS = sp_DurationNS s,
     pe_isError = IsError s, pe_connType = connTypeOf s, pe_peer = peerNameOf s\<rparr>"

definition observeClient :: "(string \<Rightarrow> u64) \<Rightarrow> time \<Rightarrow> builder \<Rightarrow> span \<Rightarrow> builder" where
  "observeClient hash now b s =
     (let key = sp_SpanID s in
      if key = [] then b
      else
        let p = client_pending s;
            i = shardFor hash b key;
            (other, sh) = take_pending (tb_shards b ! i) key;
            b1 = set_shard b i sh
        in case other of
             Some q \<Rightarrow>
               if pe_side q = 2 then emitPair now b1 p q
               else if tc_MaxPendingPerShard (tb_cfg b) \<le> int (length (sh_cur sh)) then
                 emitInferred now
                   (upd_stats (\<lambda>t. t\<lparr>ts_PendingDropped := ts_PendingDropped t + 1\<rparr>) b1) p
               else set_shard b1 i (sh\<lparr>sh_cur := AList.update key p (sh_cur sh)\<rparr>)
           | None \<Rightarrow>
               if tc_MaxPendingPerShard (tb_cfg b) \<le> int (length (sh_cur sh)) then
                 emitInferred now
                   (upd_stats (\<lambda>t. t\<lparr>ts_PendingDropped := ts_PendingDropped t + 1\<rparr>) b1) p
               else set_shard b1 i (sh\<lparr>sh_cur := AList.update key p (sh_cur sh)\<rparr>))"

definition entry_key :: "builder \<Rightarrow> span \<Rightarrow> edge_key" where
  "entry_key b s = \<lparr>ek_Client = ''user'', ek_Server = ServiceKey s, ek_ClientNamespace = [],
     ek_ClientWorkload = [], ek_ServerNamespace = sp_K8sNamespace s,
     ek_ServerWorkload = sp_K8sWorkload s, ek_ClientNode = [],
     ek_ServerNode = nodeDim b (sp_K8sNode s), ek_ConnType = ConnEntry\<rparr>"

definition server_pending :: "span \<Rightarrow> pending" where
  "server_pending s = \<lparr>pe_side = 2, pe_n = nodeOf s, pe_durationNS = sp_DurationNS s,
     pe_isError = IsError s, pe_connType = ConnService, pe_peer = []\<rparr>"

definition observeServer :: "(string \<Rightarrow> u64) \<Rightarrow> time \<Rightarrow> builder \<Rightarrow> span \<Rightarrow> builder" where
  "observeServer hash now b s =
     (if sp_ParentSpanID s = [] then
        let b1 = upd_stats (\<lambda>t. t\<lparr>ts_EntryPoints := ts_EntryPoints t + 1\<rparr>) b
        in record_edge now b1 (entry_key b1 s) (sp_DurationNS s) (IsError s)
      else
        let p = server_pending s;
            i = shardFor hash b (sp_ParentSpanID s);
            (other, sh) = take_pending (tb_shards b ! i) (sp_ParentSpanID s);
            b1 = set_shard b i sh
        in case other of
             Some q \<Rightarrow>
               if pe_side q = 1 then emitPair now b1 q p
               else if tc_MaxPendingPerShard (tb_cfg b) \<le> int (length (sh_cur sh)) then
                 upd_stats (\<lambda>t. t\<lparr>ts_PendingDropped := ts_PendingDropped t + 1\<rparr>) b1
               else set_shard b1 i (sh\<lparr>sh_cur := AList.update (sp_ParentSpanID s) p (sh_cur sh)\<rparr>)
           | None \<Rightarrow>
               if tc_MaxPendingPerShard (tb_cfg b) \<le> int (length (sh_cur sh)) then
                 upd_stats (\<lambda>t. t\<lparr>ts_PendingDropped := ts_PendingDropped t + 1\<rparr>) b1
               else set_shard b1 i (sh\<lparr>sh_cur := AList.update (sp_ParentSpanID s) p (sh_cur sh)\<rparr>))"

definition observe :: "(string \<Rightarrow> u64) \<Rightarrow> time \<Rightarrow> builder \<Rightarrow> span \<Rightarrow> builder" where
  "observe hash now b s =
     (if sp_Kind s = KindClient \<or> sp_Kind s = KindProducer then observeClient hash now b s
      else if sp_Kind s = KindServer \<or> sp_Kind s = KindConsumer then observeServer hash now b s
      else b)"

text \<open>\<open>Process\<close> observes the spans of a batch in order and never fails; each observation
  reads the clock, so the spans come with their times.\<close>

definition Process :: "(string \<Rightarrow> u64) \<Rightarrow> builder \<Rightarrow> (time \<times> span) list \<Rightarrow> builder" where
  "Process hash b spans = foldl (\<lambda>b (now, s). observe hash now b s) b spans"

section \<open>Rotation and flush\<close>

definition evict :: "(string \<Rightarrow> time) \<Rightarrow> builder \<Rightarrow> string \<times> pending \<Rightarrow> builder" where
  "evict clk b kp =
     (let b1 = upd_stats (\<lambda>t. t\<lparr>ts_Evicted := ts_Evicted t + 1\<rparr>) b
      in if pe_side (snd kp) = 1 then emitInferred (clk (fst kp)) b1 (snd kp) else b1)"

definition rotate_shard ::
  "((string \<times> pending) list \<Rightarrow> (string \<times> pending) list) \<Rightarrow> (string \<Rightarrow> time) \<Rightarrow> builder \<Rightarrow> nat \<Rightarrow> builder"
where
  "rotate_shard ord clk b i =
     (let sh = tb_shards b ! i;
          b1 = set_shard b i \<lparr>sh_cur = [], sh_prev = sh_cur sh\<rparr>
      in foldl (evict clk) b1 (ord (sh_prev sh)))"

definition rotate_all ::
  "((string \<times> pending) list \<Rightarrow> (string \<times> pending) list) \<Rightarrow> (string \<Rightarrow> time) \<Rightarrow> builder \<Rightarrow> builder"
where
  "rotate_all ord clk b = foldl (rotate_shard ord clk) b [0..<length (tb_shards b)]"

text \<open>The sink is the interface \<open>EdgeSink\<close>: its state, and a write that may fail. A failed
  write is logged and the edges are gone with the map that held them.\<close>

definition flush ::
  "('k \<Rightarrow> edge_sample list \<Rightarrow> 'k \<times> string option) \<Rightarrow>
   ((agg_key \<times> edge_sample) list \<Rightarrow> (agg_key \<times> edge_sample) list) \<Rightarrow>
   'k \<times> builder \<Rightarrow> 'k \<times> builder"
where
  "flush wr ord kb =
     (let (k, b) = kb in
      if tb_agg b = [] then (k, b)
      else
        let out = map snd (ord (tb_agg b));
            b1 = b\<lparr>tb_agg := []\<rparr>
        in case wr k out of
             (k1, Some err) \<Rightarrow> (k1, b1)
           | (k1, None) \<Rightarrow>
               (k1, upd_stats (\<lambda>t. t\<lparr>ts_EdgesWritten := ts_EdgesWritten t + of_nat (length out)\<rparr>) b1))"

text \<open>The loop of \<open>Start\<close>: one event per ready channel. A stop request and a cancelled
  context both rotate once, flush and end the loop.\<close>

datatype loop_event = RotateTick "string \<Rightarrow> time" | FlushTick | StopRequested "string \<Rightarrow> time"
  | CtxDone "string \<Rightarrow> time"

fun loop_step ::
  "('k \<Rightarrow> edge_sample list \<Rightarrow> 'k \<times> string option) \<Rightarrow>
   ((string \<times> pending) list \<Rightarrow> (string \<times> pending) list) \<Rightarrow>
   ((agg_key \<times> edge_sample) list \<Rightarrow> (agg_key \<times> edge_sample) list) \<Rightarrow>
   ('k \<times> builder) \<times> bool \<Rightarrow> loop_event \<Rightarrow> ('k \<times> builder) \<times> bool"
where
  "loop_step wr ordp orda (kb, False) ev = (kb, False)"
| "loop_step wr ordp orda ((k, b), True) (RotateTick clk) = ((k, rotate_all ordp clk b), True)"
| "loop_step wr ordp orda ((k, b), True) FlushTick = (flush wr orda (k, b), True)"
| "loop_step wr ordp orda ((k, b), True) (StopRequested clk) =
     (flush wr orda (k, rotate_all ordp clk b), False)"
| "loop_step wr ordp orda ((k, b), True) (CtxDone clk) =
     (flush wr orda (k, rotate_all ordp clk b), False)"

end
