(* ===== verification/TopologySpec.thy ===== *)
theory TopologySpec
  imports Topology
begin

text \<open>
  The lemmas of the service-graph builder. First the shard table of \<open>New\<close>; then the aggregate
  against its specification, a function of the multiset of recordings; the invariant of the
  builder and one lemma per operation that it is kept; runs of the whole component and the
  balance of its counters, with the interface of the edge sink; the pairing table against its
  specification, a single map; and what a rotation records.
\<close>


section \<open>Construction\<close>

lemma round_up_pow2_step:
  assumes "t \<le> 2 ^ 62" "k \<le> 62"
  shows "\<exists>m. k \<le> m \<and> m \<le> 62 \<and> round_up_pow2 (2 ^ k) t = Some (2 ^ m) \<and> t \<le> 2 ^ m
    \<and> (m = k \<or> 2 ^ (m - 1) < t)"
  using assms
proof (induction "62 - k" arbitrary: k)
  case 0
  then have "k = 62" by simp
  with 0 show ?case by (intro exI [of _ 62]) (simp add: round_up_pow2.simps)
next
  case (Suc d)
  show ?case
  proof (cases "(2::int) ^ k < t")
    case True
    have lt: "k < 62" using Suc.hyps(2) by simp
    have "(2::int) ^ Suc k < 2 ^ 63" using lt by (intro power_strict_increasing) simp_all
    then have "wrap_i64 (2 * 2 ^ k) = 2 ^ Suc k"
      by (subst wrap_i64_id) (simp_all add: order_trans [of _ 0])
    then have e: "round_up_pow2 (2 ^ k) t = round_up_pow2 (2 ^ Suc k) t"
      using True by (simp add: round_up_pow2.simps [of "2 ^ k"])
    have "\<exists>m. Suc k \<le> m \<and> m \<le> 62 \<and> round_up_pow2 (2 ^ Suc k) t = Some (2 ^ m) \<and> t \<le> 2 ^ m
        \<and> (m = Suc k \<or> 2 ^ (m - 1) < t)"
      using Suc.hyps Suc.prems lt by (intro Suc.hyps(1)) simp_all
    with e True show ?thesis by (metis Suc_leD diff_Suc_1)
  next
    case False
    with Suc.prems show ?thesis by (intro exI [of _ k]) (simp add: round_up_pow2.simps)
  qed
qed

definition pow2_shards :: "builder \<Rightarrow> bool" where
  "pow2_shards b \<longleftrightarrow> (\<exists>m \<le> 62. length (tb_shards b) = 2 ^ m \<and> tb_mask b = mask m)"

lemma New_some:
  assumes "tc_Shards cfg \<le> 2 ^ 62"
  shows "\<exists>b m. New cfg = Some b \<and> m \<le> 62 \<and> length (tb_shards b) = 2 ^ m \<and> tb_mask b = mask m
    \<and> tc_Shards (tb_cfg b) = 2 ^ m
    \<and> (if tc_Shards cfg \<le> 0 then m = 6 else tc_Shards cfg \<le> 2 ^ m \<and> (m = 0 \<or> 2 ^ (m - 1) < tc_Shards cfg))"
proof -
  let ?c = "if tc_Shards cfg \<le> 0 then DefaultConfig else cfg"
  have "tc_Shards ?c \<le> 2 ^ 62" using assms by (simp add: DefaultConfig_def)
  from round_up_pow2_step [OF this, of 0] obtain m where m: "m \<le> 62"
    "round_up_pow2 1 (tc_Shards ?c) = Some (2 ^ m)" "tc_Shards ?c \<le> 2 ^ m"
    "m = 0 \<or> 2 ^ (m - 1) < tc_Shards ?c" by auto
  have mask: "word_of_int (2 ^ m - 1) = (mask m :: u64)" 
    by (simp add: mask_eq_exp_minus_1)
  have six: "m = 6" if "tc_Shards cfg \<le> 0"
  proof -
    have "(64::int) \<le> 2 ^ m" "m = 0 \<or> (2::int) ^ (m - 1) < 64"
      using m that by (simp_all add: DefaultConfig_def)
    moreover from this have "6 \<le> m" by (intro power_le_imp_le_exp [of "2::int"]) simp_all
    moreover have "m - 1 < 6" if "(2::int) ^ (m - 1) < 64"
      using that by (intro power_less_imp_less_exp [of "2::int"]) simp_all
    ultimately have "6 \<le> m" "m = 0 \<or> m - 1 < 6" by blast+
    then show ?thesis by auto
  qed
  have "nat (2 ^ m) = 2 ^ m" by (simp add: nat_power_eq)
  with m mask six show ?thesis unfolding New_def Let_def by (auto simp: split: if_splits)
qed

lemma shardFor_in_range:
  assumes "pow2_shards b"
  shows "shardFor hash b key < length (tb_shards b)"
proof -
  obtain m where m: "m \<le> 62" "length (tb_shards b) = 2 ^ m" "tb_mask b = mask m"
    using assms unfolding pow2_shards_def by blast
  then have "hash key AND tb_mask b = take_bit m (hash key)" by (simp add: take_bit_eq_mask)
  moreover have "unat (take_bit m (hash key)) < 2 ^ m" by (simp add: unsigned_take_bit_eq)
  ultimately show ?thesis by (simp add: shardFor_def m)
qed


section \<open>Aggregation against its specification\<close>

text \<open>A recording is one call of \<open>record\<close>; the specification of the aggregate is a function
  of the recordings since the last flush, whatever their order.\<close>

record recording =
  rc_now :: time
  rc_key :: edge_key
  rc_dur :: u64
  rc_err :: bool

definition rc_agg_key :: "recording \<Rightarrow> agg_key" where
  "rc_agg_key r = (minute_of (rc_now r), rc_key r)"

definition replay :: "builder \<Rightarrow> recording list \<Rightarrow> builder" where
  "replay b rs = foldl (\<lambda>b r. record_edge (rc_now r) b (rc_key r) (rc_dur r) (rc_err r)) b rs"

definition max_dur :: "u64 list \<Rightarrow> u64" where
  "max_dur ds = Max (insert 0 (set ds))"

definition spec_sample :: "agg_key \<Rightarrow> recording list \<Rightarrow> edge_sample" where
  "spec_sample ak rs =
     \<lparr>es_Bucket = fst ak, es_Key = snd ak,
      es_Calls = of_nat (length rs),
      es_Errors = of_nat (length (filter rc_err rs)),
      es_DurationSumNS = sum_list (map rc_dur rs),
      es_DurationMaxNS = max_dur (map rc_dur rs),
      es_Buckets = map (\<lambda>i. of_nat (length (filter (\<lambda>r. bucketIndex (rc_dur r) = i) rs))) [0..<BucketCount]\<rparr>"

definition spec_agg :: "recording list \<Rightarrow> agg_key \<Rightarrow> edge_sample option" where
  "spec_agg rs ak =
     (let mine = filter (\<lambda>r. rc_agg_key r = ak) rs
      in if mine = [] then None else Some (spec_sample ak mine))"

lemma BucketCount_14 [simp]: "BucketCount = 14"
  by (simp add: BucketCount_def LatencyBounds_def)

lemma bucket_from_bound: "i + length bs \<le> BucketCount - 1 \<Longrightarrow> bucket_from ms i bs \<le> BucketCount - 1"
  by (induction ms i bs rule: bucket_from.induct) auto

lemma bucketIndex_less: "bucketIndex d < BucketCount"
  using bucket_from_bound [of 0 LatencyBounds] by (simp add: bucketIndex_def LatencyBounds_def)

lemma spec_sample_nil: "spec_sample ak [] = new_sample (fst ak) (snd ak)"
  by (simp add: spec_sample_def new_sample_def map_replicate_const max_dur_def)

lemma max_dur_snoc: "max_dur (ds @ [d]) = (if max_dur ds < d then d else max_dur ds)"
proof -
  have "insert 0 (set (ds @ [d])) = insert d (insert 0 (set ds))" by auto
  then have "max_dur (ds @ [d]) = max d (max_dur ds)"
    unfolding max_dur_def by (simp only: Max_insert finite_insert finite_set insert_not_empty not_False_eq_True)
  then show ?thesis by (auto simp: max_def)
qed

lemma spec_sample_snoc:
  "spec_sample ak (rs @ [r]) = add_to_sample (spec_sample ak rs) (rc_dur r) (rc_err r)"
proof -
  let ?f = "\<lambda>rs i. of_nat (length (filter (\<lambda>r. bucketIndex (rc_dur r) = i) rs)) :: u64"
  have "map (?f (rs @ [r])) [0..<BucketCount] =
      (map (?f rs) [0..<BucketCount])[bucketIndex (rc_dur r) := ?f rs (bucketIndex (rc_dur r)) + 1]"
    using bucketIndex_less [of "rc_dur r"] by (intro nth_equalityI) (auto simp: nth_list_update simp del: BucketCount_14)
  then show ?thesis
    using bucketIndex_less [of "rc_dur r"] unfolding spec_sample_def add_to_sample_def
    by (simp add: max_dur_snoc del: BucketCount_14)
qed

lemma replay_snoc: "replay b (rs @ [r]) =
    record_edge (rc_now r) (replay b rs) (rc_key r) (rc_dur r) (rc_err r)"
  by (simp add: replay_def)

lemma spec_agg_snoc: "spec_agg (rs @ [r]) ak =
    (if rc_agg_key r = ak
     then Some (add_to_sample (case spec_agg rs ak of Some e \<Rightarrow> e | None \<Rightarrow> new_sample (fst ak) (snd ak))
                  (rc_dur r) (rc_err r))
     else spec_agg rs ak)"
  using spec_sample_snoc [of ak "[]" r]
  by (auto simp: spec_agg_def Let_def spec_sample_snoc spec_sample_nil)

lemma map_of_record: "map_of (tb_agg (record_edge now b key d err)) =
    (map_of (tb_agg b))((minute_of now, key) \<mapsto>
       add_to_sample (case map_of (tb_agg b) (minute_of now, key) of Some e \<Rightarrow> e
         | None \<Rightarrow> new_sample (minute_of now) key) d err)"
  by (simp add: record_edge_def Let_def gomap_laws split: option.split)

lemma replay_spec:
  assumes "tb_agg b = []"
  shows "map_of (tb_agg (replay b rs)) = spec_agg rs"
proof (induction rs rule: rev_induct)
  case Nil
  show ?case using assms by (auto simp: replay_def spec_agg_def fun_eq_iff)
next
  case (snoc r rs)
  then show ?case
    by (auto simp: replay_snoc map_of_record spec_agg_snoc rc_agg_key_def fun_eq_iff split: option.split)
qed

text \<open>The edges are a function of the multiset of recordings, so concurrent callers of
  \<open>record\<close>, which the lock serialises in some order, build the same aggregate.\<close>

lemma spec_sample_perm: "mset rs = mset rs' \<Longrightarrow> spec_sample ak rs = spec_sample ak rs'"
proof -
  assume h: "mset rs = mset rs'"
  have "length rs = length rs'" using h by (metis size_mset)
  moreover have "length (filter P rs) = length (filter P rs')" for P
    using h by (metis mset_filter size_mset)
  moreover have "set rs = set rs'" using h by (metis set_mset_mset)
  moreover have "sum_list (map rc_dur rs) = sum_list (map rc_dur rs')"
    using h by (metis mset_map sum_mset_sum_list)
  ultimately show ?thesis by (simp add: spec_sample_def max_dur_def)
qed

lemma spec_agg_perm: "mset rs = mset rs' \<Longrightarrow> spec_agg rs = spec_agg rs'"
proof
  fix ak assume h: "mset rs = mset rs'"
  let ?m = "filter (\<lambda>r. rc_agg_key r = ak) rs" and ?m' = "filter (\<lambda>r. rc_agg_key r = ak) rs'"
  have m: "mset ?m = mset ?m'" using h by simp
  moreover from m have "?m = [] \<longleftrightarrow> ?m' = []" by (metis mset_zero_iff)
  ultimately show "spec_agg rs ak = spec_agg rs' ak"
    by (simp add: spec_agg_def Let_def spec_sample_perm [OF m])
qed


section \<open>The invariant of the builder\<close>

definition max_pending :: "builder \<Rightarrow> nat" where
  "max_pending b = nat (tc_MaxPendingPerShard (tb_cfg b))"

definition shard_ok :: "nat \<Rightarrow> shard \<Rightarrow> bool" where
  "shard_ok n sh \<longleftrightarrow>
     is_gomap (sh_cur sh) \<and> is_gomap (sh_prev sh)
   \<and> length (sh_cur sh) \<le> n \<and> length (sh_prev sh) \<le> n
   \<and> (\<forall>k. map_of (sh_cur sh) k \<noteq> None \<longrightarrow> map_of (sh_prev sh) k = None)"

definition sample_ok :: "agg_key \<Rightarrow> edge_sample \<Rightarrow> bool" where
  "sample_ok ak e \<longleftrightarrow>
     es_Bucket e = fst ak \<and> es_Key e = snd ak \<and> length (es_Buckets e) = BucketCount
   \<and> sum_list (es_Buckets e) = es_Calls e"

definition agg_ok :: "(agg_key, edge_sample) gomap \<Rightarrow> bool" where
  "agg_ok m \<longleftrightarrow> is_gomap m \<and> (\<forall>ak e. map_of m ak = Some e \<longrightarrow> sample_ok ak e)"

definition builder_ok :: "builder \<Rightarrow> bool" where
  "builder_ok b \<longleftrightarrow> pow2_shards b \<and> (\<forall>sh \<in> set (tb_shards b). shard_ok (max_pending b) sh)
     \<and> agg_ok (tb_agg b)"

lemma sum_list_bump:
  fixes xs :: "'a::comm_ring_1 list"
  shows "i < length xs \<Longrightarrow> sum_list (xs[i := xs ! i + 1]) = sum_list xs + 1"
  by (induction xs arbitrary: i) (auto split: nat.split)

lemma new_sample_ok: "sample_ok ak (new_sample (fst ak) (snd ak))"
  by (simp add: sample_ok_def new_sample_def sum_list_replicate)

lemma add_to_sample_ok: "sample_ok ak e \<Longrightarrow> sample_ok ak (add_to_sample e d err)"
  using bucketIndex_less [of d] by (simp add: sample_ok_def add_to_sample_def sum_list_bump)

lemma agg_okD: "agg_ok m \<Longrightarrow> map_of m ak = Some e \<Longrightarrow> sample_ok ak e"
  unfolding agg_ok_def by blast

lemma record_edge_agg: "agg_ok (tb_agg b) \<Longrightarrow> agg_ok (tb_agg (record_edge now b key d err))"
proof -
  assume ok: "agg_ok (tb_agg b)"
  have "sample_ok ak (case map_of (tb_agg b) ak of Some e \<Rightarrow> e | None \<Rightarrow> new_sample (fst ak) (snd ak))" for ak
    using agg_okD [OF ok] new_sample_ok [of ak] by (simp split: option.split)
  from this [of "(minute_of now, key)"] ok show ?thesis
    by (auto simp: agg_ok_def map_of_record record_edge_def Let_def gomap_laws add_to_sample_ok
        split: option.split_asm)
qed

lemma record_edge_frame [simp]:
  "tb_shards (record_edge now b key d err) = tb_shards b"
  "tb_cfg (record_edge now b key d err) = tb_cfg b"
  "tb_mask (record_edge now b key d err) = tb_mask b"
  "tb_stats (record_edge now b key d err) = tb_stats b"
  by (simp_all add: record_edge_def Let_def)

lemma upd_stats_frame [simp]:
  "tb_shards (upd_stats f b) = tb_shards b" "tb_cfg (upd_stats f b) = tb_cfg b"
  "tb_mask (upd_stats f b) = tb_mask b" "tb_agg (upd_stats f b) = tb_agg b"
  "tb_stats (upd_stats f b) = f (tb_stats b)"
  by (simp_all add: upd_stats_def)

lemma set_shard_frame [simp]:
  "tb_shards (set_shard b i sh) = (tb_shards b)[i := sh]" "tb_cfg (set_shard b i sh) = tb_cfg b"
  "tb_mask (set_shard b i sh) = tb_mask b" "tb_agg (set_shard b i sh) = tb_agg b"
  "tb_stats (set_shard b i sh) = tb_stats b"
  by (simp_all add: set_shard_def)

lemma emit_frame [simp]:
  "tb_shards (emitPair now b p q) = tb_shards b" "tb_cfg (emitPair now b p q) = tb_cfg b"
  "tb_mask (emitPair now b p q) = tb_mask b"
  "tb_shards (emitInferred now b p) = tb_shards b" "tb_cfg (emitInferred now b p) = tb_cfg b"
  "tb_mask (emitInferred now b p) = tb_mask b"
  by (simp_all add: emitPair_def emitInferred_def Let_def)

lemma builder_ok_cong:
  "builder_ok b \<Longrightarrow> tb_shards b' = tb_shards b \<Longrightarrow> tb_cfg b' = tb_cfg b \<Longrightarrow> tb_mask b' = tb_mask b
    \<Longrightarrow> agg_ok (tb_agg b') \<Longrightarrow> builder_ok b'"
  by (simp add: builder_ok_def pow2_shards_def max_pending_def)

lemma builder_agg_ok: "builder_ok b \<Longrightarrow> agg_ok (tb_agg b)"
  by (simp add: builder_ok_def)

lemma record_edge_ok [keep]: "builder_ok b \<Longrightarrow> builder_ok (record_edge now b key d err)"
  by (rule builder_ok_cong [of b]) (simp_all add: record_edge_agg builder_agg_ok)

lemma upd_stats_ok [keep]: "builder_ok b \<Longrightarrow> builder_ok (upd_stats f b)"
  by (rule builder_ok_cong [of b]) (simp_all add: builder_agg_ok)

lemma set_shard_ok [keep]:
  "builder_ok b \<Longrightarrow> shard_ok (max_pending b) sh \<Longrightarrow> builder_ok (set_shard b i sh)"
  using set_update_subset_insert [of "tb_shards b" i sh]
  by (auto simp: builder_ok_def pow2_shards_def max_pending_def)

lemma emitPair_ok [keep]: "builder_ok b \<Longrightarrow> builder_ok (emitPair now b p q)"
  by (simp add: emitPair_def Let_def keep)

lemma emitInferred_ok [keep]: "builder_ok b \<Longrightarrow> builder_ok (emitInferred now b p)"
  by (simp add: emitInferred_def Let_def keep)

lemma builder_shard: "builder_ok b \<Longrightarrow> shard_ok (max_pending b) (tb_shards b ! shardFor hash b key)"
  using shardFor_in_range by (auto simp: builder_ok_def)

lemma take_pending_ok: "shard_ok n sh \<Longrightarrow> shard_ok n (snd (take_pending sh key))"
  by (auto simp: shard_ok_def take_pending_def gomap_laws split: option.split)

lemma take_pending_gone:
  "shard_ok n sh \<Longrightarrow> map_of (sh_cur (snd (take_pending sh key))) key = None
    \<and> map_of (sh_prev (snd (take_pending sh key))) key = None"
  by (auto simp: shard_ok_def take_pending_def gomap_laws split: option.split)

lemma put_pending_ok:
  "shard_ok n sh \<Longrightarrow> map_of (sh_prev sh) key = None \<Longrightarrow> length (sh_cur sh) < n
    \<Longrightarrow> shard_ok n (sh\<lparr>sh_cur := AList.update key p (sh_cur sh)\<rparr>)"
  by (auto simp: shard_ok_def gomap_laws)

lemma max_pending_set_shard [simp]: "max_pending (set_shard b i sh) = max_pending b"
  by (simp add: max_pending_def)

text \<open>What both observations do with a key: the record found and removed, then a pairing, a
  drop, or a new record.\<close>

lemma taken_then_put_ok:
  assumes "builder_ok b" and t: "take_pending (tb_shards b ! shardFor hash b key) key = (other, sh)"
  shows "builder_ok (set_shard b (shardFor hash b key) sh)"
    and "\<not> tc_MaxPendingPerShard (tb_cfg b) \<le> int (length (sh_cur sh)) \<Longrightarrow>
      builder_ok (set_shard (set_shard b (shardFor hash b key) sh) (shardFor hash b key)
        (sh\<lparr>sh_cur := AList.update key p (sh_cur sh)\<rparr>))"
proof -
  have ok: "shard_ok (max_pending b) sh"
    using take_pending_ok [OF builder_shard [OF assms(1)], of hash key key] t by simp
  moreover have "map_of (sh_prev sh) key = None"
    using take_pending_gone [OF builder_shard [OF assms(1)], of hash key key] t by simp
  ultimately show "builder_ok (set_shard b (shardFor hash b key) sh)"
    and "\<not> tc_MaxPendingPerShard (tb_cfg b) \<le> int (length (sh_cur sh)) \<Longrightarrow>
      builder_ok (set_shard (set_shard b (shardFor hash b key) sh) (shardFor hash b key)
        (sh\<lparr>sh_cur := AList.update key p (sh_cur sh)\<rparr>))"
    using assms(1) by (auto intro!: keep put_pending_ok simp: max_pending_def)
qed

lemma observeClient_ok [keep]: "builder_ok b \<Longrightarrow> builder_ok (observeClient hash now b s)"
  by (auto simp: observeClient_def Let_def keep taken_then_put_ok split: prod.split option.split)

lemma observeServer_ok [keep]: "builder_ok b \<Longrightarrow> builder_ok (observeServer hash now b s)"
  by (auto simp: observeServer_def Let_def keep taken_then_put_ok split: prod.split option.split)

lemma observe_ok [keep]: "builder_ok b \<Longrightarrow> builder_ok (observe hash now b s)"
  by (simp add: observe_def keep)

lemma evict_ok [keep]: "builder_ok b \<Longrightarrow> builder_ok (evict clk b kp)"
  by (simp add: evict_def Let_def keep)

lemma foldl_evict_ok [keep]: "builder_ok b \<Longrightarrow> builder_ok (foldl (evict clk) b kps)"
  by (induction kps arbitrary: b) (simp_all add: keep)

lemma evict_frame [simp]:
  "tb_shards (evict clk b kp) = tb_shards b" "tb_cfg (evict clk b kp) = tb_cfg b"
  "tb_mask (evict clk b kp) = tb_mask b"
  by (simp_all add: evict_def Let_def)

lemma foldl_evict_frame [simp]:
  "tb_shards (foldl (evict clk) b kps) = tb_shards b"
  "tb_cfg (foldl (evict clk) b kps) = tb_cfg b"
  "tb_mask (foldl (evict clk) b kps) = tb_mask b"
  by (induction kps arbitrary: b) simp_all

lemma rotate_shard_frame [simp]:
  "tb_shards (rotate_shard ord clk b i) = (tb_shards b)[i := \<lparr>sh_cur = [], sh_prev = sh_cur (tb_shards b ! i)\<rparr>]"
  "tb_cfg (rotate_shard ord clk b i) = tb_cfg b" "tb_mask (rotate_shard ord clk b i) = tb_mask b"
  by (simp_all add: rotate_shard_def Let_def)

lemma rotate_shard_ok [keep]:
  "builder_ok b \<Longrightarrow> i < length (tb_shards b) \<Longrightarrow> builder_ok (rotate_shard ord clk b i)"
proof -
  assume b: "builder_ok b" and i: "i < length (tb_shards b)"
  then have "shard_ok (max_pending b) (tb_shards b ! i)" by (simp add: builder_ok_def)
  then have "shard_ok (max_pending b) \<lparr>sh_cur = [], sh_prev = sh_cur (tb_shards b ! i)\<rparr>"
    by (simp add: shard_ok_def is_gomap_def)
  with b show ?thesis by (simp add: rotate_shard_def Let_def keep)
qed

lemma foldl_rotate_frame [simp]:
  "length (tb_shards (foldl (rotate_shard ord clk) b is)) = length (tb_shards b)"
  "tb_cfg (foldl (rotate_shard ord clk) b is) = tb_cfg b"
  "tb_mask (foldl (rotate_shard ord clk) b is) = tb_mask b"
  by (induction "is" arbitrary: b) simp_all

lemma foldl_rotate_ok:
  "builder_ok b \<Longrightarrow> \<forall>i \<in> set is. i < length (tb_shards b) \<Longrightarrow> builder_ok (foldl (rotate_shard ord clk) b is)"
  by (induction "is" arbitrary: b) (simp_all add: keep)

lemma rotate_all_ok [keep]: "builder_ok b \<Longrightarrow> builder_ok (rotate_all ord clk b)"
  by (simp add: rotate_all_def foldl_rotate_ok)

lemma flush_ok [keep]: "builder_ok b \<Longrightarrow> builder_ok (snd (flush write ord (k, b)))"
proof -
  assume b: "builder_ok b"
  then have "builder_ok (b\<lparr>tb_agg := []\<rparr>)"
    by (rule builder_ok_cong) (simp_all add: agg_ok_def is_gomap_def)
  with b show ?thesis by (auto simp: flush_def Let_def keep split: prod.split option.split)
qed


section \<open>Runs\<close>

datatype topo_event = Observe time span | Rotate "string \<Rightarrow> time" | Flush

fun topo_step ::
  "(string \<Rightarrow> u64) \<Rightarrow> ('k \<Rightarrow> edge_sample list \<Rightarrow> 'k \<times> string option) \<Rightarrow>
   ((string \<times> pending) list \<Rightarrow> (string \<times> pending) list) \<Rightarrow>
   ((agg_key \<times> edge_sample) list \<Rightarrow> (agg_key \<times> edge_sample) list) \<Rightarrow>
   'k \<times> builder \<Rightarrow> topo_event \<Rightarrow> 'k \<times> builder"
where
  "topo_step hash wr ordp orda (k, b) (Observe now s) = (k, observe hash now b s)"
| "topo_step hash wr ordp orda (k, b) (Rotate clk) = (k, rotate_all ordp clk b)"
| "topo_step hash wr ordp orda (k, b) Flush = flush wr orda (k, b)"

lemma topo_step_ok: "builder_ok (snd kb) \<Longrightarrow> builder_ok (snd (topo_step hash wr ordp orda kb ev))"
  by (cases kb; cases ev) (simp_all add: keep)

interpretation topo: invariant_machine "topo_step hash wr ordp orda" "\<lambda>kb. builder_ok (snd kb)"
  for hash :: "string \<Rightarrow> u64" and wr :: "'k \<Rightarrow> edge_sample list \<Rightarrow> 'k \<times> string option"
    and ordp orda
  by unfold_locales (rule topo_step_ok)

lemma New_ok: "tc_Shards cfg \<le> 2 ^ 62 \<Longrightarrow> New cfg = Some b \<Longrightarrow> builder_ok b"
proof -
  assume "tc_Shards cfg \<le> 2 ^ 62" and n: "New cfg = Some b"
  with New_some [of cfg] obtain m where m: "m \<le> 62" "length (tb_shards b) = 2 ^ m" "tb_mask b = mask m"
    by auto
  moreover have "tb_agg b = []" "set (tb_shards b) \<subseteq> {empty_shard}"
    using n by (auto simp: New_def Let_def split: option.splits if_splits)
  ultimately show ?thesis
    by (auto simp: builder_ok_def pow2_shards_def agg_ok_def is_gomap_def shard_ok_def empty_shard_def)
qed

text \<open>How many spans wait.\<close>

definition waiting_count :: "builder \<Rightarrow> nat" where
  "waiting_count b = sum_list (map (\<lambda>sh. length (sh_cur sh) + length (sh_prev sh)) (tb_shards b))"

lemma waiting_count_bound:
  assumes "builder_ok b"
  shows "waiting_count b \<le> 2 * max_pending b * length (tb_shards b)"
proof -
  have "waiting_count b \<le> sum_list (map (\<lambda>sh. 2 * max_pending b) (tb_shards b))"
    unfolding waiting_count_def using assms
    by (intro sum_list_mono) (fastforce simp: builder_ok_def shard_ok_def)
  then show ?thesis by (simp add: sum_list_triv mult.commute)
qed

lemma topo_step_cfg:
  "length (tb_shards (snd (topo_step hash wr ordp orda kb ev))) = length (tb_shards (snd kb))
   \<and> tb_cfg (snd (topo_step hash wr ordp orda kb ev)) = tb_cfg (snd kb)"
  by (cases kb; cases ev)
    (auto simp: observe_def observeClient_def observeServer_def rotate_all_def flush_def Let_def
      split: prod.split option.split)

lemma topo_run_cfg:
  "length (tb_shards (snd (foldl (topo_step hash wr ordp orda) kb evs))) = length (tb_shards (snd kb))
   \<and> tb_cfg (snd (foldl (topo_step hash wr ordp orda) kb evs)) = tb_cfg (snd kb)"
  by (induction evs arbitrary: kb) (simp_all add: topo_step_cfg)

section \<open>Every recorded call is counted once\<close>

definition total_calls :: "edge_sample list \<Rightarrow> u64" where
  "total_calls es = sum_list (map es_Calls es)"

definition accounted :: "topo_stats \<Rightarrow> u64" where
  "accounted t = ts_Paired t + ts_InferredPeers t + ts_EntryPoints t"

lemma total_calls_update: "total_calls (map snd (AList.update k e m)) =
    total_calls (map snd m) + es_Calls e
      - (case map_of m k of None \<Rightarrow> 0 | Some e' \<Rightarrow> es_Calls e')"
  by (induction m) (auto simp: total_calls_def split: option.split)

lemma total_calls_record:
  "total_calls (map snd (tb_agg (record_edge now b key d err))) = total_calls (map snd (tb_agg b)) + 1"
  by (simp add: record_edge_def Let_def total_calls_update add_to_sample_def new_sample_def split: option.split)

definition balance :: "builder \<Rightarrow> u64" where
  "balance b = total_calls (map snd (tb_agg b)) - accounted (tb_stats b)"

lemma balance_simps [simp]:
  "balance (set_shard b i sh) = balance b"
  "balance (emitPair now b p q) = balance b"
  "balance (emitInferred now b p) = balance b"
  "balance (upd_stats (\<lambda>t. t\<lparr>ts_PendingDropped := f t\<rparr>) b) = balance b"
  "balance (upd_stats (\<lambda>t. t\<lparr>ts_Evicted := f t\<rparr>) b) = balance b"
  "balance (record_edge now (upd_stats (\<lambda>t. t\<lparr>ts_EntryPoints := ts_EntryPoints t + 1\<rparr>) b) key d err) = balance b"
  by (simp_all add: balance_def emitPair_def emitInferred_def Let_def total_calls_record accounted_def)

lemma balance_observe [simp]: "balance (observe hash now b s) = balance b"
  by (auto simp: observe_def observeClient_def observeServer_def Let_def split: prod.split option.split)

lemma balance_evict [simp]: "balance (evict clk b kp) = balance b"
  by (simp add: evict_def Let_def)

lemma balance_foldl_evict [simp]: "balance (foldl (evict clk) b kps) = balance b"
  by (induction kps arbitrary: b) simp_all

lemma balance_rotate_shard [simp]: "balance (rotate_shard ord clk b i) = balance b"
  by (simp add: rotate_shard_def Let_def)

lemma balance_rotate [simp]: "balance (rotate_all ord clk b) = balance b"
proof -
  have "balance (foldl (rotate_shard ord clk) b is) = balance b" for "is"
    by (induction "is" arbitrary: b) simp_all
  then show ?thesis by (simp add: rotate_all_def)
qed

text \<open>The interface \<open>EdgeSink\<close>: a write stores the edges it was handed, or reports an
  error and stores none of them.\<close>

locale edge_sink =
  fixes wr :: "'k \<Rightarrow> edge_sample list \<Rightarrow> 'k \<times> string option"
    and stored :: "'k \<Rightarrow> edge_sample list"
  assumes write_ok: "wr k es = (k1, None) \<Longrightarrow> stored k1 = stored k @ es"
    and write_err: "wr k es = (k1, Some err) \<Longrightarrow> stored k1 = stored k"
begin

text \<open>What a flush leaves of the balance: nothing is lost when the write succeeds, exactly
  the edges handed over when it fails.\<close>

lemma flush_balance:
  assumes "is_order orda" "flush wr orda (k, b) = (k1, b1)"
  shows "total_calls (stored k1) + balance b1 =
    total_calls (stored k) + balance b
      - (if tb_agg b \<noteq> [] \<and> snd (wr k (map snd (orda (tb_agg b)))) \<noteq> None
         then total_calls (map snd (tb_agg b)) else 0)"
proof -
  have perm: "sum_list (map (es_Calls \<circ> snd) (orda m)) = sum_list (map (es_Calls \<circ> snd) m)" for m
    using assms(1) unfolding is_order_def by (metis mset_map sum_mset_sum_list)
  show ?thesis using assms(2) write_ok write_err
    by (auto simp: flush_def Let_def balance_def accounted_def total_calls_def perm
        split: if_splits prod.splits option.splits)
qed

lemma flush_written:
  assumes "is_order orda" "flush wr orda (k, b) = (k1, b1)"
    "ts_EdgesWritten (tb_stats b) = of_nat (length (stored k))"
  shows "ts_EdgesWritten (tb_stats b1) = of_nat (length (stored k1))"
  using assms(2,3) write_ok write_err
  by (auto simp: flush_def Let_def is_order_length [OF assms(1)] split: if_splits prod.splits option.splits)

lemma run_balance:
  assumes o: "is_order orda" and ok: "\<And>k es. snd (wr k es) = None"
  shows "(case foldl (topo_step hash wr ordp orda) (k, b) evs of
      (k1, b1) \<Rightarrow> total_calls (stored k1) + balance b1) = total_calls (stored k) + balance b"
proof (induction evs arbitrary: k b)
  case (Cons ev evs)
  have "(case topo_step hash wr ordp orda (k, b) ev of
      (k1, b1) \<Rightarrow> total_calls (stored k1) + balance b1) = total_calls (stored k) + balance b"
  proof (cases ev)
    case Flush
    obtain k1 b1 where "flush wr orda (k, b) = (k1, b1)" by fastforce
    with flush_balance [OF o this] ok Flush show ?thesis by simp
  qed simp_all
  with Cons.IH show ?case by (cases "topo_step hash wr ordp orda (k, b) ev") simp
qed simp

end


section \<open>The pairing table against its specification\<close>

text \<open>What waits under a key, whatever the generation and the shard.\<close>

definition waiting :: "(string \<Rightarrow> u64) \<Rightarrow> builder \<Rightarrow> string \<Rightarrow> pending option" where
  "waiting hash b key = fst (take_pending (tb_shards b ! shardFor hash b key) key)"

definition has_room :: "(string \<Rightarrow> u64) \<Rightarrow> builder \<Rightarrow> string \<Rightarrow> bool" where
  "has_room hash b key \<longleftrightarrow>
     int (length (sh_cur (snd (take_pending (tb_shards b ! shardFor hash b key) key))))
       < tc_MaxPendingPerShard (tb_cfg b)"

text \<open>The specification: one table for all shards and both generations. A record of the
  other side under the key is the pair and is consumed; any other record is replaced, or
  only dropped when there is no room.\<close>

definition spec_arrive ::
  "bool \<Rightarrow> u8 \<Rightarrow> (string \<Rightarrow> pending option) \<Rightarrow> string \<Rightarrow> pending \<Rightarrow> (string \<Rightarrow> pending option)"
where
  "spec_arrive room other_side t key p =
     (if (case t key of Some q \<Rightarrow> pe_side q = other_side | None \<Rightarrow> False) then t(key := None)
      else if room then t(key \<mapsto> p)
      else t(key := None))"

lemma take_pending_eq:
  "fst (take_pending sh k) = (case map_of (sh_cur sh) k of Some p \<Rightarrow> Some p | None \<Rightarrow> map_of (sh_prev sh) k)"
  by (auto simp: take_pending_def split: option.split)

lemma take_pending_other:
  "k' \<noteq> k \<Longrightarrow> fst (take_pending (snd (take_pending sh k)) k') = fst (take_pending sh k')"
  by (auto simp: take_pending_eq take_pending_def gomap_laws split: option.split)

lemma take_pending_put:
  "fst (take_pending (sh\<lparr>sh_cur := AList.update k p (sh_cur sh)\<rparr>) k') =
    (if k' = k then Some p else fst (take_pending sh k'))"
  by (auto simp: take_pending_eq gomap_laws split: option.split)

lemma shardFor_frame [simp]:
  "shardFor hash (set_shard b i sh) = shardFor hash b"
  "shardFor hash (rotate_all ord clk b) = shardFor hash b"
  by (simp_all add: shardFor_def rotate_all_def fun_eq_iff)

lemma set_shard_same [simp]: "set_shard b i (tb_shards b ! i) = b"
  by (simp add: set_shard_def)

lemma set_shard_twice [simp]: "set_shard (set_shard b i sh) i sh' = set_shard b i sh'"
  by (simp add: set_shard_def)

lemma waiting_set_shard:
  assumes "pow2_shards b"
  shows "waiting hash (set_shard b (shardFor hash b key) sh) k =
    (if shardFor hash b k = shardFor hash b key then fst (take_pending sh k) else waiting hash b k)"
  using shardFor_in_range [OF assms] by (simp add: waiting_def nth_list_update)

lemma waiting_frame [simp]:
  "waiting hash (emitPair now b p q) = waiting hash b"
  "waiting hash (emitInferred now b p) = waiting hash b"
  "waiting hash (upd_stats f b) = waiting hash b"
  "waiting hash (record_edge now b ek d err) = waiting hash b"
  by (simp_all add: waiting_def shardFor_def fun_eq_iff)

lemma waiting_taken:
  assumes "builder_ok b" "take_pending (tb_shards b ! shardFor hash b key) key = (other, sh)"
  shows "waiting hash (set_shard b (shardFor hash b key) sh) = (waiting hash b)(key := None)"
proof
  fix k
  have p: "pow2_shards b" using assms(1) by (simp add: builder_ok_def)
  have gone: "fst (take_pending sh key) = None"
    using take_pending_gone [OF builder_shard [OF assms(1)], of hash key key] assms(2)
    by (simp add: take_pending_eq)
  show "waiting hash (set_shard b (shardFor hash b key) sh) k = ((waiting hash b)(key := None)) k"
    using gone take_pending_other [of k key "tb_shards b ! shardFor hash b key"] assms(2)
    unfolding waiting_set_shard [OF p] by (auto simp: waiting_def)
qed

lemma waiting_put:
  assumes "builder_ok b" "take_pending (tb_shards b ! shardFor hash b key) key = (other, sh)"
  shows "waiting hash (set_shard (set_shard b (shardFor hash b key) sh) (shardFor hash b key)
      (sh\<lparr>sh_cur := AList.update key p (sh_cur sh)\<rparr>)) = (waiting hash b)(key \<mapsto> p)"
proof
  fix k
  have p: "pow2_shards b" using assms(1) by (simp add: builder_ok_def)
  show "waiting hash (set_shard (set_shard b (shardFor hash b key) sh) (shardFor hash b key)
      (sh\<lparr>sh_cur := AList.update key p (sh_cur sh)\<rparr>)) k = ((waiting hash b)(key \<mapsto> p)) k"
    using fun_cong [OF waiting_taken [OF assms], of k]
    by (auto simp: waiting_set_shard [OF p] take_pending_put split: if_splits)
qed

lemma observeClient_waiting:
  assumes "builder_ok b" "sp_SpanID s \<noteq> []"
  shows "waiting hash (observeClient hash now b s) =
    spec_arrive (has_room hash b (sp_SpanID s)) 2 (waiting hash b) (sp_SpanID s) (client_pending s)"
proof -
  obtain other sh where t: "take_pending (tb_shards b ! shardFor hash b (sp_SpanID s)) (sp_SpanID s) = (other, sh)"
    by fastforce
  then have "waiting hash b (sp_SpanID s) = other"
    "has_room hash b (sp_SpanID s) \<longleftrightarrow> int (length (sh_cur sh)) < tc_MaxPendingPerShard (tb_cfg b)"
    by (simp_all add: waiting_def has_room_def)
  then show ?thesis using assms(2)
    by (auto simp: observeClient_def Let_def t spec_arrive_def waiting_taken [OF assms(1) t]
        waiting_put [OF assms(1) t, simplified] split: option.split)
qed

lemma observeServer_waiting:
  assumes "builder_ok b" "sp_ParentSpanID s \<noteq> []"
  shows "waiting hash (observeServer hash now b s) =
    spec_arrive (has_room hash b (sp_ParentSpanID s)) 1 (waiting hash b) (sp_ParentSpanID s) (server_pending s)"
proof -
  obtain other sh where t: "take_pending (tb_shards b ! shardFor hash b (sp_ParentSpanID s)) (sp_ParentSpanID s) = (other, sh)"
    by fastforce
  then have "waiting hash b (sp_ParentSpanID s) = other"
    "has_room hash b (sp_ParentSpanID s) \<longleftrightarrow> int (length (sh_cur sh)) < tc_MaxPendingPerShard (tb_cfg b)"
    by (simp_all add: waiting_def has_room_def)
  then show ?thesis using assms(2)
    by (auto simp: observeServer_def Let_def t spec_arrive_def waiting_taken [OF assms(1) t]
        waiting_put [OF assms(1) t, simplified] split: option.split)
qed

section \<open>A pair in either order\<close>

definition is_client :: "span \<Rightarrow> bool" where
  "is_client s \<longleftrightarrow> sp_Kind s = KindClient \<or> sp_Kind s = KindProducer"

definition is_server :: "span \<Rightarrow> bool" where
  "is_server s \<longleftrightarrow> sp_Kind s = KindServer \<or> sp_Kind s = KindConsumer"

lemma observe_client [simp]: "is_client s \<Longrightarrow> observe hash now b s = observeClient hash now b s"
  by (simp add: observe_def is_client_def)

lemma observe_server [simp]: "is_server s \<Longrightarrow> observe hash now b s = observeServer hash now b s"
  by (auto simp: observe_def is_server_def kind_defs)

lemma take_fresh: "fst (take_pending sh k) = None \<Longrightarrow> take_pending sh k = (None, sh)"
  by (auto simp: take_pending_def split: option.splits)

lemma take_after_put:
  "fst (take_pending sh k) = None \<Longrightarrow>
    take_pending (sh\<lparr>sh_cur := AList.update k p (sh_cur sh)\<rparr>) k = (Some p, sh)"
  by (auto simp: take_pending_eq take_pending_def gomap_laws delete_update_fresh split: option.splits)

lemma client_waits:
  assumes "sp_SpanID c \<noteq> []" "waiting hash b (sp_SpanID c) = None" "has_room hash b (sp_SpanID c)"
  shows "observeClient hash now b c =
    (let i = shardFor hash b (sp_SpanID c); sh = tb_shards b ! i
     in set_shard b i (sh\<lparr>sh_cur := AList.update (sp_SpanID c) (client_pending c) (sh_cur sh)\<rparr>))"
proof -
  have "take_pending (tb_shards b ! shardFor hash b (sp_SpanID c)) (sp_SpanID c) =
      (None, tb_shards b ! shardFor hash b (sp_SpanID c))"
    using assms(2) by (intro take_fresh) (simp add: waiting_def)
  then show ?thesis using assms by (simp add: observeClient_def has_room_def Let_def)
qed

lemma server_waits:
  assumes "sp_ParentSpanID s \<noteq> []" "waiting hash b (sp_ParentSpanID s) = None" "has_room hash b (sp_ParentSpanID s)"
  shows "observeServer hash now b s =
    (let i = shardFor hash b (sp_ParentSpanID s); sh = tb_shards b ! i
     in set_shard b i (sh\<lparr>sh_cur := AList.update (sp_ParentSpanID s) (server_pending s) (sh_cur sh)\<rparr>))"
proof -
  have "take_pending (tb_shards b ! shardFor hash b (sp_ParentSpanID s)) (sp_ParentSpanID s) =
      (None, tb_shards b ! shardFor hash b (sp_ParentSpanID s))"
    using assms(2) by (intro take_fresh) (simp add: waiting_def)
  then show ?thesis using assms by (simp add: observeServer_def has_room_def Let_def)
qed

lemma side_simps [simp]: "pe_side (client_pending s) = 1" "pe_side (server_pending s) = 2"
  by (simp_all add: client_pending_def server_pending_def)

lemma client_then_server:
  assumes "builder_ok b" "sp_SpanID c = k" "sp_ParentSpanID s = k" "k \<noteq> []"
    "waiting hash b k = None" "has_room hash b k"
  shows "observeServer hash t2 (observeClient hash t1 b c) s = emitPair t2 b (client_pending c) (server_pending s)"
proof -
  have p: "pow2_shards b" using assms(1) by (simp add: builder_ok_def)
  have i: "shardFor hash b k < length (tb_shards b)" using shardFor_in_range [OF p] .
  show ?thesis
    using assms client_waits [of c hash b t1] i
    by (simp add: observeServer_def Let_def take_after_put waiting_def)
qed

lemma server_then_client:
  assumes "builder_ok b" "sp_SpanID c = k" "sp_ParentSpanID s = k" "k \<noteq> []"
    "waiting hash b k = None" "has_room hash b k"
  shows "observeClient hash t2 (observeServer hash t1 b s) c = emitPair t2 b (client_pending c) (server_pending s)"
proof -
  have p: "pow2_shards b" using assms(1) by (simp add: builder_ok_def)
  have i: "shardFor hash b k < length (tb_shards b)" using shardFor_in_range [OF p] .
  show ?thesis
    using assms server_waits [of s hash b t1] i
    by (simp add: observeClient_def Let_def take_after_put waiting_def)
qed

section \<open>Rotation\<close>

lemma rotate_prefix:
  "n \<le> length (tb_shards b) \<Longrightarrow>
   tb_shards (foldl (rotate_shard ord clk) b [0..<n]) =
     map (\<lambda>sh. \<lparr>sh_cur = [], sh_prev = sh_cur sh\<rparr>) (take n (tb_shards b)) @ drop n (tb_shards b)"
proof (induction n)
  case (Suc n)
  let ?xs = "map (\<lambda>sh. \<lparr>sh_cur = [], sh_prev = sh_cur sh\<rparr>) (take n (tb_shards b))"
  have d: "drop n (tb_shards b) = tb_shards b ! n # drop (Suc n) (tb_shards b)"
    using Suc.prems by (simp add: Cons_nth_drop_Suc)
  have "length ?xs = n" using Suc.prems by simp
  with Suc d show ?case
    by (simp add: take_Suc_conv_app_nth list_update_append nth_append)
qed simp

lemma rotate_all_shards:
  "tb_shards (rotate_all ord clk b) = map (\<lambda>sh. \<lparr>sh_cur = [], sh_prev = sh_cur sh\<rparr>) (tb_shards b)"
  by (simp add: rotate_all_def rotate_prefix)

lemma rotate_all_mask [simp]: "tb_mask (rotate_all ord clk b) = tb_mask b"
  "tb_cfg (rotate_all ord clk b) = tb_cfg b"
  by (simp_all add: rotate_all_def)

lemma waiting_after_rotate:
  assumes "builder_ok b"
  shows "waiting hash (rotate_all ord clk b) k =
    map_of (sh_cur (tb_shards b ! shardFor hash b k)) k"
proof -
  have "pow2_shards b" using assms by (simp add: builder_ok_def)
  from shardFor_in_range [OF this] show ?thesis
    by (simp add: waiting_def rotate_all_shards take_pending_eq)
qed

text \<open>What a rotation records: each client span of the discarded generation whose target has
  a name.\<close>

definition expired :: "(string \<Rightarrow> time) \<Rightarrow> builder \<Rightarrow> (string \<times> pending) list \<Rightarrow> recording list" where
  "expired clk b kps = map (\<lambda>(k, p). \<lparr>rc_now = clk k, rc_key = peer_key b p, rc_dur = pe_durationNS p,
       rc_err = pe_isError p\<rparr>) (filter (\<lambda>(k, p). pe_side p = 1 \<and> pe_peer p \<noteq> []) kps)"

lemma replay_frame [simp]: "tb_cfg (replay b rs) = tb_cfg b" "tb_shards (replay b rs) = tb_shards b"
  by (induction rs rule: rev_induct) (simp_all add: replay_def)

lemma replay_append: "replay b (rs @ rs') = replay (replay b rs) rs'"
  by (simp add: replay_def)

lemma peer_key_cong: "tb_cfg b' = tb_cfg b \<Longrightarrow> peer_key b' p = peer_key b p"
  by (simp add: peer_key_def nodeDim_def)

lemma expired_cong: "tb_cfg b' = tb_cfg b \<Longrightarrow> expired clk b' kps = expired clk b kps"
  by (simp add: expired_def peer_key_cong [of b' b])

lemma record_edge_agg_cong: "tb_agg b' = tb_agg b \<Longrightarrow>
    tb_agg (record_edge now b' k d e) = tb_agg (record_edge now b k d e)"
  by (simp add: record_edge_def Let_def)

lemma replay_agg_cong: "tb_agg b' = tb_agg b \<Longrightarrow> tb_agg (replay b' rs) = tb_agg (replay b rs)"
  by (induction rs rule: rev_induct) (auto simp: replay_snoc replay_def [of _ "[]"] intro: record_edge_agg_cong)

lemma peer_key_frame [simp]: "peer_key (upd_stats f b) = peer_key b"
  by (simp add: peer_key_def nodeDim_def fun_eq_iff)

lemma evict_agg: "tb_agg (evict clk b kp) = tb_agg (replay b (expired clk b [kp]))"
  by (cases kp) (auto simp: evict_def emitInferred_def expired_def replay_def Let_def
      intro: record_edge_agg_cong)

lemma expired_Cons: "expired clk b (kp # kps) = expired clk b [kp] @ expired clk b kps"
  by (simp add: expired_def split: prod.split)

lemma foldl_evict_agg: "tb_agg (foldl (evict clk) b kps) = tb_agg (replay b (expired clk b kps))"
proof (induction kps arbitrary: b)
  case (Cons kp kps)
  have "tb_agg (foldl (evict clk) (evict clk b kp) kps) = tb_agg (replay (evict clk b kp) (expired clk b kps))"
    using Cons.IH [of "evict clk b kp"] expired_cong [of "evict clk b kp" b] by simp
  also have "\<dots> = tb_agg (replay (replay b (expired clk b [kp])) (expired clk b kps))"
    by (rule replay_agg_cong) (rule evict_agg)
  finally show ?case by (simp add: expired_Cons [of clk b kp kps] replay_append)
qed (simp add: expired_def replay_def)

lemma rotate_shard_agg:
  "tb_agg (rotate_shard ord clk b i) = tb_agg (replay b (expired clk b (ord (sh_prev (tb_shards b ! i)))))"
proof -
  let ?b = "set_shard b i \<lparr>sh_cur = [], sh_prev = sh_cur (tb_shards b ! i)\<rparr>"
  have "tb_agg (rotate_shard ord clk b i) = tb_agg (replay ?b (expired clk ?b (ord (sh_prev (tb_shards b ! i)))))"
    by (simp add: rotate_shard_def Let_def foldl_evict_agg)
  also have "\<dots> = tb_agg (replay ?b (expired clk b (ord (sh_prev (tb_shards b ! i)))))"
    by (subst expired_cong [of ?b b]) simp_all
  also have "\<dots> = tb_agg (replay b (expired clk b (ord (sh_prev (tb_shards b ! i)))))"
    by (rule replay_agg_cong) simp
  finally show ?thesis .
qed

lemma rotate_prefix_agg:
  "n \<le> length (tb_shards b) \<Longrightarrow>
   tb_agg (foldl (rotate_shard ord clk) b [0..<n]) =
     tb_agg (replay b (concat (map (\<lambda>sh. expired clk b (ord (sh_prev sh))) (take n (tb_shards b)))))"
proof (induction n)
  case (Suc n)
  let ?b = "foldl (rotate_shard ord clk) b [0..<n]"
  have "tb_shards ?b ! n = tb_shards b ! n"
    using Suc.prems by (simp add: rotate_prefix nth_append)
  then have "tb_agg (rotate_shard ord clk ?b n) =
      tb_agg (replay ?b (expired clk b (ord (sh_prev (tb_shards b ! n)))))"
    by (simp add: rotate_shard_agg expired_cong [of ?b b])
  also have "\<dots> = tb_agg (replay (replay b (concat (map (\<lambda>sh. expired clk b (ord (sh_prev sh)))
      (take n (tb_shards b))))) (expired clk b (ord (sh_prev (tb_shards b ! n)))))"
    using Suc by (intro replay_agg_cong) simp
  finally show ?case using Suc.prems by (simp add: take_Suc_conv_app_nth replay_append)
qed (simp add: replay_def)

lemma rotate_all_agg:
  assumes "is_order ord" "tb_agg b = []"
  shows "map_of (tb_agg (rotate_all ord clk b)) =
    spec_agg (concat (map (\<lambda>sh. expired clk b (sh_prev sh)) (tb_shards b)))"
proof -
  have e: "mset (expired clk b (ord kps)) = mset (expired clk b kps)" for kps
    using assms(1) by (simp add: expired_def is_order_def)
  have "mset (concat (map (\<lambda>sh. expired clk b (ord (sh_prev sh))) shs)) =
      mset (concat (map (\<lambda>sh. expired clk b (sh_prev sh)) shs))" for shs
    by (induction shs) (simp_all add: e)
  then have "spec_agg (concat (map (\<lambda>sh. expired clk b (ord (sh_prev sh))) (tb_shards b))) =
      spec_agg (concat (map (\<lambda>sh. expired clk b (sh_prev sh)) (tb_shards b)))"
    by (rule spec_agg_perm)
  then show ?thesis by (simp add: rotate_all_def rotate_prefix_agg replay_spec [OF assms(2)])
qed

end
