(* ===== verification/TopologyProps.thy ===== *)
theory TopologyProps
  imports TopologySpec
begin

text \<open>
  The properties of the service-graph builder, each with a witness on a builder with one shard.
\<close>

section \<open>Examples\<close>

definition example_builder :: builder where
  "example_builder = \<lparr>tb_cfg = DefaultConfig\<lparr>tc_Shards := 1\<rparr>, tb_stats = zero_stats,
     tb_shards = [empty_shard], tb_mask = 0, tb_agg = []\<rparr>"

definition example_client :: span where
  "example_client = zero_span\<lparr>sp_Kind := KindClient, sp_SpanID := ''bbbb'', sp_ServiceName := ''web'',
     sp_DurationNS := 40000000, sp_PeerService := ''pay''\<rparr>"

definition example_server :: span where
  "example_server = zero_span\<lparr>sp_Kind := KindServer, sp_SpanID := ''cccc'', sp_ParentSpanID := ''bbbb'',
     sp_ServiceName := ''api'', sp_DurationNS := 30000000\<rparr>"

definition example_rec :: "time \<Rightarrow> u64 \<Rightarrow> bool \<Rightarrow> recording" where
  "example_rec t d e = \<lparr>rc_now = t, rc_key = entry_key example_builder example_server, rc_dur = d, rc_err = e\<rparr>"

lemmas example_defs = example_builder_def example_client_def example_server_def zero_span_def
  DefaultConfig_def empty_shard_def

lemma example_builder_ok: "builder_ok example_builder"
  by (auto simp: builder_ok_def pow2_shards_def example_defs agg_ok_def is_gomap_def shard_ok_def
      intro: exI [of _ 0])

lemma example_waiting: "waiting hash example_builder k = None"
  by (simp add: waiting_def shardFor_def example_defs take_pending_def)

lemma example_room: "has_room hash example_builder k"
  by (simp add: has_room_def shardFor_def example_defs take_pending_def)

lemma example_kinds: "is_client example_client" "is_server example_server"
  "sp_SpanID example_client = ''bbbb''" "sp_ParentSpanID example_server = ''bbbb''"
  by (simp_all add: is_client_def is_server_def example_defs)

lemma example_agg: "tb_agg example_builder = []"
  by (simp add: example_builder_def)

section \<open>The aggregate\<close>

text \<open>(C7) The aggregated edges are exactly the specification of the recordings since the last
  flush: per minute and edge key the number of calls and of errors, the sum and the maximum of
  the durations and the latency histogram. They do not depend on the order in which the
  recordings reach the lock.\<close>

theorem aggregate_refines_spec:
  assumes "tb_agg b = []" and "mset rs' = mset rs"
  shows "map_of (tb_agg (replay b rs')) = spec_agg rs"
  using replay_spec [OF assms(1)] spec_agg_perm [OF assms(2)] by simp

theorem aggregate_refines_spec_witness:
  "map_of (tb_agg (replay example_builder [example_rec 7 5 True, example_rec 9 2 False]))
     = spec_agg [example_rec 9 2 False, example_rec 7 5 True]"
  by (rule aggregate_refines_spec) (simp_all add: example_agg)

section \<open>Pairing\<close>

lemma pair_key_frame: "pair_key (upd_stats f b) p q = pair_key b p q"
  by (simp add: pair_key_def nodeDim_def)

lemma emitPair_agg:
  "tb_agg (emitPair t b (client_pending c) (server_pending s)) =
     tb_agg (record_edge t b (pair_key b (client_pending c) (server_pending s))
        (if sp_DurationNS s = 0 then sp_DurationNS c else sp_DurationNS s) (IsError c \<or> IsError s))"
  by (auto simp: emitPair_def Let_def pair_key_frame client_pending_def server_pending_def
      intro!: record_edge_agg_cong)

text \<open>(C8) A matched pair gives the same builder state, edge and counters whichever of its two
  spans arrives first; the edge runs from the client's service to the server's and carries the
  server's duration unless that is zero.\<close>

theorem pairing_order_independent:
  assumes "builder_ok b" "is_client c" "is_server s"
    "sp_SpanID c = k" "sp_ParentSpanID s = k" "k \<noteq> []"
    "waiting hash b k = None" "has_room hash b k"
  shows "observe hash t (observe hash t1 b c) s = observe hash t (observe hash t2 b s) c
    \<and> tb_agg (observe hash t (observe hash t1 b c) s) =
      tb_agg (record_edge t b (pair_key b (client_pending c) (server_pending s))
        (if sp_DurationNS s = 0 then sp_DurationNS c else sp_DurationNS s) (IsError c \<or> IsError s))"
  using assms(2,3)
  by (simp add: client_then_server [OF assms(1,4-8)] server_then_client [OF assms(1,4-8)] emitPair_agg)

theorem pairing_order_independent_witness:
  "observe (\<lambda>_. 0) 3 (observe (\<lambda>_. 0) 1 example_builder example_client) example_server
     = observe (\<lambda>_. 0) 3 (observe (\<lambda>_. 0) 2 example_builder example_server) example_client"
  using pairing_order_independent [where k = "''bbbb''" and b = example_builder and c = example_client
      and s = example_server and hash = "\<lambda>_. 0" and t = 3 and ?t1.0 = 1 and ?t2.0 = 2]
  by (simp add: example_builder_ok example_kinds example_waiting example_room)

text \<open>(C9) The two generations and the shards implement one table of waiting spans: an arriving
  span consumes a record of the other side under its key, and otherwise takes that place, or only
  clears it when the shard is full. No other key changes.\<close>

theorem pairing_table_refines:
  assumes "builder_ok b"
  shows "(is_client s \<and> sp_SpanID s \<noteq> [] \<longrightarrow> waiting hash (observe hash now b s) =
      spec_arrive (has_room hash b (sp_SpanID s)) 2 (waiting hash b) (sp_SpanID s) (client_pending s))
    \<and> (is_server s \<and> sp_ParentSpanID s \<noteq> [] \<longrightarrow> waiting hash (observe hash now b s) =
      spec_arrive (has_room hash b (sp_ParentSpanID s)) 1 (waiting hash b) (sp_ParentSpanID s) (server_pending s))"
  using assms by (simp add: observeClient_waiting observeServer_waiting)

theorem pairing_table_refines_witness:
  "waiting (\<lambda>_. 0) (observe (\<lambda>_. 0) 3 example_builder example_client) =
     [''bbbb'' \<mapsto> client_pending example_client]"
  using pairing_table_refines [OF example_builder_ok, of example_client "\<lambda>_. 0" 3]
  by (simp add: example_kinds example_room spec_arrive_def example_waiting fun_eq_iff)

section \<open>Bounds\<close>

text \<open>(C30) Memory: whatever spans, rotations and flushes happen, in whatever order, the spans
  waiting for their pair never exceed two generations of the configured maximum in each shard.\<close>

theorem pending_table_bounded:
  assumes "tc_Shards cfg \<le> 2 ^ 62" "New cfg = Some b"
  shows "waiting_count (snd (foldl (topo_step hash wr ordp orda) (k, b) evs))
    \<le> 2 * nat (tc_MaxPendingPerShard (tb_cfg b)) * length (tb_shards b)"
proof -
  let ?r = "foldl (topo_step hash wr ordp orda) (k, b) evs"
  have "builder_ok (snd ?r)"
    using topo.run_good [of "(k, b)"] New_ok [OF assms] by simp
  from waiting_count_bound [OF this] show ?thesis
    using topo_run_cfg [of hash wr ordp orda "(k, b)" evs] by (simp add: max_pending_def)
qed

theorem pending_table_bounded_witness:
  "\<exists>b. New (DefaultConfig\<lparr>tc_Shards := 2, tc_MaxPendingPerShard := 1\<rparr>) = Some b
     \<and> waiting_count (snd (foldl (topo_step (\<lambda>_. 0) (\<lambda>k es. (k, None)) rev rev) ((), b)
         [Observe 0 example_client, Observe 1 (example_client\<lparr>sp_SpanID := ''dddd''\<rparr>), Flush])) \<le> 4"
proof -
  let ?cfg = "DefaultConfig\<lparr>tc_Shards := 2, tc_MaxPendingPerShard := 1\<rparr>"
  have n: "New ?cfg = Some \<lparr>tb_cfg = ?cfg, tb_stats = zero_stats,
      tb_shards = replicate 2 empty_shard, tb_mask = 1, tb_agg = []\<rparr>"
    by (simp add: New_def DefaultConfig_def round_up_pow2.simps wrap_i64_def numeral_2_eq_2)
  have "tc_Shards ?cfg \<le> 2 ^ 62" by simp
  from pending_table_bounded [OF this n, of "\<lambda>_. 0" "\<lambda>k es. (k, None)" rev rev "()"
      "[Observe 0 example_client, Observe 1 (example_client\<lparr>sp_SpanID := ''dddd''\<rparr>), Flush]"]
  show ?thesis using n by simp
qed

text \<open>(C31) In every reachable state each aggregated edge stands under its own minute and key, and
  its fourteen latency buckets sum to its calls: no call is counted in two buckets or in none.\<close>

theorem reachable_edges_consistent:
  assumes "tc_Shards cfg \<le> 2 ^ 62" "New cfg = Some b"
    and "map_of (tb_agg (snd (foldl (topo_step hash wr ordp orda) (k, b) evs))) ak = Some e"
  shows "es_Bucket e = fst ak \<and> es_Key e = snd ak \<and> length (es_Buckets e) = 14
    \<and> sum_list (es_Buckets e) = es_Calls e"
proof -
  have "builder_ok (snd (foldl (topo_step hash wr ordp orda) (k, b) evs))"
    using topo.run_good [of "(k, b)"] New_ok [OF assms(1,2)] by simp
  from agg_okD [OF builder_agg_ok [OF this] assms(3)] show ?thesis by (simp add: sample_ok_def)
qed

theorem reachable_edges_consistent_witness:
  "\<exists>e :: edge_sample. sum_list (es_Buckets e) = es_Calls e \<and> es_Calls e = 1 \<and> ek_Client (es_Key e) = ''user''"
proof -
  let ?cfg = "DefaultConfig\<lparr>tc_Shards := 1\<rparr>"
  let ?root = "example_server\<lparr>sp_ParentSpanID := []\<rparr>"
  have n: "New ?cfg = Some example_builder"
    by (simp add: New_def example_defs round_up_pow2.simps)
  obtain e where e: "map_of (tb_agg (snd (foldl (topo_step (\<lambda>_. 0) (\<lambda>k es. (k, None)) rev rev)
      ((), example_builder) [Observe 0 ?root]))) (0, entry_key example_builder ?root) = Some e"
    and c: "es_Calls e = 1" "es_Key e = entry_key example_builder ?root"
    by (simp add: observe_def observeServer_def example_server_def zero_span_def kind_defs Let_def
        map_of_record example_agg minute_of_def add_to_sample_def new_sample_def entry_key_def nodeDim_def)
  have "tc_Shards ?cfg \<le> 2 ^ 62" by simp
  from reachable_edges_consistent [OF this n e] c have "sum_list (es_Buckets e) = es_Calls e" by simp
  with c have "sum_list (es_Buckets e) = es_Calls e \<and> es_Calls e = 1 \<and> ek_Client (es_Key e) = ''user''"
    by (simp add: entry_key_def)
  then show ?thesis by (rule exI)
qed

lemma round_up_pow2_zero:
  assumes "round_up_pow2 n t = Some r"
  shows "n = 0 \<longrightarrow> t \<le> 0"
proof (rule round_up_pow2.raw_induct [where P = "\<lambda>n t r. n = 0 \<longrightarrow> t \<le> 0", OF _ assms])
  fix f n t r
  assume "\<And>n t r. f n t = Some r \<Longrightarrow> n = 0 \<longrightarrow> t \<le> 0"
    and "(if n < t then f (wrap_i64 (2 * n)) t else Some n) = Some r"
  then have "n < t \<longrightarrow> wrap_i64 (2 * n) = 0 \<longrightarrow> t \<le> 0" by auto
  then show "n = 0 \<longrightarrow> t \<le> 0" by (auto simp: wrap_i64_def)
qed

lemma round_up_pow2_big:
  assumes "2 ^ 62 < t"
  shows "round_up_pow2 1 t = None"
proof -
  have "round_up_pow2 0 t = None"
    using round_up_pow2_zero [of 0 t] assms by (cases "round_up_pow2 0 t") auto
  moreover have "wrap_i64 (- (2 ^ 64)) = 0" "wrap_i64 (2 ^ 63) = - (2 ^ 63)"
    by (simp_all add: wrap_i64_def)
  ultimately have top: "round_up_pow2 (2 ^ 62) t = None"
    using assms by (simp add: round_up_pow2.simps [of "4611686018427387904"]
        round_up_pow2.simps [of "-9223372036854775808"])
  have "round_up_pow2 (2 ^ k) t = None" if "k \<le> 62" for k
    using that
  proof (induction "62 - k" arbitrary: k)
    case 0
    then have "k = 62" by simp
    then show ?case using top by simp
  next
    case (Suc d)
    have k: "(2::int) ^ Suc k \<le> 2 ^ 62" using Suc by (intro power_increasing) simp_all
    then have "wrap_i64 (2 * 2 ^ k) = 2 ^ Suc k"
      by (subst wrap_i64_id) (simp_all add: order_trans [of _ 0])
    moreover have "(2::int) ^ k < t" using k assms by simp
    moreover have "round_up_pow2 (2 ^ Suc k) t = None"
      using Suc.hyps Suc.prems by (intro Suc.hyps(1)) simp_all
    ultimately show ?case by (simp add: round_up_pow2.simps [of "2 ^ k"])
  qed
  from this [of 0] show ?thesis by simp
qed



lemma bucket_from_takes:
  "length bs + i = BucketCount - 1 \<Longrightarrow> sorted bs \<Longrightarrow>
    take (bucket_from ms i bs - i) bs = filter (\<lambda>b. of_nat b < ms) bs \<and> i \<le> bucket_from ms i bs"
proof (induction ms i bs rule: bucket_from.induct)
  case (2 ms i b bs)
  show ?case
  proof (cases "ms \<le> of_nat b")
    case True
    with 2(3) have "\<not> of_nat x < ms" if "x \<in> set bs" for x
      using that by (metis le_cases not_less of_nat_le_iff order_trans set_ConsD sorted_wrt.simps(2))
    with True show ?thesis by simp
  next
    case False
    with 2 have i: "take (bucket_from ms (Suc i) bs - Suc i) bs = filter (\<lambda>b. of_nat b < ms) bs"
      "Suc i \<le> bucket_from ms (Suc i) bs" by simp_all
    then have "bucket_from ms (Suc i) bs - i = Suc (bucket_from ms (Suc i) bs - Suc i)" by simp
    with False i show ?thesis by simp
  qed
qed simp

text \<open>The bucket of a duration: exactly the bounds before it are smaller than the duration
  in milliseconds, so the duration lies above the bound on its left and not above its own.\<close>

theorem bucketIndex_spec:
  "take (bucketIndex d) LatencyBounds = filter (\<lambda>b. b * 1000000 < unat d) LatencyBounds"
proof -
  have "of_nat b < (of_nat (unat d) / 1000000 :: rat) \<longleftrightarrow> b * 1000000 < unat d" for b
  proof -
    have "of_nat b < (of_nat (unat d) / 1000000 :: rat) \<longleftrightarrow> (of_nat (b * 1000000) :: rat) < of_nat (unat d)"
      by (simp add: pos_less_divide_eq)
    then show ?thesis by (simp only: of_nat_less_iff)
  qed
  then show ?thesis
    using bucket_from_takes [of LatencyBounds 0 "of_nat (unat d) / 1000000"]
    by (simp add: bucketIndex_def LatencyBounds_def)
qed

section \<open>Rotation and shutdown\<close>

text \<open>A rotation records exactly the client spans of the discarded generation whose target
  has a name, each once, and turns the current generation into the previous one.\<close>

theorem rotation_records_expired:
  assumes "is_order ord" "tb_agg b = []"
  shows "map_of (tb_agg (rotate_all ord clk b)) =
      spec_agg (concat (map (\<lambda>sh. expired clk b (sh_prev sh)) (tb_shards b)))
    \<and> tb_shards (rotate_all ord clk b) = map (\<lambda>sh. \<lparr>sh_cur = [], sh_prev = sh_cur sh\<rparr>) (tb_shards b)"
  by (simp add: rotate_all_agg [OF assms] rotate_all_shards)

definition example_old :: builder where
  "example_old = example_builder\<lparr>tb_shards :=
     [\<lparr>sh_cur = [], sh_prev = [(''bbbb'', client_pending example_client)]\<rparr>]\<rparr>"

theorem rotation_records_expired_witness:
  "map_of (tb_agg (rotate_all rev (\<lambda>_. 0) example_old)) =
     spec_agg (expired (\<lambda>_. 0) example_old [(''bbbb'', client_pending example_client)])
   \<and> length (expired (\<lambda>_. 0) example_old [(''bbbb'', client_pending example_client)]) = 1"
  using rotation_records_expired [OF is_order_rev, of example_old "\<lambda>_. 0"]
  by (simp add: example_old_def example_agg expired_def client_pending_def peerNameOf_def
      example_client_def zero_span_def)

lemma waiting_two_rotations:
  assumes "builder_ok b"
  shows "waiting hash (rotate_all ord clk2 (rotate_all ord clk b)) k = None"
proof -
  have r: "builder_ok (rotate_all ord clk b)" using assms by (rule rotate_all_ok)
  have "pow2_shards b" using assms by (simp add: builder_ok_def)
  from shardFor_in_range [OF this] show ?thesis
    by (simp add: waiting_after_rotate [OF r] rotate_all_shards)
qed

text \<open>A span waits through one rotation and is gone after two: it has between one and two
  rotation intervals to meet its pair.\<close>

theorem pending_lifetime:
  assumes "builder_ok b" "is_client s" "sp_SpanID s \<noteq> []"
    "waiting hash b (sp_SpanID s) = None" "has_room hash b (sp_SpanID s)"
  shows "waiting hash (rotate_all ord clk (observe hash now b s)) (sp_SpanID s) = Some (client_pending s)
    \<and> waiting hash (rotate_all ord clk2 (rotate_all ord clk (observe hash now b s))) (sp_SpanID s) = None"
proof -
  have ok: "builder_ok (observe hash now b s)" using assms(1) by (rule observe_ok)
  have "pow2_shards b" using assms(1) by (simp add: builder_ok_def)
  from shardFor_in_range [OF this, of hash "sp_SpanID s"]
  have "waiting hash (rotate_all ord clk (observe hash now b s)) (sp_SpanID s) = Some (client_pending s)"
    unfolding waiting_after_rotate [OF ok] using assms
    by (simp add: client_waits Let_def shardFor_frame gomap_laws)
  then show ?thesis using waiting_two_rotations [OF ok] by simp
qed

theorem pending_lifetime_witness:
  "waiting (\<lambda>_. 0) (rotate_all rev (\<lambda>_. 1) (observe (\<lambda>_. 0) 0 example_builder example_client)) ''bbbb''
     = Some (client_pending example_client)"
  using pending_lifetime [OF example_builder_ok example_kinds(1), of "\<lambda>_. 0" rev "\<lambda>_. 1" 0]
  by (simp add: example_kinds example_waiting example_room)

text \<open>The last rotation at shutdown reaches only the older generation: with nothing to
  flush and nothing in that generation, stopping writes nothing, although client spans of the
  current generation are still unpaired; they are never recorded.\<close>

theorem stop_drops_current_generation:
  assumes "is_order ordp" "tb_agg b = []" "\<forall>sh \<in> set (tb_shards b). sh_prev sh = []"
  shows "fst (fst (loop_step wr ordp orda ((k, b), True) (StopRequested clk))) = k"
proof -
  have "concat (map (\<lambda>sh. expired clk b (sh_prev sh)) (tb_shards b)) = []"
    using assms(3) by (simp add: expired_def)
  then have "map_of (tb_agg (rotate_all ordp clk b)) = Map.empty"
    using rotate_all_agg [OF assms(1,2)] by (simp add: spec_agg_def fun_eq_iff)
  then show ?thesis by (simp add: flush_def)
qed

theorem stop_drops_current_generation_witness:
  "fst (fst (loop_step (\<lambda>k es. (k @ es, None)) rev rev
      (([], observe (\<lambda>_. 0) 0 example_builder example_client), True) (StopRequested (\<lambda>_. 1)))) = []
   \<and> waiting (\<lambda>_. 0) (observe (\<lambda>_. 0) 0 example_builder example_client) ''bbbb'' = Some (client_pending example_client)"
proof -
  let ?b = "observe (\<lambda>_. 0) 0 example_builder example_client"
  have b: "?b = set_shard example_builder 0
      \<lparr>sh_cur = [(''bbbb'', client_pending example_client)], sh_prev = []\<rparr>"
    using client_waits [of example_client "\<lambda>_. 0" example_builder 0]
    by (simp add: example_kinds example_waiting example_room Let_def)
      (simp add: shardFor_def example_builder_def empty_shard_def)
  have "tb_agg ?b = []" "\<forall>sh \<in> set (tb_shards ?b). sh_prev sh = []"
    unfolding b by (simp_all add: example_builder_def)
  from stop_drops_current_generation [OF is_order_rev this] show ?thesis
    unfolding b by (simp add: waiting_def shardFor_def take_pending_eq example_builder_def)
qed

end
