(* ===== verification/Convert.thy ===== *)
theory Convert
  imports Span
begin

text \<open>
  internal/otlp/convert.go: the translation of an OTLP export request into spans. The OTLP
  messages are the generated protobuf structs; the records below hold the fields the code
  reads. A missing value and a value with no variant set read the same and are one
  constructor. The printing of a double (strconv.FormatFloat with the shortest
  representation) is the parameter \<open>fmt\<close>, on the bits of the double.
\<close>

section \<open>The OTLP messages\<close>

datatype any_value =
    AnyUnset
  | AnyString string
  | AnyBool bool
  | AnyInt int
  | AnyDouble u64
  | AnyBytes "u8 list"
  | AnyArray "any_value list"
  | AnyKvlist "(string \<times> any_value) list"

type_synonym key_value = "string \<times> any_value"

record pb_event =
  pv_TimeUnixNano :: u64
  pv_Name :: string
  pv_Attributes :: "key_value list"

record pb_link =
  pl_TraceId :: "u8 list"
  pl_SpanId :: "u8 list"
  pl_Attributes :: "key_value list"

record pb_span =
  pb_TraceId :: "u8 list"
  pb_SpanId :: "u8 list"
  pb_ParentSpanId :: "u8 list"
  pb_TraceState :: string
  pb_Flags :: u32
  pb_Name :: string
  pb_Kind :: int
  pb_StartTimeUnixNano :: u64
  pb_EndTimeUnixNano :: u64
  pb_Status :: "(int \<times> string) option"
  pb_Attributes :: "key_value list"
  pb_Events :: "pb_event list"
  pb_Links :: "pb_link list"

record scope_spans =
  ss_Scope :: "(string \<times> string) option"
  ss_Spans :: "pb_span list"

record resource_spans =
  rs_Resource :: "key_value list option"
  rs_ScopeSpans :: "scope_spans list"

section \<open>Values and maps\<close>

fun anyValueToString :: "(u64 \<Rightarrow> string) \<Rightarrow> any_value \<Rightarrow> string" where
  "anyValueToString fmt AnyUnset = []"
| "anyValueToString fmt (AnyString s) = s"
| "anyValueToString fmt (AnyBool b) = (if b then ''true'' else ''false'')"
| "anyValueToString fmt (AnyInt i) = int_string i"
| "anyValueToString fmt (AnyDouble d) = fmt d"
| "anyValueToString fmt (AnyBytes bs) = hex_encode bs"
| "anyValueToString fmt (AnyArray vs) = ''['' @ join (map (anyValueToString fmt) vs) '','' @ '']''"
| "anyValueToString fmt (AnyKvlist kvs) =
     ''{'' @ join (map (\<lambda>(k, v). k @ ''='' @ anyValueToString fmt v) kvs) '','' @ ''}''"

definition put_kv :: "(u64 \<Rightarrow> string) \<Rightarrow> (string, string) gomap \<Rightarrow> key_value \<Rightarrow> (string, string) gomap" where
  "put_kv fmt m kv = AList.update (fst kv) (anyValueToString fmt (snd kv)) m"

definition kvToMap :: "(u64 \<Rightarrow> string) \<Rightarrow> key_value list \<Rightarrow> attrs" where
  "kvToMap fmt kvs = (if kvs = [] then None else Some (foldl (put_kv fmt) [] kvs))"

section \<open>The resource\<close>

record resource_info =
  ri_serviceName :: string
  ri_serviceNamespace :: string
  ri_serviceVersion :: string
  ri_serviceInstance :: string
  ri_sdkLanguage :: string
  ri_k8sCluster :: string
  ri_k8sNamespace :: string
  ri_k8sPod :: string
  ri_k8sWorkload :: string
  ri_k8sNode :: string
  ri_k8sContainer :: string
  ri_attrs :: attrs

definition new_resource_info :: resource_info where
  "new_resource_info = \<lparr>ri_serviceName = ''unknown_service'', ri_serviceNamespace = [],
     ri_serviceVersion = [], ri_serviceInstance = [], ri_sdkLanguage = [], ri_k8sCluster = [],
     ri_k8sNamespace = [], ri_k8sPod = [], ri_k8sWorkload = [], ri_k8sNode = [],
     ri_k8sContainer = [], ri_attrs = None\<rparr>"

definition hash_char :: "char \<Rightarrow> bool" where
  "hash_char c \<longleftrightarrow> (of_char c :: nat) \<in> {48..57} \<or> (of_char c :: nat) \<in> {97..122}"

definition trimPodHash :: "string \<Rightarrow> string" where
  "trimPodHash name =
     (let i = last_index_byte name (CHR ''-'') in
      if i \<le> 0 \<or> i = int (length name) - 1 then name
      else
        let suffix = drop (nat i + 1) name in
        if length suffix < 3 \<or> 10 < length suffix then name
        else if \<not> list_all hash_char suffix then name
        else take (nat i) name)"

text \<open>One attribute of a resource: the map entry, and the field its key names. The second
  component is the local \<open>replicaSet\<close>.\<close>

definition workload_keys :: "string list" where
  "workload_keys = [''k8s.deployment.name'', ''k8s.statefulset.name'', ''k8s.daemonset.name'',
     ''k8s.job.name'', ''k8s.cronjob.name'']"

definition resource_attr ::
  "(u64 \<Rightarrow> string) \<Rightarrow> resource_info \<times> string \<Rightarrow> key_value \<Rightarrow> resource_info \<times> string" where
  "resource_attr fmt ir kv =
     (let k = fst kv; v = anyValueToString fmt (snd kv);
          info = (fst ir)\<lparr>ri_attrs := map_option (\<lambda>m. put_kv fmt m kv) (ri_attrs (fst ir))\<rparr>;
          rs = snd ir
      in if k = ''service.name'' then (if v \<noteq> [] then info\<lparr>ri_serviceName := v\<rparr> else info, rs)
         else if k = ''service.namespace'' then (info\<lparr>ri_serviceNamespace := v\<rparr>, rs)
         else if k = ''service.version'' then (info\<lparr>ri_serviceVersion := v\<rparr>, rs)
         else if k = ''service.instance.id'' then (info\<lparr>ri_serviceInstance := v\<rparr>, rs)
         else if k = ''telemetry.sdk.language'' then (info\<lparr>ri_sdkLanguage := v\<rparr>, rs)
         else if k = ''k8s.cluster.name'' then (info\<lparr>ri_k8sCluster := v\<rparr>, rs)
         else if k = ''k8s.namespace.name'' then (info\<lparr>ri_k8sNamespace := v\<rparr>, rs)
         else if k = ''k8s.pod.name'' then (info\<lparr>ri_k8sPod := v\<rparr>, rs)
         else if k = ''k8s.node.name'' then (info\<lparr>ri_k8sNode := v\<rparr>, rs)
         else if k = ''k8s.container.name'' then (info\<lparr>ri_k8sContainer := v\<rparr>, rs)
         else if k \<in> set workload_keys then (info\<lparr>ri_k8sWorkload := v\<rparr>, rs)
         else if k = ''k8s.replicaset.name'' then (info, v)
         else (info, rs))"

definition derive_workload :: "resource_info \<Rightarrow> string \<Rightarrow> resource_info" where
  "derive_workload info0 replicaSet =
     (let info = (if ri_k8sWorkload info0 = [] \<and> replicaSet \<noteq> []
                  then info0\<lparr>ri_k8sWorkload := trimPodHash replicaSet\<rparr> else info0)
      in if ri_k8sWorkload info = [] \<and> ri_k8sPod info \<noteq> []
         then info\<lparr>ri_k8sWorkload := trimPodHash (trimPodHash (ri_k8sPod info))\<rparr> else info)"

definition parseResource :: "(u64 \<Rightarrow> string) \<Rightarrow> key_value list option \<Rightarrow> resource_info" where
  "parseResource fmt r =
     (case r of None \<Rightarrow> new_resource_info
      | Some kvs \<Rightarrow>
          let (info, replicaSet) =
            foldl (resource_attr fmt) (new_resource_info\<lparr>ri_attrs := Some []\<rparr>, []) kvs
          in derive_workload info replicaSet)"

section \<open>The span\<close>

definition promoteAttribute :: "span \<Rightarrow> string \<Rightarrow> string \<Rightarrow> span" where
  "promoteAttribute s key val =
     (if key = ''http.request.method'' \<or> key = ''http.method'' then s\<lparr>sp_HTTPMethod := val\<rparr>
      else if key = ''http.route'' then s\<lparr>sp_HTTPRoute := val\<rparr>
      else if key = ''http.response.status_code'' \<or> key = ''http.status_code'' then
        (case parse_uint 16 val of Some n \<Rightarrow> s\<lparr>sp_HTTPStatusCode := of_nat n\<rparr> | None \<Rightarrow> s)
      else if key = ''url.full'' \<or> key = ''http.url'' then s\<lparr>sp_HTTPURL := val\<rparr>
      else if key = ''db.system'' \<or> key = ''db.system.name'' then s\<lparr>sp_DBSystem := val\<rparr>
      else if key = ''db.namespace'' \<or> key = ''db.name'' then s\<lparr>sp_DBName := val\<rparr>
      else if key = ''db.query.text'' \<or> key = ''db.statement'' then s\<lparr>sp_DBStatement := val\<rparr>
      else if key = ''rpc.system'' then s\<lparr>sp_RPCSystem := val\<rparr>
      else if key = ''rpc.service'' then s\<lparr>sp_RPCService := val\<rparr>
      else if key = ''rpc.method'' then s\<lparr>sp_RPCMethod := val\<rparr>
      else if key = ''messaging.system'' then s\<lparr>sp_MessagingSystem := val\<rparr>
      else if key = ''messaging.destination.name'' \<or> key = ''messaging.destination'' then
        s\<lparr>sp_MessagingDest := val\<rparr>
      else if key = ''peer.service'' then s\<lparr>sp_PeerService := val\<rparr>
      else if key = ''server.address'' \<or> key = ''net.peer.name'' then
        (if sp_PeerAddress s = [] \<or> key = ''server.address'' then s\<lparr>sp_PeerAddress := val\<rparr> else s)
      else if key = ''server.port'' \<or> key = ''net.peer.port'' then
        (case parse_uint 16 val of Some n \<Rightarrow> s\<lparr>sp_PeerPort := of_nat n\<rparr> | None \<Rightarrow> s)
      else s)"

definition fill_resource :: "resource_info \<Rightarrow> span \<Rightarrow> span" where
  "fill_resource info s = s\<lparr>sp_ServiceName := ri_serviceName info,
     sp_ServiceNamespace := ri_serviceNamespace info, sp_ServiceVersion := ri_serviceVersion info,
     sp_ServiceInstance := ri_serviceInstance info, sp_SDKLanguage := ri_sdkLanguage info,
     sp_K8sCluster := ri_k8sCluster info, sp_K8sNamespace := ri_k8sNamespace info,
     sp_K8sPod := ri_k8sPod info, sp_K8sWorkload := ri_k8sWorkload info,
     sp_K8sNode := ri_k8sNode info, sp_K8sContainer := ri_k8sContainer info,
     sp_ResourceAttrs := ri_attrs info\<rparr>"

definition fill_header :: "pb_span \<Rightarrow> span \<Rightarrow> span" where
  "fill_header sp s0 =
     (let s1 = s0\<lparr>sp_Timestamp := sint (pb_StartTimeUnixNano sp),
            sp_TraceID := hex_encode (pb_TraceId sp), sp_SpanID := hex_encode (pb_SpanId sp),
            sp_ParentSpanID := (if pb_ParentSpanId sp \<noteq> [] then hex_encode (pb_ParentSpanId sp)
                                else sp_ParentSpanID s0),
            sp_TraceState := pb_TraceState sp, sp_Flags := pb_Flags sp, sp_Name := pb_Name sp,
            sp_Kind := word_of_int (pb_Kind sp)\<rparr>;
          s2 = (if pb_StartTimeUnixNano sp < pb_EndTimeUnixNano sp
                then s1\<lparr>sp_DurationNS := pb_EndTimeUnixNano sp - pb_StartTimeUnixNano sp\<rparr> else s1)
      in case pb_Status sp of None \<Rightarrow> s2
         | Some (code, message) \<Rightarrow> s2\<lparr>sp_StatusCode := word_of_int code, sp_StatusMessage := message\<rparr>)"

definition scope_attrs :: "string \<Rightarrow> string \<Rightarrow> (string, string) gomap" where
  "scope_attrs scopeName scopeVersion =
     (let m = (if scopeName \<noteq> [] then AList.update ''otel.scope.name'' scopeName [] else [])
      in if scopeVersion \<noteq> [] then AList.update ''otel.scope.version'' scopeVersion m else m)"

definition span_attr ::
  "(u64 \<Rightarrow> string) \<Rightarrow> (string, string) gomap \<times> span \<Rightarrow> key_value \<Rightarrow> (string, string) gomap \<times> span" where
  "span_attr fmt ms kv =
     (put_kv fmt (fst ms) kv, promoteAttribute (snd ms) (fst kv) (anyValueToString fmt (snd kv)))"

definition convert_event :: "(u64 \<Rightarrow> string) \<Rightarrow> pb_event \<Rightarrow> event" where
  "convert_event fmt e = \<lparr>ev_Timestamp = sint (pv_TimeUnixNano e), ev_Name = pv_Name e,
     ev_Attrs = kvToMap fmt (pv_Attributes e)\<rparr>"

definition convert_link :: "(u64 \<Rightarrow> string) \<Rightarrow> pb_link \<Rightarrow> link" where
  "convert_link fmt l = \<lparr>ln_TraceID = hex_encode (pl_TraceId l), ln_SpanID = hex_encode (pl_SpanId l),
     ln_Attrs = kvToMap fmt (pl_Attributes l)\<rparr>"

definition convertSpan ::
  "(u64 \<Rightarrow> string) \<Rightarrow> pb_span \<Rightarrow> resource_info \<Rightarrow> string \<Rightarrow> string \<Rightarrow> span \<Rightarrow> span" where
  "convertSpan fmt sp info scopeName scopeVersion s0 =
     (let (m, s) = foldl (span_attr fmt)
            (scope_attrs scopeName scopeVersion, fill_resource info (fill_header sp s0)) (pb_Attributes sp);
          s1 = s\<lparr>sp_SpanAttrs := Some m\<rparr>;
          s2 = (if pb_Events sp \<noteq> [] then s1\<lparr>sp_Events := map (convert_event fmt) (pb_Events sp)\<rparr> else s1)
      in if pb_Links sp \<noteq> [] then s2\<lparr>sp_Links := map (convert_link fmt) (pb_Links sp)\<rparr> else s2)"

text \<open>Every span of the output starts as an element of a fresh zeroed array.\<close>

definition convert_scope :: "(u64 \<Rightarrow> string) \<Rightarrow> resource_info \<Rightarrow> scope_spans \<Rightarrow> span list" where
  "convert_scope fmt info ss =
     (let (scopeName, scopeVersion) = (case ss_Scope ss of None \<Rightarrow> ([], []) | Some nv \<Rightarrow> nv)
      in map (\<lambda>sp. convertSpan fmt sp info scopeName scopeVersion zero_span) (ss_Spans ss))"

definition ConvertTraces :: "(u64 \<Rightarrow> string) \<Rightarrow> resource_spans list \<Rightarrow> span list" where
  "ConvertTraces fmt rss =
     concat (map (\<lambda>rs. let info = parseResource fmt (rs_Resource rs)
                       in concat (map (convert_scope fmt info) (rs_ScopeSpans rs))) rss)"

section \<open>Attributes\<close>

lemma map_of_put_kvs: "map_of (foldl (put_kv fmt) m kvs) k =
    (case map_of (rev kvs) k of Some v \<Rightarrow> Some (anyValueToString fmt v) | None \<Rightarrow> map_of m k)"
proof (induction kvs rule: rev_induct)
  case (snoc kv kvs)
  then show ?case by (cases kv) (simp add: put_kv_def gomap_laws)
qed simp

lemma span_attrs_fold: "fst (foldl (span_attr fmt) (m, s) kvs) = foldl (put_kv fmt) m kvs"
  by (induction kvs rule: rev_induct) (simp_all add: span_attr_def)

lemma convertSpan_attrs:
  "sp_SpanAttrs (convertSpan fmt sp info n v s0) = Some (foldl (put_kv fmt) (scope_attrs n v) (pb_Attributes sp))"
  by (simp add: convertSpan_def Let_def case_prod_unfold span_attrs_fold)

text \<open>The fields a promotion never touches.\<close>

lemma promote_frame [simp]:
  "sp_SpanID (promoteAttribute s k v) = sp_SpanID s"
  "sp_TraceID (promoteAttribute s k v) = sp_TraceID s"
  "sp_ParentSpanID (promoteAttribute s k v) = sp_ParentSpanID s"
  "sp_Name (promoteAttribute s k v) = sp_Name s"
  "sp_DurationNS (promoteAttribute s k v) = sp_DurationNS s"
  "sp_Timestamp (promoteAttribute s k v) = sp_Timestamp s"
  "sp_ServiceName (promoteAttribute s k v) = sp_ServiceName s"
  "sp_K8sWorkload (promoteAttribute s k v) = sp_K8sWorkload s"
  by (simp_all add: promoteAttribute_def split: option.split)

lemma span_fold_frame [simp]:
  "sp_SpanID (snd (foldl (span_attr fmt) ms kvs)) = sp_SpanID (snd ms)"
  "sp_TraceID (snd (foldl (span_attr fmt) ms kvs)) = sp_TraceID (snd ms)"
  "sp_ParentSpanID (snd (foldl (span_attr fmt) ms kvs)) = sp_ParentSpanID (snd ms)"
  "sp_Name (snd (foldl (span_attr fmt) ms kvs)) = sp_Name (snd ms)"
  "sp_DurationNS (snd (foldl (span_attr fmt) ms kvs)) = sp_DurationNS (snd ms)"
  "sp_Timestamp (snd (foldl (span_attr fmt) ms kvs)) = sp_Timestamp (snd ms)"
  "sp_ServiceName (snd (foldl (span_attr fmt) ms kvs)) = sp_ServiceName (snd ms)"
  "sp_K8sWorkload (snd (foldl (span_attr fmt) ms kvs)) = sp_K8sWorkload (snd ms)"
  by (induction kvs rule: rev_induct) (simp_all add: span_attr_def)

lemma convertSpan_frame [simp]:
  "sp_SpanID (convertSpan fmt sp info n v s0) = hex_encode (pb_SpanId sp)"
  "sp_TraceID (convertSpan fmt sp info n v s0) = hex_encode (pb_TraceId sp)"
  "sp_Name (convertSpan fmt sp info n v s0) = pb_Name sp"
  "sp_Timestamp (convertSpan fmt sp info n v s0) = sint (pb_StartTimeUnixNano sp)"
  "sp_ServiceName (convertSpan fmt sp info n v s0) = ri_serviceName info"
  "sp_K8sWorkload (convertSpan fmt sp info n v s0) = ri_k8sWorkload info"
  by (simp_all add: convertSpan_def Let_def case_prod_unfold fill_resource_def fill_header_def split: option.split)

lemma convertSpan_parent [simp]:
  "sp_ParentSpanID (convertSpan fmt sp info n v zero_span) = hex_encode (pb_ParentSpanId sp)"
  by (simp add: convertSpan_def Let_def case_prod_unfold fill_resource_def fill_header_def zero_span_def
      hex_encode_def split: option.split)

lemma convertSpan_duration [simp]:
  "sp_DurationNS (convertSpan fmt sp info n v zero_span) =
     (if pb_StartTimeUnixNano sp < pb_EndTimeUnixNano sp
      then pb_EndTimeUnixNano sp - pb_StartTimeUnixNano sp else 0)"
  by (simp add: convertSpan_def Let_def case_prod_unfold fill_resource_def fill_header_def zero_span_def
      split: option.split)

section \<open>The resource and the workload name\<close>

lemma resource_fold:
  shows "ri_serviceName (fst ir) \<noteq> [] \<Longrightarrow> ri_serviceName (fst (foldl (resource_attr fmt) ir kvs)) \<noteq> []"
    and "ri_k8sPod (fst (foldl (resource_attr fmt) ir kvs)) =
      (case map_of (rev kvs) ''k8s.pod.name'' of Some v \<Rightarrow> anyValueToString fmt v | None \<Rightarrow> ri_k8sPod (fst ir))"
    and "(\<forall>kv \<in> set kvs. fst kv \<notin> set workload_keys) \<Longrightarrow> ri_k8sWorkload (fst (foldl (resource_attr fmt) ir kvs)) = ri_k8sWorkload (fst ir)"
    and "snd (foldl (resource_attr fmt) ir kvs) =
      (case map_of (rev kvs) ''k8s.replicaset.name'' of Some v \<Rightarrow> anyValueToString fmt v | None \<Rightarrow> snd ir)"
  by (induction kvs rule: rev_induct) (simp_all add: resource_attr_def workload_keys_def Let_def)

lemma parseResource_named: "ri_serviceName (parseResource fmt r) \<noteq> []"
proof (cases r)
  case (Some kvs)
  have "ri_serviceName (fst (foldl (resource_attr fmt) (new_resource_info\<lparr>ri_attrs := Some []\<rparr>, []) kvs)) \<noteq> []"
    by (rule resource_fold(1)) (simp add: new_resource_info_def)
  with Some show ?thesis by (simp add: parseResource_def derive_workload_def Let_def case_prod_unfold)
qed (simp add: parseResource_def new_resource_info_def)

definition pod_hash :: "string \<Rightarrow> bool" where
  "pod_hash h \<longleftrightarrow> 3 \<le> length h \<and> length h \<le> 10 \<and> list_all hash_char h"

lemma pod_hash_no_dash: "pod_hash h \<Longrightarrow> CHR ''-'' \<notin> set h"
  by (auto simp: pod_hash_def hash_char_def list_all_iff)

lemma trimPodHash_hash:
  assumes "pod_hash h" "d \<noteq> []"
  shows "trimPodHash (d @ CHR ''-'' # h) = d"
proof -
  have "last_index_byte (d @ CHR ''-'' # h) (CHR ''-'') = int (length d)"
    using last_index_byte_split pod_hash_no_dash [OF assms(1)] .
  with assms show ?thesis by (auto simp: trimPodHash_def Let_def pod_hash_def)
qed

lemma trimPodHash_keeps:
  assumes "\<not> pod_hash h" "CHR ''-'' \<notin> set h"
  shows "trimPodHash (d @ CHR ''-'' # h) = d @ CHR ''-'' # h"
proof -
  have "last_index_byte (d @ CHR ''-'' # h) (CHR ''-'') = int (length d)"
    using last_index_byte_split assms(2) .
  with assms(1) show ?thesis by (auto simp: trimPodHash_def Let_def pod_hash_def)
qed

section \<open>Properties\<close>

text \<open>The spans of a request, in the order of the message.\<close>

definition request_spans :: "resource_spans list \<Rightarrow> pb_span list" where
  "request_spans rss = concat (map (\<lambda>rs. concat (map ss_Spans (rs_ScopeSpans rs))) rss)"

lemma convert_scope_map:
  assumes "\<And>sp info n v. f (convertSpan fmt sp info n v zero_span) = g sp"
  shows "map f (ConvertTraces fmt rss) = map g (request_spans rss)"
proof -
  have "map f (convert_scope fmt info ss) = map g (ss_Spans ss)" for info ss
    by (simp add: convert_scope_def assms split: prod.split)
  then show ?thesis
    by (simp add: ConvertTraces_def request_spans_def map_concat Let_def comp_def)
qed

text \<open>Conversion keeps every span of the request, in order, with its identifiers and name:
  nothing is dropped, duplicated or reordered.\<close>

theorem ConvertTraces_keeps_spans:
  "map (\<lambda>s. (sp_TraceID s, sp_SpanID s, sp_ParentSpanID s, sp_Name s)) (ConvertTraces fmt rss) =
     map (\<lambda>p. (hex_encode (pb_TraceId p), hex_encode (pb_SpanId p), hex_encode (pb_ParentSpanId p), pb_Name p))
       (request_spans rss)"
  by (rule convert_scope_map) simp

text \<open>Two converted spans are parent and child exactly when their binary identifiers say
  so: the hexadecimal form neither merges nor separates identifiers.\<close>

theorem parent_link_exact:
  "(sp_ParentSpanID (convertSpan fmt a ia na va zero_span) = sp_SpanID (convertSpan fmt b ib nb vb zero_span))
     = (pb_ParentSpanId a = pb_SpanId b)"
  by (auto dest: hex_encode_inj)

text \<open>The duration is the end minus the start, and zero for a span that ends before it
  starts: the unsigned subtraction never wraps.\<close>

theorem duration_no_underflow:
  "unat (sp_DurationNS (convertSpan fmt sp info n v zero_span)) =
     unat (pb_EndTimeUnixNano sp) - unat (pb_StartTimeUnixNano sp)"
  by (auto simp: unat_sub word_less_nat_alt word_le_nat_alt)

text \<open>Every span leaves the conversion with a service name.\<close>

theorem ConvertTraces_named: "list_all (\<lambda>s. sp_ServiceName s \<noteq> []) (ConvertTraces fmt rss)"
  by (auto simp: ConvertTraces_def convert_scope_def list_all_iff Let_def parseResource_named split: prod.splits)

text \<open>Without a workload or replica set attribute, the workload of a pod of a deployment is
  the deployment's name, the pod name less its two generated suffixes.\<close>

theorem workload_from_pod:
  assumes "map_of (rev kvs) ''k8s.pod.name'' = Some (AnyString (d @ ''-'' @ rh @ ''-'' @ ph))"
    and "\<forall>kv \<in> set kvs. fst kv \<notin> set workload_keys \<and> fst kv \<noteq> ''k8s.replicaset.name''"
    and "d \<noteq> []" "pod_hash rh" "pod_hash ph"
  shows "ri_k8sWorkload (parseResource fmt (Some kvs)) = d"
proof -
  let ?ir = "(new_resource_info\<lparr>ri_attrs := Some []\<rparr>, [])"
  let ?r = "foldl (resource_attr fmt) ?ir kvs"
  have "map_of (rev kvs) ''k8s.replicaset.name'' = None"
    using assms(2) by (auto simp: map_of_eq_None_iff)
  then have "snd ?r = []" by (simp add: resource_fold(4))
  moreover have "ri_k8sWorkload (fst ?r) = []"
    using assms(2) resource_fold(3) [of kvs fmt ?ir] by (simp add: new_resource_info_def)
  moreover have "ri_k8sPod (fst ?r) = d @ ''-'' @ rh @ ''-'' @ ph"
    by (simp add: resource_fold(2) assms(1))
  moreover have "trimPodHash (trimPodHash (d @ ''-'' @ rh @ ''-'' @ ph)) = d"
    using trimPodHash_hash [OF assms(5), of "d @ ''-'' @ rh"] trimPodHash_hash [OF assms(4,3)] by simp
  ultimately show ?thesis
    by (simp add: parseResource_def derive_workload_def Let_def case_prod_unfold)
qed

theorem workload_from_pod_witness:
  "ri_k8sWorkload (parseResource (\<lambda>_. []) (Some [(''k8s.pod.name'', AnyString ''api-7d9f8b6c5d-x2k9p'')])) = ''api''"
  using workload_from_pod [of "[(''k8s.pod.name'', AnyString ''api-7d9f8b6c5d-x2k9p'')]" "''api''"
      "''7d9f8b6c5d''" "''x2k9p''" "\<lambda>_. []"]
  by (simp add: workload_keys_def pod_hash_def hash_char_def)

lemma promote_other_peer: "k \<noteq> ''server.address'' \<Longrightarrow> k \<noteq> ''net.peer.name'' \<Longrightarrow>
    sp_PeerAddress (promoteAttribute s k v) = sp_PeerAddress s"
  by (simp add: promoteAttribute_def split: option.split)

lemma peer_after:
  assumes "sp_PeerAddress (snd ms) \<noteq> []" "\<forall>kv \<in> set kvs. fst kv \<noteq> ''server.address''"
  shows "sp_PeerAddress (snd (foldl (span_attr fmt) ms kvs)) = sp_PeerAddress (snd ms)"
  using assms
proof (induction kvs arbitrary: ms)
  case (Cons kv kvs)
  have "sp_PeerAddress (snd (span_attr fmt ms kv)) = sp_PeerAddress (snd ms)"
    using Cons.prems by (simp add: span_attr_def promoteAttribute_def split: option.split)
  with Cons show ?case by simp
qed simp

text \<open>The peer address: the last \<open>server.address\<close> wins over every \<open>net.peer.name\<close>, in
  whatever order the attributes come.\<close>

theorem server_address_wins:
  assumes "pb_Attributes sp = pre @ (''server.address'', v) # post"
    and "\<forall>kv \<in> set post. fst kv \<noteq> ''server.address''" "anyValueToString fmt v \<noteq> []"
  shows "sp_PeerAddress (convertSpan fmt sp info n ver s0) = anyValueToString fmt v"
proof -
  let ?ms = "span_attr fmt (foldl (span_attr fmt) (scope_attrs n ver, fill_resource info (fill_header sp s0)) pre)
    (''server.address'', v)"
  have "sp_PeerAddress (snd ?ms) = anyValueToString fmt v"
    by (simp add: span_attr_def promoteAttribute_def)
  with peer_after [of ?ms post fmt] assms show ?thesis
    by (simp add: convertSpan_def Let_def case_prod_unfold)
qed

definition example_pb :: pb_span where
  "example_pb = \<lparr>pb_TraceId = [1], pb_SpanId = [2], pb_ParentSpanId = [], pb_TraceState = [], pb_Flags = 0,
     pb_Name = ''GET'', pb_Kind = 3, pb_StartTimeUnixNano = 5, pb_EndTimeUnixNano = 9, pb_Status = None,
     pb_Attributes = [(''net.peer.name'', AnyString ''a''), (''server.address'', AnyString ''b''),
       (''net.peer.name'', AnyString ''c'')], pb_Events = [], pb_Links = []\<rparr>"

theorem server_address_wins_witness:
  "sp_PeerAddress (convertSpan (\<lambda>_. []) example_pb new_resource_info [] [] zero_span) = ''b''"
  using server_address_wins [of example_pb "[(''net.peer.name'', AnyString ''a'')]" "AnyString ''b''"
      "[(''net.peer.name'', AnyString ''c'')]" "\<lambda>_. []"]
  by (simp add: example_pb_def)

text \<open>Every attribute of the span is kept, the last value of a repeated key, beside the name
  and version of the scope.\<close>

theorem convertSpan_keeps_attributes:
  "map_of (the (sp_SpanAttrs (convertSpan fmt sp info n v s0))) k =
     (case map_of (rev (pb_Attributes sp)) k of
        Some x \<Rightarrow> Some (anyValueToString fmt x)
      | None \<Rightarrow> if k = ''otel.scope.version'' \<and> v \<noteq> [] then Some v
                else if k = ''otel.scope.name'' \<and> n \<noteq> [] then Some n else None)"
  by (simp add: convertSpan_attrs map_of_put_kvs scope_attrs_def Let_def gomap_laws split: option.split)

end
