(* ===== verification/Interfaces.thy ===== *)
theory Interfaces
  imports Span
begin

text \<open>
  The two interfaces through which the collector's parts meet, as contracts: the consumer of
  received spans (otlp.Consumer, provided by the pipeline to the receiver) and the processor of
  a batch (pipeline.Processor, provided by the storage to the pipeline). The third one, the sink
  of topology edges, stands with the topology.
\<close>

text \<open>A consumer takes all the spans it is handed or none of them, says which, and keeps what it
  took in order. \<open>None\<close> is a panic.\<close>

locale span_consumer =
  fixes accept :: "'q \<Rightarrow> span list \<Rightarrow> ('q \<times> nat) option"
    and held :: "'q \<Rightarrow> span list"
  assumes accept_all_or_none: "accept q spans = Some (q1, d) \<Longrightarrow>
    (d = 0 \<and> held q1 = held q @ spans) \<or> (d = length spans \<and> held q1 = held q)"
begin

lemma accept_dropped_le: "accept q spans = Some (q1, d) \<Longrightarrow> d \<le> length spans"
  using accept_all_or_none by fastforce

lemma accept_length: "accept q spans = Some (q1, d) \<Longrightarrow> length (held q1) + d = length (held q) + length spans"
  using accept_all_or_none by fastforce

end

text \<open>A processor keeps a row for every span of the batch when it returns no error and none of
  them otherwise.\<close>

locale span_processor =
  fixes proc :: "bool \<Rightarrow> 'p \<Rightarrow> span list \<Rightarrow> 'p \<times> string option"
    and kept :: "'p \<Rightarrow> 'r list"
    and row :: "span \<Rightarrow> 'r"
  assumes proc_ok: "proc c p spans = (p1, None) \<Longrightarrow> kept p1 = kept p @ map row spans"
    and proc_err: "proc c p spans = (p1, Some err) \<Longrightarrow> kept p1 = kept p"
begin

lemma kept_after: "kept (fst (proc c p spans)) =
    kept p @ (if snd (proc c p spans) = None then map row spans else [])"
  using proc_ok proc_err by (cases "proc c p spans"; cases "snd (proc c p spans)") auto

end

end
