(* ===== verification/Pipeline.thy ===== *)
theory Pipeline
  imports Interfaces
begin

text \<open>
  internal/pipeline/pipeline.go: the bounded queue between the receiver and the processors, the
  workers that collect chunks into batches, and the dispatch of a batch to every processor.
  The channel is a list of chunks with a capacity and a closed flag; a worker is its local
  batch and whether it still runs. The goroutines interleave: one event is one receive, tick or
  exit of one worker, one call of \<open>Accept\<close>, the cancellation of the context or \<open>Stop\<close>. The
  processors are parameters over one joint state; the boolean they get says whether the
  context they are called with is cancelled.
\<close>

section \<open>Data\<close>

record pl_config =
  plc_QueueSize :: int
  plc_Workers :: int
  plc_BatchSize :: int
  plc_FlushInterval :: int

definition pl_DefaultConfig :: pl_config where
  "pl_DefaultConfig = \<lparr>plc_QueueSize = 200000, plc_Workers = 4, plc_BatchSize = 5000,
     plc_FlushInterval = 2 * 10 ^ 9\<rparr>"

record pl_stats =
  pls_Enqueued :: u64
  pls_Dropped :: u64
  pls_Processed :: u64
  pls_Failed :: u64
  pls_QueueDepth :: u64 \<comment> \<open>an int64, read signed\<close>

record worker =
  wk_batch :: "span list"
  wk_running :: bool

record pipeline =
  pl_cfg :: pl_config
  pl_cap :: nat
  pl_queue :: "span list list"
  pl_closed :: bool
  pl_cancelled :: bool
  pl_workers :: "worker list"
  pl_stats :: pl_stats

type_synonym 'p processor = "bool \<Rightarrow> 'p \<Rightarrow> span list \<Rightarrow> 'p \<times> string option"

section \<open>Construction\<close>

definition chunk_cap :: "pl_config \<Rightarrow> int" where
  "chunk_cap cfg =
     (let c = go_div (plc_QueueSize cfg) (max (go_div (plc_BatchSize cfg) 4) 1)
      in if c < 64 then 64 else c)"

definition zero_pl_stats :: pl_stats where
  "zero_pl_stats = \<lparr>pls_Enqueued = 0, pls_Dropped = 0, pls_Processed = 0, pls_Failed = 0,
     pls_QueueDepth = 0\<rparr>"

definition pl_New :: "pl_config \<Rightarrow> pipeline" where
  "pl_New cfg0 =
     (let cfg = (if plc_QueueSize cfg0 \<le> 0 then pl_DefaultConfig else cfg0)
      in \<lparr>pl_cfg = cfg, pl_cap = nat (chunk_cap cfg), pl_queue = [], pl_closed = False,
          pl_cancelled = False, pl_workers = [], pl_stats = zero_pl_stats\<rparr>)"

text \<open>\<open>Start\<close> launches the workers. A worker panics at its start (\<open>None\<close>) when the capacity of
  its batch is negative or the interval of its ticker is not positive.\<close>

definition Start :: "pipeline \<Rightarrow> pipeline option" where
  "Start p =
     (if plc_Workers (pl_cfg p) \<le> 0 then Some p
      else if plc_BatchSize (pl_cfg p) < 0 \<or> plc_FlushInterval (pl_cfg p) \<le> 0 then None
      else Some (p\<lparr>pl_workers := pl_workers p @
             replicate (nat (plc_Workers (pl_cfg p))) \<lparr>wk_batch = [], wk_running = True\<rparr>\<rparr>))"

section \<open>Accept\<close>

definition upd_pl_stats :: "(pl_stats \<Rightarrow> pl_stats) \<Rightarrow> pipeline \<Rightarrow> pipeline" where
  "upd_pl_stats f p = p\<lparr>pl_stats := f (pl_stats p)\<rparr>"

text \<open>The result is the number of spans that were not accepted; a send on the closed channel
  panics (\<open>None\<close>).\<close>

definition Accept :: "pipeline \<Rightarrow> span list \<Rightarrow> (pipeline \<times> nat) option" where
  "Accept p spans =
     (if spans = [] then Some (p, 0)
      else if pl_closed p then None
      else if length (pl_queue p) < pl_cap p then
        Some (upd_pl_stats (\<lambda>t. t\<lparr>pls_Enqueued := pls_Enqueued t + of_nat (length spans),
                                 pls_QueueDepth := pls_QueueDepth t + of_nat (length spans)\<rparr>)
                (p\<lparr>pl_queue := pl_queue p @ [spans]\<rparr>), 0)
      else
        Some (upd_pl_stats (\<lambda>t. t\<lparr>pls_Dropped := pls_Dropped t + of_nat (length spans)\<rparr>) p,
              length spans))"

section \<open>Dispatch\<close>

definition run_processor ::
  "bool \<Rightarrow> span list \<Rightarrow> 'p \<times> pl_stats \<Rightarrow> 'p processor \<Rightarrow> 'p \<times> pl_stats" where
  "run_processor c spans pst proc =
     (case proc c (fst pst) spans of
        (p1, Some err) \<Rightarrow> (p1, (snd pst)\<lparr>pls_Failed := pls_Failed (snd pst) + of_nat (length spans)\<rparr>)
      | (p1, None) \<Rightarrow> (p1, snd pst))"

definition dispatch ::
  "'p processor list \<Rightarrow> bool \<Rightarrow> 'p \<times> pl_stats \<Rightarrow> span list \<Rightarrow> 'p \<times> pl_stats" where
  "dispatch procs c pst spans =
     (let (p1, st1) = foldl (run_processor c spans) pst procs
      in (p1, st1\<lparr>pls_Processed := pls_Processed st1 + of_nat (length spans)\<rparr>))"

section \<open>The workers\<close>

definition flush_worker ::
  "'p processor list \<Rightarrow> nat \<Rightarrow> 'p \<times> pipeline \<Rightarrow> 'p \<times> pipeline" where
  "flush_worker procs i s =
     (let (ps, p) = s; w = pl_workers p ! i in
      if wk_batch w = [] then (ps, p)
      else
        let (ps1, st1) = dispatch procs (pl_cancelled p) (ps, pl_stats p) (wk_batch w)
        in (ps1, p\<lparr>pl_stats := st1, pl_workers := (pl_workers p)[i := w\<lparr>wk_batch := []\<rparr>]\<rparr>))"

definition exit_worker :: "nat \<Rightarrow> 'p \<times> pipeline \<Rightarrow> 'p \<times> pipeline" where
  "exit_worker i s =
     (fst s, (snd s)\<lparr>pl_workers := (pl_workers (snd s))[i := (pl_workers (snd s) ! i)\<lparr>wk_running := False\<rparr>]\<rparr>)"

text \<open>A received chunk leaves the queue and joins the batch; a full batch is flushed.\<close>

definition take_chunk ::
  "'p processor list \<Rightarrow> nat \<Rightarrow> span list \<Rightarrow> span list list \<Rightarrow> 'p \<times> pipeline \<Rightarrow> 'p \<times> pipeline" where
  "take_chunk procs i chunk rest s =
     (let (ps, p) = s; w = pl_workers p ! i;
          p1 = upd_pl_stats (\<lambda>t. t\<lparr>pls_QueueDepth := pls_QueueDepth t - of_nat (length chunk)\<rparr>)
                 (p\<lparr>pl_queue := rest, pl_workers := (pl_workers p)[i := w\<lparr>wk_batch := wk_batch w @ chunk\<rparr>]\<rparr>)
      in if plc_BatchSize (pl_cfg p) \<le> int (length (wk_batch w @ chunk))
         then flush_worker procs i (ps, p1) else (ps, p1))"

datatype pl_event = PAccept "span list" | PRecv nat | PTick nat | PDone nat | PCancel | PStop

text \<open>One event. An event that is not enabled (a worker that has ended or does not exist, an
  empty open channel, a context that is not cancelled) changes nothing; closing twice and
  sending on the closed channel panic.\<close>

definition live :: "pipeline \<Rightarrow> nat \<Rightarrow> bool" where
  "live p i \<longleftrightarrow> i < length (pl_workers p) \<and> wk_running (pl_workers p ! i)"

fun pl_step :: "'p processor list \<Rightarrow> 'p \<times> pipeline \<Rightarrow> pl_event \<Rightarrow> ('p \<times> pipeline) option" where
  "pl_step procs (ps, p) (PAccept spans) = map_option (\<lambda>r. (ps, fst r)) (Accept p spans)"
| "pl_step procs (ps, p) (PRecv i) = Some
     (if \<not> live p i then (ps, p)
      else case pl_queue p of
             chunk # rest \<Rightarrow> take_chunk procs i chunk rest (ps, p)
           | [] \<Rightarrow> if pl_closed p then exit_worker i (flush_worker procs i (ps, p)) else (ps, p))"
| "pl_step procs (ps, p) (PTick i) = Some (if live p i then flush_worker procs i (ps, p) else (ps, p))"
| "pl_step procs (ps, p) (PDone i) = Some
     (if live p i \<and> pl_cancelled p then exit_worker i (flush_worker procs i (ps, p)) else (ps, p))"
| "pl_step procs (ps, p) PCancel = Some (ps, p\<lparr>pl_cancelled := True\<rparr>)"
| "pl_step procs (ps, p) PStop = (if pl_closed p then None else Some (ps, p\<lparr>pl_closed := True\<rparr>))"

fun pl_run :: "'p processor list \<Rightarrow> 'p \<times> pipeline \<Rightarrow> pl_event list \<Rightarrow> ('p \<times> pipeline) option" where
  "pl_run procs s [] = Some s"
| "pl_run procs s (e # es) = (case pl_step procs s e of None \<Rightarrow> None | Some s1 \<Rightarrow> pl_run procs s1 es)"

section \<open>What an event does with the spans\<close>

text \<open>The spans in the pipeline, the spans an event takes in, and the batch it hands to the
  processors.\<close>

definition in_flight :: "pipeline \<Rightarrow> span multiset" where
  "in_flight p = mset (concat (pl_queue p)) + mset (concat (map wk_batch (pl_workers p)))"

fun taken_in :: "pipeline \<Rightarrow> pl_event \<Rightarrow> span list" where
  "taken_in p (PAccept spans) = (if length (pl_queue p) < pl_cap p then spans else [])"
| "taken_in p ev = []"

fun flushed :: "pipeline \<Rightarrow> pl_event \<Rightarrow> span list" where
  "flushed p (PRecv i) =
     (if \<not> live p i then []
      else case pl_queue p of
             chunk # rest \<Rightarrow>
               let b = wk_batch (pl_workers p ! i) @ chunk
               in if plc_BatchSize (pl_cfg p) \<le> int (length b) then b else []
           | [] \<Rightarrow> if pl_closed p then wk_batch (pl_workers p ! i) else [])"
| "flushed p (PTick i) = (if live p i then wk_batch (pl_workers p ! i) else [])"
| "flushed p (PDone i) = (if live p i \<and> pl_cancelled p then wk_batch (pl_workers p ! i) else [])"
| "flushed p ev = []"

fun run_in :: "'p processor list \<Rightarrow> 'p \<times> pipeline \<Rightarrow> pl_event list \<Rightarrow> span list" where
  "run_in procs s [] = []"
| "run_in procs s (e # es) =
     taken_in (snd s) e @ (case pl_step procs s e of None \<Rightarrow> [] | Some s1 \<Rightarrow> run_in procs s1 es)"

fun run_out :: "'p processor list \<Rightarrow> 'p \<times> pipeline \<Rightarrow> pl_event list \<Rightarrow> (bool \<times> span list) list" where
  "run_out procs s [] = []"
| "run_out procs s (e # es) =
     (if flushed (snd s) e = [] then [] else [(pl_cancelled (snd s), flushed (snd s) e)])
       @ (case pl_step procs s e of None \<Rightarrow> [] | Some s1 \<Rightarrow> run_out procs s1 es)"

section \<open>Dispatch reaches every processor\<close>

text \<open>What a batch does to the processors' state: each of them gets it, in order, whatever the
  others return.\<close>

definition feed :: "'p processor list \<Rightarrow> bool \<Rightarrow> 'p \<Rightarrow> span list \<Rightarrow> 'p" where
  "feed procs c ps spans = foldl (\<lambda>ps proc. fst (proc c ps spans)) ps procs"

fun failures :: "'p processor list \<Rightarrow> bool \<Rightarrow> 'p \<Rightarrow> span list \<Rightarrow> nat" where
  "failures [] c ps spans = 0"
| "failures (proc # procs) c ps spans =
     (case proc c ps spans of (ps1, r) \<Rightarrow> (if r = None then 0 else 1) + failures procs c ps1 spans)"

lemma run_processors:
  "foldl (run_processor c spans) (ps, st) procs =
     (feed procs c ps spans,
      st\<lparr>pls_Failed := pls_Failed st + of_nat (failures procs c ps spans * length spans)\<rparr>)"
proof (induction procs arbitrary: ps st)
  case (Cons proc procs)
  then show ?case
    by (auto simp: feed_def run_processor_def algebra_simps split: prod.split option.split)
qed (simp add: feed_def)

lemma dispatch_eq:
  "dispatch procs c (ps, st) spans =
     (feed procs c ps spans,
      st\<lparr>pls_Failed := pls_Failed st + of_nat (failures procs c ps spans * length spans),
         pls_Processed := pls_Processed st + of_nat (length spans)\<rparr>)"
  by (simp add: dispatch_def run_processors)

lemma flush_worker_eq:
  "flush_worker procs i (ps, p) =
     (if wk_batch (pl_workers p ! i) = [] then (ps, p)
      else (feed procs (pl_cancelled p) ps (wk_batch (pl_workers p ! i)),
            p\<lparr>pl_stats := snd (dispatch procs (pl_cancelled p) (ps, pl_stats p) (wk_batch (pl_workers p ! i))),
              pl_workers := (pl_workers p)[i := (pl_workers p ! i)\<lparr>wk_batch := []\<rparr>]\<rparr>))"
  by (simp add: flush_worker_def dispatch_eq Let_def)

text \<open>A batch goes to every processor once and in order, whatever the processors before it
  return; the failed counter grows by the batch for each processor that failed and the processed
  counter by the batch.\<close>

theorem dispatch_reaches_all:
  "dispatch (procs @ proc # procs') c (ps, st) spans =
     (let ps1 = feed procs c ps spans; ps2 = fst (proc c ps1 spans)
      in (feed procs' c ps2 spans,
          st\<lparr>pls_Failed := pls_Failed st + of_nat (failures (procs @ proc # procs') c ps spans * length spans),
             pls_Processed := pls_Processed st + of_nat (length spans)\<rparr>))"
  by (simp add: dispatch_eq feed_def Let_def)

section \<open>Conservation of spans\<close>

lemma mset_batches_update:
  assumes "i < length ws"
  shows "mset (concat (map wk_batch (ws[i := w]))) + mset (wk_batch (ws ! i)) =
    mset (concat (map wk_batch ws)) + mset (wk_batch w)"
  using assms
proof (induction ws arbitrary: i)
  case (Cons v ws)
  then show ?case by (cases i) (auto simp: algebra_simps)
qed simp

lemma in_flight_flush:
  assumes "i < length (pl_workers p)"
  shows "in_flight (snd (flush_worker procs i (ps, p))) + mset (wk_batch (pl_workers p ! i)) = in_flight p"
  using mset_batches_update [OF assms, of "(pl_workers p ! i)\<lparr>wk_batch := []\<rparr>"]
  by (auto simp: flush_worker_eq in_flight_def algebra_simps)

lemma in_flight_exit [simp]: "in_flight (snd (exit_worker i s)) = in_flight (snd s)"
proof (cases "i < length (pl_workers (snd s))")
  case True
  from mset_batches_update [OF this, of "(pl_workers (snd s) ! i)\<lparr>wk_running := False\<rparr>"]
  show ?thesis by (simp add: exit_worker_def in_flight_def)
qed (simp add: exit_worker_def in_flight_def list_update_beyond)

lemma in_flight_flags: "in_flight (p\<lparr>pl_cancelled := c\<rparr>) = in_flight p"
  "in_flight (p\<lparr>pl_closed := c\<rparr>) = in_flight p"
  by (simp_all add: in_flight_def)

lemma in_flight_take:
  assumes "i < length (pl_workers p)" "pl_queue p = chunk # rest"
  shows "in_flight (snd (take_chunk procs i chunk rest (ps, p)))
      + (if plc_BatchSize (pl_cfg p) \<le> int (length (wk_batch (pl_workers p ! i))) + int (length chunk)
         then mset (wk_batch (pl_workers p ! i)) + mset chunk else {#}) = in_flight p"
proof -
  let ?w = "(pl_workers p ! i)\<lparr>wk_batch := wk_batch (pl_workers p ! i) @ chunk\<rparr>"
  let ?p = "upd_pl_stats (\<lambda>t. t\<lparr>pls_QueueDepth := pls_QueueDepth t - of_nat (length chunk)\<rparr>)
    (p\<lparr>pl_queue := rest, pl_workers := (pl_workers p)[i := ?w]\<rparr>)"
  have "in_flight ?p = in_flight p"
    using mset_batches_update [OF assms(1), of ?w] assms(2)
    by (simp add: in_flight_def upd_pl_stats_def algebra_simps)
  moreover have "i < length (pl_workers ?p)" "pl_workers ?p ! i = ?w" "pl_cfg ?p = pl_cfg p"
    using assms(1) by (simp_all add: upd_pl_stats_def)
  ultimately show ?thesis
    using in_flight_flush [of i ?p procs ps] by (simp add: take_chunk_def Let_def)
qed

lemma pl_step_in_flight:
  assumes "pl_step procs (ps, p) e = Some s1"
  shows "in_flight (snd s1) + mset (flushed p e) = in_flight p + mset (taken_in p e)"
proof (cases e)
  case (PAccept spans)
  with assms show ?thesis
    by (auto simp: Accept_def in_flight_def upd_pl_stats_def split: if_splits)
next
  case (PRecv i)
  show ?thesis
  proof (cases "live p i")
    case True
    with PRecv assms in_flight_take [of i p _ _ procs ps] show ?thesis
      by (cases "pl_queue p") (auto simp: live_def Let_def in_flight_flush split: if_splits)
  qed (use assms PRecv in auto)
qed (use assms in \<open>auto simp: live_def in_flight_flush in_flight_flags split: if_splits\<close>)

lemma take_chunk_fst:
  "i < length (pl_workers p) \<Longrightarrow> fst (take_chunk procs i chunk rest (ps, p)) =
     (let b = wk_batch (pl_workers p ! i) @ chunk
      in if b \<noteq> [] \<and> plc_BatchSize (pl_cfg p) \<le> int (length b) then feed procs (pl_cancelled p) ps b else ps)"
  by (simp add: take_chunk_def Let_def flush_worker_eq upd_pl_stats_def)

lemma pl_step_feed:
  assumes "pl_step procs (ps, p) e = Some s1"
  shows "fst s1 = (if flushed p e = [] then ps else feed procs (pl_cancelled p) ps (flushed p e))"
proof (cases e)
  case (PRecv i)
  with assms show ?thesis
    by (auto simp: live_def take_chunk_fst Let_def exit_worker_def flush_worker_eq split: if_splits list.splits)
qed (use assms in \<open>auto simp: exit_worker_def flush_worker_eq split: if_splits\<close>)

lemma mset_exchange: "a1 + r = a2 + i \<Longrightarrow> a2 + f = a + t \<Longrightarrow> a1 + (f + r) = a + (t + (i :: 'a multiset))"
  by (metis union_assoc union_commute)

text \<open>(C4) No span is lost or handed over twice: after any run of events the spans in the queue
  and in the workers' batches, with the spans of the dispatched batches, are the spans there at
  the start with the spans accepted since; and the processors' state is what those batches make
  of it.\<close>

theorem pipeline_conserves_spans:
  assumes "pl_run procs s es = Some s1"
  shows "in_flight (snd s1) + mset (concat (map snd (run_out procs s es)))
        = in_flight (snd s) + mset (run_in procs s es)
    \<and> fst s1 = foldl (\<lambda>ps (c, b). feed procs c ps b) (fst s) (run_out procs s es)"
  using assms
proof (induction es arbitrary: s)
  case (Cons e es)
  then obtain s2 where s2: "pl_step procs s e = Some s2" "pl_run procs s2 es = Some s1"
    by (auto split: option.splits)
  obtain ps p where s: "s = (ps, p)" by fastforce
  have a: "in_flight (snd s2) + mset (flushed p e) = in_flight p + mset (taken_in p e)"
    by (rule pl_step_in_flight [OF s2(1) [unfolded s]])
  have b: "fst s2 = (if flushed p e = [] then ps else feed procs (pl_cancelled p) ps (flushed p e))"
    by (rule pl_step_feed [OF s2(1) [unfolded s]])
  note ih = Cons.IH [OF s2(2)]
  have "in_flight (snd s1) + (mset (flushed p e) + mset (concat (map snd (run_out procs s2 es))))
      = in_flight p + (mset (taken_in p e) + mset (run_in procs s2 es))"
    by (rule mset_exchange [OF conjunct1 [OF ih] a])
  moreover have "concat (map snd (run_out procs s (e # es))) =
      flushed p e @ concat (map snd (run_out procs s2 es))"
    by (simp add: s s2(1) [unfolded s])
  ultimately show ?case using conjunct2 [OF ih] b s2(1) s by simp
qed simp

text \<open>A processor that keeps the spans it is handed, for the witnesses.\<close>

definition keeper :: "span list processor" where
  "keeper c ps spans = (ps @ spans, None)"

definition example_pipeline :: pipeline where
  "example_pipeline = (pl_New pl_DefaultConfig)\<lparr>pl_cfg := pl_DefaultConfig\<lparr>plc_BatchSize := 2\<rparr>,
     pl_workers := [\<lparr>wk_batch = [], wk_running = True\<rparr>]\<rparr>"

definition sp_n :: "string \<Rightarrow> span" where
  "sp_n n = zero_span\<lparr>sp_SpanID := n\<rparr>"

lemmas example_pipeline_simps = example_pipeline_def pl_New_def pl_DefaultConfig_def chunk_cap_def go_div_def

lemma example_run:
  "pl_run [keeper] ([], example_pipeline) [PAccept [sp_n ''a''], PAccept [sp_n ''b'', sp_n ''c''], PRecv 0, PRecv 0]
     = Some ([sp_n ''a'', sp_n ''b'', sp_n ''c''],
         example_pipeline\<lparr>pl_stats := zero_pl_stats\<lparr>pls_Enqueued := 3, pls_Processed := 3\<rparr>\<rparr>)"
  by (simp add: example_pipeline_simps Accept_def take_chunk_def flush_worker_eq upd_pl_stats_def
      live_def Let_def feed_def keeper_def dispatch_eq zero_pl_stats_def)

theorem pipeline_conserves_spans_witness:
  "in_flight example_pipeline
     + mset (concat (map snd (run_out [keeper] ([], example_pipeline)
         [PAccept [sp_n ''a''], PAccept [sp_n ''b'', sp_n ''c''], PRecv 0, PRecv 0])))
     = mset (run_in [keeper] ([], example_pipeline)
         [PAccept [sp_n ''a''], PAccept [sp_n ''b'', sp_n ''c''], PRecv 0, PRecv 0])"
  using pipeline_conserves_spans [OF example_run]
  by (simp add: in_flight_def example_pipeline_def pl_New_def Let_def)

section \<open>The counters and the bounds\<close>

definition pl_ok :: "pipeline \<Rightarrow> bool" where
  "pl_ok p \<longleftrightarrow> length (pl_queue p) \<le> pl_cap p
     \<and> pls_QueueDepth (pl_stats p) = of_nat (length (concat (pl_queue p)))
     \<and> (\<forall>w \<in> set (pl_workers p). wk_batch w = [] \<or> int (length (wk_batch w)) < plc_BatchSize (pl_cfg p))"

lemma update_all: "\<forall>w \<in> set ws. P w \<Longrightarrow> P v \<Longrightarrow> \<forall>w \<in> set (ws[i := v]). P w"
  using set_update_subset_insert [of ws i v] by blast

lemma pl_ok_worker: "pl_ok p \<Longrightarrow> wk_batch w = [] \<or> int (length (wk_batch w)) < plc_BatchSize (pl_cfg p)
    \<Longrightarrow> pl_ok (p\<lparr>pl_workers := (pl_workers p)[i := w]\<rparr>)"
  unfolding pl_ok_def by (auto dest!: set_update_subset_insert [THEN subsetD])

lemma Accept_ok [keep]: "pl_ok p \<Longrightarrow> Accept p spans = Some (p1, d) \<Longrightarrow> pl_ok p1"
  by (auto simp: pl_ok_def Accept_def upd_pl_stats_def split: if_splits)

lemma pl_ok_stats: "pls_QueueDepth st = pls_QueueDepth (pl_stats p) \<Longrightarrow> pl_ok (p\<lparr>pl_stats := st\<rparr>) = pl_ok p"
  by (simp add: pl_ok_def)

lemma flush_worker_ok [keep]: "pl_ok p \<Longrightarrow> pl_ok (snd (flush_worker procs i (ps, p)))"
  using pl_ok_worker [of p "(pl_workers p ! i)\<lparr>wk_batch := []\<rparr>" i]
  by (auto simp: flush_worker_eq dispatch_eq pl_ok_def)

lemma exit_worker_ok [keep]: "pl_ok (snd s) \<Longrightarrow> i < length (pl_workers (snd s)) \<Longrightarrow> pl_ok (snd (exit_worker i s))"
  using pl_ok_worker [of "snd s" "(pl_workers (snd s) ! i)\<lparr>wk_running := False\<rparr>" i]
  by (auto simp: exit_worker_def pl_ok_def)

lemma flush_worker_len [simp]: "length (pl_workers (snd (flush_worker procs i (ps, p)))) = length (pl_workers p)"
  by (simp add: flush_worker_eq)

lemma take_chunk_ok [keep]:
  assumes "pl_ok p" "i < length (pl_workers p)" "pl_queue p = chunk # rest"
  shows "pl_ok (snd (take_chunk procs i chunk rest (ps, p)))"
proof -
  let ?b = "wk_batch (pl_workers p ! i) @ chunk"
  let ?w = "(pl_workers p ! i)\<lparr>wk_batch := ?b\<rparr>"
  let ?p = "upd_pl_stats (\<lambda>t. t\<lparr>pls_QueueDepth := pls_QueueDepth t - of_nat (length chunk)\<rparr>)
    (p\<lparr>pl_queue := rest, pl_workers := (pl_workers p)[i := ?w]\<rparr>)"
  let ?ok = "\<lambda>w. wk_batch w = [] \<or> int (length (wk_batch w)) < plc_BatchSize (pl_cfg p)"
  have q: "length rest \<le> pl_cap p"
    "pls_QueueDepth (pl_stats p) - of_nat (length chunk) = of_nat (length (concat rest))"
    and ws: "\<forall>w \<in> set (pl_workers p). ?ok w"
    using assms(1,3) by (auto simp: pl_ok_def)
  show ?thesis
  proof (cases "plc_BatchSize (pl_cfg p) \<le> int (length ?b)")
    case True
    have "\<forall>w \<in> set ((pl_workers p)[i := ?w\<lparr>wk_batch := []\<rparr>]). ?ok w"
      using ws by (rule update_all) simp
    with True q assms(2) show ?thesis
      by (auto simp: take_chunk_def Let_def flush_worker_eq dispatch_eq pl_ok_def upd_pl_stats_def)
  next
    case False
    have "\<forall>w \<in> set ((pl_workers p)[i := ?w]). ?ok w"
      using update_all [of "pl_workers p" ?ok ?w i] ws False by simp
    with False q show ?thesis
      by (auto simp: take_chunk_def Let_def pl_ok_def upd_pl_stats_def)
  qed
qed

lemma flush_exit_ok: "pl_ok p \<Longrightarrow> i < length (pl_workers p) \<Longrightarrow> pl_ok (snd (exit_worker i (flush_worker procs i (ps, p))))"
  by (intro exit_worker_ok flush_worker_ok) simp_all

lemma pl_step_ok: 
  assumes "pl_ok (snd s)" "pl_step procs s e = Some s1"
  shows "pl_ok (snd s1)"
proof (cases e)
  case (PAccept spans)
  with assms show ?thesis by (cases s) (auto intro: Accept_ok)
next
  case (PRecv i)
  with assms show ?thesis
    by (cases s; cases "pl_queue (snd s)") (auto simp: live_def take_chunk_ok flush_exit_ok split: if_splits)
next
  case (PTick i)
  with assms show ?thesis by (cases s) (auto simp: keep split: if_splits)
next
  case (PDone i)
  with assms show ?thesis by (cases s) (auto simp: live_def flush_exit_ok split: if_splits)
next
  case PCancel
  with assms show ?thesis by (cases s) (auto simp: pl_ok_def)
next
  case PStop
  with assms show ?thesis by (cases s) (auto simp: pl_ok_def split: if_splits)
qed

text \<open>A panic ends the process; a run that goes on from it stays where it is.\<close>

interpretation pipe: invariant_machine
  "\<lambda>s e. case pl_step procs s e of None \<Rightarrow> s | Some s1 \<Rightarrow> s1" "\<lambda>s. pl_ok (snd s)" for procs :: "'p processor list"
proof
  show "pl_ok (snd (case pl_step procs s e of None \<Rightarrow> s | Some s1 \<Rightarrow> s1))" if "pl_ok (snd s)"
    for s :: "'p \<times> pipeline" and e
    using that pl_step_ok [OF that, of procs e] by (simp split: option.split)
qed

lemma pl_run_foldl: "pl_run procs s es = Some s1 \<Longrightarrow>
    s1 = foldl (\<lambda>s e. case pl_step procs s e of None \<Rightarrow> s | Some s1 \<Rightarrow> s1) s es"
  by (induction es arbitrary: s) (auto split: option.splits)

lemma pl_New_Start_ok: "Start (pl_New cfg) = Some p \<Longrightarrow> pl_ok p"
  by (auto simp: Start_def pl_New_def Let_def pl_ok_def zero_pl_stats_def split: if_splits)

text \<open>In every reachable state the channel holds at most its capacity of chunks, the queue
  depth counter is the number of spans in the queue, and no worker holds a full batch.\<close>

theorem pipeline_bounded:
  assumes "Start (pl_New cfg) = Some p" "pl_run procs (ps, p) es = Some s1"
  shows "length (pl_queue (snd s1)) \<le> pl_cap (snd s1)
    \<and> pls_QueueDepth (pl_stats (snd s1)) = of_nat (length (concat (pl_queue (snd s1))))
    \<and> list_all (\<lambda>w. wk_batch w = [] \<or> int (length (wk_batch w)) < plc_BatchSize (pl_cfg (snd s1)))
        (pl_workers (snd s1))"
proof -
  have "pl_ok (snd s1)"
    unfolding pl_run_foldl [OF assms(2)]
    by (rule pipe.run_good) (simp add: pl_New_Start_ok [OF assms(1)])
  then show ?thesis by (simp add: pl_ok_def list_all_iff)
qed


theorem pipeline_bounded_witness:
  "\<exists>p s1. Start (pl_New (pl_DefaultConfig\<lparr>plc_Workers := 1\<rparr>)) = Some p
        \<and> pl_run [keeper] ([], p) [PAccept [sp_n ''a'']] = Some s1
        \<and> pls_QueueDepth (pl_stats (snd s1)) = 1"
proof -
  let ?c = "pl_DefaultConfig\<lparr>plc_Workers := 1\<rparr>"
  let ?p = "(pl_New ?c)\<lparr>pl_workers := [\<lparr>wk_batch = [], wk_running = True\<rparr>]\<rparr>"
  have st: "Start (pl_New ?c) = Some ?p"
    by (simp add: Start_def pl_New_def pl_DefaultConfig_def Let_def)
  obtain s1 where r: "pl_run [keeper] ([], ?p) [PAccept [sp_n ''a'']] = Some s1" "pl_queue (snd s1) = [[sp_n ''a'']]"
    by (simp add: pl_New_def pl_DefaultConfig_def Accept_def upd_pl_stats_def chunk_cap_def go_div_def)
  have "pls_QueueDepth (pl_stats (snd s1)) = 1"
    using pipeline_bounded [OF st r(1)] r(2) by simp
  with st r(1) show ?thesis by blast
qed

section \<open>Order\<close>

definition held_in_order :: "pipeline \<Rightarrow> span list" where
  "held_in_order p = concat (map wk_batch (pl_workers p)) @ concat (pl_queue p)"

lemma take_chunk_single:
  assumes "pl_workers p = [w]"
  shows "(let b = wk_batch w @ chunk in if plc_BatchSize (pl_cfg p) \<le> int (length b) then b else [])
      @ held_in_order (snd (take_chunk procs 0 chunk rest (ps, p))) = wk_batch w @ chunk @ concat rest"
  using assms by (auto simp: take_chunk_def Let_def upd_pl_stats_def flush_worker_eq held_in_order_def)

lemma flush_single:
  "pl_workers p = [w] \<Longrightarrow> wk_batch w @ held_in_order (snd (flush_worker procs 0 (ps, p))) = held_in_order p"
  by (auto simp: flush_worker_eq held_in_order_def)

lemma exit_single: "length (pl_workers (snd s)) = 1 \<Longrightarrow> held_in_order (snd (exit_worker 0 s)) = held_in_order (snd s)"
  by (cases "pl_workers (snd s)") (auto simp: exit_worker_def held_in_order_def)

lemma pl_step_workers: "pl_step procs s e = Some s1 \<Longrightarrow> length (pl_workers (snd s1)) = length (pl_workers (snd s))"
  by (cases s; cases e)
    (auto simp: Accept_def upd_pl_stats_def take_chunk_def Let_def flush_worker_eq exit_worker_def split: if_splits list.splits)

lemma pl_step_single:
  assumes "pl_workers p = [w]" "pl_step procs (ps, p) e = Some s1"
  shows "flushed p e @ held_in_order (snd s1) = held_in_order p @ taken_in p e"
proof (cases e)
  case (PAccept spans)
  with assms show ?thesis
    by (auto simp: Accept_def held_in_order_def upd_pl_stats_def split: if_splits)
next
  case (PRecv i)
  show ?thesis
  proof (cases "live p i")
    case True
    then have i: "i = 0" "wk_running w" using assms(1) by (auto simp: live_def)
    show ?thesis
    proof (cases "pl_queue p")
      case Nil
      have "held_in_order p = wk_batch w" using Nil assms(1) by (simp add: held_in_order_def)
      with flush_single [OF assms(1), of procs ps]
      have "held_in_order (snd (flush_worker procs 0 (ps, p))) = []" by simp
      with assms PRecv True i Nil show ?thesis
        by (auto simp: exit_single held_in_order_def [of p] split: if_splits)
    next
      case (Cons chunk rest)
      with assms PRecv True i take_chunk_single [OF assms(1), of chunk procs rest ps] show ?thesis
        by (auto simp: Let_def held_in_order_def)
    qed
  qed (use assms PRecv in \<open>auto simp: held_in_order_def\<close>)
next
  case (PTick i)
  with assms show ?thesis by (auto simp: live_def flush_single split: if_splits)
next
  case (PDone i)
  with assms show ?thesis by (auto simp: live_def flush_single exit_single split: if_splits)
qed (use assms in \<open>auto simp: held_in_order_def split: if_splits\<close>)

text \<open>With one worker the pipeline is a first-in first-out queue: what was dispatched,
  followed by the worker's batch and the channel, is what was there and what was accepted, in
  this order.\<close>

theorem one_worker_is_fifo:
  assumes "length (pl_workers (snd s)) = 1" "pl_run procs s es = Some s1"
  shows "concat (map snd (run_out procs s es)) @ held_in_order (snd s1)
    = held_in_order (snd s) @ run_in procs s es"
  using assms
proof (induction es arbitrary: s)
  case (Cons e es)
  obtain ps p w where s: "s = (ps, p)" "pl_workers p = [w]"
    using Cons.prems(1) by (cases s) (auto simp: length_Suc_conv)
  from Cons.prems(2) obtain s2 where s2: "pl_step procs s e = Some s2" "pl_run procs s2 es = Some s1"
    by (auto split: option.splits)
  have "concat (map snd (run_out procs s2 es)) @ held_in_order (snd s1) = held_in_order (snd s2) @ run_in procs s2 es"
    using Cons.IH [OF _ s2(2)] pl_step_workers [OF s2(1)] Cons.prems(1) by simp
  moreover have "flushed p e @ held_in_order (snd s2) = held_in_order p @ taken_in p e"
    by (rule pl_step_single [OF s(2) s2(1) [unfolded s(1)]])
  moreover have "concat (map snd (run_out procs s (e # es))) =
      flushed p e @ concat (map snd (run_out procs s2 es))"
    by (simp add: s(1) s2(1) [unfolded s(1)])
  moreover have "run_in procs s (e # es) = taken_in p e @ run_in procs s2 es"
    by (simp add: s(1) s2(1) [unfolded s(1)])
  ultimately show ?case using s(1) by (simp only: append_assoc snd_conv) (metis append_assoc)
qed simp

theorem one_worker_is_fifo_witness:
  "concat (map snd (run_out [keeper] ([], example_pipeline)
     [PAccept [sp_n ''a''], PAccept [sp_n ''b'', sp_n ''c''], PRecv 0, PRecv 0]))
   = run_in [keeper] ([], example_pipeline)
     [PAccept [sp_n ''a''], PAccept [sp_n ''b'', sp_n ''c''], PRecv 0, PRecv 0]"
  using one_worker_is_fifo [OF _ example_run]
  by (simp add: held_in_order_def example_pipeline_def pl_New_def Let_def)

section \<open>Shutdown\<close>

lemma drain_step:
  assumes "live p i" "pl_queue p = chunk # rest"
  shows "\<exists>s1. pl_step procs (ps, p) (PRecv i) = Some s1 \<and> live (snd s1) i \<and> pl_queue (snd s1) = rest
    \<and> pl_closed (snd s1) = pl_closed p"
  using assms by (auto simp: live_def take_chunk_def Let_def flush_worker_eq upd_pl_stats_def)

text \<open>After \<open>Stop\<close> a worker that keeps receiving empties the channel, flushes its last batch
  and ends: one receive per waiting chunk and one for the closed channel.\<close>

theorem stop_drains_queue:
  assumes "pl_closed p" "live p i"
  shows "\<exists>s1. pl_run procs (ps, p) (replicate (Suc (length (pl_queue p))) (PRecv i)) = Some s1
    \<and> pl_queue (snd s1) = [] \<and> wk_batch (pl_workers (snd s1) ! i) = [] \<and> \<not> live (snd s1) i"
  using assms
proof (induction "pl_queue p" arbitrary: ps p)
  case Nil
  then show ?case by (auto simp: live_def exit_worker_def flush_worker_eq)
next
  case (Cons chunk rest)
  from drain_step [OF Cons.prems(2) Cons.hyps(2) [symmetric], of procs ps]
  obtain ps1 p1 where s1: "pl_step procs (ps, p) (PRecv i) = Some (ps1, p1)" "live p1 i"
    "pl_queue p1 = rest" "pl_closed p1 = pl_closed p" by (auto simp del: pl_step.simps)
  have "\<exists>s2. pl_run procs (ps1, p1) (replicate (Suc (length rest)) (PRecv i)) = Some s2
    \<and> pl_queue (snd s2) = [] \<and> wk_batch (pl_workers (snd s2) ! i) = [] \<and> \<not> live (snd s2) i"
    using Cons.hyps(1) [of p1 ps1] Cons.prems(1) s1 by simp
  with s1(1) Cons.hyps(2) [symmetric] show ?case by (simp del: pl_step.simps)
qed

theorem stop_drains_queue_witness:
  "\<exists>s1. pl_run [keeper] ([], example_pipeline\<lparr>pl_closed := True, pl_queue := [[sp_n ''a''], [sp_n ''b'']]\<rparr>)
      (replicate 3 (PRecv 0)) = Some s1 \<and> pl_queue (snd s1) = []"
  using stop_drains_queue [of "example_pipeline\<lparr>pl_closed := True, pl_queue := [[sp_n ''a''], [sp_n ''b'']]\<rparr>" 0 "[keeper]" "[]"]
  by (auto simp: live_def example_pipeline_def numeral_3_eq_3)

lemma exit_live: "live (snd (exit_worker i s)) j \<longleftrightarrow> live (snd s) j \<and> j \<noteq> i"
  by (cases "j = i") (auto simp: live_def exit_worker_def)

lemma flush_live: "live (snd (flush_worker procs i (ps, p))) j \<longleftrightarrow> live p j"
  by (cases "j = i") (auto simp: live_def flush_worker_eq)

lemma flush_frame: "pl_queue (snd (flush_worker procs i s)) = pl_queue (snd s)"
  "pl_cancelled (snd (flush_worker procs i s)) = pl_cancelled (snd s)"
  by (cases s; simp add: flush_worker_eq)+

lemma exit_frame: "pl_queue (snd (exit_worker i s)) = pl_queue (snd s)"
  "pl_cancelled (snd (exit_worker i s)) = pl_cancelled (snd s)"
  by (simp_all add: exit_worker_def)

lemma done_step:
  assumes "pl_cancelled (snd s)"
  shows "\<exists>s1. pl_step procs s (PDone i) = Some s1 \<and> pl_queue (snd s1) = pl_queue (snd s) \<and> pl_cancelled (snd s1)
    \<and> (\<forall>j. live (snd s1) j \<longleftrightarrow> live (snd s) j \<and> j \<noteq> i)"
  using assms by (cases s) (auto simp: exit_live flush_live exit_frame flush_frame)

lemma done_run:
  assumes "pl_cancelled (snd s)"
  shows "\<exists>s1. pl_run procs s (map PDone is) = Some s1 \<and> pl_queue (snd s1) = pl_queue (snd s)
    \<and> (\<forall>j. live (snd s1) j \<longleftrightarrow> live (snd s) j \<and> j \<notin> set is)"
  using assms
proof (induction "is" arbitrary: s)
  case (Cons i "is")
  from done_step [OF Cons.prems, of procs i] obtain s2 where s2: "pl_step procs s (PDone i) = Some s2"
    "pl_queue (snd s2) = pl_queue (snd s)" "pl_cancelled (snd s2)"
    "\<forall>j. live (snd s2) j \<longleftrightarrow> live (snd s) j \<and> j \<noteq> i" by blast
  from Cons.IH [OF s2(3)] s2 show ?case by auto
qed simp

lemma dead_step:
  assumes "\<forall>j. \<not> live (snd s) j" "pl_step procs s e = Some s1"
  shows "(\<exists>r. pl_queue (snd s1) = pl_queue (snd s) @ r) \<and> (\<forall>j. \<not> live (snd s1) j) \<and> fst s1 = fst s"
  using assms by (cases s; cases e) (auto simp: Accept_def upd_pl_stats_def live_def split: if_splits)

lemma dead_run:
  assumes "\<forall>j. \<not> live (snd s) j" "pl_run procs s es = Some s1"
  shows "(\<exists>r. pl_queue (snd s1) = pl_queue (snd s) @ r) \<and> fst s1 = fst s"
  using assms
proof (induction es arbitrary: s)
  case (Cons e es)
  then obtain s2 where s2: "pl_step procs s e = Some s2" "pl_run procs s2 es = Some s1"
    by (auto split: option.splits)
  from dead_step [OF Cons.prems(1) s2(1)] Cons.IH [OF _ s2(2)] show ?case by auto
qed simp

lemma pl_run_append: "pl_run procs s (es @ fs) =
    (case pl_run procs s es of None \<Rightarrow> None | Some s1 \<Rightarrow> pl_run procs s1 fs)"
  by (induction es arbitrary: s) (auto split: option.split)

text \<open>Cancelling the context is no drain: once every worker has seen the cancellation the
  chunks in the channel stay there, whatever happens after, \<open>Stop\<close> included, and the processors
  get nothing more.\<close>

theorem cancel_abandons_queue:
  assumes "pl_run procs (ps, p) (PCancel # map PDone [0..<length (pl_workers p)] @ es) = Some s2"
  shows "\<exists>r. pl_queue (snd s2) = pl_queue p @ r"
proof -
  let ?s = "(ps, p\<lparr>pl_cancelled := True\<rparr>)"
  from done_run [of ?s procs "[0..<length (pl_workers p)]"] obtain s1 where s1:
    "pl_run procs ?s (map PDone [0..<length (pl_workers p)]) = Some s1"
    "pl_queue (snd s1) = pl_queue p"
    "\<forall>j. live (snd s1) j \<longleftrightarrow> live (snd ?s) j \<and> j \<notin> set [0..<length (pl_workers p)]"
    by auto
  then have dead: "\<forall>j. \<not> live (snd s1) j" by (simp add: live_def)
  from assms s1(1) have "pl_run procs s1 es = Some s2" by (simp add: pl_run_append)
  from dead_run [OF dead this] s1(2) show ?thesis by simp
qed

theorem cancel_abandons_queue_witness:
  "\<exists>s2. pl_run [keeper] ([], example_pipeline\<lparr>pl_queue := [[sp_n ''a'']]\<rparr>) [PCancel, PDone 0, PStop, PTick 0] = Some s2
     \<and> (\<exists>r. pl_queue (snd s2) = [[sp_n ''a'']] @ r)"
proof -
  let ?p = "example_pipeline\<lparr>pl_queue := [[sp_n ''a'']]\<rparr>"
  obtain s2 where "pl_run [keeper] ([], ?p) (PCancel # map PDone [0..<length (pl_workers ?p)] @ [PStop, PTick 0]) = Some s2"
    by (simp add: example_pipeline_def pl_New_def Let_def live_def flush_worker_eq exit_worker_def)
  from this cancel_abandons_queue [OF this] show ?thesis
    by (auto simp: example_pipeline_def)
qed

section \<open>The pipeline as a consumer\<close>

interpretation accept: span_consumer Accept "\<lambda>p. concat (pl_queue p)"
  by unfold_locales (auto simp: Accept_def upd_pl_stats_def split: if_splits)

end
