(* ===== verification/Receiver.thy ===== *)
theory Receiver
  imports Convert Pipeline
begin

text \<open>
  internal/otlp/receiver.go: the two OTLP entry points, gRPC and HTTP, over a consumer. The
  request codecs (protobuf, protojson), the gzip reader and the response encoders are
  parameters; the consumer is a parameter with the contract \<open>span_consumer\<close>, which the pipeline
  provides. \<open>None\<close> is a panic of the consumer.
\<close>

section \<open>State\<close>

record recv_stats =
  rvs_SpansReceived :: u64
  rvs_SpansDropped :: u64
  rvs_Requests :: u64
  rvs_Errors :: u64

definition default_max_msg :: "int \<Rightarrow> int" where
  "default_max_msg n = (if n \<le> 0 then 16 * 1024 * 1024 else n)"

definition defaultStreamWorkers :: "int \<Rightarrow> int" where
  "defaultStreamWorkers gomaxprocs =
     (let n = gomaxprocs * 2; n1 = (if n < 4 then 4 else n) in if n1 > 64 then 64 else n1)"

section \<open>Consume\<close>

definition consume ::
  "('q \<Rightarrow> span list \<Rightarrow> ('q \<times> nat) option) \<Rightarrow> (u64 \<Rightarrow> string) \<Rightarrow> 'q \<times> recv_stats \<Rightarrow> resource_spans list
    \<Rightarrow> (('q \<times> recv_stats) \<times> nat \<times> nat) option" where
  "consume accept fmt s req =
     (let spans = ConvertTraces fmt req in
      if spans = [] then Some (s, 0, 0)
      else case accept (fst s) spans of
             None \<Rightarrow> None
           | Some (q, dropped) \<Rightarrow>
               let st1 = (snd s)\<lparr>rvs_SpansReceived := rvs_SpansReceived (snd s) + of_nat (length spans)\<rparr>;
                   st2 = (if dropped > 0
                          then st1\<lparr>rvs_SpansDropped := rvs_SpansDropped st1 + of_nat dropped\<rparr> else st1)
               in Some ((q, st2), length spans, dropped))"

text \<open>The partial success of a response: the number of rejected spans and a message.\<close>

definition partial_success :: "nat \<Rightarrow> (int \<times> string) option" where
  "partial_success dropped =
     (if dropped > 0 then Some (int dropped, ''nabiz: queue full, spans dropped'') else None)"

definition count_request :: "'q \<times> recv_stats \<Rightarrow> 'q \<times> recv_stats" where
  "count_request s = (fst s, (snd s)\<lparr>rvs_Requests := rvs_Requests (snd s) + 1\<rparr>)"

definition count_error :: "'q \<times> recv_stats \<Rightarrow> 'q \<times> recv_stats" where
  "count_error s = (fst s, (snd s)\<lparr>rvs_Errors := rvs_Errors (snd s) + 1\<rparr>)"

definition Export ::
  "('q \<Rightarrow> span list \<Rightarrow> ('q \<times> nat) option) \<Rightarrow> (u64 \<Rightarrow> string) \<Rightarrow> 'q \<times> recv_stats \<Rightarrow> resource_spans list
    \<Rightarrow> (('q \<times> recv_stats) \<times> (int \<times> string) option) option" where
  "Export accept fmt s req =
     (case consume accept fmt (count_request s) req of
        None \<Rightarrow> None
      | Some (s1, received, dropped) \<Rightarrow> Some (s1, partial_success dropped))"

section \<open>HTTP\<close>

record http_request =
  rq_ContentEncoding :: string
  rq_ContentType :: string
  rq_body :: "u8 list"

record http_response =
  rp_status :: nat
  rp_ContentType :: string
  rp_body :: "u8 list"

text \<open>The library the handler calls: the gzip header check and decompression, the decoders of a
  request and the encoders of a response.\<close>

record codecs =
  cd_gzip_header :: "u8 list \<Rightarrow> bool"
  cd_gunzip :: "u8 list \<Rightarrow> u8 list option"
  cd_json :: "u8 list \<Rightarrow> resource_spans list option"
  cd_proto :: "u8 list \<Rightarrow> resource_spans list option"
  cd_json_out :: "(int \<times> string) option \<Rightarrow> u8 list"
  cd_proto_out :: "(int \<times> string) option \<Rightarrow> u8 list"

definition maxHTTPBody :: nat where
  "maxHTTPBody = 16 * 1024 * 1024"

definition bytes_of :: "string \<Rightarrow> u8 list" where
  "bytes_of s = map (of_nat \<circ> of_char) s"

definition httpError :: "nat \<Rightarrow> string \<Rightarrow> 'q \<times> recv_stats \<Rightarrow> ('q \<times> recv_stats) \<times> http_response" where
  "httpError code msg s =
     (count_error s, \<lparr>rp_status = code, rp_ContentType = ''text/plain; charset=utf-8'',
                      rp_body = bytes_of (msg @ [CHR 0x0A])\<rparr>)"

text \<open>Reading the body through the size limit; past it the read fails. For a compressed body the
  limit applies to the compressed bytes.\<close>

definition limited :: "u8 list \<Rightarrow> u8 list option" where
  "limited body = (if maxHTTPBody < length body then None else Some body)"

definition read_body :: "codecs \<Rightarrow> http_request \<Rightarrow> string + u8 list" where
  "read_body cd rq =
     (if rq_ContentEncoding rq = ''gzip'' then
        if \<not> cd_gzip_header cd (rq_body rq) then Inl ''could not decompress gzip''
        else case limited (rq_body rq) of
               None \<Rightarrow> Inl ''could not read the body''
             | Some z \<Rightarrow> (case cd_gunzip cd z of
                            None \<Rightarrow> Inl ''could not read the body'' | Some raw \<Rightarrow> Inr raw)
      else case limited (rq_body rq) of
             None \<Rightarrow> Inl ''could not read the body'' | Some raw \<Rightarrow> Inr raw)"

definition handleHTTPTraces ::
  "('q \<Rightarrow> span list \<Rightarrow> ('q \<times> nat) option) \<Rightarrow> (u64 \<Rightarrow> string) \<Rightarrow> codecs \<Rightarrow> 'q \<times> recv_stats \<Rightarrow> http_request
    \<Rightarrow> (('q \<times> recv_stats) \<times> http_response) option" where
  "handleHTTPTraces accept fmt cd s0 rq =
     (let s = count_request s0 in
      case read_body cd rq of
        Inl msg \<Rightarrow> Some (httpError 400 msg s)
      | Inr raw \<Rightarrow>
          let isJSON = (rq_ContentType rq = ''application/json'')
          in case (if isJSON then cd_json cd raw else cd_proto cd raw) of
               None \<Rightarrow> Some (httpError 400 ''could not decode the OTLP body'' s)
             | Some req \<Rightarrow>
                 (case consume accept fmt s req of
                    None \<Rightarrow> None
                  | Some (s1, received, dropped) \<Rightarrow>
                      Some (s1, if isJSON
                        then \<lparr>rp_status = 200, rp_ContentType = ''application/json'',
                              rp_body = cd_json_out cd (partial_success dropped)\<rparr>
                        else \<lparr>rp_status = 200, rp_ContentType = ''application/x-protobuf'',
                              rp_body = cd_proto_out cd (partial_success dropped)\<rparr>)))"

section \<open>Construction and serving\<close>

text \<open>The settings of the two servers that \<open>New\<close> builds. The number of stream workers is the count of
  processors scaled and clamped, cast to 32 bits.\<close>

record recv_config =
  rcv_GRPCAddr :: string
  rcv_HTTPAddr :: string
  rcv_MaxRecvMsgSize :: int

record keepalive =
  ka_MinTime :: int
  ka_PermitWithoutStream :: bool

definition keepalivePolicy :: keepalive where
  "keepalivePolicy = \<lparr>ka_MinTime = 10 * 10 ^ 9, ka_PermitWithoutStream = True\<rparr>"

record receiver =
  rx_MaxRecvMsgSize :: int
  rx_NumStreamWorkers :: "32 word"
  rx_Keepalive :: keepalive
  rx_HTTPAddr :: string
  rx_ReadHeaderTimeout :: int

definition recv_New :: "int \<Rightarrow> recv_config \<Rightarrow> receiver" where
  "recv_New gomaxprocs cfg = \<lparr>rx_MaxRecvMsgSize = default_max_msg (rcv_MaxRecvMsgSize cfg),
     rx_NumStreamWorkers = word_of_int (defaultStreamWorkers gomaxprocs), rx_Keepalive = keepalivePolicy,
     rx_HTTPAddr = rcv_HTTPAddr cfg, rx_ReadHeaderTimeout = 10 * 10 ^ 9\<rparr>"

text \<open>How \<open>Serve\<close> ends: the port cannot be opened, or the first of three things that happen, of which
  the end of the HTTP server by \<open>Shutdown\<close> is no error. \<open>shutdown\<close> is called in all but the first.\<close>

datatype serve_event = ListenFailed string | ServeCancelled | GrpcEnded "string option" | HttpEnded "string option"

definition ErrServerClosed :: string where
  "ErrServerClosed = ''http: Server closed''"

fun Serve :: "serve_event \<Rightarrow> string option \<times> bool" where
  "Serve (ListenFailed e) = (Some e, False)"
| "Serve ServeCancelled = (None, True)"
| "Serve (GrpcEnded r) = (r, True)"
| "Serve (HttpEnded r) = (if r = Some ErrServerClosed then None else r, True)"

section \<open>Accounting\<close>

datatype recv_event = GrpcExport "resource_spans list" | HttpPost http_request

fun recv_step ::
  "('q \<Rightarrow> span list \<Rightarrow> ('q \<times> nat) option) \<Rightarrow> (u64 \<Rightarrow> string) \<Rightarrow> codecs \<Rightarrow> 'q \<times> recv_stats \<Rightarrow> recv_event
    \<Rightarrow> ('q \<times> recv_stats) option" where
  "recv_step accept fmt cd s (GrpcExport req) = map_option fst (Export accept fmt s req)"
| "recv_step accept fmt cd s (HttpPost rq) = map_option fst (handleHTTPTraces accept fmt cd s rq)"

fun recv_run ::
  "('q \<Rightarrow> span list \<Rightarrow> ('q \<times> nat) option) \<Rightarrow> (u64 \<Rightarrow> string) \<Rightarrow> codecs \<Rightarrow> 'q \<times> recv_stats \<Rightarrow> recv_event list
    \<Rightarrow> ('q \<times> recv_stats) option" where
  "recv_run accept fmt cd s [] = Some s"
| "recv_run accept fmt cd s (e # es) =
     (case recv_step accept fmt cd s e of None \<Rightarrow> None | Some s1 \<Rightarrow> recv_run accept fmt cd s1 es)"

definition recv_balance :: "recv_stats \<Rightarrow> u64" where
  "recv_balance st = rvs_SpansReceived st - rvs_SpansDropped st"

lemma count_balance [simp]: "recv_balance (snd (count_request s)) = recv_balance (snd s)"
  "recv_balance (snd (count_error s)) = recv_balance (snd s)"
  "fst (count_request s) = fst s" "fst (count_error s) = fst s"
  by (simp_all add: count_request_def count_error_def recv_balance_def)

lemma httpError_balance [simp]: "fst (fst (httpError code msg s)) = fst s"
  "recv_balance (snd (fst (httpError code msg s))) = recv_balance (snd s)"
  by (simp_all add: httpError_def)

lemma httpError_eq: "httpError code msg s = ((a, b), rp) \<Longrightarrow> a = fst s \<and> recv_balance b = recv_balance (snd s)"
  by (metis httpError_balance fst_conv snd_conv)

context span_consumer
begin

lemma consume_balance:
  assumes "consume accept fmt s req = Some (s1, received, dropped)"
  shows "of_nat (length (held (fst s1))) - recv_balance (snd s1) =
    of_nat (length (held (fst s))) - recv_balance (snd s)"
proof -
  let ?spans = "ConvertTraces fmt req"
  show ?thesis
  proof (cases "?spans = []")
    case True
    with assms show ?thesis by (simp add: consume_def)
  next
    case False
    then obtain q d where a: "accept (fst s) ?spans = Some (q, d)"
      using assms by (auto simp: consume_def Let_def split: option.splits)
    have "(of_nat (length (held q) + d) :: u64) = of_nat (length (held (fst s)) + length ?spans)"
      by (simp only: accept_length [OF a])
    then have "(of_nat (length (held q)) :: u64) + of_nat d = of_nat (length (held (fst s))) + of_nat (length ?spans)"
      by simp
    with False a assms show ?thesis
      by (auto simp: consume_def Let_def recv_balance_def algebra_simps)
  qed
qed

lemma recv_step_balance:
  assumes "recv_step accept fmt cd s e = Some s1"
  shows "of_nat (length (held (fst s1))) - recv_balance (snd s1) =
    of_nat (length (held (fst s))) - recv_balance (snd s)"
proof (cases e)
  case (GrpcExport req)
  with assms show ?thesis
    by (auto simp: Export_def dest: consume_balance split: option.splits)
next
  case (HttpPost rq)
  with assms show ?thesis
    by (auto simp: handleHTTPTraces_def Let_def dest: consume_balance httpError_eq
        split: option.splits sum.splits if_splits)
qed

lemma recv_run_balance:
  "recv_run accept fmt cd s es = Some s1 \<Longrightarrow>
    of_nat (length (held (fst s1))) - recv_balance (snd s1) =
    of_nat (length (held (fst s))) - recv_balance (snd s)"
  by (induction es arbitrary: s) (auto split: option.splits simp: recv_step_balance)

end

section \<open>Properties\<close>

text \<open>Every span the receiver counts as received is in the pipeline's queue or counted as
  dropped: over any sequence of gRPC and HTTP requests, received less dropped grows by exactly
  the spans that entered the queue.\<close>

theorem receiver_accounts_for_spans:
  assumes "recv_run Accept fmt cd (p, st) es = Some (p1, st1)"
  shows "rvs_SpansReceived st1 - rvs_SpansDropped st1 - (rvs_SpansReceived st - rvs_SpansDropped st)
    = of_nat (length (concat (pl_queue p1))) - of_nat (length (concat (pl_queue p)))"
  using accept.recv_run_balance [OF assms] by (simp add: recv_balance_def algebra_simps)

definition example_recv_stats :: recv_stats where
  "example_recv_stats = \<lparr>rvs_SpansReceived = 0, rvs_SpansDropped = 0, rvs_Requests = 0, rvs_Errors = 0\<rparr>"

definition example_codecs :: codecs where
  "example_codecs = \<lparr>cd_gzip_header = (\<lambda>_. False), cd_gunzip = (\<lambda>_. None), cd_json = (\<lambda>_. None),
     cd_proto = (\<lambda>_. Some []), cd_json_out = (\<lambda>_. []), cd_proto_out = (\<lambda>_. [])\<rparr>"

definition example_request :: "resource_spans list" where
  "example_request = [\<lparr>rs_Resource = None, rs_ScopeSpans = [\<lparr>ss_Scope = None, ss_Spans = [example_pb, example_pb]\<rparr>]\<rparr>]"

lemma example_request_spans: "length (ConvertTraces (\<lambda>_. []) example_request) = 2"
  by (simp add: ConvertTraces_def example_request_def convert_scope_def Let_def)

lemma example_accepts: "spans \<noteq> [] \<Longrightarrow> \<exists>p1. Accept example_pipeline spans = Some (p1, 0)"
  by (simp add: Accept_def example_pipeline_simps)

theorem receiver_accounts_for_spans_witness:
  "\<exists>p1 st1. recv_run Accept (\<lambda>_. []) example_codecs (example_pipeline, example_recv_stats)
      [GrpcExport example_request] = Some (p1, st1)
    \<and> rvs_SpansReceived st1 - rvs_SpansDropped st1 = of_nat (length (concat (pl_queue p1)))"
proof -
  let ?spans = "ConvertTraces (\<lambda>_. []) example_request"
  have ne: "?spans \<noteq> []" using example_request_spans by fastforce
  from example_accepts [OF this] obtain p1 where "Accept example_pipeline ?spans = Some (p1, 0)" by blast
  with ne obtain p1 st1 where "recv_run Accept (\<lambda>_. []) example_codecs (example_pipeline, example_recv_stats)
      [GrpcExport example_request] = Some (p1, st1)"
    by (simp add: Export_def consume_def count_request_def Let_def)
  from this receiver_accounts_for_spans [OF this] show ?thesis
    by (auto simp: example_recv_stats_def example_pipeline_def pl_New_def Let_def)
qed

lemma consume_outcome:
  "consume accept fmt s req = Some (s1, received, dropped) \<Longrightarrow>
    rvs_SpansDropped (snd s1) = rvs_SpansDropped (snd s) + of_nat dropped
    \<and> rvs_Requests (snd s1) = rvs_Requests (snd s) \<and> rvs_Errors (snd s1) = rvs_Errors (snd s)
    \<and> received = length (ConvertTraces fmt req)
    \<and> (if ConvertTraces fmt req = [] then dropped = 0 \<and> fst s1 = fst s
       else accept (fst s) (ConvertTraces fmt req) = Some (fst s1, dropped))"
  by (auto simp: consume_def Let_def split: option.splits if_splits)

text \<open>A rejected HTTP request (unreadable, too large, not decodable) answers 400, counts one
  request and one error and leaves the consumer and the span counters alone; any other request
  answers 200 and reports in its partial success exactly the spans that were not accepted.\<close>

theorem http_traces_outcome:
  assumes "handleHTTPTraces accept fmt cd (q, st) rq = Some ((q1, st1), rp)"
  shows "(rp_status rp = 400 \<and> q1 = q
      \<and> st1 = st\<lparr>rvs_Requests := rvs_Requests st + 1, rvs_Errors := rvs_Errors st + 1\<rparr>)
    \<or> (rp_status rp = 200 \<and> rvs_Requests st1 = rvs_Requests st + 1 \<and> rvs_Errors st1 = rvs_Errors st
      \<and> (\<exists>req dropped. rvs_SpansDropped st1 = rvs_SpansDropped st + of_nat dropped
          \<and> (if ConvertTraces fmt req = [] then dropped = 0 \<and> q1 = q
             else accept q (ConvertTraces fmt req) = Some (q1, dropped))
          \<and> rp_body rp \<in> {cd_json_out cd (partial_success dropped), cd_proto_out cd (partial_success dropped)}))"
proof -
  have err: "q1 = q \<and> rp_status rp = 400
      \<and> st1 = st\<lparr>rvs_Requests := rvs_Requests st + 1, rvs_Errors := rvs_Errors st + 1\<rparr>"
    if "httpError 400 msg (count_request (q, st)) = ((q1, st1), rp)" for msg
    using that by (auto simp: httpError_def count_request_def count_error_def)
  show ?thesis
  proof (cases "\<exists>msg. httpError 400 msg (count_request (q, st)) = ((q1, st1), rp)")
    case True
    with err show ?thesis by blast
  next
    case False
    with assms obtain req received dropped where c:
      "consume accept fmt (count_request (q, st)) req = Some ((q1, st1), received, dropped)"
      and r: "rp_status rp = 200"
        "rp_body rp \<in> {cd_json_out cd (partial_success dropped), cd_proto_out cd (partial_success dropped)}"
      by (auto simp: handleHTTPTraces_def Let_def split: option.splits sum.splits if_splits)
    from consume_outcome [OF c] r
    have "rp_status rp = 200 \<and> rvs_Requests st1 = rvs_Requests st + 1 \<and> rvs_Errors st1 = rvs_Errors st
      \<and> rvs_SpansDropped st1 = rvs_SpansDropped st + of_nat dropped
      \<and> (if ConvertTraces fmt req = [] then dropped = 0 \<and> q1 = q
             else accept q (ConvertTraces fmt req) = Some (q1, dropped))
      \<and> rp_body rp \<in> {cd_json_out cd (partial_success dropped), cd_proto_out cd (partial_success dropped)}"
      by (simp add: count_request_def split: if_splits)
    then show ?thesis by blast
  qed
qed

theorem http_traces_outcome_witness:
  "\<exists>st1. handleHTTPTraces Accept (\<lambda>_. []) example_codecs (example_pipeline, example_recv_stats)
      \<lparr>rq_ContentEncoding = ''gzip'', rq_ContentType = [], rq_body = []\<rparr> = Some ((example_pipeline, st1),
        snd (httpError 400 ''could not decompress gzip'' (example_pipeline, example_recv_stats)))
    \<and> rvs_Errors st1 = 1"
proof -
  let ?rq = "\<lparr>rq_ContentEncoding = ''gzip'', rq_ContentType = [], rq_body = []\<rparr>"
  let ?rp = "snd (httpError 400 ''could not decompress gzip'' (example_pipeline, example_recv_stats))"
  obtain st1 where h: "handleHTTPTraces Accept (\<lambda>_. []) example_codecs (example_pipeline, example_recv_stats) ?rq
      = Some ((example_pipeline, st1), ?rp)"
    by (simp add: handleHTTPTraces_def read_body_def example_codecs_def httpError_def count_request_def count_error_def)
  have "rp_status ?rp = 400" by (simp add: httpError_def)
  with http_traces_outcome [OF h] have "rvs_Errors st1 = 1" by (simp add: example_recv_stats_def)
  with h show ?thesis by blast
qed

end
