(* ===== verification/Storage.thy ===== *)
theory Storage
  imports TopologySpec Interfaces
begin

text \<open>
  internal/storage/clickhouse: the write paths of store.go and the statements of schema.go they
  rely on. The ClickHouse driver is third-party code and a parameter: preparing a batch,
  appending a row, sending the batch and executing a statement, over a database state of its
  own. What the store relies on is the predicate \<open>ch_driver_ok\<close>: a sent batch adds its rows to
  the table of its statement, a failed one adds none. A context is represented by whether it is
  cancelled. A statement is identified by its text.
\<close>

section \<open>Columns and rows\<close>

datatype col_type = TTime | TString | TUInt16 | TUInt32 | TUInt64 | TMap | TTimes | TStrings | TMaps | TSeconds

datatype col =
    CTime time | CString string | CUInt16 u16 | CUInt32 u32 | CUInt64 u64
  | CMap "(string, string) gomap" | CTimes "time list" | CStrings "string list"
  | CMaps "(string, string) gomap list" | CSeconds int

fun col_type_of :: "col \<Rightarrow> col_type" where
  "col_type_of (CTime _) = TTime"
| "col_type_of (CString _) = TString"
| "col_type_of (CUInt16 _) = TUInt16"
| "col_type_of (CUInt32 _) = TUInt32"
| "col_type_of (CUInt64 _) = TUInt64"
| "col_type_of (CMap _) = TMap"
| "col_type_of (CTimes _) = TTimes"
| "col_type_of (CStrings _) = TStrings"
| "col_type_of (CMaps _) = TMaps"
| "col_type_of (CSeconds _) = TSeconds"

text \<open>The columns of the tables as the schema declares them: enumerations, low-cardinality and
  plain strings are written as strings.\<close>

definition spans_table :: "(string \<times> col_type) list" where
  "spans_table = [(''timestamp'', TTime), (''trace_id'', TString), (''span_id'', TString),
     (''parent_span_id'', TString), (''trace_state'', TString), (''flags'', TUInt32),
     (''name'', TString), (''kind'', TString), (''duration_ns'', TUInt64), (''status_code'', TString),
     (''status_message'', TString), (''service_name'', TString), (''service_namespace'', TString),
     (''service_version'', TString), (''service_instance'', TString), (''sdk_language'', TString),
     (''k8s_cluster'', TString), (''k8s_namespace'', TString), (''k8s_pod'', TString),
     (''k8s_workload'', TString), (''k8s_node'', TString), (''k8s_container'', TString),
     (''http_method'', TString), (''http_route'', TString), (''http_status_code'', TUInt16),
     (''http_url'', TString), (''db_system'', TString), (''db_name'', TString),
     (''db_statement'', TString), (''rpc_system'', TString), (''rpc_service'', TString),
     (''rpc_method'', TString), (''messaging_system'', TString), (''messaging_dest'', TString),
     (''peer_service'', TString), (''peer_address'', TString), (''peer_port'', TUInt16),
     (''resource_attributes'', TMap), (''span_attributes'', TMap), (''events_timestamp'', TTimes),
     (''events_name'', TStrings), (''events_attributes'', TMaps), (''links_trace_id'', TStrings),
     (''links_span_id'', TStrings)]"

definition edges_table :: "(string \<times> col_type) list" where
  "edges_table = [(''bucket'', TSeconds), (''client'', TString), (''server'', TString),
     (''client_namespace'', TString), (''client_workload'', TString),
     (''server_namespace'', TString), (''server_workload'', TString),
     (''client_node'', TString), (''server_node'', TString), (''conn_type'', TString),
     (''calls'', TUInt64), (''errors'', TUInt64), (''duration_sum_ns'', TUInt64),
     (''duration_max_ns'', TUInt64), (''le_1ms'', TUInt64), (''le_2ms'', TUInt64),
     (''le_5ms'', TUInt64), (''le_10ms'', TUInt64), (''le_25ms'', TUInt64), (''le_50ms'', TUInt64),
     (''le_100ms'', TUInt64), (''le_250ms'', TUInt64), (''le_500ms'', TUInt64),
     (''le_1000ms'', TUInt64), (''le_2500ms'', TUInt64), (''le_5000ms'', TUInt64),
     (''le_10000ms'', TUInt64), (''le_inf'', TUInt64)]"

text \<open>The column lists of the two insert statements.\<close>

definition InsertSpansColumns :: "string list" where
  "InsertSpansColumns = [
     ''timestamp'', ''trace_id'', ''span_id'', ''parent_span_id'', ''trace_state'', ''flags'',
     ''name'', ''kind'', ''duration_ns'', ''status_code'', ''status_message'',
     ''service_name'', ''service_namespace'', ''service_version'', ''service_instance'', ''sdk_language'',
     ''k8s_cluster'', ''k8s_namespace'', ''k8s_pod'', ''k8s_workload'', ''k8s_node'', ''k8s_container'',
     ''http_method'', ''http_route'', ''http_status_code'', ''http_url'',
     ''db_system'', ''db_name'', ''db_statement'',
     ''rpc_system'', ''rpc_service'', ''rpc_method'',
     ''messaging_system'', ''messaging_dest'',
     ''peer_service'', ''peer_address'', ''peer_port'',
     ''resource_attributes'', ''span_attributes'',
     ''events_timestamp'', ''events_name'', ''events_attributes'',
     ''links_trace_id'', ''links_span_id'']"

definition InsertEdgesColumns :: "string list" where
  "InsertEdgesColumns = [
     ''bucket'', ''client'', ''server'',
     ''client_namespace'', ''client_workload'', ''server_namespace'', ''server_workload'',
     ''client_node'', ''server_node'', ''conn_type'',
     ''calls'', ''errors'', ''duration_sum_ns'', ''duration_max_ns'',
     ''le_1ms'', ''le_2ms'', ''le_5ms'', ''le_10ms'', ''le_25ms'', ''le_50ms'', ''le_100ms'',
     ''le_250ms'', ''le_500ms'', ''le_1000ms'', ''le_2500ms'', ''le_5000ms'', ''le_10000ms'', ''le_inf'']"

definition EdgeBucketColumns :: "string list" where
  "EdgeBucketColumns = [''le_1ms'', ''le_2ms'', ''le_5ms'', ''le_10ms'', ''le_25ms'', ''le_50ms'',
     ''le_100ms'', ''le_250ms'', ''le_500ms'', ''le_1000ms'', ''le_2500ms'', ''le_5000ms'',
     ''le_10000ms'', ''le_inf'']"

definition nilSafeMap :: "attrs \<Rightarrow> (string, string) gomap" where
  "nilSafeMap m = (case m of None \<Rightarrow> [] | Some al \<Rightarrow> al)"

definition flattenEvents :: "event list \<Rightarrow> time list \<times> string list \<times> (string, string) gomap list" where
  "flattenEvents evs = (map ev_Timestamp evs, map ev_Name evs, map (nilSafeMap \<circ> ev_Attrs) evs)"

definition flattenLinks :: "link list \<Rightarrow> string list \<times> string list" where
  "flattenLinks lns = (map ln_TraceID lns, map ln_SpanID lns)"

definition span_row :: "span \<Rightarrow> col list" where
  "span_row s =
     (let (evTS, evName, evAttrs) = flattenEvents (sp_Events s);
          (linkTrace, linkSpan) = flattenLinks (sp_Links s)
      in [CTime (sp_Timestamp s), CString (sp_TraceID s), CString (sp_SpanID s),
          CString (sp_ParentSpanID s), CString (sp_TraceState s), CUInt32 (sp_Flags s),
          CString (sp_Name s), CString (SpanKind_String (sp_Kind s)), CUInt64 (sp_DurationNS s),
          CString (StatusCode_String (sp_StatusCode s)), CString (sp_StatusMessage s),
          CString (sp_ServiceName s), CString (sp_ServiceNamespace s), CString (sp_ServiceVersion s),
          CString (sp_ServiceInstance s), CString (sp_SDKLanguage s),
          CString (sp_K8sCluster s), CString (sp_K8sNamespace s), CString (sp_K8sPod s),
          CString (sp_K8sWorkload s), CString (sp_K8sNode s), CString (sp_K8sContainer s),
          CString (sp_HTTPMethod s), CString (sp_HTTPRoute s), CUInt16 (sp_HTTPStatusCode s),
          CString (sp_HTTPURL s), CString (sp_DBSystem s), CString (sp_DBName s),
          CString (sp_DBStatement s), CString (sp_RPCSystem s), CString (sp_RPCService s),
          CString (sp_RPCMethod s), CString (sp_MessagingSystem s), CString (sp_MessagingDest s),
          CString (sp_PeerService s), CString (sp_PeerAddress s), CUInt16 (sp_PeerPort s),
          CMap (nilSafeMap (sp_ResourceAttrs s)), CMap (nilSafeMap (sp_SpanAttrs s)),
          CTimes evTS, CStrings evName, CMaps evAttrs, CStrings linkTrace, CStrings linkSpan])"

definition edge_row :: "edge_sample \<Rightarrow> col list" where
  "edge_row e =
     [CSeconds (es_Bucket e), CString (ek_Client (es_Key e)), CString (ek_Server (es_Key e)),
      CString (ek_ClientNamespace (es_Key e)), CString (ek_ClientWorkload (es_Key e)),
      CString (ek_ServerNamespace (es_Key e)), CString (ek_ServerWorkload (es_Key e)),
      CString (ek_ClientNode (es_Key e)), CString (ek_ServerNode (es_Key e)),
      CString (ConnType_String (ek_ConnType (es_Key e))),
      CUInt64 (es_Calls e), CUInt64 (es_Errors e), CUInt64 (es_DurationSumNS e),
      CUInt64 (es_DurationMaxNS e)] @ map CUInt64 (es_Buckets e)"

section \<open>The store\<close>

record ch_stats =
  ch_SpansWritten :: u64
  ch_EdgesWritten :: u64
  ch_WriteErrors :: u64

record 'db ch_driver =
  dr_prepare :: "bool \<Rightarrow> 'db \<Rightarrow> string \<Rightarrow> string option"
  dr_append :: "'db \<Rightarrow> string \<Rightarrow> col list \<Rightarrow> string option"
  dr_send :: "bool \<Rightarrow> 'db \<Rightarrow> string \<Rightarrow> col list list \<Rightarrow> 'db \<times> string option"
  dr_exec :: "'db \<Rightarrow> string \<Rightarrow> 'db \<times> string option"

type_synonym 'db store = "'db \<times> ch_stats"

text \<open>strings.Replace with a count of one, and strings.ReplaceAll, for a non-empty pattern.\<close>

fun replace_first :: "string \<Rightarrow> string \<Rightarrow> string \<Rightarrow> string" where
  "replace_first [] old new = []"
| "replace_first (c # s) old new =
     (if has_prefix (c # s) old then new @ drop (length old) (c # s) else c # replace_first s old new)"

definition qualifyInsert :: "string \<Rightarrow> string \<Rightarrow> string" where
  "qualifyInsert sql db = replace_first sql ''INSERT INTO '' (''INSERT INTO '' @ db @ ''.'')"

definition insert_sql :: "string \<Rightarrow> string list \<Rightarrow> string" where
  "insert_sql table columns = ''INSERT INTO '' @ table @ '' ('' @ join columns '', '' @ '')''"

definition InsertSpansSQL :: string where
  "InsertSpansSQL = insert_sql ''spans'' InsertSpansColumns"

definition InsertEdgesSQL :: string where
  "InsertEdgesSQL = insert_sql ''service_edges'' InsertEdgesColumns"

definition write_error :: "string \<Rightarrow> 'db store \<Rightarrow> 'db store \<times> string option" where
  "write_error msg st = ((fst st, (snd st)\<lparr>ch_WriteErrors := ch_WriteErrors (snd st) + 1\<rparr>), Some msg)"

fun first_error :: "('a \<Rightarrow> string option) \<Rightarrow> 'a list \<Rightarrow> string option" where
  "first_error f [] = None"
| "first_error f (x # xs) = (case f x of Some e \<Rightarrow> Some e | None \<Rightarrow> first_error f xs)"

text \<open>Both writers prepare a batch, append the rows and send; they differ in the statement, the
  rows, the messages and the counter.\<close>

definition write_batch ::
  "'db ch_driver \<Rightarrow> bool \<Rightarrow> string \<Rightarrow> string \<Rightarrow> col list list \<Rightarrow> 'db store \<Rightarrow> 'db store \<times> string option"
where
  "write_batch drv c sql what rows st =
     (case dr_prepare drv c (fst st) sql of
        Some e \<Rightarrow> write_error (''could not prepare the '' @ what @ '' batch: '' @ e) st
      | None \<Rightarrow>
          (case first_error (dr_append drv (fst st) sql) rows of
             Some e \<Rightarrow> write_error (what @ '' append failed: '' @ e) st
           | None \<Rightarrow>
               (case dr_send drv c (fst st) sql rows of
                  (db1, Some e) \<Rightarrow>
                    write_error (''could not send the '' @ what @ '' batch: '' @ e) (db1, snd st)
                | (db1, None) \<Rightarrow> ((db1, snd st), None))))"

definition ch_Process :: "'db ch_driver \<Rightarrow> string \<Rightarrow> bool \<Rightarrow> 'db store \<Rightarrow> span list \<Rightarrow> 'db store \<times> string option" where
  "ch_Process drv db c st spans =
     (if spans = [] then (st, None)
      else case write_batch drv c (qualifyInsert InsertSpansSQL db) ''span'' (map span_row spans) st of
             (st1, Some e) \<Rightarrow> (st1, Some e)
           | (st1, None) \<Rightarrow>
               ((fst st1, (snd st1)\<lparr>ch_SpansWritten := ch_SpansWritten (snd st1) + of_nat (length spans)\<rparr>), None))"

definition WriteEdges :: "'db ch_driver \<Rightarrow> string \<Rightarrow> bool \<Rightarrow> 'db store \<Rightarrow> edge_sample list \<Rightarrow> 'db store \<times> string option" where
  "WriteEdges drv db c st edges =
     (if edges = [] then (st, None)
      else case write_batch drv c (qualifyInsert InsertEdgesSQL db) ''edge'' (map edge_row edges) st of
             (st1, Some e) \<Rightarrow> (st1, Some e)
           | (st1, None) \<Rightarrow>
               ((fst st1, (snd st1)\<lparr>ch_EdgesWritten := ch_EdgesWritten (snd st1) + of_nat (length edges)\<rparr>), None))"

section \<open>Migration\<close>

function replace_all :: "string \<Rightarrow> string \<Rightarrow> string \<Rightarrow> string" where
  "replace_all s old new =
     (if s = [] then []
      else if old \<noteq> [] \<and> has_prefix s old then new @ replace_all (drop (length old) s) old new
      else hd s # replace_all (tl s) old new)"
  by pat_completeness auto
termination
  by (relation "measure (\<lambda>(s, old, new). length s)") auto

declare replace_all.simps [simp del]

text \<open>strings.NewReplacer: at each position the first pair whose pattern matches, in the order
  of the arguments; patterns are not empty and matches do not overlap.\<close>

fun first_match :: "(string \<times> string) list \<Rightarrow> string \<Rightarrow> (string \<times> string) option" where
  "first_match [] s = None"
| "first_match ((old, new) # ps) s =
     (if old \<noteq> [] \<and> has_prefix s old then Some (old, new) else first_match ps s)"

lemma first_match_nonempty: "first_match ps s = Some (old, new) \<Longrightarrow> old \<noteq> []"
  by (induction ps s rule: first_match.induct) (auto split: if_splits)

function replacer :: "(string \<times> string) list \<Rightarrow> string \<Rightarrow> string" where
  "replacer ps s =
     (if s = [] then []
      else case first_match ps s of
             Some (old, new) \<Rightarrow> new @ replacer ps (drop (length old) s)
           | None \<Rightarrow> hd s # replacer ps (tl s))"
  by pat_completeness auto
termination
  by (relation "measure (\<lambda>(ps, s). length s)") (auto dest: first_match_nonempty)

declare replacer.simps [simp del]

definition qualify :: "string \<Rightarrow> string \<Rightarrow> string" where
  "qualify stmt db = replacer
     [(''CREATE TABLE IF NOT EXISTS '', ''CREATE TABLE IF NOT EXISTS '' @ db @ ''.''),
      (''CREATE MATERIALIZED VIEW IF NOT EXISTS '', ''CREATE MATERIALIZED VIEW IF NOT EXISTS '' @ db @ ''.''),
      ('' TO operation_stats '', '' TO '' @ db @ ''.operation_stats ''),
      ('' TO trace_index '', '' TO '' @ db @ ''.trace_index ''),
      (''FROM spans'', ''FROM '' @ db @ ''.spans'')] stmt"

text \<open>The schema statements are a parameter: a list of texts.\<close>

fun migrate_steps :: "'db ch_driver \<Rightarrow> string \<Rightarrow> string \<Rightarrow> string list \<Rightarrow> 'db \<Rightarrow> nat \<Rightarrow> 'db \<times> (nat \<times> string) option" where
  "migrate_steps drv db ttl [] d i = (d, None)"
| "migrate_steps drv db ttl (stmt # stmts) d i =
     (case dr_exec drv d (qualify (replace_all stmt ''{{TTL_DAYS}}'' ttl) db) of
        (d1, Some e) \<Rightarrow> (d1, Some (i, e))
      | (d1, None) \<Rightarrow> migrate_steps drv db ttl stmts d1 (Suc i))"

definition Migrate :: "'db ch_driver \<Rightarrow> string \<Rightarrow> int \<Rightarrow> string list \<Rightarrow> 'db \<Rightarrow> 'db \<times> string option" where
  "Migrate drv db ttl_days schema d =
     (case dr_exec drv d (''CREATE DATABASE IF NOT EXISTS '' @ db) of
        (d1, Some e) \<Rightarrow> (d1, Some (''could not create the database: '' @ e))
      | (d1, None) \<Rightarrow>
          (case migrate_steps drv db (int_string ttl_days) schema d1 0 of
             (d2, Some (i, e)) \<Rightarrow> (d2, Some (''schema step '' @ nat_string i @ '' failed: '' @ e))
           | (d2, None) \<Rightarrow> (d2, None)))"

section \<open>The request, error and duration view\<close>

text \<open>The materialised view operation_stats_mv: the rows of the spans table grouped by minute,
  service, operation, kind, namespace and workload.\<close>

definition column :: "string \<Rightarrow> col list \<Rightarrow> col" where
  "column name r = the (map_of (zip InsertSpansColumns r) name)"

definition op_key :: "col list \<Rightarrow> int \<times> col list" where
  "op_key r = (case column ''timestamp'' r of CTime t \<Rightarrow> minute_of t | _ \<Rightarrow> 0,
     map (\<lambda>c. column c r) [''service_name'', ''name'', ''kind'', ''k8s_namespace'', ''k8s_workload''])"

definition row_is_error :: "col list \<Rightarrow> bool" where
  "row_is_error r \<longleftrightarrow> column ''status_code'' r = CString ''error''
     \<or> (case column ''http_status_code'' r of CUInt16 n \<Rightarrow> 500 \<le> n | _ \<Rightarrow> False)"

definition row_duration :: "col list \<Rightarrow> u64" where
  "row_duration r = (case column ''duration_ns'' r of CUInt64 n \<Rightarrow> n | _ \<Rightarrow> 0)"

record op_stat =
  os_calls :: nat
  os_errors :: nat
  os_duration_sum_ns :: u64
  os_duration_max_ns :: u64

definition operation_stats_mv :: "col list list \<Rightarrow> int \<times> col list \<Rightarrow> op_stat" where
  "operation_stats_mv rs key =
     (let g = filter (\<lambda>r. op_key r = key) rs
      in \<lparr>os_calls = length g, os_errors = length (filter row_is_error g),
          os_duration_sum_ns = sum_list (map row_duration g),
          os_duration_max_ns = max_dur (map row_duration g)\<rparr>)"

section \<open>The contract of the driver\<close>

text \<open>\<open>rows\<close> gives the rows an insert statement has stored.\<close>

definition ch_driver_ok :: "'db ch_driver \<Rightarrow> ('db \<Rightarrow> string \<Rightarrow> col list list) \<Rightarrow> bool" where
  "ch_driver_ok drv rows \<longleftrightarrow>
     (\<forall>c db sql rs. case dr_send drv c db sql rs of
        (db1, None) \<Rightarrow> rows db1 = (rows db)(sql := rows db sql @ rs)
      | (db1, Some e) \<Rightarrow> rows db1 = rows db)"

lemma ch_driver_okD:
  assumes "ch_driver_ok drv rows"
  shows "case dr_send drv c db sql rs of
      (db1, None) \<Rightarrow> rows db1 = (rows db)(sql := rows db sql @ rs)
    | (db1, Some e) \<Rightarrow> rows db1 = rows db"
  by (rule assms [unfolded ch_driver_ok_def, rule_format])

lemma send_ok: "ch_driver_ok drv rows \<Longrightarrow> dr_send drv c db sql rs = (db1, None) \<Longrightarrow>
    rows db1 = (rows db)(sql := rows db sql @ rs)"
  using ch_driver_okD [where drv = drv and c = c and db = db and sql = sql and rs = rs] by fastforce

lemma send_err: "ch_driver_ok drv rows \<Longrightarrow> dr_send drv c db sql rs = (db1, Some e) \<Longrightarrow> rows db1 = rows db"
  using ch_driver_okD [where drv = drv and c = c and db = db and sql = sql and rs = rs] by fastforce

lemma write_batch_ok:
  assumes "ch_driver_ok drv rows" "write_batch drv c sql what rs st = (st1, None)"
  shows "rows (fst st1) = (rows (fst st))(sql := rows (fst st) sql @ rs) \<and> snd st1 = snd st"
  using assms(2) send_ok [OF assms(1)]
  by (auto simp: write_batch_def write_error_def split: option.splits prod.splits)

lemma write_batch_err:
  assumes "ch_driver_ok drv rows" "write_batch drv c sql what rs st = (st1, Some e)"
  shows "rows (fst st1) = rows (fst st)
    \<and> snd st1 = (snd st)\<lparr>ch_WriteErrors := ch_WriteErrors (snd st) + 1\<rparr>"
  using assms(2) send_err [OF assms(1)]
  by (auto simp: write_batch_def write_error_def split: option.splits prod.splits)

text \<open>The two tables of a store.\<close>

definition span_rows :: "('db \<Rightarrow> string \<Rightarrow> col list list) \<Rightarrow> string \<Rightarrow> 'db store \<Rightarrow> col list list" where
  "span_rows rows db st = rows (fst st) (qualifyInsert InsertSpansSQL db)"

definition edge_rows :: "('db \<Rightarrow> string \<Rightarrow> col list list) \<Rightarrow> string \<Rightarrow> 'db store \<Rightarrow> col list list" where
  "edge_rows rows db st = rows (fst st) (qualifyInsert InsertEdgesSQL db)"

lemma Process_processor:
  assumes "ch_driver_ok drv rows"
  shows "span_processor (ch_Process drv db) (span_rows rows db) span_row"
proof
  show "span_rows rows db st1 = span_rows rows db st @ map span_row spans"
    if "ch_Process drv db c st spans = (st1, None)" for c st spans st1
    using that by (auto simp: ch_Process_def span_rows_def split: if_splits prod.splits option.splits
        dest!: write_batch_ok [OF assms])
  show "span_rows rows db st1 = span_rows rows db st"
    if "ch_Process drv db c st spans = (st1, Some err)" for c st spans st1 err
    using that by (auto simp: ch_Process_def span_rows_def split: if_splits prod.splits option.splits
        dest!: write_batch_err [OF assms])
qed

text \<open>An edge read back from its row.\<close>

definition conn_of_string :: "string \<Rightarrow> conn_type" where
  "conn_of_string s =
     (if s = ''database'' then ConnDatabase else if s = ''messaging'' then ConnMessaging
      else if s = ''external'' then ConnExternal else if s = ''entry'' then ConnEntry else ConnService)"

fun col_string :: "col \<Rightarrow> string" where
  "col_string (CString s) = s" | "col_string _ = []"

fun col_u64 :: "col \<Rightarrow> u64" where
  "col_u64 (CUInt64 n) = n" | "col_u64 _ = 0"

fun col_seconds :: "col \<Rightarrow> int" where
  "col_seconds (CSeconds n) = n" | "col_seconds _ = 0"

definition edge_of_row :: "col list \<Rightarrow> edge_sample" where
  "edge_of_row r = \<lparr>es_Bucket = col_seconds (r ! 0),
     es_Key = \<lparr>ek_Client = col_string (r ! 1), ek_Server = col_string (r ! 2),
       ek_ClientNamespace = col_string (r ! 3), ek_ClientWorkload = col_string (r ! 4),
       ek_ServerNamespace = col_string (r ! 5), ek_ServerWorkload = col_string (r ! 6),
       ek_ClientNode = col_string (r ! 7), ek_ServerNode = col_string (r ! 8),
       ek_ConnType = conn_of_string (col_string (r ! 9))\<rparr>,
     es_Calls = col_u64 (r ! 10), es_Errors = col_u64 (r ! 11), es_DurationSumNS = col_u64 (r ! 12),
     es_DurationMaxNS = col_u64 (r ! 13), es_Buckets = map col_u64 (drop 14 r)\<rparr>"

lemma conn_roundtrip: "conn_of_string (ConnType_String c) = c"
  by (cases c) (simp_all add: conn_of_string_def)

lemma edge_of_row_edge_row: "edge_of_row (edge_row e) = e"
  by (simp add: edge_of_row_def edge_row_def conn_roundtrip comp_def)

lemma WriteEdges_sink:
  assumes "ch_driver_ok drv rows"
  shows "edge_sink (WriteEdges drv db c) (\<lambda>st. map edge_of_row (edge_rows rows db st))"
proof
  show "map edge_of_row (edge_rows rows db st1) = map edge_of_row (edge_rows rows db st) @ es"
    if "WriteEdges drv db c st es = (st1, None)" for st es st1
    using that by (auto simp: WriteEdges_def edge_rows_def edge_of_row_edge_row comp_def
        split: if_splits prod.splits option.splits dest!: write_batch_ok [OF assms])
  show "map edge_of_row (edge_rows rows db st1) = map edge_of_row (edge_rows rows db st)"
    if "WriteEdges drv db c st es = (st1, Some err)" for st es st1 err
    using that by (auto simp: WriteEdges_def edge_rows_def
        split: if_splits prod.splits option.splits dest!: write_batch_err [OF assms])
qed

section \<open>A driver in memory\<close>

text \<open>Statements with their rows; a cancelled context is refused when a batch is prepared.\<close>

type_synonym mem_db = "(string \<times> col list) list"

definition mem_rows :: "mem_db \<Rightarrow> string \<Rightarrow> col list list" where
  "mem_rows db sql = map snd (filter (\<lambda>r. fst r = sql) db)"

definition mem_driver :: "mem_db ch_driver" where
  "mem_driver = \<lparr>dr_prepare = (\<lambda>c db sql. if c then Some ''context canceled'' else None),
     dr_append = (\<lambda>db sql r. None),
     dr_send = (\<lambda>c db sql rs. (db @ map (Pair sql) rs, None)),
     dr_exec = (\<lambda>db sql. (db, None))\<rparr>"

lemma mem_driver_ok: "ch_driver_ok mem_driver mem_rows"
  by (auto simp: ch_driver_ok_def mem_driver_def mem_rows_def fun_eq_iff filter_map comp_def)

lemma first_error_none: "first_error (\<lambda>x. None) xs = None"
  by (induction xs) simp_all

interpretation mem_spans: span_processor "ch_Process mem_driver db" "span_rows mem_rows db" span_row for db
  by (rule Process_processor [OF mem_driver_ok])

interpretation mem_edges: edge_sink "WriteEdges mem_driver db c" "\<lambda>st. map edge_of_row (edge_rows mem_rows db st)" for db c
  by (rule WriteEdges_sink [OF mem_driver_ok])

definition empty_store :: "mem_db store" where
  "empty_store = ([], \<lparr>ch_SpansWritten = 0, ch_EdgesWritten = 0, ch_WriteErrors = 0\<rparr>)"

section \<open>Properties\<close>


definition example_edge :: edge_sample where
  "example_edge = new_sample 0 \<lparr>ek_Client = ''shop'', ek_Server = ''ledger'', ek_ClientNamespace = [],
     ek_ClientWorkload = [], ek_ServerNamespace = [], ek_ServerWorkload = [], ek_ClientNode = [],
     ek_ServerNode = [], ek_ConnType = ConnService\<rparr>"


text \<open>A write is all or nothing: with no error every span of the batch is a row of the table
  and is counted, with an error no row is stored, one write error is counted, and the error is
  returned.\<close>

theorem span_write_all_or_nothing:
  assumes "ch_driver_ok drv rows" "ch_Process drv db c st spans = (st1, r)" "spans \<noteq> []"
  shows "case r of
      None \<Rightarrow> span_rows rows db st1 = span_rows rows db st @ map span_row spans
        \<and> ch_SpansWritten (snd st1) = ch_SpansWritten (snd st) + of_nat (length spans)
        \<and> ch_WriteErrors (snd st1) = ch_WriteErrors (snd st)
    | Some e \<Rightarrow> span_rows rows db st1 = span_rows rows db st
        \<and> ch_SpansWritten (snd st1) = ch_SpansWritten (snd st)
        \<and> ch_WriteErrors (snd st1) = ch_WriteErrors (snd st) + 1"
  using assms(2,3)
  by (auto simp: ch_Process_def span_rows_def split: prod.splits option.splits
      dest!: write_batch_ok [OF assms(1)] write_batch_err [OF assms(1)])

theorem span_write_all_or_nothing_witness:
  "span_rows mem_rows ''nabiz'' (fst (ch_Process mem_driver ''nabiz'' False empty_store [zero_span])) = [span_row zero_span]
   \<and> span_rows mem_rows ''nabiz'' (fst (ch_Process mem_driver ''nabiz'' True empty_store [zero_span])) = []"
proof -
  have ok: "snd (ch_Process mem_driver ''nabiz'' False empty_store [zero_span]) = None"
    and er: "snd (ch_Process mem_driver ''nabiz'' True empty_store [zero_span]) \<noteq> None"
    by (simp_all add: ch_Process_def write_batch_def write_error_def mem_driver_def empty_store_def)
  have "span_rows mem_rows ''nabiz'' empty_store = []"
    by (simp add: span_rows_def empty_store_def mem_rows_def)
  then show ?thesis
    using ok er span_write_all_or_nothing [OF mem_driver_ok, of "''nabiz''" False empty_store "[zero_span]"
        "fst (ch_Process mem_driver ''nabiz'' False empty_store [zero_span])" None]
      span_write_all_or_nothing [OF mem_driver_ok, of "''nabiz''" True empty_store "[zero_span]"
        "fst (ch_Process mem_driver ''nabiz'' True empty_store [zero_span])"
        "snd (ch_Process mem_driver ''nabiz'' True empty_store [zero_span])"]
    by (auto simp: prod_eq_iff split: option.splits)
qed

text \<open>An edge is recovered from its row: no field of an edge is lost or mixed up on the way
  into the table.\<close>

theorem edge_row_roundtrip: "edge_of_row (edge_row e) = e"
  by (rule edge_of_row_edge_row)

text \<open>Calls are conserved from the spans to the table: as long as the writes succeed, the
  calls of the stored edges and of the edges not yet flushed are exactly the pairs, the inferred
  peers and the entry points counted, whatever the order of spans, rotations and flushes.\<close>

theorem calls_reach_storage:
  assumes "ch_driver_ok drv rows" "is_order orda" "New cfg = Some b" "edge_rows rows db st = []"
    and "\<And>st es. snd (WriteEdges drv db False st es) = None"
    and "foldl (topo_step hash (WriteEdges drv db False) ordp orda) (st, b) evs = (st1, b1)"
  shows "total_calls (map edge_of_row (edge_rows rows db st1)) + total_calls (map snd (tb_agg b1))
    = ts_Paired (tb_stats b1) + ts_InferredPeers (tb_stats b1) + ts_EntryPoints (tb_stats b1)"
proof -
  note sink = WriteEdges_sink [OF assms(1), of db False]
  have "balance b = 0"
    using assms(3) by (auto simp: New_def Let_def balance_def total_calls_def accounted_def zero_stats_def
        split: option.splits)
  then have "total_calls (map edge_of_row (edge_rows rows db st1)) + balance b1 = 0"
    using edge_sink.run_balance [OF sink assms(2,5), of hash ordp st b evs] assms(4,6)
    by (simp add: total_calls_def)
  then show ?thesis by (simp add: balance_def accounted_def algebra_simps eq_neg_iff_add_eq_0)
qed


theorem calls_reach_storage_witness:
  "\<exists>b. New DefaultConfig = Some b \<and>
     (case foldl (topo_step (\<lambda>_. 0) (WriteEdges mem_driver ''nabiz'' False) rev rev) (empty_store, b)
        [Observe 0 (zero_span\<lparr>sp_Kind := KindServer\<rparr>), Flush, Rotate (\<lambda>_. 1)] of (st1, b1) \<Rightarrow>
      total_calls (map edge_of_row (edge_rows mem_rows ''nabiz'' st1)) + total_calls (map snd (tb_agg b1))
        = ts_Paired (tb_stats b1) + ts_InferredPeers (tb_stats b1) + ts_EntryPoints (tb_stats b1))"
proof -
  have "tc_Shards DefaultConfig \<le> 2 ^ 62" by (simp add: DefaultConfig_def)
  from New_some [OF this] obtain b where b: "New DefaultConfig = Some b" by auto
  let ?wr = "WriteEdges mem_driver ''nabiz'' False"
  obtain st1 b1 where r: "foldl (topo_step (\<lambda>_. 0) ?wr rev rev) (empty_store, b)
      [Observe 0 (zero_span\<lparr>sp_Kind := KindServer\<rparr>), Flush, Rotate (\<lambda>_. 1)] = (st1, b1)" by fastforce
  have never: "snd (?wr st es) = None" for st es
    by (simp add: WriteEdges_def write_batch_def mem_driver_def first_error_none)
  have none: "edge_rows mem_rows ''nabiz'' empty_store = []"
    by (simp add: edge_rows_def empty_store_def mem_rows_def)
  from calls_reach_storage [OF mem_driver_ok is_order_rev b none never r] b r show ?thesis
    by simp
qed

lemma span_row_columns:
  "column ''status_code'' (span_row s) = CString (StatusCode_String (sp_StatusCode s))"
  "column ''http_status_code'' (span_row s) = CUInt16 (sp_HTTPStatusCode s)"
  "column ''duration_ns'' (span_row s) = CUInt64 (sp_DurationNS s)"
  by (simp_all add: column_def span_row_def InsertSpansColumns_def flattenEvents_def flattenLinks_def)

lemma row_is_error_iff: "row_is_error (span_row s) = IsError s"
  by (auto simp: row_is_error_def span_row_columns IsError_def StatusCode_String_def status_defs)

text \<open>The stored request metrics agree with the program's own notion of an error: the view
  over the stored rows counts as errors exactly the spans the topology counts as errors, and as
  calls every span of the group.\<close>

theorem red_metrics_agree:
  "operation_stats_mv (map span_row spans) key =
     (let g = filter (\<lambda>s. op_key (span_row s) = key) spans
      in \<lparr>os_calls = length g, os_errors = length (filter IsError g),
          os_duration_sum_ns = sum_list (map sp_DurationNS g),
          os_duration_max_ns = max_dur (map sp_DurationNS g)\<rparr>)"
proof -
  have "row_is_error \<circ> span_row = IsError" by (simp add: row_is_error_iff fun_eq_iff)
  moreover have "row_duration \<circ> span_row = sp_DurationNS"
    by (simp add: row_duration_def span_row_columns fun_eq_iff)
  ultimately show ?thesis
    by (simp add: operation_stats_mv_def Let_def filter_map comp_def)
qed

end
