(* ===== verification/Identity.thy ===== *)
theory Identity
  imports Span
begin

text \<open>
  internal/identity: model.go, schema.go and store.go, the control plane of users, role groups,
  projects and sessions. The PostgreSQL tables are lists of rows; each SQL statement of the
  source is the change of the tables it describes, with the constraints of schema.go: primary
  and unique keys, foreign keys with their delete rules. An operation gets the outcome of its
  statements from \<open>flt\<close>: \<open>flt n\<close> says that its n-th round trip to the database fails, before any
  effect. The database's \<open>lower\<close>, bcrypt, SHA-256, the fresh identifiers and random tokens, the
  clock and the collation orders are parameters. Identifiers are canonical UUID texts; the
  driver rejects any other text before a statement runs, which is a failing round trip.
\<close>

section \<open>Permissions\<close>

type_synonym permission = string

definition PermTopologyRead :: permission where "PermTopologyRead = ''topology.read''"
definition PermServicesRead :: permission where "PermServicesRead = ''services.read''"
definition PermTracesRead :: permission where "PermTracesRead = ''traces.read''"
definition PermProjectManage :: permission where "PermProjectManage = ''project.manage''"
definition PermDiagnostics :: permission where "PermDiagnostics = ''diagnostics.manage''"
definition PermAdmin :: permission where "PermAdmin = ''admin.manage''"

lemmas perm_defs = PermTopologyRead_def PermServicesRead_def PermTracesRead_def
  PermProjectManage_def PermDiagnostics_def PermAdmin_def

definition AllPermissions :: "permission list" where
  "AllPermissions = [PermTopologyRead, PermServicesRead, PermTracesRead, PermProjectManage,
     PermDiagnostics, PermAdmin]"

definition ValidPermission :: "permission \<Rightarrow> bool" where
  "ValidPermission p \<longleftrightarrow> list_ex (\<lambda>known. known = p) AllPermissions"

definition toPermissions :: "string list \<Rightarrow> permission list" where
  "toPermissions raw = filter ValidPermission raw"

definition fromPermissions :: "permission list \<Rightarrow> string list" where
  "fromPermissions perms = foldl (\<lambda>out p. if ValidPermission p \<and> p \<notin> set out then out @ [p] else out) [] perms"

section \<open>Rows and tables\<close>

record user_row =
  us_id :: string
  us_email :: string
  us_name :: string
  us_password_hash :: string
  us_is_super_admin :: bool
  us_is_active :: bool
  us_created_at :: time
  us_updated_at :: time
  us_last_login_at :: "time option"

record group_row =
  gr_id :: string
  gr_name :: string
  gr_description :: string
  gr_permissions :: "string list"
  gr_created_at :: time

record project_row =
  pj_id :: string
  pj_key :: string
  pj_name :: string
  pj_description :: string
  pj_created_at :: time

record session_row =
  se_token_hash :: string
  se_user_id :: string
  se_created_at :: time
  se_expires_at :: time
  se_user_agent :: string

record diag_row =
  dg_project_id :: string
  dg_token_sealed :: string
  dg_updated_at :: time
  dg_updated_by :: string

record agent_row =
  ag_id :: string
  ag_service_name :: string
  ag_instance_id :: string
  ag_hostname :: string
  ag_k8s_pod :: string
  ag_k8s_namespace :: string
  ag_pid :: int
  ag_agent_version :: string
  ag_source_ip :: string
  ag_advertised_host :: string
  ag_diag_port :: int
  ag_diag_path :: string
  ag_diag_ready :: bool
  ag_verified :: bool
  ag_project_id :: "string option"
  ag_first_seen :: time
  ag_last_seen :: time

record artifact_row =
  da_id :: string
  da_instance_id :: "string option"
  da_service_name :: string
  da_kind :: string
  da_filename :: string
  da_bytes :: int
  da_status :: string
  da_error :: string
  da_created_by :: string
  da_created_at :: time

record idb =
  db_users :: "user_row list"
  db_role_groups :: "group_row list"
  db_user_role_groups :: "(string \<times> string) list" \<comment> \<open>user, group\<close>
  db_projects :: "project_row list"
  db_project_applications :: "(string \<times> string) list" \<comment> \<open>project, service\<close>
  db_project_role_groups :: "(string \<times> string) list" \<comment> \<open>project, group\<close>
  db_project_diagnostics :: "diag_row list"
  db_agents :: "agent_row list"
  db_artifacts :: "artifact_row list"
  db_sessions :: "session_row list"

definition empty_idb :: idb where
  "empty_idb = \<lparr>db_users = [], db_role_groups = [], db_user_role_groups = [], db_projects = [],
     db_project_applications = [], db_project_role_groups = [], db_project_diagnostics = [],
     db_agents = [], db_artifacts = [], db_sessions = []\<rparr>"

datatype id_error = ErrNotFound | ErrDuplicate | ErrBadCredential | ErrInactive | ErrLastAdmin
  | ErrTokenMismatch | ErrNoSecretKey | ErrText string | ErrDb

type_synonym 'a res = "(id_error + 'a) \<times> idb"
type_synonym faults = "nat \<Rightarrow> bool"

text \<open>What the operations call outside the tables.\<close>

record id_env =
  en_lower :: "string \<Rightarrow> string"
  en_bcrypt :: "string \<Rightarrow> string option"
  en_check :: "string \<Rightarrow> string \<Rightarrow> bool"
  en_sha256 :: "string \<Rightarrow> u8 list"

definition find_user :: "idb \<Rightarrow> string \<Rightarrow> user_row option" where
  "find_user db uid = find (\<lambda>u. us_id u = uid) (db_users db)"

definition has_id :: "('r \<Rightarrow> string) \<Rightarrow> 'r list \<Rightarrow> string \<Rightarrow> bool" where
  "has_id idf rs k = (k \<in> set (map idf rs))"

text \<open>A statement that a fault stops changes nothing; \<open>scanUser\<close> of an empty result is
  \<open>ErrNotFound\<close>.\<close>

definition scanUser :: "user_row option \<Rightarrow> id_error + user_row" where
  "scanUser r = (case r of None \<Rightarrow> Inl ErrNotFound | Some u \<Rightarrow> Inr u)"

section \<open>Users\<close>

definition GetUser :: "faults \<Rightarrow> idb \<Rightarrow> string \<Rightarrow> user_row res" where
  "GetUser flt db uid = (if flt 0 then Inl ErrDb else scanUser (find_user db uid), db)"

definition CreateUser ::
  "id_env \<Rightarrow> faults \<Rightarrow> string \<Rightarrow> time \<Rightarrow> idb \<Rightarrow> string \<Rightarrow> string \<Rightarrow> string \<Rightarrow> bool \<Rightarrow> user_row res" where
  "CreateUser env flt nid now db email0 name password superAdmin =
     (let email = trim_space email0 in
      if email = [] then (Inl (ErrText ''email is required''), db)
      else if length password < 8 then
        (Inl (ErrText ''password must be at least 8 characters''), db)
      else case en_bcrypt env password of
        None \<Rightarrow> (Inl (ErrText ''bcrypt''), db)
      | Some hash \<Rightarrow>
          if flt 0 then (Inl ErrDb, db)
          else if has_id us_id (db_users db) nid
            \<or> has_id (en_lower env \<circ> us_email) (db_users db) (en_lower env email)
          then (Inl ErrDuplicate, db)
          else
            let u = \<lparr>us_id = nid, us_email = email, us_name = trim_space name, us_password_hash = hash,
                     us_is_super_admin = superAdmin, us_is_active = True, us_created_at = now,
                     us_updated_at = now, us_last_login_at = None\<rparr>
            in (Inr u, db\<lparr>db_users := db_users db @ [u]\<rparr>))"

definition is_active_admin :: "user_row \<Rightarrow> bool" where
  "is_active_admin u \<longleftrightarrow> us_is_super_admin u \<and> us_is_active u"

definition isLastActiveAdmin :: "faults \<Rightarrow> idb \<Rightarrow> string \<Rightarrow> id_error + bool" where
  "isLastActiveAdmin flt db uid =
     (if flt 0 then Inl ErrDb
      else case find_user db uid of
        None \<Rightarrow> Inr False
      | Some u \<Rightarrow>
          if \<not> is_active_admin u then Inr False
          else if flt 1 then Inl ErrDb
          else Inr (length (filter (\<lambda>v. is_active_admin v \<and> us_id v \<noteq> uid) (db_users db)) = 0))"

definition set_user :: "time \<Rightarrow> string \<Rightarrow> string \<Rightarrow> bool \<Rightarrow> bool \<Rightarrow> user_row \<Rightarrow> user_row" where
  "set_user now uid name isActive isSuperAdmin u =
     (if us_id u = uid then u\<lparr>us_name := trim_space name, us_is_active := isActive,
        us_is_super_admin := isSuperAdmin, us_updated_at := now\<rparr> else u)"

text \<open>The guard of \<open>UpdateUser\<close> and its statement; the two are separate round trips.\<close>

definition update_guard :: "faults \<Rightarrow> idb \<Rightarrow> string \<Rightarrow> bool \<Rightarrow> bool \<Rightarrow> id_error option" where
  "update_guard flt db uid isActive isSuperAdmin =
     (if \<not> isSuperAdmin \<or> \<not> isActive then
        (case isLastActiveAdmin flt db uid of
           Inl e \<Rightarrow> Some e | Inr l \<Rightarrow> if l then Some ErrLastAdmin else None)
      else None)"

definition update_statement :: "faults \<Rightarrow> time \<Rightarrow> idb \<Rightarrow> string \<Rightarrow> string \<Rightarrow> bool \<Rightarrow> bool \<Rightarrow> user_row res" where
  "update_statement flt now db uid name isActive isSuperAdmin =
     (if flt 2 then (Inl ErrDb, db)
      else let db1 = db\<lparr>db_users := map (set_user now uid name isActive isSuperAdmin) (db_users db)\<rparr>
           in (scanUser (find_user db1 uid), db1))"

definition UpdateUser :: "faults \<Rightarrow> time \<Rightarrow> idb \<Rightarrow> string \<Rightarrow> string \<Rightarrow> bool \<Rightarrow> bool \<Rightarrow> user_row res" where
  "UpdateUser flt now db uid name isActive isSuperAdmin =
     (case update_guard flt db uid isActive isSuperAdmin of
        Some e \<Rightarrow> (Inl e, db)
      | None \<Rightarrow> update_statement flt now db uid name isActive isSuperAdmin)"

definition SetPassword :: "id_env \<Rightarrow> faults \<Rightarrow> time \<Rightarrow> idb \<Rightarrow> string \<Rightarrow> string \<Rightarrow> unit res" where
  "SetPassword env flt now db uid password =
     (if length password < 8 then (Inl (ErrText ''password must be at least 8 characters''), db)
      else case en_bcrypt env password of
        None \<Rightarrow> (Inl (ErrText ''bcrypt''), db)
      | Some hash \<Rightarrow>
          if flt 0 then (Inl ErrDb, db)
          else if \<not> has_id us_id (db_users db) uid then (Inl ErrNotFound, db)
          else
            let db1 = db\<lparr>db_users := map (\<lambda>u. if us_id u = uid
                        then u\<lparr>us_password_hash := hash, us_updated_at := now\<rparr> else u) (db_users db)\<rparr>
            in if flt 1 then (Inl ErrDb, db1)
               else (Inr (), db1\<lparr>db_sessions := filter (\<lambda>s. se_user_id s \<noteq> uid) (db_sessions db1)\<rparr>))"

text \<open>Deleting a user cascades to the memberships and the sessions.\<close>

definition delete_user_rows :: "idb \<Rightarrow> string \<Rightarrow> idb" where
  "delete_user_rows db uid = db\<lparr>db_users := filter (\<lambda>u. us_id u \<noteq> uid) (db_users db),
     db_user_role_groups := filter (\<lambda>(u, g). u \<noteq> uid) (db_user_role_groups db),
     db_sessions := filter (\<lambda>s. se_user_id s \<noteq> uid) (db_sessions db)\<rparr>"

definition DeleteUser :: "faults \<Rightarrow> idb \<Rightarrow> string \<Rightarrow> unit res" where
  "DeleteUser flt db uid =
     (case isLastActiveAdmin flt db uid of
        Inl e \<Rightarrow> (Inl e, db)
      | Inr True \<Rightarrow> (Inl ErrLastAdmin, db)
      | Inr False \<Rightarrow>
          if flt 2 then (Inl ErrDb, db)
          else if \<not> has_id us_id (db_users db) uid then (Inl ErrNotFound, db)
          else (Inr (), delete_user_rows db uid))"

text \<open>\<open>inTx\<close>: begin, the body, commit; an error of any of them leaves the tables as they were.\<close>

definition inTx :: "faults \<Rightarrow> idb \<Rightarrow> (idb \<Rightarrow> id_error option \<times> idb) \<Rightarrow> unit res" where
  "inTx flt db body =
     (if flt 0 then (Inl ErrDb, db)
      else case body db of
        (Some e, _) \<Rightarrow> (Inl e, db)
      | (None, db1) \<Rightarrow> if flt 1 then (Inl ErrDb, db) else (Inr (), db1))"

text \<open>Inserting the pairs of one owner, \<open>ON CONFLICT DO NOTHING\<close>, under foreign keys on both
  sides: a pair that exists is skipped, a violated key fails the transaction.\<close>

fun insert_pairs :: "faults \<Rightarrow> nat \<Rightarrow> (string \<Rightarrow> bool) \<Rightarrow> string \<Rightarrow> string list \<Rightarrow> (string \<times> string) list
    \<Rightarrow> id_error option \<times> (string \<times> string) list" where
  "insert_pairs flt n fk owner [] rs = (None, rs)"
| "insert_pairs flt n fk owner (x # xs) rs =
     (if flt n then (Some ErrDb, rs)
      else if (owner, x) \<in> set rs then insert_pairs flt (Suc n) fk owner xs rs
      else if \<not> fk x then (Some ErrDb, rs)
      else insert_pairs flt (Suc n) fk owner xs (rs @ [(owner, x)]))"

definition SetUserRoleGroups :: "faults \<Rightarrow> idb \<Rightarrow> string \<Rightarrow> string list \<Rightarrow> unit res" where
  "SetUserRoleGroups flt db uid groupIDs =
     inTx flt db (\<lambda>db0.
       if flt 2 then (Some ErrDb, db0)
       else case insert_pairs flt 3 (\<lambda>g. has_id us_id (db_users db0) uid \<and> has_id gr_id (db_role_groups db0) g)
                   uid groupIDs (filter (\<lambda>(u, g). u \<noteq> uid) (db_user_role_groups db0)) of
              (e, rs) \<Rightarrow> (e, db0\<lparr>db_user_role_groups := rs\<rparr>))"

section \<open>Role groups\<close>

definition scan_group :: "group_row option \<Rightarrow> id_error + group_row" where
  "scan_group r = (case r of None \<Rightarrow> Inl ErrNotFound
     | Some g \<Rightarrow> Inr (g\<lparr>gr_permissions := toPermissions (gr_permissions g)\<rparr>))"

definition CreateRoleGroup ::
  "id_env \<Rightarrow> faults \<Rightarrow> string \<Rightarrow> time \<Rightarrow> idb \<Rightarrow> string \<Rightarrow> string \<Rightarrow> permission list \<Rightarrow> group_row res" where
  "CreateRoleGroup env flt nid now db name0 description perms =
     (let name = trim_space name0 in
      if name = [] then (Inl (ErrText ''group name is required''), db)
      else if flt 0 then (Inl ErrDb, db)
      else if has_id gr_id (db_role_groups db) nid
        \<or> has_id (en_lower env \<circ> gr_name) (db_role_groups db) (en_lower env name)
      then (Inl ErrDuplicate, db)
      else
        let g = \<lparr>gr_id = nid, gr_name = name, gr_description = trim_space description,
                 gr_permissions = fromPermissions perms, gr_created_at = now\<rparr>
        in (scan_group (Some g), db\<lparr>db_role_groups := db_role_groups db @ [g]\<rparr>))"

definition UpdateRoleGroup ::
  "id_env \<Rightarrow> faults \<Rightarrow> idb \<Rightarrow> string \<Rightarrow> string \<Rightarrow> string \<Rightarrow> permission list \<Rightarrow> group_row res" where
  "UpdateRoleGroup env flt db gid name description perms =
     (if flt 0 then (Inl ErrDb, db)
      else if \<not> has_id gr_id (db_role_groups db) gid then (Inl ErrNotFound, db)
      else if has_id (en_lower env \<circ> gr_name) (filter (\<lambda>g. gr_id g \<noteq> gid) (db_role_groups db))
                (en_lower env (trim_space name))
      then (Inl ErrDuplicate, db)
      else
        let db1 = db\<lparr>db_role_groups := map (\<lambda>g. if gr_id g = gid
                    then g\<lparr>gr_name := trim_space name, gr_description := trim_space description,
                           gr_permissions := fromPermissions perms\<rparr> else g) (db_role_groups db)\<rparr>
        in (scan_group (find (\<lambda>g. gr_id g = gid) (db_role_groups db1)), db1))"

definition DeleteRoleGroup :: "faults \<Rightarrow> idb \<Rightarrow> string \<Rightarrow> unit res" where
  "DeleteRoleGroup flt db gid =
     (if flt 0 then (Inl ErrDb, db)
      else if \<not> has_id gr_id (db_role_groups db) gid then (Inl ErrNotFound, db)
      else (Inr (), db\<lparr>db_role_groups := filter (\<lambda>g. gr_id g \<noteq> gid) (db_role_groups db),
              db_user_role_groups := filter (\<lambda>(u, g). g \<noteq> gid) (db_user_role_groups db),
              db_project_role_groups := filter (\<lambda>(p, g). g \<noteq> gid) (db_project_role_groups db)\<rparr>))"

section \<open>Projects\<close>

definition scan_project :: "project_row option \<Rightarrow> id_error + project_row" where
  "scan_project r = (case r of None \<Rightarrow> Inl ErrNotFound | Some p \<Rightarrow> Inr p)"

definition CreateProject ::
  "id_env \<Rightarrow> faults \<Rightarrow> string \<Rightarrow> time \<Rightarrow> idb \<Rightarrow> string \<Rightarrow> string \<Rightarrow> string \<Rightarrow> project_row res" where
  "CreateProject env flt nid now db key0 name0 description =
     (let key = trim_space key0; name = trim_space name0 in
      if key = [] \<or> name = [] then (Inl (ErrText ''project key and name are required''), db)
      else if flt 0 then (Inl ErrDb, db)
      else if has_id pj_id (db_projects db) nid
        \<or> has_id (en_lower env \<circ> pj_key) (db_projects db) (en_lower env key)
      then (Inl ErrDuplicate, db)
      else
        let p = \<lparr>pj_id = nid, pj_key = key, pj_name = name, pj_description = trim_space description,
                 pj_created_at = now\<rparr>
        in (Inr p, db\<lparr>db_projects := db_projects db @ [p]\<rparr>))"

definition UpdateProject :: "faults \<Rightarrow> idb \<Rightarrow> string \<Rightarrow> string \<Rightarrow> string \<Rightarrow> project_row res" where
  "UpdateProject flt db pid name description =
     (if flt 0 then (Inl ErrDb, db)
      else
        let db1 = db\<lparr>db_projects := map (\<lambda>p. if pj_id p = pid
                    then p\<lparr>pj_name := trim_space name, pj_description := trim_space description\<rparr>
                    else p) (db_projects db)\<rparr>
        in (scan_project (find (\<lambda>p. pj_id p = pid) (db_projects db1)), db1))"

text \<open>Deleting a project cascades to its applications, group bindings and diagnostics token; the
  agents that point to it keep their row with the reference cleared.\<close>

definition delete_project_rows :: "idb \<Rightarrow> string \<Rightarrow> idb" where
  "delete_project_rows db pid = db\<lparr>db_projects := filter (\<lambda>p. pj_id p \<noteq> pid) (db_projects db),
     db_project_applications := filter (\<lambda>(p, s). p \<noteq> pid) (db_project_applications db),
     db_project_role_groups := filter (\<lambda>(p, g). p \<noteq> pid) (db_project_role_groups db),
     db_project_diagnostics := filter (\<lambda>d. dg_project_id d \<noteq> pid) (db_project_diagnostics db),
     db_agents := map (\<lambda>a. if ag_project_id a = Some pid then a\<lparr>ag_project_id := None\<rparr> else a) (db_agents db)\<rparr>"

definition DeleteProject :: "faults \<Rightarrow> idb \<Rightarrow> string \<Rightarrow> unit res" where
  "DeleteProject flt db pid =
     (if flt 0 then (Inl ErrDb, db)
      else if \<not> has_id pj_id (db_projects db) pid then (Inl ErrNotFound, db)
      else (Inr (), delete_project_rows db pid))"

definition NormalizeServiceName :: "string \<Rightarrow> string" where
  "NormalizeServiceName s = trim_space s"

definition SetProjectApplications :: "faults \<Rightarrow> idb \<Rightarrow> string \<Rightarrow> string list \<Rightarrow> unit res" where
  "SetProjectApplications flt db pid services =
     inTx flt db (\<lambda>db0.
       if flt 2 then (Some ErrDb, db0)
       else case insert_pairs flt 3 (\<lambda>s. has_id pj_id (db_projects db0) pid) pid
                   (filter (\<lambda>s. s \<noteq> []) (map NormalizeServiceName services))
                   (filter (\<lambda>(p, s). p \<noteq> pid) (db_project_applications db0)) of
              (e, rs) \<Rightarrow> (e, db0\<lparr>db_project_applications := rs\<rparr>))"

definition SetProjectRoleGroups :: "faults \<Rightarrow> idb \<Rightarrow> string \<Rightarrow> string list \<Rightarrow> unit res" where
  "SetProjectRoleGroups flt db pid groupIDs =
     inTx flt db (\<lambda>db0.
       if flt 2 then (Some ErrDb, db0)
       else case insert_pairs flt 3 (\<lambda>g. has_id pj_id (db_projects db0) pid \<and> has_id gr_id (db_role_groups db0) g)
                   pid groupIDs (filter (\<lambda>(p, g). p \<noteq> pid) (db_project_role_groups db0)) of
              (e, rs) \<Rightarrow> (e, db0\<lparr>db_project_role_groups := rs\<rparr>))"

section \<open>Sessions\<close>

definition hashToken :: "id_env \<Rightarrow> string \<Rightarrow> string" where
  "hashToken env token = hex_encode (en_sha256 env token)"

definition truncate_str :: "string \<Rightarrow> nat \<Rightarrow> string" where
  "truncate_str s n = (if n < length s then take n s else s)"

text \<open>The failure of the statement that records the login time is ignored.\<close>

definition Authenticate :: "id_env \<Rightarrow> faults \<Rightarrow> time \<Rightarrow> idb \<Rightarrow> string \<Rightarrow> string \<Rightarrow> user_row res" where
  "Authenticate env flt now db email password =
     (if flt 0 then (Inl ErrDb, db)
      else case find (\<lambda>u. en_lower env (us_email u) = en_lower env (trim_space email)) (db_users db) of
        None \<Rightarrow> (Inl ErrBadCredential, db)
      | Some u \<Rightarrow>
          if \<not> en_check env (us_password_hash u) password then (Inl ErrBadCredential, db)
          else if \<not> us_is_active u then (Inl ErrInactive, db)
          else (Inr u, if flt 1 then db
                       else db\<lparr>db_users := map (\<lambda>v. if us_id v = us_id u then v\<lparr>us_last_login_at := Some now\<rparr>
                                                   else v) (db_users db)\<rparr>))"

definition CreateSession ::
  "id_env \<Rightarrow> faults \<Rightarrow> string \<Rightarrow> time \<Rightarrow> idb \<Rightarrow> string \<Rightarrow> string \<Rightarrow> int \<Rightarrow> (string \<times> time) res" where
  "CreateSession env flt token now db uid userAgent ttl =
     (let expires = now + ttl in
      if flt 0 then (Inl ErrDb, db)
      else if has_id se_token_hash (db_sessions db) (hashToken env token) then (Inl ErrDb, db)
      else if \<not> has_id us_id (db_users db) uid then (Inl ErrDb, db)
      else (Inr (token, expires), db\<lparr>db_sessions := db_sessions db @
              [\<lparr>se_token_hash = hashToken env token, se_user_id = uid, se_created_at = now,
                se_expires_at = expires, se_user_agent = truncate_str userAgent 250\<rparr>]\<rparr>))"

definition session_user :: "id_env \<Rightarrow> time \<Rightarrow> idb \<Rightarrow> string \<Rightarrow> user_row option" where
  "session_user env now db token =
     (case find (\<lambda>s. se_token_hash s = hashToken env token \<and> now < se_expires_at s) (db_sessions db) of
        None \<Rightarrow> None
      | Some s \<Rightarrow> find (\<lambda>u. us_id u = se_user_id s \<and> us_is_active u) (db_users db))"

definition LookupSession :: "id_env \<Rightarrow> faults \<Rightarrow> time \<Rightarrow> idb \<Rightarrow> string \<Rightarrow> user_row res" where
  "LookupSession env flt now db token =
     (if flt 0 then Inl ErrDb else scanUser (session_user env now db token), db)"

definition DeleteSession :: "id_env \<Rightarrow> faults \<Rightarrow> idb \<Rightarrow> string \<Rightarrow> unit res" where
  "DeleteSession env flt db token =
     (if flt 0 then (Inl ErrDb, db)
      else (Inr (), db\<lparr>db_sessions := filter (\<lambda>s. se_token_hash s \<noteq> hashToken env token) (db_sessions db)\<rparr>))"

definition PurgeExpiredSessions :: "faults \<Rightarrow> time \<Rightarrow> idb \<Rightarrow> nat res" where
  "PurgeExpiredSessions flt now db =
     (if flt 0 then (Inl ErrDb, db)
      else (Inr (length (filter (\<lambda>s. se_expires_at s \<le> now) (db_sessions db))),
            db\<lparr>db_sessions := filter (\<lambda>s. \<not> se_expires_at s \<le> now) (db_sessions db)\<rparr>))"

section \<open>Bootstrap\<close>

definition Bootstrap ::
  "id_env \<Rightarrow> faults \<Rightarrow> string \<Rightarrow> string \<Rightarrow> time \<Rightarrow> idb \<Rightarrow> string \<Rightarrow> string \<Rightarrow> (bool \<times> string) res" where
  "Bootstrap env flt nid rnd now db email0 password0 =
     (if flt 0 then (Inl ErrDb, db)
      else if length (db_users db) > 0 then (Inr (False, []), db)
      else
        let email = (if email0 = [] then ''admin@nabiz.local'' else email0);
            password = (if password0 = [] then rnd else password0);
            generated = (if password0 = [] then rnd else [])
        in case CreateUser env (\<lambda>n. flt (Suc n)) nid now db email ''System Administrator'' password True of
             (Inl e, db1) \<Rightarrow> (Inl e, db1)
           | (Inr u, db1) \<Rightarrow> (Inr (True, generated), db1))"

section \<open>Access\<close>

record access =
  ac_User :: "user_row option"
  ac_Permissions :: "permission list"
  ac_Projects :: "(project_row \<times> string list) list"
  ac_Applications :: "string list"

definition Can :: "access option \<Rightarrow> permission \<Rightarrow> bool" where
  "Can a p = (case a of None \<Rightarrow> False
     | Some ac \<Rightarrow> (case ac_User ac of None \<Rightarrow> False
         | Some u \<Rightarrow> if us_is_super_admin u then True else p \<in> set (ac_Permissions ac)))"

definition SeesEverything :: "access option \<Rightarrow> bool" where
  "SeesEverything a = (case a of None \<Rightarrow> False
     | Some ac \<Rightarrow> (case ac_User ac of None \<Rightarrow> False | Some u \<Rightarrow> us_is_super_admin u))"

text \<open>The queries of \<open>LoadAccess\<close>. The result orders (a collation of the database) are the
  parameters \<open>ordp\<close> and \<open>ords\<close>.\<close>

definition groups_of :: "idb \<Rightarrow> string \<Rightarrow> string list" where
  "groups_of db uid = map snd (filter (\<lambda>(u, g). u = uid) (db_user_role_groups db))"

definition permissions_of :: "idb \<Rightarrow> string \<Rightarrow> permission list" where
  "permissions_of db uid =
     remdups (concat (map gr_permissions (filter (\<lambda>g. gr_id g \<in> set (groups_of db uid)) (db_role_groups db))))"

definition project_apps :: "(string list \<Rightarrow> string list) \<Rightarrow> idb \<Rightarrow> string \<Rightarrow> string list" where
  "project_apps ords db pid =
     ords (remdups (map snd (filter (\<lambda>(p, s). p = pid) (db_project_applications db))))"

definition projects_of :: "idb \<Rightarrow> user_row \<Rightarrow> project_row list" where
  "projects_of db u =
     (if us_is_super_admin u then db_projects db
      else filter (\<lambda>p. list_ex (\<lambda>g. (pj_id p, g) \<in> set (db_project_role_groups db)) (groups_of db (us_id u)))
             (db_projects db))"

definition LoadAccess ::
  "faults \<Rightarrow> (project_row list \<Rightarrow> project_row list) \<Rightarrow> (string list \<Rightarrow> string list) \<Rightarrow> idb \<Rightarrow> user_row
    \<Rightarrow> id_error + access" where
  "LoadAccess flt ordp ords db u =
     (if flt 0 \<or> flt 1 then Inl ErrDb
      else
        let projects = map (\<lambda>p. (p, project_apps ords db (pj_id p))) (ordp (projects_of db u))
        in Inr \<lparr>ac_User = Some u, ac_Permissions = permissions_of db (us_id u), ac_Projects = projects,
                ac_Applications = foldl (\<lambda>out s. if s \<in> set out then out else out @ [s]) []
                  (concat (map snd projects))\<rparr>)"

section \<open>Lists\<close>

text \<open>The list queries: the rows with what is aggregated beside them.\<close>

definition group_refs :: "(group_row list \<Rightarrow> group_row list) \<Rightarrow> idb \<Rightarrow> string list \<Rightarrow> (string \<times> string) list" where
  "group_refs ordg db gids =
     map (\<lambda>g. (gr_id g, gr_name g)) (ordg (filter (\<lambda>g. gr_id g \<in> set gids) (db_role_groups db)))"

definition ListUsers ::
  "faults \<Rightarrow> (user_row list \<Rightarrow> user_row list) \<Rightarrow> (group_row list \<Rightarrow> group_row list) \<Rightarrow> idb
    \<Rightarrow> id_error + (user_row \<times> (string \<times> string) list) list" where
  "ListUsers flt ordu ordg db =
     (if flt 0 then Inl ErrDb
      else Inr (map (\<lambda>u. (u, group_refs ordg db (groups_of db (us_id u)))) (ordu (db_users db))))"

definition ListRoleGroups ::
  "faults \<Rightarrow> (group_row list \<Rightarrow> group_row list) \<Rightarrow> idb \<Rightarrow> id_error + (group_row \<times> nat \<times> nat) list" where
  "ListRoleGroups flt ordg db =
     (if flt 0 then Inl ErrDb
      else Inr (map (\<lambda>g. (g\<lparr>gr_permissions := toPermissions (gr_permissions g)\<rparr>,
          length (filter (\<lambda>(u, x). x = gr_id g) (db_user_role_groups db)),
          length (filter (\<lambda>(p, x). x = gr_id g) (db_project_role_groups db)))) (ordg (db_role_groups db))))"

definition ListProjects ::
  "faults \<Rightarrow> (project_row list \<Rightarrow> project_row list) \<Rightarrow> (group_row list \<Rightarrow> group_row list)
    \<Rightarrow> (string list \<Rightarrow> string list) \<Rightarrow> idb
    \<Rightarrow> id_error + (project_row \<times> string list \<times> (string \<times> string) list) list" where
  "ListProjects flt ordp ordg ords db =
     (if flt 0 then Inl ErrDb
      else Inr (map (\<lambda>p. (p, project_apps ords db (pj_id p),
          group_refs ordg db (map snd (filter (\<lambda>(x, g). x = pj_id p) (db_project_role_groups db)))))
        (ordp (db_projects db))))"

end
