(* ===== verification/IdentityDiag.thy ===== *)
theory IdentityDiag
  imports Identity
begin

text \<open>
  internal/identity: diagnostics.go and crypto.go. The diagnostics tokens of the projects, kept
  sealed; the registration of agents and its verification against those tokens; the records of
  dumps. The authenticated cipher and base64 are parameters.
\<close>

section \<open>Sealing\<close>

record aead =
  ae_nonce_size :: nat
  ae_seal :: "u8 list \<Rightarrow> u8 list \<Rightarrow> u8 list" \<comment> \<open>nonce, plain text\<close>
  ae_open :: "u8 list \<Rightarrow> u8 list \<Rightarrow> u8 list option" \<comment> \<open>nonce, cipher text\<close>

record b64 =
  b64_encode :: "u8 list \<Rightarrow> string"
  b64_decode :: "string \<Rightarrow> u8 list option"

text \<open>\<open>None\<close> is the error of an empty key; \<open>cipher\<close> builds the AES-GCM cipher of a digest.\<close>

definition NewSealer :: "(string \<Rightarrow> u8 list) \<Rightarrow> (u8 list \<Rightarrow> aead) \<Rightarrow> string \<Rightarrow> aead option" where
  "NewSealer sha cipher key = (if key = [] then None else Some (cipher (sha key)))"

definition str_bytes :: "string \<Rightarrow> u8 list" where
  "str_bytes s = map (of_nat \<circ> of_char) s"

definition bytes_str :: "u8 list \<Rightarrow> string" where
  "bytes_str bs = map (char_of \<circ> unat) bs"

text \<open>The nonce is random: an argument of the size of the cipher's nonce.\<close>

definition Seal :: "b64 \<Rightarrow> aead \<Rightarrow> u8 list \<Rightarrow> string \<Rightarrow> string" where
  "Seal b a nonce plaintext = b64_encode b (nonce @ ae_seal a nonce (str_bytes plaintext))"

definition Open_token :: "b64 \<Rightarrow> aead \<Rightarrow> string \<Rightarrow> string + string" where
  "Open_token b a encoded =
     (case b64_decode b encoded of
        None \<Rightarrow> Inl ''could not decode the token''
      | Some raw \<Rightarrow>
          if length raw < ae_nonce_size a then Inl ''the encrypted token is invalid''
          else case ae_open a (take (ae_nonce_size a) raw) (drop (ae_nonce_size a) raw) of
                 None \<Rightarrow> Inl ''could not open the token (NABIZ_SECRET_KEY may have changed)''
               | Some plain \<Rightarrow> Inr (bytes_str plain))"

lemma char_of_u8: "char_of (unat (of_nat (of_char c) :: u8)) = c"
proof -
  have "(of_char c :: nat) < 256" by simp
  then have "unat (of_nat (of_char c) :: u8) = of_char c" by (simp add: unsigned_of_nat take_bit_nat_eq_self)
  then show ?thesis by simp
qed

lemma bytes_str_bytes [simp]: "bytes_str (str_bytes s) = s"
  by (induction s) (simp_all add: bytes_str_def str_bytes_def char_of_u8)

section \<open>The project token\<close>

text \<open>The sealer is optional; its cipher, base64 and the nonce of this call come with it.\<close>

type_synonym sealer = "(b64 \<times> aead) option"

definition SetProjectDiagnosticsToken ::
  "sealer \<Rightarrow> u8 list \<Rightarrow> faults \<Rightarrow> time \<Rightarrow> idb \<Rightarrow> string \<Rightarrow> string \<Rightarrow> string \<Rightarrow> unit res" where
  "SetProjectDiagnosticsToken sl nonce flt now db pid token who =
     (case sl of
        None \<Rightarrow> (Inl ErrNoSecretKey, db)
      | Some (b, a) \<Rightarrow>
          if trim_space token = [] then
            (if flt 0 then (Inl ErrDb, db)
             else (Inr (), db\<lparr>db_project_diagnostics :=
                     filter (\<lambda>d. dg_project_id d \<noteq> pid) (db_project_diagnostics db)\<rparr>))
          else if flt 0 then (Inl ErrDb, db)
          else if \<not> has_id pj_id (db_projects db) pid then (Inl ErrDb, db)
          else
            let sealed = Seal b a nonce token in
            if has_id dg_project_id (db_project_diagnostics db) pid
            then (Inr (), db\<lparr>db_project_diagnostics := map (\<lambda>d. if dg_project_id d = pid
                     then d\<lparr>dg_token_sealed := sealed, dg_updated_by := who, dg_updated_at := now\<rparr> else d)
                     (db_project_diagnostics db)\<rparr>)
            else (Inr (), db\<lparr>db_project_diagnostics := db_project_diagnostics db @
                     [\<lparr>dg_project_id = pid, dg_token_sealed = sealed, dg_updated_at = now, dg_updated_by = who\<rparr>]\<rparr>))"

definition HasProjectDiagnosticsToken :: "faults \<Rightarrow> idb \<Rightarrow> string \<Rightarrow> id_error + bool" where
  "HasProjectDiagnosticsToken flt db pid =
     (if flt 0 then Inl ErrDb
      else Inr (0 < length (filter (\<lambda>d. dg_project_id d = pid) (db_project_diagnostics db))))"

text \<open>The join of the applications, the projects and the tokens; a token that does not open is
  skipped.\<close>

definition service_tokens :: "idb \<Rightarrow> string \<Rightarrow> (string \<times> string) list" where
  "service_tokens db svc =
     concat (map (\<lambda>(p, s). if s = svc \<and> has_id pj_id (db_projects db) p
       then map (\<lambda>d. (p, dg_token_sealed d)) (filter (\<lambda>d. dg_project_id d = p) (db_project_diagnostics db))
       else []) (db_project_applications db))"

definition open_tokens :: "b64 \<Rightarrow> aead \<Rightarrow> (string \<times> string) list \<Rightarrow> (string \<times> string) list" where
  "open_tokens b a rows = concat (map (\<lambda>(p, sealed).
     case Open_token b a sealed of Inl e \<Rightarrow> [] | Inr t \<Rightarrow> [(p, t)]) rows)"

definition projectTokenFor :: "sealer \<Rightarrow> bool \<Rightarrow> idb \<Rightarrow> string \<Rightarrow> id_error + (string \<times> string) list" where
  "projectTokenFor sl fault db svc =
     (case sl of
        None \<Rightarrow> Inl ErrNoSecretKey
      | Some (b, a) \<Rightarrow> if fault then Inl ErrDb else Inr (open_tokens b a (service_tokens db svc)))"

text \<open>\<open>constantTimeEqual\<close> compares the digests byte by byte without an early exit.\<close>

definition constantTimeEqual :: "id_env \<Rightarrow> string \<Rightarrow> string \<Rightarrow> bool" where
  "constantTimeEqual env x y =
     (foldl (\<lambda>d (a, b). d OR (a XOR b)) (0 :: u8) (zip (en_sha256 env x) (en_sha256 env y)) = 0)"

section \<open>Registration\<close>

text \<open>The registration an agent sends: the row's fields the agent fills.\<close>

definition verify_token :: "id_env \<Rightarrow> string \<Rightarrow> (string \<times> string) list \<Rightarrow> string option" where
  "verify_token env presented ms =
     map_option fst (find (\<lambda>(p, t). constantTimeEqual env t presented) ms)"

text \<open>Whether and for which project a registration is verified: \<open>Inl\<close> stops the registration.\<close>

definition verify_registration ::
  "id_env \<Rightarrow> sealer \<Rightarrow> bool \<Rightarrow> idb \<Rightarrow> string \<Rightarrow> string \<Rightarrow> id_error + string option" where
  "verify_registration env sl fault db svc presented =
     (if presented = [] then Inr None
      else case projectTokenFor sl fault db svc of
             Inl ErrNoSecretKey \<Rightarrow> Inr None
           | Inl e \<Rightarrow> Inl e
           | Inr ms \<Rightarrow> Inr (verify_token env presented ms))"

definition same_agent :: "agent_row \<Rightarrow> agent_row \<Rightarrow> bool" where
  "same_agent x y \<longleftrightarrow> ag_service_name x = ag_service_name y \<and> ag_instance_id x = ag_instance_id y"

text \<open>The upsert: a row of the same service and instance keeps its identifier and its first
  sighting and takes everything else from the registration.\<close>

definition RegisterAgent ::
  "id_env \<Rightarrow> sealer \<Rightarrow> faults \<Rightarrow> string \<Rightarrow> time \<Rightarrow> idb \<Rightarrow> agent_row \<Rightarrow> string \<Rightarrow> agent_row res" where
  "RegisterAgent env sl flt nid now db inp presented =
     (case verify_registration env sl (flt 0) db (ag_service_name inp) presented of
        Inl e \<Rightarrow> (Inl e, db)
      | Inr proj \<Rightarrow>
          if flt 1 then (Inl ErrDb, db)
          else
            let new = inp\<lparr>ag_verified := (proj \<noteq> None), ag_project_id := proj\<rparr> in
            case find (same_agent inp) (db_agents db) of
              Some old \<Rightarrow>
                let upd = new\<lparr>ag_id := ag_id old, ag_first_seen := ag_first_seen old, ag_last_seen := now\<rparr>
                in (Inr upd, db\<lparr>db_agents := map (\<lambda>a. if same_agent inp a then upd else a) (db_agents db)\<rparr>)
            | None \<Rightarrow>
                let ins = new\<lparr>ag_id := nid, ag_first_seen := now, ag_last_seen := now\<rparr>
                in if has_id ag_id (db_agents db) nid then (Inl ErrDb, db)
                   else (Inr ins, db\<lparr>db_agents := db_agents db @ [ins]\<rparr>))"

definition ListAgents ::
  "faults \<Rightarrow> (agent_row list \<Rightarrow> agent_row list) \<Rightarrow> time \<Rightarrow> idb \<Rightarrow> string list option \<Rightarrow> int \<Rightarrow> id_error + agent_row list"
where
  "ListAgents flt orda now db services maxAge =
     (if flt 0 then Inl ErrDb
      else Inr (orda (filter (\<lambda>a. now - go_div maxAge (10 ^ 9) * 10 ^ 9 < ag_last_seen a
          \<and> (case services of None \<Rightarrow> True | Some ss \<Rightarrow> ag_service_name a \<in> set ss)) (db_agents db))))"

text \<open>The result of \<open>GetAgent\<close>: the instance, the token and the error are three separate
  values in the source; an instance may come with an error.\<close>

record agent_result =
  ar_agent :: "agent_row option"
  ar_token :: string
  ar_error :: "id_error option"

definition GetAgent :: "sealer \<Rightarrow> faults \<Rightarrow> idb \<Rightarrow> string \<Rightarrow> agent_result" where
  "GetAgent sl flt db aid =
     (if flt 0 then \<lparr>ar_agent = None, ar_token = [], ar_error = Some ErrDb\<rparr>
      else case find (\<lambda>a. ag_id a = aid) (db_agents db) of
        None \<Rightarrow> \<lparr>ar_agent = None, ar_token = [], ar_error = Some ErrNotFound\<rparr>
      | Some a \<Rightarrow>
          if \<not> ag_verified a then \<lparr>ar_agent = Some a, ar_token = [], ar_error = Some ErrTokenMismatch\<rparr>
          else case projectTokenFor sl (flt 1) db (ag_service_name a) of
                 Inl e \<Rightarrow> \<lparr>ar_agent = Some a, ar_token = [], ar_error = Some e\<rparr>
               | Inr ms \<Rightarrow>
                   (case find (\<lambda>(p, t). Some p = ag_project_id a \<or> ag_project_id a = None \<and> p = []) ms of
                      Some (p, t) \<Rightarrow> \<lparr>ar_agent = Some a, ar_token = t, ar_error = None\<rparr>
                    | None \<Rightarrow> \<lparr>ar_agent = Some a, ar_token = [], ar_error = Some ErrTokenMismatch\<rparr>))"

section \<open>Dump records\<close>

definition new_artifact :: "string \<Rightarrow> time \<Rightarrow> string \<Rightarrow> string \<Rightarrow> string \<Rightarrow> string \<Rightarrow> artifact_row" where
  "new_artifact nid now inst svc kind who = \<lparr>da_id = nid, da_instance_id = Some inst, da_service_name = svc,
     da_kind = kind, da_filename = [], da_bytes = 0, da_status = ''pending'', da_error = [],
     da_created_by = who, da_created_at = now\<rparr>"

definition CreateArtifact ::
  "faults \<Rightarrow> string \<Rightarrow> time \<Rightarrow> idb \<Rightarrow> string \<Rightarrow> string \<Rightarrow> string \<Rightarrow> string \<Rightarrow> string res" where
  "CreateArtifact flt nid now db inst svc kind who =
     (if flt 0 \<or> has_id da_id (db_artifacts db) nid \<or> \<not> has_id ag_id (db_agents db) inst then (Inl ErrDb, db)
      else (Inr nid, db\<lparr>db_artifacts := db_artifacts db @ [new_artifact nid now inst svc kind who]\<rparr>))"

definition upd_artifact :: "(artifact_row \<Rightarrow> bool) \<Rightarrow> (artifact_row \<Rightarrow> artifact_row) \<Rightarrow> idb \<Rightarrow> idb" where
  "upd_artifact P f db = db\<lparr>db_artifacts := map (\<lambda>d. if P d then f d else d) (db_artifacts db)\<rparr>"

definition CompleteArtifact :: "faults \<Rightarrow> idb \<Rightarrow> string \<Rightarrow> string \<Rightarrow> int \<Rightarrow> unit res" where
  "CompleteArtifact flt db did filename bytes =
     (if flt 0 then (Inl ErrDb, db)
      else (Inr (), upd_artifact (\<lambda>d. da_id d = did)
             (\<lambda>d. d\<lparr>da_filename := filename, da_bytes := bytes, da_status := ''ready''\<rparr>) db))"

definition FailArtifact :: "faults \<Rightarrow> idb \<Rightarrow> string \<Rightarrow> string \<Rightarrow> unit res" where
  "FailArtifact flt db did message =
     (if flt 0 then (Inl ErrDb, db)
      else (Inr (), upd_artifact (\<lambda>d. da_id d = did)
             (\<lambda>d. d\<lparr>da_status := ''failed'', da_error := truncate_str message 500\<rparr>) db))"

definition CancelArtifact :: "faults \<Rightarrow> idb \<Rightarrow> string \<Rightarrow> unit res" where
  "CancelArtifact flt db did =
     (if flt 0 then (Inl ErrDb, db)
      else (Inr (), upd_artifact (\<lambda>d. da_id d = did \<and> da_status d = ''pending'')
             (\<lambda>d. d\<lparr>da_status := ''cancelled'', da_error := []\<rparr>) db))"

definition ListArtifacts ::
  "faults \<Rightarrow> (artifact_row list \<Rightarrow> artifact_row list) \<Rightarrow> idb \<Rightarrow> string list option \<Rightarrow> nat \<Rightarrow> id_error + artifact_row list"
where
  "ListArtifacts flt ordd db services limit =
     (if flt 0 then Inl ErrDb
      else Inr (take limit (ordd (filter (\<lambda>d. case services of None \<Rightarrow> True | Some ss \<Rightarrow> da_service_name d \<in> set ss)
                  (db_artifacts db)))))"

definition GetArtifact :: "faults \<Rightarrow> idb \<Rightarrow> string \<Rightarrow> id_error + artifact_row" where
  "GetArtifact flt db did =
     (if flt 0 then Inl ErrDb
      else case find (\<lambda>d. da_id d = did) (db_artifacts db) of None \<Rightarrow> Inl ErrNotFound | Some d \<Rightarrow> Inr d)"

definition DeleteArtifact :: "faults \<Rightarrow> idb \<Rightarrow> string \<Rightarrow> unit res" where
  "DeleteArtifact flt db did =
     (if flt 0 then (Inl ErrDb, db)
      else if \<not> has_id da_id (db_artifacts db) did then (Inl ErrNotFound, db)
      else (Inr (), db\<lparr>db_artifacts := filter (\<lambda>d. da_id d \<noteq> did) (db_artifacts db)\<rparr>))"

end
