(* ===== verification/IdentityProps.thy ===== *)
theory IdentityProps
  imports IdentityDiag
begin

text \<open>
  The lemmas and properties of the control plane: the invariant of the tables (keys, foreign
  keys) kept by every operation, also when a round trip fails; the last administrator; passwords
  and sessions; access; the diagnostics token and the agents; the life of a dump record.
\<close>

section \<open>The invariant of the tables\<close>

definition users_ok :: "id_env \<Rightarrow> user_row list \<Rightarrow> bool" where
  "users_ok env us \<longleftrightarrow> distinct (map us_id us) \<and> distinct (map (en_lower env \<circ> us_email) us)"

definition groups_ok :: "id_env \<Rightarrow> group_row list \<Rightarrow> bool" where
  "groups_ok env gs \<longleftrightarrow> distinct (map gr_id gs) \<and> distinct (map (en_lower env \<circ> gr_name) gs)
     \<and> (\<forall>g \<in> set gs. list_all ValidPermission (gr_permissions g) \<and> distinct (gr_permissions g))"

definition projects_ok :: "id_env \<Rightarrow> project_row list \<Rightarrow> bool" where
  "projects_ok env ps \<longleftrightarrow> distinct (map pj_id ps) \<and> distinct (map (en_lower env \<circ> pj_key) ps)"

definition pairs_ok :: "string set \<Rightarrow> string set \<Rightarrow> (string \<times> string) list \<Rightarrow> bool" where
  "pairs_ok A B rs \<longleftrightarrow> distinct rs \<and> set rs \<subseteq> A \<times> B"

definition diags_ok :: "string set \<Rightarrow> diag_row list \<Rightarrow> bool" where
  "diags_ok P ds \<longleftrightarrow> distinct (map dg_project_id ds) \<and> dg_project_id ` set ds \<subseteq> P"

definition agents_ok :: "string set \<Rightarrow> agent_row list \<Rightarrow> bool" where
  "agents_ok P as \<longleftrightarrow> distinct (map ag_id as) \<and> distinct (map (\<lambda>a. (ag_service_name a, ag_instance_id a)) as)
     \<and> (\<Union>a \<in> set as. set_option (ag_project_id a)) \<subseteq> P"

definition artifacts_ok :: "string set \<Rightarrow> artifact_row list \<Rightarrow> bool" where
  "artifacts_ok A ds \<longleftrightarrow> distinct (map da_id ds) \<and> (\<Union>d \<in> set ds. set_option (da_instance_id d)) \<subseteq> A"

definition sessions_ok :: "string set \<Rightarrow> session_row list \<Rightarrow> bool" where
  "sessions_ok U ss \<longleftrightarrow> distinct (map se_token_hash ss) \<and> se_user_id ` set ss \<subseteq> U"

definition user_ids :: "idb \<Rightarrow> string set" where "user_ids db = us_id ` set (db_users db)"
definition group_ids :: "idb \<Rightarrow> string set" where "group_ids db = gr_id ` set (db_role_groups db)"
definition project_ids :: "idb \<Rightarrow> string set" where "project_ids db = pj_id ` set (db_projects db)"
definition agent_ids :: "idb \<Rightarrow> string set" where "agent_ids db = ag_id ` set (db_agents db)"

lemmas id_sets = user_ids_def group_ids_def project_ids_def agent_ids_def

definition id_ok :: "id_env \<Rightarrow> idb \<Rightarrow> bool" where
  "id_ok env db \<longleftrightarrow> users_ok env (db_users db) \<and> groups_ok env (db_role_groups db)
     \<and> projects_ok env (db_projects db)
     \<and> pairs_ok (user_ids db) (group_ids db) (db_user_role_groups db)
     \<and> pairs_ok (project_ids db) (- {[]}) (db_project_applications db)
     \<and> pairs_ok (project_ids db) (group_ids db) (db_project_role_groups db)
     \<and> diags_ok (project_ids db) (db_project_diagnostics db)
     \<and> agents_ok (project_ids db) (db_agents db)
     \<and> artifacts_ok (agent_ids db) (db_artifacts db)
     \<and> sessions_ok (user_ids db) (db_sessions db)"

lemmas table_defs = users_ok_def groups_ok_def projects_ok_def pairs_ok_def diags_ok_def
  agents_ok_def artifacts_ok_def sessions_ok_def

lemma empty_idb_ok: "id_ok env empty_idb"
  by (simp add: id_ok_def table_defs empty_idb_def)

text \<open>What changes a table without touching its keys, and what removes rows.\<close>

lemma map_if_key: "(\<And>x. k (f x) = k x) \<Longrightarrow> map k (map (\<lambda>x. if P x then f x else x) xs) = map k xs"
  by simp

lemma pairs_ok_filter: "pairs_ok A B rs \<Longrightarrow> pairs_ok A B (filter P rs)"
  by (auto simp: pairs_ok_def)

lemma pairs_ok_mono: "pairs_ok A B rs \<Longrightarrow> A \<subseteq> A' \<Longrightarrow> B \<subseteq> B' \<Longrightarrow> pairs_ok A' B' rs"
  by (auto simp: pairs_ok_def)

lemma sessions_ok_mono: "sessions_ok U ss \<Longrightarrow> U \<subseteq> U' \<Longrightarrow> sessions_ok U' ss"
  by (auto simp: sessions_ok_def)

lemma sessions_ok_filter: "sessions_ok U ss \<Longrightarrow> sessions_ok U (filter P ss)"
  by (auto simp: sessions_ok_def distinct_map_filter)

lemma diags_ok_mono: "diags_ok P ds \<Longrightarrow> P \<subseteq> P' \<Longrightarrow> diags_ok P' ds"
  by (auto simp: diags_ok_def)

lemma agents_ok_mono: "agents_ok P as \<Longrightarrow> P \<subseteq> P' \<Longrightarrow> agents_ok P' as"
  by (auto simp: agents_ok_def)

lemma artifacts_ok_mono: "artifacts_ok A ds \<Longrightarrow> A \<subseteq> A' \<Longrightarrow> artifacts_ok A' ds"
  by (auto simp: artifacts_ok_def)

lemmas ok_mono = pairs_ok_mono sessions_ok_mono diags_ok_mono agents_ok_mono artifacts_ok_mono

lemma ids_same: "map k ys = map k xs \<Longrightarrow> k ` set ys = k ` set xs"
  by (metis list.set_map)

text \<open>Changing the users without changing the identifiers and e-mail addresses.\<close>

lemma users_changed_ok:
  assumes "id_ok env db" "map us_id us = map us_id (db_users db)" "map us_email us = map us_email (db_users db)"
  shows "id_ok env (db\<lparr>db_users := us\<rparr>)"
proof -
  have "us_id ` set us = us_id ` set (db_users db)" using assms(2) by (metis list.set_map)
  moreover have "map (en_lower env \<circ> us_email) us = map (en_lower env \<circ> us_email) (db_users db)"
    using assms(3) by (metis map_map)
  ultimately show ?thesis using assms(1,2)
    by (simp add: id_ok_def users_ok_def id_sets)
qed

lemma sessions_filtered_ok: "id_ok env db \<Longrightarrow> id_ok env (db\<lparr>db_sessions := filter P (db_sessions db)\<rparr>)"
  by (simp add: id_ok_def id_sets sessions_ok_filter)

section \<open>Every operation keeps the invariant\<close>

lemma CreateUser_ok [keep]: "id_ok env db \<Longrightarrow> id_ok env (snd (CreateUser env flt nid now db e n p s))"
  by (auto simp: CreateUser_def Let_def id_ok_def id_sets users_ok_def has_id_def image_iff comp_def
      split: option.split elim!: ok_mono)

lemma update_statement_ok [keep]: "id_ok env db \<Longrightarrow> id_ok env (snd (update_statement flt now db uid n a s))"
  by (auto simp: update_statement_def Let_def set_user_def intro!: users_changed_ok)

lemma UpdateUser_ok [keep]: "id_ok env db \<Longrightarrow> id_ok env (snd (UpdateUser flt now db uid n a s))"
  by (simp add: UpdateUser_def keep split: option.split)

lemma SetPassword_ok [keep]: "id_ok env db \<Longrightarrow> id_ok env (snd (SetPassword env flt now db uid p))"
proof -
  assume ok: "id_ok env db"
  have "id_ok env (db\<lparr>db_users := map (\<lambda>u. if us_id u = uid
      then u\<lparr>us_password_hash := h, us_updated_at := now\<rparr> else u) (db_users db)\<rparr>)" for h
    using ok by (rule users_changed_ok) simp_all
  from this sessions_filtered_ok [OF this] ok show ?thesis
    by (auto simp: SetPassword_def Let_def split: option.split)
qed

lemma delete_user_rows_ok [keep]: "id_ok env db \<Longrightarrow> id_ok env (delete_user_rows db uid)"
  by (auto simp: id_ok_def delete_user_rows_def id_sets users_ok_def pairs_ok_def sessions_ok_def
      distinct_map_filter)

lemma DeleteUser_ok [keep]: "id_ok env db \<Longrightarrow> id_ok env (snd (DeleteUser flt db uid))"
  by (auto simp: DeleteUser_def keep split: sum.split bool.split)

lemma insert_pairs_spec:
  assumes "insert_pairs flt n fk owner xs rs = (None, rs')" "distinct rs"
  shows "distinct rs' \<and> set rs' = set rs \<union> {owner} \<times> set xs \<and> (\<forall>x \<in> set xs. (owner, x) \<in> set rs \<or> fk x)"
  using assms by (induction flt n fk owner xs rs rule: insert_pairs.induct) (auto split: if_splits)

lemma pairs_replaced:
  assumes "insert_pairs flt n fk owner xs (filter (\<lambda>(a, b). a \<noteq> owner) rs) = (None, rs')"
    "pairs_ok A B rs" "\<And>x. fk x \<Longrightarrow> owner \<in> A \<and> x \<in> B"
  shows "pairs_ok A B rs'"
proof -
  have "distinct (filter (\<lambda>(a, b). a \<noteq> owner) rs)" using assms(2) by (simp add: pairs_ok_def)
  note spec = insert_pairs_spec [OF assms(1) this]
  have "(a, b) \<in> set rs' \<Longrightarrow> a \<in> A \<and> b \<in> B" for a b
    using spec assms(2,3) by (auto simp: pairs_ok_def)
  with spec show ?thesis by (auto simp: pairs_ok_def)
qed

lemma inTx_ok: "id_ok env db \<Longrightarrow> (\<And>db1. body db = (None, db1) \<Longrightarrow> id_ok env db1)
    \<Longrightarrow> id_ok env (snd (inTx flt db body))"
  by (auto simp: inTx_def split: prod.split option.split)

lemma SetUserRoleGroups_ok [keep]: "id_ok env db \<Longrightarrow> id_ok env (snd (SetUserRoleGroups flt db uid gs))"
  unfolding SetUserRoleGroups_def
  by (rule inTx_ok) (auto simp: id_ok_def has_id_def id_sets split: if_splits prod.splits elim!: pairs_replaced)

lemma SetProjectRoleGroups_ok [keep]: "id_ok env db \<Longrightarrow> id_ok env (snd (SetProjectRoleGroups flt db pid gs))"
  unfolding SetProjectRoleGroups_def
  by (rule inTx_ok) (auto simp: id_ok_def has_id_def id_sets split: if_splits prod.splits elim!: pairs_replaced)

lemma SetProjectApplications_ok [keep]: "id_ok env db \<Longrightarrow> id_ok env (snd (SetProjectApplications flt db pid ss))"
proof -
  assume ok: "id_ok env db"
  have apps: "pairs_ok (project_ids db) (- {[]}) rs'"
    if "insert_pairs flt 3 (\<lambda>s. has_id pj_id (db_projects db) pid) pid
          (filter (\<lambda>s. s \<noteq> []) (map NormalizeServiceName ss))
          (filter (\<lambda>(p, s). p \<noteq> pid) (db_project_applications db)) = (None, rs')" for rs'
  proof -
    let ?rs = "filter (\<lambda>(p, s). p \<noteq> pid) (db_project_applications db)"
    have old: "pairs_ok (project_ids db) (- {[]}) (db_project_applications db)" using ok by (simp add: id_ok_def)
    then have "distinct ?rs" by (simp add: pairs_ok_def)
    note spec = insert_pairs_spec [OF that this]
    have "(p, s) \<in> set rs' \<Longrightarrow> p \<in> project_ids db \<and> s \<noteq> []" for p s
      using spec old by (auto simp: pairs_ok_def has_id_def id_sets)
    with spec show ?thesis by (auto simp: pairs_ok_def)
  qed
  have upd: "id_ok env (db\<lparr>db_project_applications := rs'\<rparr>)" if "pairs_ok (project_ids db) (- {[]}) rs'" for rs'
    using ok that by (simp add: id_ok_def id_sets)
  show ?thesis unfolding SetProjectApplications_def
    by (rule inTx_ok [OF ok]) (auto intro: upd apps split: if_splits prod.splits)
qed

lemma fromPermissions_ok: "list_all ValidPermission (fromPermissions ps) \<and> distinct (fromPermissions ps)"
proof -
  have "list_all ValidPermission out \<and> distinct out \<Longrightarrow>
      list_all ValidPermission (foldl (\<lambda>out p. if ValidPermission p \<and> p \<notin> set out then out @ [p] else out) out ps)
      \<and> distinct (foldl (\<lambda>out p. if ValidPermission p \<and> p \<notin> set out then out @ [p] else out) out ps)" for out
    by (induction ps arbitrary: out) auto
  from this [of "[]"] show ?thesis by (simp add: fromPermissions_def)
qed

lemma groups_changed_ok:
  assumes "id_ok env db" "groups_ok env gs" "map gr_id gs = map gr_id (db_role_groups db)"
  shows "id_ok env (db\<lparr>db_role_groups := gs\<rparr>)"
  using assms(1,2) ids_same [OF assms(3)] by (simp add: id_ok_def id_sets)

lemma CreateRoleGroup_ok [keep]: "id_ok env db \<Longrightarrow> id_ok env (snd (CreateRoleGroup env flt nid now db n d ps))"
  using fromPermissions_ok [of ps]
  by (auto simp: CreateRoleGroup_def Let_def id_ok_def id_sets groups_ok_def has_id_def image_iff comp_def
      scan_group_def elim!: ok_mono)

lemma map_if_absent: "c \<notin> k ` set xs \<Longrightarrow> map (\<lambda>x. if k x = c then f x else x) xs = xs"
  by (induction xs) auto

lemma filter_if_absent: "c \<notin> k ` set xs \<Longrightarrow> filter (\<lambda>x. k x \<noteq> c) xs = xs"
  by (induction xs) auto

lemma groups_renamed:
  assumes "groups_ok env gs" "list_all ValidPermission ps \<and> distinct ps"
    "en_lower env nm \<notin> set (map (en_lower env \<circ> gr_name) (filter (\<lambda>g. gr_id g \<noteq> gid) gs))"
  shows "groups_ok env (map (\<lambda>g. if gr_id g = gid
    then g\<lparr>gr_name := nm, gr_description := d, gr_permissions := ps\<rparr> else g) gs)"
proof (cases "gid \<in> gr_id ` set gs")
  case False
  with assms(1) show ?thesis by (simp add: map_if_absent)
next
  case True
  then obtain xs g ys where gs: "gs = xs @ g # ys" "gr_id g = gid"
    by (metis image_iff split_list)
  have "gid \<notin> gr_id ` set xs" "gid \<notin> gr_id ` set ys"
    using assms(1) gs by (auto simp: groups_ok_def)
  with assms gs show ?thesis
    by (auto simp: groups_ok_def map_if_absent filter_if_absent)
qed

lemma UpdateRoleGroup_ok [keep]: "id_ok env db \<Longrightarrow> id_ok env (snd (UpdateRoleGroup env flt db gid n d ps))"
proof -
  assume ok: "id_ok env db"
  let ?gs = "map (\<lambda>g. if gr_id g = gid then g\<lparr>gr_name := trim_space n, gr_description := trim_space d,
      gr_permissions := fromPermissions ps\<rparr> else g) (db_role_groups db)"
  have "groups_ok env ?gs"
    if "\<not> has_id (en_lower env \<circ> gr_name) (filter (\<lambda>g. gr_id g \<noteq> gid) (db_role_groups db)) (en_lower env (trim_space n))"
    using ok that fromPermissions_ok by (intro groups_renamed) (auto simp: id_ok_def has_id_def)
  with ok show ?thesis
    by (auto simp: UpdateRoleGroup_def Let_def intro!: groups_changed_ok)
qed

lemma DeleteRoleGroup_ok [keep]: "id_ok env db \<Longrightarrow> id_ok env (snd (DeleteRoleGroup flt db gid))"
  by (auto simp: DeleteRoleGroup_def id_ok_def id_sets groups_ok_def pairs_ok_def distinct_map_filter)

lemma CreateProject_ok [keep]: "id_ok env db \<Longrightarrow> id_ok env (snd (CreateProject env flt nid now db k n d))"
  by (auto simp: CreateProject_def Let_def id_ok_def id_sets projects_ok_def has_id_def image_iff comp_def
      elim!: ok_mono)

lemma projects_changed_ok:
  assumes "id_ok env db" "map pj_id ps = map pj_id (db_projects db)" "map pj_key ps = map pj_key (db_projects db)"
  shows "id_ok env (db\<lparr>db_projects := ps\<rparr>)"
proof -
  have "map (en_lower env \<circ> pj_key) ps = map (en_lower env \<circ> pj_key) (db_projects db)"
    using assms(3) by (metis map_map)
  with assms(1,2) ids_same [OF assms(2)] show ?thesis
    by (simp add: id_ok_def projects_ok_def id_sets)
qed

lemma UpdateProject_ok [keep]: "id_ok env db \<Longrightarrow> id_ok env (snd (UpdateProject flt db pid n d))"
  by (auto simp: UpdateProject_def Let_def intro!: projects_changed_ok)

lemma agents_unlinked:
  assumes "agents_ok P as"
  shows "agents_ok (P - {pid}) (map (\<lambda>a. if ag_project_id a = Some pid then a\<lparr>ag_project_id := None\<rparr> else a) as)"
proof -
  let ?f = "\<lambda>a. if ag_project_id a = Some pid then a\<lparr>ag_project_id := None\<rparr> else a"
  have "map ag_id (map ?f as) = map ag_id as"
    "map (\<lambda>a. (ag_service_name a, ag_instance_id a)) (map ?f as) = map (\<lambda>a. (ag_service_name a, ag_instance_id a)) as"
    by simp_all
  moreover have "(\<Union>a \<in> set (map ?f as). set_option (ag_project_id a)) \<subseteq> P - {pid}"
    using assms by (fastforce simp: agents_ok_def split: if_splits)
  ultimately show ?thesis using assms unfolding agents_ok_def by argo
qed

lemma delete_project_rows_ok [keep]: "id_ok env db \<Longrightarrow> id_ok env (delete_project_rows db pid)"
proof -
  assume ok: "id_ok env db"
  let ?db = "delete_project_rows db pid"
  have P: "project_ids ?db = project_ids db - {pid}" by (auto simp: delete_project_rows_def id_sets)
  have A: "agent_ids ?db = agent_ids db" unfolding id_sets by (rule ids_same) (simp add: delete_project_rows_def)
  have "projects_ok env (db_projects ?db)"
    using ok by (simp add: id_ok_def projects_ok_def delete_project_rows_def distinct_map_filter)
  moreover have "agents_ok (project_ids ?db) (db_agents ?db)"
    unfolding P using ok by (simp add: id_ok_def delete_project_rows_def agents_unlinked)
  moreover have "diags_ok (project_ids ?db) (db_project_diagnostics ?db)"
    unfolding P using ok by (auto simp: id_ok_def delete_project_rows_def diags_ok_def distinct_map_filter)
  moreover have "pairs_ok (project_ids ?db) (- {[]}) (db_project_applications ?db)"
    "pairs_ok (project_ids ?db) (group_ids db) (db_project_role_groups ?db)"
    unfolding P using ok by (auto simp: id_ok_def delete_project_rows_def pairs_ok_def)
  moreover have "artifacts_ok (agent_ids ?db) (db_artifacts ?db)"
    unfolding A using ok by (simp add: id_ok_def delete_project_rows_def)
  ultimately show ?thesis using ok
    by (simp add: id_ok_def) (simp add: delete_project_rows_def id_sets)
qed

lemma DeleteProject_ok [keep]: "id_ok env db \<Longrightarrow> id_ok env (snd (DeleteProject flt db pid))"
  by (simp add: DeleteProject_def keep)

lemma Authenticate_ok [keep]: "id_ok env db \<Longrightarrow> id_ok env (snd (Authenticate env flt now db e p))"
  by (auto simp: Authenticate_def intro!: users_changed_ok split: option.split)

lemma CreateSession_ok [keep]: "id_ok env db \<Longrightarrow> id_ok env (snd (CreateSession env flt tok now db uid ua ttl))"
  by (auto simp: CreateSession_def Let_def id_ok_def id_sets sessions_ok_def has_id_def)

lemma DeleteSession_ok [keep]: "id_ok env db \<Longrightarrow> id_ok env (snd (DeleteSession env flt db tok))"
  by (simp add: DeleteSession_def sessions_filtered_ok)

lemma PurgeExpiredSessions_ok [keep]: "id_ok env db \<Longrightarrow> id_ok env (snd (PurgeExpiredSessions flt now db))"
  by (simp add: PurgeExpiredSessions_def sessions_filtered_ok)

lemma Bootstrap_ok [keep]: "id_ok env db \<Longrightarrow> id_ok env (snd (Bootstrap env flt nid rnd now db e p))"
proof -
  assume ok: "id_ok env db"
  have "id_ok env db1" if "CreateUser env f nid now db e p q s = (r, db1)" for f e p q s r db1
    using CreateUser_ok [OF ok, of f nid now e p q s] that by simp
  with ok show ?thesis by (auto simp: Bootstrap_def Let_def split: prod.split sum.split)
qed

lemma diags_same: "map dg_project_id es = map dg_project_id ds \<Longrightarrow> diags_ok P ds \<Longrightarrow> diags_ok P es"
  using ids_same [of dg_project_id es ds] by (simp add: diags_ok_def)

lemma SetProjectDiagnosticsToken_ok [keep]:
  "id_ok env db \<Longrightarrow> id_ok env (snd (SetProjectDiagnosticsToken sl nonce flt now db pid tok who))"
proof -
  assume ok: "id_ok env db"
  have diags: "id_ok env (db\<lparr>db_project_diagnostics := ds\<rparr>)" if "diags_ok (project_ids db) ds" for ds
    using ok that by (simp add: id_ok_def id_sets)
  have old: "diags_ok (project_ids db) (db_project_diagnostics db)" using ok by (simp add: id_ok_def)
  have "diags_ok (project_ids db) (map (\<lambda>d. if dg_project_id d = pid
      then d\<lparr>dg_token_sealed := x, dg_updated_by := who, dg_updated_at := now\<rparr> else d) (db_project_diagnostics db))" for x
    by (rule diags_same [OF _ old]) simp
  moreover have "diags_ok (project_ids db) (filter (\<lambda>d. dg_project_id d \<noteq> pid) (db_project_diagnostics db))"
    using old by (auto simp: diags_ok_def distinct_map_filter)
  ultimately show ?thesis using ok old
    by (auto simp: SetProjectDiagnosticsToken_def Let_def has_id_def diags_ok_def id_sets intro!: diags
        split: option.split)
qed

lemma verify_token_in: "verify_token env presented ms = Some p \<Longrightarrow> \<exists>t. (p, t) \<in> set ms \<and> constantTimeEqual env t presented"
  by (auto simp: verify_token_def find_Some_iff in_set_conv_nth) metis

lemma open_tokens_in: "(p, t) \<in> set (open_tokens b a rows) \<Longrightarrow> \<exists>sealed. (p, sealed) \<in> set rows \<and> Open_token b a sealed = Inr t"
  by (auto simp: open_tokens_def split: sum.splits)

lemma service_tokens_in: "(p, sealed) \<in> set (service_tokens db svc) \<Longrightarrow>
    (p, svc) \<in> set (db_project_applications db) \<and> p \<in> project_ids db
    \<and> (\<exists>d \<in> set (db_project_diagnostics db). dg_project_id d = p \<and> dg_token_sealed d = sealed)"
  by (auto simp: service_tokens_def has_id_def id_sets split: if_splits)

lemma projectTokenFor_in: "projectTokenFor sl fault db svc = Inr ms \<Longrightarrow> (p, t) \<in> set ms \<Longrightarrow>
    (p, svc) \<in> set (db_project_applications db) \<and> p \<in> project_ids db
    \<and> (\<exists>b a. sl = Some (b, a) \<and> (\<exists>d \<in> set (db_project_diagnostics db). dg_project_id d = p
        \<and> Open_token b a (dg_token_sealed d) = Inr t))"
  by (auto simp: projectTokenFor_def dest!: open_tokens_in service_tokens_in split: option.splits if_splits)

lemma verify_registration_some:
  assumes "verify_registration env sl fault db svc presented = Inr (Some p)"
  shows "presented \<noteq> [] \<and> (p, svc) \<in> set (db_project_applications db) \<and> p \<in> project_ids db
    \<and> (\<exists>b a. sl = Some (b, a) \<and> (\<exists>d \<in> set (db_project_diagnostics db). dg_project_id d = p
        \<and> (\<exists>t. Open_token b a (dg_token_sealed d) = Inr t \<and> constantTimeEqual env t presented)))"
proof -
  from assms obtain ms where ms: "projectTokenFor sl fault db svc = Inr ms" "verify_token env presented ms = Some p"
    "presented \<noteq> []"
    by (auto simp: verify_registration_def split: if_splits sum.splits id_error.splits)
  from verify_token_in [OF ms(2)] projectTokenFor_in [OF ms(1)] ms(3) show ?thesis by blast
qed

lemma agents_upserted:
  assumes "agents_ok P as" "same_agent inp old" "old \<in> set as" "set_option (ag_project_id upd) \<subseteq> P"
    "ag_id upd = ag_id old" "same_agent inp upd"
  shows "agents_ok P (map (\<lambda>a. if same_agent inp a then upd else a) as)
    \<and> ag_id ` set (map (\<lambda>a. if same_agent inp a then upd else a) as) = ag_id ` set as"
proof -
  obtain xs ys where as: "as = xs @ old # ys" using assms(3) by (metis split_list)
  have other: "\<not> same_agent inp a" if "a \<in> set xs \<union> set ys" for a
    using assms(1,2) that as by (auto simp: agents_ok_def same_agent_def image_iff)
  have "map (\<lambda>a. if same_agent inp a then upd else a) zs = zs" if "set zs \<subseteq> set xs \<union> set ys" for zs
    using that other by (intro map_idI) auto
  then have "map (\<lambda>a. if same_agent inp a then upd else a) as = xs @ upd # ys"
    using as assms(2) by simp
  with as assms show ?thesis by (auto simp: agents_ok_def same_agent_def)
qed

lemma agents_changed_ok:
  assumes "id_ok env db" "agents_ok (project_ids db) as" "agent_ids db \<subseteq> ag_id ` set as"
  shows "id_ok env (db\<lparr>db_agents := as\<rparr>)"
  using assms artifacts_ok_mono [of "agent_ids db" "db_artifacts db" "ag_id ` set as"]
  by (simp add: id_ok_def id_sets)

lemma RegisterAgent_ok [keep]: "id_ok env db \<Longrightarrow> id_ok env (snd (RegisterAgent env sl flt nid now db inp tok))"
proof -
  assume ok: "id_ok env db"
  then have as: "agents_ok (project_ids db) (db_agents db)" by (simp add: id_ok_def)
  show ?thesis
  proof (cases "verify_registration env sl (flt 0) db (ag_service_name inp) tok")
    case (Inl e)
    with ok show ?thesis by (simp add: RegisterAgent_def)
  next
    case (Inr proj)
    then have p: "set_option proj \<subseteq> project_ids db"
      using verify_registration_some [of env sl "flt 0" db "ag_service_name inp" tok] by (cases proj) auto
    show ?thesis
    proof (cases "find (same_agent inp) (db_agents db)")
      case None
      then have "\<forall>a \<in> set (db_agents db). \<not> same_agent inp a" by (simp add: find_None_iff)
      with as p have "agents_ok (project_ids db) (db_agents db @ [inp\<lparr>ag_verified := proj \<noteq> None,
          ag_project_id := proj, ag_id := nid, ag_first_seen := now, ag_last_seen := now\<rparr>])"
        if "nid \<notin> ag_id ` set (db_agents db)"
        using that by (auto simp: agents_ok_def same_agent_def image_iff)
      then have "id_ok env (db\<lparr>db_agents := db_agents db @ [inp\<lparr>ag_verified := proj \<noteq> None,
          ag_project_id := proj, ag_id := nid, ag_first_seen := now, ag_last_seen := now\<rparr>]\<rparr>)"
        if "nid \<notin> ag_id ` set (db_agents db)"
        using that ok by (intro agents_changed_ok) (auto simp: id_sets)
      with Inr None ok show ?thesis by (auto simp: RegisterAgent_def Let_def has_id_def)
    next
      case (Some old)
      let ?upd = "inp\<lparr>ag_verified := proj \<noteq> None, ag_project_id := proj, ag_id := ag_id old,
        ag_first_seen := ag_first_seen old, ag_last_seen := now\<rparr>"
      from Some have o: "same_agent inp old" "old \<in> set (db_agents db)"
        by (auto simp: find_Some_iff)
      have "agents_ok (project_ids db) (map (\<lambda>a. if same_agent inp a then ?upd else a) (db_agents db))
        \<and> ag_id ` set (map (\<lambda>a. if same_agent inp a then ?upd else a) (db_agents db)) = ag_id ` set (db_agents db)"
        using as o p by (intro agents_upserted) (simp_all add: same_agent_def)
      then have "id_ok env (db\<lparr>db_agents := map (\<lambda>a. if same_agent inp a then ?upd else a) (db_agents db)\<rparr>)"
        using ok by (intro agents_changed_ok) (simp_all add: id_sets)
      with Inr Some ok show ?thesis by (simp add: RegisterAgent_def Let_def del: not_None_eq)
    qed
  qed
qed

lemma artifacts_changed_ok:
  assumes "id_ok env db" "map da_id ds = map da_id (db_artifacts db)" "map da_instance_id ds = map da_instance_id (db_artifacts db)"
  shows "id_ok env (db\<lparr>db_artifacts := ds\<rparr>)"
proof -
  have "(\<Union>d \<in> set ds. set_option (da_instance_id d)) = (\<Union>d \<in> set (db_artifacts db). set_option (da_instance_id d))"
    using ids_same [OF assms(3)] by (metis image_image)
  with assms(1,2) show ?thesis by (simp add: id_ok_def artifacts_ok_def id_sets)
qed

lemma CreateArtifact_ok [keep]: "id_ok env db \<Longrightarrow> id_ok env (snd (CreateArtifact flt nid now db i s k w))"
  by (auto simp: CreateArtifact_def id_ok_def id_sets artifacts_ok_def has_id_def new_artifact_def)

lemma CompleteArtifact_ok [keep]: "id_ok env db \<Longrightarrow> id_ok env (snd (CompleteArtifact flt db did f n))"
  by (auto simp: CompleteArtifact_def upd_artifact_def intro!: artifacts_changed_ok)

lemma FailArtifact_ok [keep]: "id_ok env db \<Longrightarrow> id_ok env (snd (FailArtifact flt db did m))"
  by (auto simp: FailArtifact_def upd_artifact_def intro!: artifacts_changed_ok)

lemma CancelArtifact_ok [keep]: "id_ok env db \<Longrightarrow> id_ok env (snd (CancelArtifact flt db did))"
  by (auto simp: CancelArtifact_def upd_artifact_def intro!: artifacts_changed_ok)

lemma DeleteArtifact_ok [keep]: "id_ok env db \<Longrightarrow> id_ok env (snd (DeleteArtifact flt db did))"
  by (auto simp: DeleteArtifact_def id_ok_def id_sets artifacts_ok_def distinct_map_filter)

section \<open>Runs of the control plane\<close>

datatype id_op =
    OpCreateUser string time string string string bool
  | OpUpdateUser time string string bool bool
  | OpSetPassword time string string
  | OpDeleteUser string
  | OpSetUserRoleGroups string "string list"
  | OpCreateRoleGroup string time string string "permission list"
  | OpUpdateRoleGroup string string string "permission list"
  | OpDeleteRoleGroup string
  | OpCreateProject string time string string string
  | OpUpdateProject string string string
  | OpDeleteProject string
  | OpSetProjectApplications string "string list"
  | OpSetProjectRoleGroups string "string list"
  | OpAuthenticate time string string
  | OpCreateSession string time string string int
  | OpDeleteSession string
  | OpPurge time
  | OpBootstrap string string time string string
  | OpSetToken "u8 list" time string string string
  | OpRegister string time agent_row string
  | OpCreateArtifact string time string string string string
  | OpCompleteArtifact string string int
  | OpFailArtifact string string
  | OpCancelArtifact string
  | OpDeleteArtifact string

fun id_step :: "id_env \<Rightarrow> sealer \<Rightarrow> idb \<Rightarrow> faults \<times> id_op \<Rightarrow> idb" where
  "id_step env sl db (f, OpCreateUser nid now e n p s) = snd (CreateUser env f nid now db e n p s)"
| "id_step env sl db (f, OpUpdateUser now i n a s) = snd (UpdateUser f now db i n a s)"
| "id_step env sl db (f, OpSetPassword now i p) = snd (SetPassword env f now db i p)"
| "id_step env sl db (f, OpDeleteUser i) = snd (DeleteUser f db i)"
| "id_step env sl db (f, OpSetUserRoleGroups i gs) = snd (SetUserRoleGroups f db i gs)"
| "id_step env sl db (f, OpCreateRoleGroup nid now n d ps) = snd (CreateRoleGroup env f nid now db n d ps)"
| "id_step env sl db (f, OpUpdateRoleGroup i n d ps) = snd (UpdateRoleGroup env f db i n d ps)"
| "id_step env sl db (f, OpDeleteRoleGroup i) = snd (DeleteRoleGroup f db i)"
| "id_step env sl db (f, OpCreateProject nid now k n d) = snd (CreateProject env f nid now db k n d)"
| "id_step env sl db (f, OpUpdateProject i n d) = snd (UpdateProject f db i n d)"
| "id_step env sl db (f, OpDeleteProject i) = snd (DeleteProject f db i)"
| "id_step env sl db (f, OpSetProjectApplications i ss) = snd (SetProjectApplications f db i ss)"
| "id_step env sl db (f, OpSetProjectRoleGroups i gs) = snd (SetProjectRoleGroups f db i gs)"
| "id_step env sl db (f, OpAuthenticate now e p) = snd (Authenticate env f now db e p)"
| "id_step env sl db (f, OpCreateSession tok now i ua ttl) = snd (CreateSession env f tok now db i ua ttl)"
| "id_step env sl db (f, OpDeleteSession tok) = snd (DeleteSession env f db tok)"
| "id_step env sl db (f, OpPurge now) = snd (PurgeExpiredSessions f now db)"
| "id_step env sl db (f, OpBootstrap nid rnd now e p) = snd (Bootstrap env f nid rnd now db e p)"
| "id_step env sl db (f, OpSetToken nonce now i tok w) = snd (SetProjectDiagnosticsToken sl nonce f now db i tok w)"
| "id_step env sl db (f, OpRegister nid now a tok) = snd (RegisterAgent env sl f nid now db a tok)"
| "id_step env sl db (f, OpCreateArtifact nid now i s k w) = snd (CreateArtifact f nid now db i s k w)"
| "id_step env sl db (f, OpCompleteArtifact i fn n) = snd (CompleteArtifact f db i fn n)"
| "id_step env sl db (f, OpFailArtifact i m) = snd (FailArtifact f db i m)"
| "id_step env sl db (f, OpCancelArtifact i) = snd (CancelArtifact f db i)"
| "id_step env sl db (f, OpDeleteArtifact i) = snd (DeleteArtifact f db i)"

lemma id_step_ok: "id_ok env db \<Longrightarrow> id_ok env (id_step env sl db fo)"
  by (cases fo; cases "snd fo") (auto simp: keep)

interpretation control: invariant_machine "id_step env sl" "id_ok env" for env :: id_env and sl :: sealer
  by unfold_locales (rule id_step_ok)

end
