(* ===== verification/IdentityTheorems.thy ===== *)
theory IdentityTheorems
  imports IdentityProps
begin

text \<open>
  The properties of the control plane, on the tables of \<open>Identity\<close> and the operations of
  \<open>Identity\<close> and \<open>IdentityDiag\<close>.
\<close>

section \<open>Integrity\<close>

text \<open>Whatever operations run in whatever order, with whatever round trips failing, the
  tables stay consistent: identifiers and, ignoring case, e-mail addresses, group names and
  project keys are unique, every membership, binding, assignment, token, session and agent refers
  to rows that exist, and only known permissions are stored.\<close>

theorem control_plane_integrity: "id_ok env (foldl (id_step env sl) empty_idb ops)"
  by (rule control.run_good) (rule empty_idb_ok)

section \<open>The last administrator\<close>

definition has_admin :: "idb \<Rightarrow> bool" where
  "has_admin db \<longleftrightarrow> (\<exists>u \<in> set (db_users db). is_active_admin u)"

lemma has_admin_cong: "db_users db' = db_users db \<Longrightarrow> has_admin db' = has_admin db"
  by (simp add: has_admin_def)

lemma findD: "find P xs = Some x \<Longrightarrow> x \<in> set xs \<and> P x"
  by (auto simp: find_Some_iff)

lemma find_unique: "distinct (map k xs) \<Longrightarrow> x \<in> set xs \<Longrightarrow> find (\<lambda>y. k y = k x) xs = Some x"
  by (induction xs) (auto simp: image_iff)

lemma find_user_unique: "users_ok env (db_users db) \<Longrightarrow> u \<in> set (db_users db) \<Longrightarrow> find_user db (us_id u) = Some u"
  by (simp add: find_user_def users_ok_def find_unique)

lemma not_last_other:
  assumes "id_ok env db" "has_admin db" "isLastActiveAdmin flt db uid = Inr False"
  shows "\<exists>u \<in> set (db_users db). is_active_admin u \<and> us_id u \<noteq> uid"
proof -
  from assms(2) obtain a where a: "a \<in> set (db_users db)" "is_active_admin a" by (auto simp: has_admin_def)
  show ?thesis
  proof (cases "us_id a = uid")
    case True
    have "find_user db uid = Some a"
      using find_user_unique [of env db a] assms(1) a True by (simp add: id_ok_def)
    with assms(3) a have "filter (\<lambda>v. is_active_admin v \<and> us_id v \<noteq> uid) (db_users db) \<noteq> []"
      by (auto simp: isLastActiveAdmin_def split: if_splits)
    then show ?thesis by (auto simp: filter_empty_conv)
  qed (use a in blast)
qed

lemma admin_kept_by_update:
  assumes "id_ok env db" "has_admin db"
  shows "has_admin (snd (UpdateUser flt now db uid n a s))"
proof (cases "update_guard flt db uid a s")
  case None
  have keepers: "has_admin (db\<lparr>db_users := map (set_user now uid n a s) (db_users db)\<rparr>)"
  proof (cases "s \<and> a")
    case True
    from assms(2) obtain v where "v \<in> set (db_users db)" "is_active_admin v" by (auto simp: has_admin_def)
    then have "set_user now uid n a s v \<in> set (map (set_user now uid n a s) (db_users db))"
      "is_active_admin (set_user now uid n a s v)"
      using True by (auto simp: set_user_def is_active_admin_def)
    then show ?thesis unfolding has_admin_def by auto
  next
    case False
    then have "isLastActiveAdmin flt db uid = Inr False"
      using None by (auto simp: update_guard_def split: if_splits sum.splits)
    from not_last_other [OF assms this] obtain v where v: "v \<in> set (db_users db)" "is_active_admin v" "us_id v \<noteq> uid"
      by blast
    then have "set_user now uid n a s v = v" by (simp add: set_user_def)
    with v show ?thesis unfolding has_admin_def by force
  qed
  with None assms(2) show ?thesis by (auto simp: UpdateUser_def update_statement_def Let_def)
qed (use assms(2) in \<open>simp add: UpdateUser_def\<close>)

lemma admin_kept_by_delete:
  assumes "id_ok env db" "has_admin db"
  shows "has_admin (snd (DeleteUser flt db uid))"
proof (cases "isLastActiveAdmin flt db uid")
  case (Inr l)
  show ?thesis
  proof (cases l)
    case False
    with not_last_other [OF assms] Inr have "has_admin (delete_user_rows db uid)"
      by (auto simp: has_admin_def delete_user_rows_def)
    with Inr False assms(2) show ?thesis by (simp add: DeleteUser_def)
  qed (use Inr assms(2) in \<open>simp add: DeleteUser_def\<close>)
qed (use assms(2) in \<open>simp add: DeleteUser_def\<close>)

lemma inTx_users:
  assumes "\<And>e db1. body db = (e, db1) \<Longrightarrow> db_users db1 = db_users db"
  shows "db_users (snd (inTx flt db body)) = db_users db"
proof -
  obtain e db1 where "body db = (e, db1)" by fastforce
  with assms show ?thesis by (simp add: inTx_def split: option.split)
qed

lemma users_map_admin:
  assumes "has_admin db" "db_users db' = map (\<lambda>u. if P u then f u else u) (db_users db)"
    "\<And>u. is_active_admin (f u) = is_active_admin u"
  shows "has_admin db'"
proof -
  from assms(1) obtain u where u: "u \<in> set (db_users db)" "is_active_admin u" by (auto simp: has_admin_def)
  then have "(if P u then f u else u) \<in> set (db_users db')" "is_active_admin (if P u then f u else u)"
    using assms(2,3) by (auto simp: image_iff)
  then show ?thesis unfolding has_admin_def by blast
qed

lemma admin_rows [simp]:
  "has_admin (db\<lparr>db_sessions := ss\<rparr>) = has_admin db"
  "has_admin db \<Longrightarrow> has_admin (db\<lparr>db_users := map (\<lambda>u. if us_id u = uid
     then u\<lparr>us_password_hash := h, us_updated_at := now\<rparr> else u) (db_users db)\<rparr>)"
  "has_admin db \<Longrightarrow> has_admin (db\<lparr>db_users := map (\<lambda>u. if us_id u = uid
     then u\<lparr>us_last_login_at := l\<rparr> else u) (db_users db)\<rparr>)"
proof -
  show "has_admin (db\<lparr>db_sessions := ss\<rparr>) = has_admin db" by (simp add: has_admin_def)
  show "has_admin (db\<lparr>db_users := map (\<lambda>u. if us_id u = uid
     then u\<lparr>us_password_hash := h, us_updated_at := now\<rparr> else u) (db_users db)\<rparr>)" if "has_admin db"
    by (rule users_map_admin [OF that, where P = "\<lambda>u. us_id u = uid"
          and f = "\<lambda>u. u\<lparr>us_password_hash := h, us_updated_at := now\<rparr>"]) (simp_all add: is_active_admin_def)
  show "has_admin (db\<lparr>db_users := map (\<lambda>u. if us_id u = uid
     then u\<lparr>us_last_login_at := l\<rparr> else u) (db_users db)\<rparr>)" if "has_admin db"
    by (rule users_map_admin [OF that, where P = "\<lambda>u. us_id u = uid"
          and f = "\<lambda>u. u\<lparr>us_last_login_at := l\<rparr>"]) (simp_all add: is_active_admin_def)
qed

lemma admin_kept_users:
  assumes "has_admin db"
  shows "has_admin (snd (CreateUser env flt nid now db e n p s))"
    and "has_admin (snd (SetPassword env flt now db uid p))"
    and "has_admin (snd (Authenticate env flt now db e p))"
    and "has_admin (snd (Bootstrap env flt nid rnd now db e p))"
proof -
  have create: "has_admin (snd (CreateUser env f nid now db e' n' p' s'))" for f e' n' p' s'
    using assms by (auto simp: CreateUser_def Let_def has_admin_def split: option.split)
  then show "has_admin (snd (CreateUser env flt nid now db e n p s))" .
  show "has_admin (snd (SetPassword env flt now db uid p))"
    using assms by (auto simp: SetPassword_def Let_def split: option.split)
  show "has_admin (snd (Authenticate env flt now db e p))"
    using assms by (auto simp: Authenticate_def split: option.split)
  have "has_admin db1" if "CreateUser env f nid now db e' n' p' s' = (r, db1)" for f e' n' p' s' r db1
    using create [of f e' n' p' s'] that by simp
  with assms show "has_admin (snd (Bootstrap env flt nid rnd now db e p))"
    by (auto simp: Bootstrap_def Let_def split: prod.split sum.split)
qed

lemma users_frame:
  "db_users (snd (SetUserRoleGroups flt db uid gs)) = db_users db"
  "db_users (snd (CreateRoleGroup env flt nid now db n d ps)) = db_users db"
  "db_users (snd (UpdateRoleGroup env flt db gid n d ps)) = db_users db"
  "db_users (snd (DeleteRoleGroup flt db gid)) = db_users db"
  "db_users (snd (CreateProject env flt nid now db k n d)) = db_users db"
  "db_users (snd (UpdateProject flt db pid n d)) = db_users db"
  "db_users (snd (DeleteProject flt db pid)) = db_users db"
  "db_users (snd (SetProjectApplications flt db pid ss)) = db_users db"
  "db_users (snd (SetProjectRoleGroups flt db pid gs)) = db_users db"
  "db_users (snd (CreateSession env flt tok now db uid ua ttl)) = db_users db"
  "db_users (snd (DeleteSession env flt db tok)) = db_users db"
  "db_users (snd (PurgeExpiredSessions flt now db)) = db_users db"
  "db_users (snd (SetProjectDiagnosticsToken sl nonce flt now db pid tok who)) = db_users db"
  "db_users (snd (RegisterAgent env sl flt nid now db a tok)) = db_users db"
  "db_users (snd (CreateArtifact flt nid now db i s kd w)) = db_users db"
  "db_users (snd (CompleteArtifact flt db did fnm m)) = db_users db"
  "db_users (snd (FailArtifact flt db did msg)) = db_users db"
  "db_users (snd (CancelArtifact flt db did)) = db_users db"
  "db_users (snd (DeleteArtifact flt db did)) = db_users db"
  by (auto simp: SetUserRoleGroups_def CreateRoleGroup_def UpdateRoleGroup_def DeleteRoleGroup_def
      CreateProject_def UpdateProject_def DeleteProject_def delete_project_rows_def
      SetProjectApplications_def SetProjectRoleGroups_def CreateSession_def DeleteSession_def
      PurgeExpiredSessions_def SetProjectDiagnosticsToken_def RegisterAgent_def CreateArtifact_def
      CompleteArtifact_def FailArtifact_def CancelArtifact_def DeleteArtifact_def upd_artifact_def Let_def
      split: option.split sum.split prod.splits if_splits intro!: inTx_users)

lemma id_step_admin: "id_ok env db \<Longrightarrow> has_admin db \<Longrightarrow> has_admin (id_step env sl db fo)"
  by (cases fo; cases "snd fo")
    (auto simp: admin_kept_users admin_kept_by_update admin_kept_by_delete
      intro: has_admin_cong [THEN iffD2] users_frame)

interpretation admins: invariant_machine "id_step env sl" "\<lambda>db. id_ok env db \<and> has_admin db" for env :: id_env and sl :: sealer
  by unfold_locales (simp add: id_step_ok id_step_admin)

text \<open>Somebody can always administer the system: once there is an active administrator, no
  sequence of operations, demotions, deactivations and deletions included, leaves it without
  one.\<close>

theorem admin_never_lost:
  assumes "id_ok env db" "\<exists>u \<in> set (db_users db). is_active_admin u"
  shows "\<exists>u \<in> set (db_users (foldl (id_step env sl) db ops)). is_active_admin u"
  using admins.run_good [of env db sl ops] assms by (simp add: has_admin_def)

section \<open>Example tables\<close>

definition example_env :: id_env where
  "example_env = \<lparr>en_lower = to_lower, en_bcrypt = (\<lambda>p. Some (''h:'' @ p)), en_check = (\<lambda>h p. h = ''h:'' @ p),
     en_sha256 = str_bytes\<rparr>"

definition no_faults :: faults where
  "no_faults n = False"

definition admin_row :: "string \<Rightarrow> string \<Rightarrow> user_row" where
  "admin_row i e = \<lparr>us_id = i, us_email = e, us_name = [], us_password_hash = ''h:secret12'',
     us_is_super_admin = True, us_is_active = True, us_created_at = 0, us_updated_at = 0,
     us_last_login_at = None\<rparr>"

definition two_admins :: idb where
  "two_admins = empty_idb\<lparr>db_users := [admin_row ''a'' ''ann'', admin_row ''b'' ''bob'']\<rparr>"

lemma two_admins_ok: "id_ok example_env two_admins"
  by (simp add: id_ok_def table_defs id_sets two_admins_def empty_idb_def admin_row_def example_env_def
      to_lower_def lower_char_def)

theorem admin_never_lost_witness:
  "\<exists>u \<in> set (db_users (foldl (id_step example_env None) two_admins
     [(no_faults, OpUpdateUser 1 ''a'' ''ann'' True False), (no_faults, OpDeleteUser ''b'')])). is_active_admin u"
  by (rule admin_never_lost [OF two_admins_ok]) (simp add: two_admins_def admin_row_def is_active_admin_def)

text \<open>The guard and the statement of an update are two round trips outside a transaction:
  when two administrators are demoted at the same time, both guards can pass before either
  statement runs, and then no administrator is left.\<close>

theorem last_admin_guard_races:
  "\<exists>db. id_ok example_env db \<and> (\<exists>u \<in> set (db_users db). is_active_admin u)
     \<and> update_guard no_faults db ''a'' True False = None \<and> update_guard no_faults db ''b'' True False = None
     \<and> \<not> (\<exists>u \<in> set (db_users (snd (update_statement no_faults 2
            (snd (update_statement no_faults 1 db ''a'' [] True False)) ''b'' [] True False))). is_active_admin u)"
proof (intro exI conjI)
  show "id_ok example_env two_admins" by (rule two_admins_ok)
qed (simp_all add: two_admins_def admin_row_def is_active_admin_def update_guard_def isLastActiveAdmin_def
    find_user_def no_faults_def update_statement_def Let_def set_user_def)

section \<open>Passwords and sessions\<close>

lemma Authenticate_outcome:
  assumes "Authenticate env flt now db email password = (r, db1)" "\<not> flt 0"
  shows "(\<forall>u. r = Inr u \<longrightarrow> u \<in> set (db_users db) \<and> us_is_active u
        \<and> en_check env (us_password_hash u) password
        \<and> en_lower env (us_email u) = en_lower env (trim_space email))
    \<and> (r = Inl ErrBadCredential) = (\<not> (\<exists>u. find (\<lambda>u. en_lower env (us_email u) = en_lower env (trim_space email))
          (db_users db) = Some u \<and> en_check env (us_password_hash u) password))"
proof (cases "find (\<lambda>u. en_lower env (us_email u) = en_lower env (trim_space email)) (db_users db)")
  case (Some u)
  then have "u \<in> set (db_users db)" "en_lower env (us_email u) = en_lower env (trim_space email)"
    by (auto simp: find_Some_iff)
  with Some assms show ?thesis by (auto simp: Authenticate_def split: if_splits)
qed (use assms in \<open>auto simp: Authenticate_def\<close>)

text \<open>A successful login names an active user with this e-mail address, up to case and
  surrounding space, and this password; an unknown address and a wrong password are the same
  error.\<close>

theorem authenticate_sound:
  assumes "Authenticate env flt now db email password = (r, db1)" "\<not> flt 0"
  shows "(\<forall>u. r = Inr u \<longrightarrow> u \<in> set (db_users db) \<and> us_is_active u
        \<and> en_check env (us_password_hash u) password
        \<and> en_lower env (us_email u) = en_lower env (trim_space email))
    \<and> (r = Inl ErrBadCredential) = (\<not> (\<exists>u. find (\<lambda>u. en_lower env (us_email u) = en_lower env (trim_space email))
          (db_users db) = Some u \<and> en_check env (us_password_hash u) password))"
  using assms by (rule Authenticate_outcome)

theorem authenticate_sound_witness:
  "fst (Authenticate example_env no_faults 1 two_admins '' ANN '' ''wrong'') = Inl ErrBadCredential
   \<and> fst (Authenticate example_env no_faults 1 two_admins ''eve'' ''secret12'') = Inl ErrBadCredential"
proof -
  have n: "\<not> no_faults 0" by (simp add: no_faults_def)
  have "find (\<lambda>u. en_lower example_env (us_email u) = en_lower example_env (trim_space ''eve'')) (db_users two_admins) = None"
    by (simp add: two_admins_def admin_row_def example_env_def to_lower_def lower_char_def trim_space_def
        strip.simps space_len_def space_len_rev_def ascii_space_def wide_space2_def wide_space3_def)
  moreover have "en_check example_env (us_password_hash u) ''wrong'' = False" if "u \<in> set (db_users two_admins)" for u
    using that by (auto simp: two_admins_def admin_row_def example_env_def)
  moreover obtain r1 d1 r2 d2 where
      r: "Authenticate example_env no_faults 1 two_admins '' ANN '' ''wrong'' = (r1, d1)"
        "Authenticate example_env no_faults 1 two_admins ''eve'' ''secret12'' = (r2, d2)"
    by fastforce
  moreover note authenticate_sound [where flt = no_faults, OF r(1) n] authenticate_sound [where flt = no_faults, OF r(2) n]
  ultimately show ?thesis by (auto simp: find_Some_iff)
qed

text \<open>(C36) After a password change no session of the user is left: whatever token is presented,
  at whatever time, it does not name that user.\<close>

theorem password_change_ends_sessions:
  assumes "SetPassword env flt now db uid password = (Inr (), db1)"
  shows "(\<forall>s \<in> set (db_sessions db1). se_user_id s \<noteq> uid)
    \<and> (\<forall>t token u. session_user env t db1 token = Some u \<longrightarrow> us_id u \<noteq> uid)"
proof -
  have none: "\<forall>s \<in> set (db_sessions db1). se_user_id s \<noteq> uid"
    using assms by (auto simp: SetPassword_def Let_def split: if_splits option.splits)
  have "us_id u \<noteq> uid" if "session_user env t db1 token = Some u" for t token u
  proof -
    from that obtain s where s: "s \<in> set (db_sessions db1)"
      "find (\<lambda>u. us_id u = se_user_id s \<and> us_is_active u) (db_users db1) = Some u"
      by (auto simp: session_user_def find_Some_iff split: option.splits) (metis find_Some_iff nth_mem)
    then have "us_id u = se_user_id s" by (auto simp: find_Some_iff)
    with none s(1) show ?thesis by auto
  qed
  with none show ?thesis by blast
qed

definition example_session :: session_row where
  "example_session = \<lparr>se_token_hash = hashToken example_env ''tok'', se_user_id = ''a'', se_created_at = 0,
     se_expires_at = 100, se_user_agent = []\<rparr>"

theorem password_change_ends_sessions_witness:
  "session_user example_env 5 (two_admins\<lparr>db_sessions := [example_session]\<rparr>) ''tok'' = Some (admin_row ''a'' ''ann'')
   \<and> filter (\<lambda>s. se_user_id s = ''a'') (db_sessions (snd (SetPassword example_env no_faults 3
        (two_admins\<lparr>db_sessions := [example_session]\<rparr>) ''a'' ''new-secret''))) = []"
proof -
  let ?db = "two_admins\<lparr>db_sessions := [example_session]\<rparr>"
  have "fst (SetPassword example_env no_faults 3 ?db ''a'' ''new-secret'') = Inr ()"
    by (simp add: SetPassword_def example_env_def no_faults_def has_id_def two_admins_def admin_row_def Let_def)
  then have "SetPassword example_env no_faults 3 ?db ''a'' ''new-secret'' =
      (Inr (), snd (SetPassword example_env no_faults 3 ?db ''a'' ''new-secret''))"
    by (metis prod.collapse)
  from password_change_ends_sessions [OF this]
  show ?thesis
    by (simp add: filter_empty_conv session_user_def example_session_def two_admins_def admin_row_def)
qed

text \<open>When the second round trip fails the new password is stored, the sessions stay, and the
  caller gets an error: the two statements are not one transaction.\<close>

lemma password_change_not_atomic:
  assumes "8 \<le> length password" "en_bcrypt env password = Some hash" "has_id us_id (db_users db) uid"
    "\<not> flt 0" "flt 1"
  shows "fst (SetPassword env flt now db uid password) = Inl ErrDb
    \<and> db_sessions (snd (SetPassword env flt now db uid password)) = db_sessions db
    \<and> db_users (snd (SetPassword env flt now db uid password)) = map (\<lambda>u. if us_id u = uid
          then u\<lparr>us_password_hash := hash, us_updated_at := now\<rparr> else u) (db_users db)"
  using assms unfolding SetPassword_def Let_def by (simp only: option.case if_True if_False not_less) simp

lemma find_filter_irrelevant: "\<forall>x. P x \<longrightarrow> Q x \<Longrightarrow> find P (filter Q xs) = find P xs"
  by (induction xs) auto

lemma find_append: "find P (xs @ ys) = (case find P xs of None \<Rightarrow> find P ys | Some x \<Rightarrow> Some x)"
  by (induction xs) auto

lemma session_opened:
  assumes "CreateSession env flt token now db uid userAgent ttl = (Inr (tk, expires), db1)"
  shows "tk = token \<and> expires = now + ttl \<and> db_users db1 = db_users db
    \<and> session_user env t db1 token =
        (if t < expires then find (\<lambda>u. us_id u = uid \<and> us_is_active u) (db_users db) else None)"
proof -
  have c: "tk = token" "expires = now + ttl" "db_users db1 = db_users db"
    "\<not> has_id se_token_hash (db_sessions db) (hashToken env token)"
    "db_sessions db1 = db_sessions db @ [\<lparr>se_token_hash = hashToken env token, se_user_id = uid,
       se_created_at = now, se_expires_at = now + ttl, se_user_agent = truncate_str userAgent 250\<rparr>]"
    using assms(1) by (auto simp: CreateSession_def Let_def split: if_splits)
  have "find (\<lambda>s. se_token_hash s = hashToken env token \<and> t < se_expires_at s) (db_sessions db) = None"
    using c(4) by (force simp: find_None_iff has_id_def)
  with c show ?thesis by (simp add: session_user_def find_append)
qed

lemma session_purged:
  assumes "\<not> flt 0" "purged \<le> t"
  shows "session_user env t (snd (PurgeExpiredSessions flt purged db)) token = session_user env t db token"
proof -
  have "find (\<lambda>s. se_token_hash s = hashToken env token \<and> t < se_expires_at s)
      (filter (\<lambda>s. \<not> se_expires_at s \<le> purged) (db_sessions db)) =
    find (\<lambda>s. se_token_hash s = hashToken env token \<and> t < se_expires_at s) (db_sessions db)"
    using assms(2) by (intro find_filter_irrelevant) auto
  with assms(1) show ?thesis by (simp add: session_user_def PurgeExpiredSessions_def split: option.split)
qed

lemma session_deleted:
  assumes "\<not> flt 0"
  shows "session_user env t (snd (DeleteSession env flt db token)) token = None"
proof -
  have "find (\<lambda>s. se_token_hash s = hashToken env token \<and> t < se_expires_at s)
      (filter (\<lambda>s. se_token_hash s \<noteq> hashToken env token) (db_sessions db)) = None"
    by (auto simp: find_None_iff)
  with assms show ?thesis by (simp add: session_user_def DeleteSession_def)
qed

text \<open>A session names its user from its creation until it expires, as long as the user is
  active; purging expired sessions changes no answer, and after a logout the token names nobody.\<close>

theorem session_lifecycle:
  assumes "CreateSession env flt token now db uid userAgent ttl = (Inr (tk, expires), db1)"
    and "\<not> flt' 0" "purged \<le> t"
  shows "tk = token \<and> expires = now + ttl
    \<and> session_user env t db1 token =
        (if t < expires then find (\<lambda>u. us_id u = uid \<and> us_is_active u) (db_users db) else None)
    \<and> session_user env t (snd (PurgeExpiredSessions flt' purged db1)) token = session_user env t db1 token
    \<and> session_user env t (snd (DeleteSession env flt' db1 token)) token = None"
  using session_opened [OF assms(1), of t] session_purged [where flt = flt', OF assms(2,3)]
    session_deleted [where flt = flt', OF assms(2)]
  by simp

theorem session_lifecycle_witness:
  "session_user example_env 5 (snd (CreateSession example_env no_faults ''tok'' 3 two_admins ''b'' ''ua'' 10)) ''tok''
     = Some (admin_row ''b'' ''bob'')"
proof -
  have "fst (CreateSession example_env no_faults ''tok'' 3 two_admins ''b'' ''ua'' 10) = Inr (''tok'', 13)"
    by (simp add: CreateSession_def Let_def no_faults_def has_id_def two_admins_def empty_idb_def admin_row_def)
  then have c: "CreateSession example_env no_faults ''tok'' 3 two_admins ''b'' ''ua'' 10 =
      (Inr (''tok'', 13), snd (CreateSession example_env no_faults ''tok'' 3 two_admins ''b'' ''ua'' 10))"
    by (metis prod.collapse)
  have "\<not> no_faults 0" by (simp add: no_faults_def)
  from session_lifecycle [where flt' = no_faults and t = 5, OF c this order_refl] show ?thesis
    by (simp add: two_admins_def admin_row_def)
qed

section \<open>Access\<close>

lemma foldl_distinct: "set (foldl (\<lambda>out s. if s \<in> set out then out else out @ [s]) out xs) = set out \<union> set xs"
  by (induction xs arbitrary: out) auto

text \<open>(C13) The access of a user: the applications are those assigned to a project the user
  reaches, every project for a super administrator and the projects bound to one of the user's
  groups for anybody else; the permissions are those of the user's groups.\<close>

theorem access_specification:
  assumes "LoadAccess flt ordp ords db u = Inr ac" "is_order ordp" "is_order ords"
  shows "set (ac_Applications ac) = {s. \<exists>p \<in> set (db_projects db). (pj_id p, s) \<in> set (db_project_applications db)
        \<and> (us_is_super_admin u \<or> (\<exists>g. (us_id u, g) \<in> set (db_user_role_groups db)
              \<and> (pj_id p, g) \<in> set (db_project_role_groups db)))}
    \<and> set (ac_Permissions ac) = {q. \<exists>g \<in> set (db_role_groups db). (us_id u, gr_id g) \<in> set (db_user_role_groups db)
        \<and> q \<in> set (gr_permissions g)}
    \<and> ac_User ac = Some u"
proof -
  have g: "g \<in> set (groups_of db uid) \<longleftrightarrow> (uid, g) \<in> set (db_user_role_groups db)" for g uid
    by (auto simp: groups_of_def image_iff)
  have ps: "p \<in> set (projects_of db u) \<longleftrightarrow> p \<in> set (db_projects db)
      \<and> (us_is_super_admin u \<or> (\<exists>g. (us_id u, g) \<in> set (db_user_role_groups db)
            \<and> (pj_id p, g) \<in> set (db_project_role_groups db)))" for p
    by (auto simp: projects_of_def list_ex_iff g)
  have apps: "set (project_apps ords db pid) = {s. (pid, s) \<in> set (db_project_applications db)}" for pid
    by (auto simp: project_apps_def is_order_set [OF assms(3)] image_iff)
  have "set (ac_Applications ac) = (\<Union>p \<in> set (projects_of db u). set (project_apps ords db (pj_id p)))"
    using assms(1) by (auto simp: LoadAccess_def Let_def foldl_distinct is_order_set [OF assms(2)] split: if_splits)
  moreover have "set (ac_Permissions ac) = {q. \<exists>g \<in> set (db_role_groups db). (us_id u, gr_id g) \<in> set (db_user_role_groups db)
        \<and> q \<in> set (gr_permissions g)}"
    using assms(1) by (auto simp: LoadAccess_def Let_def permissions_of_def g split: if_splits)
  moreover have "ac_User ac = Some u" using assms(1) by (auto simp: LoadAccess_def Let_def split: if_splits)
  moreover have "(\<Union>p \<in> set (projects_of db u). {s. (pj_id p, s) \<in> set (db_project_applications db)}) =
      {s. \<exists>p \<in> set (db_projects db). (pj_id p, s) \<in> set (db_project_applications db)
        \<and> (us_is_super_admin u \<or> (\<exists>g. (us_id u, g) \<in> set (db_user_role_groups db)
              \<and> (pj_id p, g) \<in> set (db_project_role_groups db)))}"
    by (simp add: set_eq_iff Bex_def ps) blast
  ultimately show ?thesis by (simp only: apps)
qed

definition group_of :: "string \<Rightarrow> permission list \<Rightarrow> group_row" where
  "group_of i ps = \<lparr>gr_id = i, gr_name = i, gr_description = [], gr_permissions = ps, gr_created_at = 0\<rparr>"

definition project_of :: "string \<Rightarrow> project_row" where
  "project_of i = \<lparr>pj_id = i, pj_key = i, pj_name = i, pj_description = [], pj_created_at = 0\<rparr>"

text \<open>A developer who reads traces of the project pay and takes dumps in the project web.\<close>

definition mixed_roles :: idb where
  "mixed_roles = empty_idb\<lparr>
     db_users := [(admin_row ''d'' ''dev'')\<lparr>us_is_super_admin := False\<rparr>],
     db_role_groups := [group_of ''r'' [PermTracesRead], group_of ''x'' [PermDiagnostics]],
     db_user_role_groups := [(''d'', ''r''), (''d'', ''x'')],
     db_projects := [project_of ''pay'', project_of ''web''],
     db_project_applications := [(''pay'', ''ledger''), (''web'', ''shop'')],
     db_project_role_groups := [(''pay'', ''r''), (''web'', ''x'')]\<rparr>"

lemma mixed_roles_ok: "id_ok example_env mixed_roles"
  by (simp add: id_ok_def table_defs id_sets mixed_roles_def empty_idb_def admin_row_def group_of_def project_of_def
      example_env_def to_lower_def lower_char_def ValidPermission_def AllPermissions_def perm_defs)

theorem access_specification_witness:
  "\<exists>ac. LoadAccess no_faults (\<lambda>xs. xs) rev mixed_roles (hd (db_users mixed_roles)) = Inr ac
     \<and> set (ac_Applications ac) = {''ledger'', ''shop''}"
proof -
  obtain ac where ac: "LoadAccess no_faults (\<lambda>xs. xs) rev mixed_roles (hd (db_users mixed_roles)) = Inr ac"
    by (simp add: LoadAccess_def no_faults_def Let_def)
  from access_specification [OF ac is_order_id is_order_rev] ac show ?thesis
    by (auto simp: mixed_roles_def project_of_def admin_row_def)
qed

text \<open>Permissions and applications are united separately over the user's groups, so a
  permission granted for one project reaches the applications of another: here the user may take
  dumps of an application although no group with that permission is bound to any of its
  projects.\<close>

theorem permission_crosses_projects:
  "\<exists>ac. LoadAccess no_faults (\<lambda>xs. xs) (\<lambda>xs. xs) mixed_roles (hd (db_users mixed_roles)) = Inr ac
     \<and> Can (Some ac) PermDiagnostics \<and> ''ledger'' \<in> set (ac_Applications ac)
     \<and> \<not> (\<exists>p g. (p, ''ledger'') \<in> set (db_project_applications mixed_roles)
           \<and> (p, gr_id g) \<in> set (db_project_role_groups mixed_roles) \<and> g \<in> set (db_role_groups mixed_roles)
           \<and> PermDiagnostics \<in> set (gr_permissions g))"
  by (auto simp: LoadAccess_def no_faults_def Let_def mixed_roles_def project_of_def admin_row_def group_of_def
      Can_def permissions_of_def groups_of_def projects_of_def project_apps_def perm_defs empty_idb_def)

text \<open>Replacing the groups of a user is exact and atomic: on success the user has the given
  groups and nobody else's memberships change; on an error nothing changes.\<close>

theorem set_groups_exact:
  assumes "SetUserRoleGroups flt db uid gids = (r, db1)" "id_ok env db"
  shows "case r of Inl e \<Rightarrow> db1 = db
    | Inr _ \<Rightarrow> set (groups_of db1 uid) = set gids
        \<and> (\<forall>u. u \<noteq> uid \<longrightarrow> set (groups_of db1 u) = set (groups_of db u))"
proof (cases r)
  case (Inl e)
  with assms(1) show ?thesis by (auto simp: SetUserRoleGroups_def inTx_def split: if_splits prod.splits option.splits)
next
  case (Inr x)
  let ?old = "filter (\<lambda>(u, g). u \<noteq> uid) (db_user_role_groups db)"
  from assms(1) Inr obtain rs where rs: "db1 = db\<lparr>db_user_role_groups := rs\<rparr>"
    "insert_pairs flt 3 (\<lambda>g. has_id us_id (db_users db) uid \<and> has_id gr_id (db_role_groups db) g) uid gids ?old = (None, rs)"
    by (auto simp: SetUserRoleGroups_def inTx_def split: if_splits prod.splits option.splits)
  have "distinct ?old" using assms(2) by (simp add: id_ok_def pairs_ok_def)
  from insert_pairs_spec [OF rs(2) this] have s: "set rs = set ?old \<union> {uid} \<times> set gids" by blast
  have "set (groups_of db1 u) = {g. (u, g) \<in> set rs}" for u
    by (auto simp: rs(1) groups_of_def image_iff)
  moreover have "set (groups_of db u) = {g. (u, g) \<in> set (db_user_role_groups db)}" for u
    by (auto simp: groups_of_def image_iff)
  ultimately show ?thesis using Inr s by auto
qed

theorem set_groups_exact_witness:
  "set (groups_of (snd (SetUserRoleGroups no_faults mixed_roles ''d'' [''x'', ''x''])) ''d'') = {''x''}"
proof -
  have "fst (SetUserRoleGroups no_faults mixed_roles ''d'' [''x'', ''x'']) = Inr ()"
    by (simp add: SetUserRoleGroups_def inTx_def no_faults_def has_id_def mixed_roles_def group_of_def admin_row_def)
  then have "SetUserRoleGroups no_faults mixed_roles ''d'' [''x'', ''x''] =
      (Inr (), snd (SetUserRoleGroups no_faults mixed_roles ''d'' [''x'', ''x'']))" by (metis prod.collapse)
  from set_groups_exact [OF this mixed_roles_ok] show ?thesis by simp
qed

end
