(* ===== verification/TelemetryData.thy ===== *)
theory TelemetryData
  imports Span
begin

text \<open>
  internal/api/server.go: the records of the telemetry answers. Go computes their times and rates in
  \<open>float64\<close>; here they are exact rational numbers.
\<close>

record service_summary =
  ss_Service :: string
  ss_Namespace :: string
  ss_Workload :: string
  ss_Calls :: u64
  ss_Errors :: u64
  ss_ErrorRate :: rat
  ss_RatePerSec :: rat
  ss_AvgMS :: rat
  ss_P50MS :: rat
  ss_P95MS :: rat
  ss_P99MS :: rat
  ss_MaxMS :: rat

record operation_summary =
  om_Service :: string
  om_Operation :: string
  om_Kind :: string
  om_Calls :: u64
  om_Errors :: u64
  om_ErrorRate :: rat
  om_AvgMS :: rat
  om_P95MS :: rat
  om_P99MS :: rat

record graph_node =
  gn_ID :: string
  gn_Label :: string
  gn_Type :: string
  gn_Namespace :: string
  gn_Workload :: string
  gn_Calls :: u64
  gn_Errors :: u64
  gn_ErrorRate :: rat

record graph_edge =
  ge_Source :: string
  ge_Target :: string
  ge_Type :: string
  ge_Calls :: u64
  ge_Errors :: u64
  ge_ErrorRate :: rat
  ge_AvgMS :: rat
  ge_P95MS :: rat
  ge_P99MS :: rat
  ge_MaxMS :: rat

record trace_summary =
  tr_TraceID :: string
  tr_RootService :: string
  tr_RootName :: string
  tr_Start :: time
  tr_DurationMS :: rat
  tr_Spans :: u64
  tr_Errors :: u64
  tr_Services :: "string list"

text \<open>An event without a time in the parallel arrays keeps the zero time, \<open>None\<close>.\<close>

record span_event =
  sev_Timestamp :: "time option"
  sev_Name :: string
  sev_Attributes :: attrs

record code_location =
  cl_Function :: string
  cl_File :: string
  cl_Line :: int
  cl_Namespace :: string
  cl_StackTrace :: string

record span_view =
  vw_SpanID :: string
  vw_ParentSpanID :: string
  vw_Name :: string
  vw_Kind :: string
  vw_Service :: string
  vw_Namespace :: string
  vw_Pod :: string
  vw_Workload :: string
  vw_Node :: string
  vw_Start :: time
  vw_DurationMS :: rat
  vw_SelfMS :: rat
  vw_Status :: string
  vw_StatusMsg :: string
  vw_Code :: "code_location option"
  vw_Events :: "span_event list"
  vw_Attributes :: attrs

record time_slice =
  sl_Key :: string
  sl_MS :: rat
  sl_Share :: rat
  sl_Count :: int

record hotspot =
  hs_Name :: string
  hs_Service :: string
  hs_Kind :: string
  hs_SelfMS :: rat
  hs_Share :: rat
  hs_Count :: int
  hs_Code :: "code_location option"

end
