(* ===== verification/Http.thy ===== *)
theory Http
  imports IdentityTheorems TelemetryData
begin

text \<open>
  internal/api: what the handlers share. The request as the handlers read it (the session cookie,
  the proxy headers, the \<open>project\<close> parameter, the path identifier, the authorization context),
  the response they write, the login limiter and the middleware of auth.go, and the state of the
  server. A handler takes the outside world of one request (\<open>io\<close>: the faults and results of the
  round trips, the clock, the random values), the request and the state, and returns the response
  and the state.
\<close>

section \<open>The outside world of a request\<close>

text \<open>\<open>io_faults n\<close> and \<open>io_clock n\<close> belong to the n-th call of the request that can fail or reads
  the clock: 0 and 1 are the session lookup of the middleware, the handlers use the rest.\<close>

record io =
  io_env :: id_env
  io_faults :: "nat \<Rightarrow> faults"
  io_clock :: "nat \<Rightarrow> time"
  io_to_lower :: "string \<Rightarrow> string" \<comment> \<open>strings.ToLower\<close>
  io_random :: "nat \<Rightarrow> string"
  io_uuid :: "string \<Rightarrow> string" \<comment> \<open>the canonical text of the UUID the database reads\<close>
  io_ord_projects :: "project_row list \<Rightarrow> project_row list"
  io_ord_strings :: "string list \<Rightarrow> string list"
  io_ord_users :: "user_row list \<Rightarrow> user_row list"
  io_ord_groups :: "group_row list \<Rightarrow> group_row list"
  io_ord_agents :: "agent_row list \<Rightarrow> agent_row list"
  io_ord_artifacts :: "artifact_row list \<Rightarrow> artifact_row list"
  io_fs_fault :: "string \<Rightarrow> bool" \<comment> \<open>an operation on this path fails\<close>

section \<open>Requests and responses\<close>

record request =
  hr_tls :: bool
  hr_forwarded_proto :: string
  hr_forwarded_for :: string
  hr_remote_addr :: string
  hr_user_agent :: string
  hr_cookie :: "string option" \<comment> \<open>the cookie nabiz_session\<close>
  hr_project :: string \<comment> \<open>the query parameter\<close>
  hr_id :: string \<comment> \<open>the path value\<close>
  hr_access :: "access option" \<comment> \<open>ctxAccess\<close>
  hr_token :: "string option" \<comment> \<open>ctxToken\<close>

record cookie =
  ck_value :: string
  ck_expires :: "time option"
  ck_max_age :: int
  ck_http_only :: bool
  ck_secure :: bool
  ck_same_site_lax :: bool

datatype payload = NoBody
  | ErrorBody string string \<comment> \<open>message, code\<close>
  | MeBody access
  | PermissionsBody "permission list"
  | DiscoveredBody "(string \<times> u64 \<times> time \<times> string list) list"
  | UserBody user_row
  | UsersBody "(user_row \<times> (string \<times> string) list) list"
  | GroupBody group_row
  | GroupsBody "(group_row \<times> nat \<times> nat) list"
  | ProjectBody project_row
  | ProjectsBody "(project_row \<times> string list \<times> (string \<times> string) list) list"
  | RegisteredBody string bool
  | InstancesBody "agent_row list"
  | ArtifactBody artifact_row
  | ArtifactsBody "artifact_row list" "(string \<times> int \<times> int \<times> nat \<times> int) option"
      \<comment> \<open>directory, usedBytes, quotaBytes, files, the age behind retentionDays\<close>
  | PendingBody string
  | CancelBody bool bool string
  | FileBody string int string
  | ServicesBody time time "service_summary list"
  | OperationsBody time time "operation_summary list"
  | TopologyBody time time string "graph_node list" "graph_edge list"
  | TracesBody time time "trace_summary list"
  | TraceBody string "span_view list" "hotspot list" "time_slice list" "time_slice list"
  | TextBody string string \<comment> \<open>content type, text\<close>

record response =
  rp_status :: nat
  rp_cookies :: "cookie list"
  rp_body :: payload

definition respond :: "nat \<Rightarrow> payload \<Rightarrow> response" where
  "respond status b = \<lparr>rp_status = status, rp_cookies = [], rp_body = b\<rparr>"

definition writeErrorCode :: "nat \<Rightarrow> string \<Rightarrow> string \<Rightarrow> response" where
  "writeErrorCode status msg code = respond status (ErrorBody msg code)"

definition writeError :: "nat \<Rightarrow> string \<Rightarrow> response" where
  "writeError status msg = respond status (ErrorBody msg [])"

definition set_cookie :: "cookie \<Rightarrow> response \<Rightarrow> response" where
  "set_cookie c rp = rp\<lparr>rp_cookies := c # rp_cookies rp\<rparr>"

text \<open>The text of a store error; what the database driver reports is opaque.\<close>

fun error_text :: "id_error \<Rightarrow> string" where
  "error_text ErrNotFound = ''record not found''"
| "error_text ErrDuplicate = ''record already exists''"
| "error_text ErrBadCredential = ''wrong email or password''"
| "error_text ErrInactive = ''account is inactive''"
| "error_text ErrLastAdmin = ''cannot remove the last administrator in the system''"
| "error_text ErrTokenMismatch = ''diagnostics token does not match''"
| "error_text ErrNoSecretKey = ''NABIZ_SECRET_KEY is not set: diagnostics tokens cannot be stored''"
| "error_text (ErrText s) = s"
| "error_text ErrDb = ''database''"

text \<open>\<open>writeIdentityError\<close> of admin.go: a store error as a response.\<close>

definition writeIdentityError :: "id_error \<Rightarrow> response" where
  "writeIdentityError e = (case e of
      ErrNotFound \<Rightarrow> writeErrorCode 404 ''record not found'' ''not_found''
    | ErrDuplicate \<Rightarrow> writeErrorCode 409 ''that name or email is already in use'' ''duplicate''
    | ErrLastAdmin \<Rightarrow> writeErrorCode 400 (error_text ErrLastAdmin) ''last_admin''
    | _ \<Rightarrow> writeError 400 (error_text e))"

section \<open>Query results\<close>

text \<open>What ClickHouse answers: the query fails, or there are rows, each of which may fail to scan. The
  handlers stop at the first row that does.\<close>

datatype 'r rows = QueryError string | Rows "(string + 'r) list"

fun scan_rows :: "(string + 'r) list \<Rightarrow> string + 'r list" where
  "scan_rows [] = Inr []"
| "scan_rows (Inl e # rs) = Inl e"
| "scan_rows (Inr r # rs) = (case scan_rows rs of Inl e \<Rightarrow> Inl e | Inr xs \<Rightarrow> Inr (r # xs))"

lemma scan_rows_all [simp]: "scan_rows (map Inr xs) = Inr xs"
  by (induction xs) auto

lemma scan_rows_ok: "scan_rows rs = Inr xs \<longleftrightarrow> rs = map Inr xs"
proof
  show "scan_rows rs = Inr xs \<Longrightarrow> rs = map Inr xs"
    by (induction rs arbitrary: xs rule: scan_rows.induct) (auto split: sum.splits)
qed simp

section \<open>Where a request comes from\<close>

definition clientIP :: "request \<Rightarrow> string" where
  "clientIP r =
     (let fwd = hr_forwarded_for r in
      if fwd \<noteq> [] then
        (let i = index_byte fwd CHR '','' in
         if 0 < i then trim_space (take (nat i) fwd) else trim_space fwd)
      else
        (let i = last_index_byte (hr_remote_addr r) CHR '':'' in
         if 0 < i then take (nat i) (hr_remote_addr r) else hr_remote_addr r))"

definition isSecureRequest :: "request \<Rightarrow> bool" where
  "isSecureRequest r \<longleftrightarrow> hr_tls r \<or> equal_fold (hr_forwarded_proto r) ''https''"

definition session_cookie :: "string \<Rightarrow> time \<Rightarrow> bool \<Rightarrow> cookie" where
  "session_cookie token expires secure = \<lparr>ck_value = token, ck_expires = Some expires, ck_max_age = 0,
     ck_http_only = True, ck_secure = secure, ck_same_site_lax = True\<rparr>"

definition clearSessionCookie :: "request \<Rightarrow> cookie" where
  "clearSessionCookie r = \<lparr>ck_value = [], ck_expires = None, ck_max_age = -1,
     ck_http_only = True, ck_secure = isSecureRequest r, ck_same_site_lax = True\<rparr>"

section \<open>The login limiter\<close>

record attempt_window =
  aw_count :: int
  aw_reset :: time

record login_limiter =
  ll_attempts :: "(string, attempt_window) gomap"
  ll_max :: int
  ll_window :: int

definition newLoginLimiter :: "int \<Rightarrow> int \<Rightarrow> login_limiter" where
  "newLoginLimiter m window = \<lparr>ll_attempts = [], ll_max = m, ll_window = window\<rparr>"

definition sweep :: "time \<Rightarrow> login_limiter \<Rightarrow> login_limiter" where
  "sweep now l =
     (if length (ll_attempts l) < 1000 then l
      else l\<lparr>ll_attempts := filter (\<lambda>(k, w). \<not> aw_reset w < now) (ll_attempts l)\<rparr>)"

definition fresh_window :: "time \<Rightarrow> login_limiter \<Rightarrow> string \<Rightarrow> login_limiter" where
  "fresh_window now l key =
     sweep now (l\<lparr>ll_attempts :=
       AList.update key \<lparr>aw_count = 1, aw_reset = now + ll_window l\<rparr> (ll_attempts l)\<rparr>)"

definition allow :: "time \<Rightarrow> login_limiter \<Rightarrow> string \<Rightarrow> bool \<times> login_limiter" where
  "allow now l key =
     (case map_of (ll_attempts l) key of
        None \<Rightarrow> (True, fresh_window now l key)
      | Some w \<Rightarrow>
          if aw_reset w < now then (True, fresh_window now l key)
          else (aw_count w + 1 \<le> ll_max l,
                l\<lparr>ll_attempts := AList.update key (w\<lparr>aw_count := aw_count w + 1\<rparr>) (ll_attempts l)\<rparr>))"

definition clear :: "login_limiter \<Rightarrow> string \<Rightarrow> login_limiter" where
  "clear l key = l\<lparr>ll_attempts := AList.delete key (ll_attempts l)\<rparr>"

section \<open>The server\<close>

record dump_file =
  fl_data :: string
  fl_mtime :: time

record filesystem =
  fs_files :: "(string, dump_file) gomap" \<comment> \<open>by cleaned path\<close>
  fs_dirs :: "string list"

record dump_retention =
  dr_MaxAge :: int
  dr_MaxBytes :: int
  dr_Interval :: int

text \<open>A running \<open>fetchDump\<close>: what it was started with and how far it is.\<close>

datatype job_phase = JobSpawned | JobAsking | JobProduced string

record fetch_job =
  fj_instance :: agent_row
  fj_token :: string
  fj_kind :: string
  fj_seconds :: int
  fj_dumpType :: string
  fj_artifact :: string
  fj_by :: string
  fj_phase :: job_phase

record api_server =
  sv_db :: idb
  sv_logins :: login_limiter
  sv_dumpDir :: string
  sv_retention :: dump_retention
  sv_inflight :: "(string, bool) gomap" \<comment> \<open>running fetches; True once cancelled\<close>
  sv_fs :: filesystem
  sv_jobs :: "fetch_job list"

definition DefaultDumpRetention :: dump_retention where
  "DefaultDumpRetention = \<lparr>dr_MaxAge = 7 * 24 * 3600 * 10 ^ 9, dr_MaxBytes = 10 * 2 ^ 30,
     dr_Interval = 3600 * 10 ^ 9\<rparr>"

definition new_server :: "idb \<Rightarrow> string \<Rightarrow> filesystem \<Rightarrow> api_server" where
  "new_server db dir fs = \<lparr>sv_db = db, sv_logins = newLoginLimiter 10 (5 * 60 * 10 ^ 9), sv_dumpDir = dir,
     sv_retention = DefaultDumpRetention, sv_inflight = [], sv_fs = fs, sv_jobs = []\<rparr>"

type_synonym handler = "request \<Rightarrow> api_server \<Rightarrow> response \<times> api_server"

section \<open>Middleware\<close>

definition withSession :: "io \<Rightarrow> handler \<Rightarrow> handler" where
  "withSession w nxt r sv =
     (case hr_cookie r of
        None \<Rightarrow> nxt r sv
      | Some c \<Rightarrow>
          if c = [] then nxt r sv
          else case LookupSession (io_env w) (io_faults w 0) (io_clock w 0) (sv_db sv) c of
            (Inl e, _) \<Rightarrow>
              (if e = ErrNotFound
               then (case nxt r sv of (rp, sv1) \<Rightarrow> (set_cookie (clearSessionCookie r) rp, sv1))
               else nxt r sv)
          | (Inr u, _) \<Rightarrow>
              (case LoadAccess (io_faults w 1) (io_ord_projects w) (io_ord_strings w) (sv_db sv) u of
                 Inl e \<Rightarrow> nxt r sv
               | Inr ac \<Rightarrow> nxt (r\<lparr>hr_access := Some ac, hr_token := Some c\<rparr>) sv))"

definition requireAuth :: "handler \<Rightarrow> handler" where
  "requireAuth h r sv =
     (if hr_access r = None then (writeErrorCode 401 ''you need to sign in'' ''unauthenticated'', sv)
      else h r sv)"

definition requirePermission :: "permission \<Rightarrow> handler \<Rightarrow> handler" where
  "requirePermission p h =
     requireAuth (\<lambda>r sv. if \<not> Can (hr_access r) p
       then (writeErrorCode 403 ''you do not have permission for this'' ''forbidden'', sv) else h r sv)"

end
