(* ===== verification/Auth.thy ===== *)
theory Auth
  imports Http
begin

text \<open>
  internal/api/auth.go: signing in and out, the limiter of password attempts, a user's own
  password. The decoded request body is an argument (\<open>Inl\<close> is the error of \<open>decodeJSON\<close>).
\<close>

section \<open>Handlers\<close>

definition SessionTTL :: int where
  "SessionTTL = 12 * 3600 * 10 ^ 9"

definition login_key :: "io \<Rightarrow> request \<Rightarrow> string \<Rightarrow> string" where
  "login_key w r email = clientIP r @ ''|'' @ io_to_lower w (trim_space email)"

definition login_error :: "id_error \<Rightarrow> response" where
  "login_error e = (case e of
      ErrBadCredential \<Rightarrow> writeErrorCode 401 ''wrong email or password'' ''bad_credentials''
    | ErrInactive \<Rightarrow> writeErrorCode 403 ''your account is inactive'' ''inactive''
    | _ \<Rightarrow> writeError 500 ''could not sign in'')"

text \<open>After the credentials: the counter is cleared, the session created, the cookie set, the
  access loaded.\<close>

definition sign_in :: "io \<Rightarrow> string \<Rightarrow> user_row \<Rightarrow> handler" where
  "sign_in w key u r sv =
     (let sv1 = sv\<lparr>sv_logins := clear (sv_logins sv) key\<rparr> in
      case CreateSession (io_env w) (io_faults w 3) (io_random w 0) (io_clock w 3) (sv_db sv1) (us_id u)
             (hr_user_agent r) SessionTTL of
        (Inl e, db1) \<Rightarrow> (writeError 500 (error_text e), sv1\<lparr>sv_db := db1\<rparr>)
      | (Inr (token, expires), db1) \<Rightarrow>
          let sv2 = sv1\<lparr>sv_db := db1\<rparr>; c = session_cookie token expires (isSecureRequest r) in
          case LoadAccess (io_faults w 4) (io_ord_projects w) (io_ord_strings w) db1 u of
            Inl e \<Rightarrow> (set_cookie c (writeError 500 (error_text e)), sv2)
          | Inr ac \<Rightarrow> (set_cookie c (respond 200 (MeBody ac)), sv2))"

definition handleLogin :: "io \<Rightarrow> string + string \<times> string \<Rightarrow> handler" where
  "handleLogin w body r sv =
     (case body of
        Inl e \<Rightarrow> (writeError 400 e, sv)
      | Inr (email, password) \<Rightarrow>
          let key = login_key w r email in
          case allow (io_clock w 2) (sv_logins sv) key of
            (False, l) \<Rightarrow> (writeErrorCode 429 ''too many failed attempts, try again in a few minutes''
                             ''rate_limited'', sv\<lparr>sv_logins := l\<rparr>)
          | (True, l) \<Rightarrow>
              let sv1 = sv\<lparr>sv_logins := l\<rparr> in
              case Authenticate (io_env w) (io_faults w 2) (io_clock w 2) (sv_db sv1) email password of
                (Inl e, db1) \<Rightarrow> (login_error e, sv1\<lparr>sv_db := db1\<rparr>)
              | (Inr u, db1) \<Rightarrow> sign_in w key u r (sv1\<lparr>sv_db := db1\<rparr>))"

definition handleLogout :: "io \<Rightarrow> handler" where
  "handleLogout w r sv =
     (let sv1 = (case hr_token r of
          None \<Rightarrow> sv
        | Some tok \<Rightarrow> sv\<lparr>sv_db := snd (DeleteSession (io_env w) (io_faults w 2) (sv_db sv) tok)\<rparr>)
      in (set_cookie (clearSessionCookie r) (respond 204 NoBody), sv1))"

definition handleMe :: handler where
  "handleMe r sv =
     (case hr_access r of
        None \<Rightarrow> (writeErrorCode 401 ''you need to sign in'' ''unauthenticated'', sv)
      | Some ac \<Rightarrow> (respond 200 (MeBody ac), sv))"

text \<open>\<open>accessFrom(r).User\<close>: behind \<open>requireAuth\<close> an access with a user is there.\<close>

definition access_user :: "request \<Rightarrow> user_row" where
  "access_user r = the (Option.bind (hr_access r) ac_User)"

definition handleChangeOwnPassword :: "io \<Rightarrow> string + string \<times> string \<Rightarrow> handler" where
  "handleChangeOwnPassword w body r sv =
     (case body of
        Inl e \<Rightarrow> (writeError 400 e, sv)
      | Inr (current, new) \<Rightarrow>
          (case Authenticate (io_env w) (io_faults w 2) (io_clock w 2) (sv_db sv) (us_email (access_user r)) current of
             (Inl e, db1) \<Rightarrow>
               (writeErrorCode 401 ''the current password is wrong'' ''bad_credentials'', sv\<lparr>sv_db := db1\<rparr>)
           | (Inr u, db1) \<Rightarrow>
               (case SetPassword (io_env w) (io_faults w 3) (io_clock w 3) db1 (us_id (access_user r)) new of
                  (Inl e, db2) \<Rightarrow> (writeError 400 (error_text e), sv\<lparr>sv_db := db2\<rparr>)
                | (Inr (), db2) \<Rightarrow>
                    (set_cookie (clearSessionCookie r) (respond 204 NoBody), sv\<lparr>sv_db := db2\<rparr>))))"

section \<open>The limiter\<close>

datatype limiter_event = Attempt time string | Clear string

fun limiter_step :: "login_limiter \<Rightarrow> limiter_event \<Rightarrow> login_limiter" where
  "limiter_step l (Attempt t k) = snd (allow t l k)"
| "limiter_step l (Clear k) = clear l k"

text \<open>The attempts of a key that a run lets through, with their times.\<close>

fun let_through :: "login_limiter \<Rightarrow> string \<Rightarrow> limiter_event list \<Rightarrow> time list" where
  "let_through l key [] = []"
| "let_through l key (Attempt t k # es) =
     (if k = key \<and> fst (allow t l k) then [t] else []) @ let_through (snd (allow t l k)) key es"
| "let_through l key (Clear k # es) = let_through (clear l k) key es"

text \<open>The window of a key that is still open at a time, and what it and one later window of the same
  period can still let through before \<open>hi\<close>.\<close>

definition open_window :: "login_limiter \<Rightarrow> string \<Rightarrow> time \<Rightarrow> attempt_window option" where
  "open_window l key t = (case map_of (ll_attempts l) key of
     None \<Rightarrow> None | Some w \<Rightarrow> if aw_reset w < t then None else Some w)"

definition budget :: "login_limiter \<Rightarrow> string \<Rightarrow> time \<Rightarrow> time \<Rightarrow> int" where
  "budget l key t hi = (case open_window l key t of
     None \<Rightarrow> ll_max l
   | Some w \<Rightarrow> max 0 (ll_max l - aw_count w) + (if aw_reset w < hi then ll_max l else 0))"

definition windows_ok :: "login_limiter \<Rightarrow> bool" where
  "windows_ok l \<longleftrightarrow> is_gomap (ll_attempts l) \<and> (\<forall>(k, w) \<in> set (ll_attempts l). 1 \<le> aw_count w)"

lemma map_of_filter_values:
  "is_gomap m \<Longrightarrow> map_of (filter (\<lambda>(k, v). P v) m) k =
     (case map_of m k of None \<Rightarrow> None | Some v \<Rightarrow> if P v then Some v else None)"
proof (induction m)
  case (Cons x m)
  obtain a v where x: "x = (a, v)" by fastforce
  with Cons.prems have "map_of m a = None" "is_gomap m" by (auto simp: is_gomap_def map_of_eq_None_iff)
  with Cons.IH x show ?case by (auto split: option.split)
qed simp

lemma limiter_params [simp]:
  "ll_max (snd (allow t l k)) = ll_max l" "ll_window (snd (allow t l k)) = ll_window l"
  "ll_max (fresh_window t l k) = ll_max l" "ll_window (fresh_window t l k) = ll_window l"
  "ll_max (clear l k) = ll_max l" "ll_window (clear l k) = ll_window l"
  by (auto simp: allow_def fresh_window_def sweep_def clear_def split: option.split)

lemma update_entries: "(a, b) \<in> set (AList.update k v m) \<Longrightarrow> (a, b) = (k, v) \<or> (a, b) \<in> set m"
  by (induction m) (auto split: if_splits)

lemma windows_ok_sweep: "windows_ok l \<Longrightarrow> windows_ok (sweep t l)"
  by (auto simp: windows_ok_def sweep_def is_gomap_def distinct_map_filter)

lemma windows_ok_allow: "windows_ok l \<Longrightarrow> windows_ok (snd (allow t l k))"
  by (auto simp: windows_ok_def allow_def fresh_window_def gm.ok_put split: option.split
      intro!: windows_ok_sweep [unfolded windows_ok_def] dest!: update_entries map_of_SomeD)

lemma windows_ok_clear: "windows_ok l \<Longrightarrow> windows_ok (clear l k)"
  using gm.ok_del [of "ll_attempts l" k] by (auto simp: windows_ok_def clear_def AList.delete_eq)

lemma limiter_step_ok: "windows_ok l \<Longrightarrow> windows_ok (limiter_step l e)"
  by (cases e) (simp_all add: windows_ok_allow windows_ok_clear)

interpretation limiter: invariant_machine limiter_step windows_ok
  by unfold_locales (rule limiter_step_ok)

text \<open>An attempt of another key and the sweep do not touch an open window.\<close>

lemma open_window_sweep: "windows_ok l \<Longrightarrow> open_window (sweep t l) k t = open_window l k t"
  by (auto simp: open_window_def sweep_def windows_ok_def map_of_filter_values split: option.split)

lemma open_window_fresh:
  assumes "windows_ok l" "0 \<le> ll_window l"
  shows "open_window (fresh_window t l k) key t =
    (if key = k then Some \<lparr>aw_count = 1, aw_reset = t + ll_window l\<rparr> else open_window l key t)"
proof -
  have "windows_ok (l\<lparr>ll_attempts := AList.update k \<lparr>aw_count = 1, aw_reset = t + ll_window l\<rparr> (ll_attempts l)\<rparr>)"
    using assms(1) by (auto simp: windows_ok_def gm.ok_put dest!: update_entries)
  from open_window_sweep [OF this] assms(2) show ?thesis
    by (auto simp: fresh_window_def open_window_def gm.look_put)
qed

lemma allow_cases:
  "open_window l k t = None \<Longrightarrow> allow t l k = (True, fresh_window t l k)"
  "open_window l k t = Some w \<Longrightarrow> allow t l k = (aw_count w + 1 \<le> ll_max l,
     l\<lparr>ll_attempts := AList.update k (w\<lparr>aw_count := aw_count w + 1\<rparr>) (ll_attempts l)\<rparr>)"
  by (auto simp: open_window_def allow_def split: option.splits if_splits)

lemma open_window_step:
  assumes "windows_ok l" "0 \<le> ll_window l"
  shows "open_window (snd (allow t l k)) key t =
    (if key = k then (case open_window l k t of
        None \<Rightarrow> Some \<lparr>aw_count = 1, aw_reset = t + ll_window l\<rparr>
      | Some w \<Rightarrow> Some (w\<lparr>aw_count := aw_count w + 1\<rparr>))
     else open_window l key t)"
proof (cases "open_window l k t")
  case None
  with open_window_fresh [OF assms] show ?thesis by (simp add: allow_cases)
next
  case (Some w)
  then have "\<not> aw_reset w < t" by (auto simp: open_window_def split: option.splits if_splits)
  with Some show ?thesis by (simp add: allow_cases) (auto simp: open_window_def gm.look_put)
qed

lemma open_window_clear: "k \<noteq> key \<Longrightarrow> open_window (clear l k) key t = open_window l key t"
  by (simp add: open_window_def clear_def gm.look_del)

lemma budget_later: "t0 \<le> t \<Longrightarrow> t \<le> hi \<Longrightarrow> 1 \<le> ll_max l \<Longrightarrow> budget l key t hi \<le> budget l key t0 hi"
  by (auto simp: budget_def open_window_def split: option.split)

fun attempt_times :: "limiter_event list \<Rightarrow> time list" where
  "attempt_times [] = []"
| "attempt_times (Attempt t k # es) = t # attempt_times es"
| "attempt_times (Clear k # es) = attempt_times es"

lemma let_through_budget:
  assumes "windows_ok l" "1 \<le> ll_max l" "sorted (t0 # attempt_times es)"
    and "\<forall>t \<in> set (attempt_times es). lo \<le> t \<and> t \<le> hi" "hi \<le> lo + ll_window l" "lo \<le> hi"
    and "Clear key \<notin> set es"
  shows "int (length (let_through l key es)) \<le> budget l key t0 hi"
  using assms
proof (induction l key es arbitrary: t0 rule: let_through.induct)
  case (1 l key)
  then show ?case by (auto simp: budget_def split: option.split)
next
  case (2 l key t k es)
  let ?l = "snd (allow t l k)"
  have w0: "0 \<le> ll_window l" using "2.prems" by simp
  have IH: "int (length (let_through ?l key es)) \<le> budget ?l key t hi"
    using "2.prems" by (intro "2.IH") (auto simp: windows_ok_allow)
  have later: "budget l key t hi \<le> budget l key t0 hi"
    using "2.prems" by (intro budget_later) auto
  note st = open_window_step [OF "2.prems"(1) w0, of t k key]
  have "(if k = key \<and> fst (allow t l k) then 1 else 0) + budget ?l key t hi \<le> budget l key t hi"
  proof (cases "open_window l key t")
    case None
    with st "2.prems" show ?thesis by (auto simp: budget_def allow_cases)
  next
    case (Some w)
    with st "2.prems" show ?thesis by (auto simp: budget_def allow_cases)
  qed
  with IH later show ?case by (auto split: if_splits)
next
  case (3 l key k es)
  then have "k \<noteq> key" by auto
  with 3 have "int (length (let_through (clear l k) key es)) \<le> budget (clear l k) key t0 hi"
    by (intro "3.IH") (auto simp: windows_ok_clear)
  with \<open>k \<noteq> key\<close> show ?case by (simp add: budget_def open_window_clear cong: option.case_cong if_cong)
qed

lemma budget_bound: "windows_ok l \<Longrightarrow> 1 \<le> ll_max l \<Longrightarrow> budget l key t hi \<le> 2 * ll_max l - 1"
proof -
  assume a: "windows_ok l" "1 \<le> ll_max l"
  have "1 \<le> aw_count w" if "open_window l key t = Some w" for w
    using that a(1) by (auto simp: open_window_def windows_ok_def split: option.splits if_splits dest!: map_of_SomeD)
  then show ?thesis using a(2) by (auto simp: budget_def split: option.split)
qed

section \<open>Properties\<close>

text \<open>(C12) Guessing a password is rate limited: whatever came before, and whatever other keys do
  meanwhile, during any period of one window the limiter lets at most 2 max - 1 attempts of a key
  through, unless a successful login clears the key. With the server's ten per five minutes that
  is nineteen.\<close>

theorem limiter_bounds_guesses:
  assumes "1 \<le> m" "0 \<le> window" "sorted (attempt_times es)"
    and "\<forall>t \<in> set (attempt_times es). lo \<le> t \<and> t \<le> lo + window" "Clear key \<notin> set es"
  shows "int (length (let_through (foldl limiter_step (newLoginLimiter m window) before) key es)) \<le> 2 * m - 1"
proof -
  let ?l = "foldl limiter_step (newLoginLimiter m window) before"
  have ok: "windows_ok ?l"
    by (rule limiter.run_good) (simp add: windows_ok_def newLoginLimiter_def is_gomap_def)
  have ps: "ll_max (foldl limiter_step l xs) = ll_max l \<and> ll_window (foldl limiter_step l xs) = ll_window l" for l xs
  proof (induction xs arbitrary: l)
    case (Cons e xs)
    then show ?case by (cases e) simp_all
  qed simp
  then have p: "ll_max ?l = m" "ll_window ?l = window" by (simp_all add: newLoginLimiter_def)
  have "int (length (let_through ?l key es)) \<le> budget ?l key lo (lo + window)"
    using assms p ok by (intro let_through_budget [where lo = lo]) auto
  also have "\<dots> \<le> 2 * ll_max ?l - 1" using ok assms(1) p by (intro budget_bound) simp_all
  finally show ?thesis using p by simp
qed

theorem limiter_bounds_guesses_witness:
  "length (let_through (foldl limiter_step (newLoginLimiter 2 10) [Attempt 0 ''k'']) ''k''
     [Attempt 10 ''k'', Attempt 10 ''k'', Attempt 11 ''k'', Attempt 12 ''k'', Attempt 13 ''k'']) = 3
   \<and> (3 :: int) \<le> 2 * 2 - 1"
proof -
  let ?es = "[Attempt 10 ''k'', Attempt 10 ''k'', Attempt 11 ''k'', Attempt 12 ''k'', Attempt 13 ''k'']"
  have "int (length (let_through (foldl limiter_step (newLoginLimiter 2 10) [Attempt 0 ''k'']) ''k'' ?es)) \<le> 2 * 2 - 1"
    by (rule limiter_bounds_guesses [where lo = 10]) simp_all
  then show ?thesis by (simp add: newLoginLimiter_def allow_def fresh_window_def sweep_def)
qed

text \<open>The limiter's key begins with an address the client chooses: any text without a comma or
  surrounding space, sent as X-Forwarded-For, becomes the source address.\<close>

text \<open>The source address of a request is whatever the client puts into X-Forwarded-For, so two
  attempts with different values never share a window: the limit is per claimed address, and every
  new claim starts a window of its own.\<close>

theorem forwarded_address_is_claimed:
  assumes "ip \<noteq> []" "CHR '','' \<notin> set ip" "trim_space ip = ip" "CHR ''|'' \<notin> set ip" "CHR ''|'' \<notin> set ip'"
    and "ip' \<noteq> []" "CHR '','' \<notin> set ip'" "trim_space ip' = ip'" "ip \<noteq> ip'"
  shows "clientIP (r\<lparr>hr_forwarded_for := ip\<rparr>) = ip
    \<and> login_key w (r\<lparr>hr_forwarded_for := ip\<rparr>) email \<noteq> login_key w (r\<lparr>hr_forwarded_for := ip'\<rparr>) email
    \<and> (map_of (ll_attempts l) (login_key w (r\<lparr>hr_forwarded_for := ip\<rparr>) email) = None \<longrightarrow>
        fst (allow now l (login_key w (r\<lparr>hr_forwarded_for := ip\<rparr>) email)))"
proof -
  have "clientIP (r\<lparr>hr_forwarded_for := x\<rparr>) = x" if "x \<noteq> []" "CHR '','' \<notin> set x" "trim_space x = x" for x
    using that index_byte_neg [of x "CHR '','' "] by (simp add: clientIP_def Let_def)
  with assms show ?thesis by (auto simp: login_key_def allow_def append_eq_append_conv2 Cons_eq_append_conv)
qed

definition example_io :: io where
  "example_io = \<lparr>io_env = example_env, io_faults = (\<lambda>_. no_faults), io_clock = (\<lambda>_. 5), io_to_lower = to_lower,
     io_random = (\<lambda>_. ''tok''), io_uuid = (\<lambda>s. s), io_ord_projects = (\<lambda>xs. xs), io_ord_strings = (\<lambda>xs. xs),
     io_ord_users = (\<lambda>xs. xs), io_ord_groups = (\<lambda>xs. xs), io_ord_agents = (\<lambda>xs. xs),
     io_ord_artifacts = (\<lambda>xs. xs), io_fs_fault = (\<lambda>_. False)\<rparr>"

definition example_http :: request where
  "example_http = \<lparr>hr_tls = False, hr_forwarded_proto = [], hr_forwarded_for = [], hr_remote_addr = ''10.0.0.9:4711'',
     hr_user_agent = ''ua'', hr_cookie = None, hr_project = [], hr_id = [], hr_access = None, hr_token = None\<rparr>"

lemmas trim_eval = trim_space_def strip.simps space_len_def space_len_rev_def ascii_space_def wide_space2_def wide_space3_def

theorem forwarded_address_is_claimed_witness:
  "login_key example_io (example_http\<lparr>hr_forwarded_for := ''1''\<rparr>) ''ann''
    \<noteq> login_key example_io (example_http\<lparr>hr_forwarded_for := ''2''\<rparr>) ''ann''"
  using forwarded_address_is_claimed [of "''1''" "''2''" example_http example_io "''ann''" "newLoginLimiter 1 1" 0]
  by (simp add: trim_eval)

section \<open>The gate\<close>

text \<open>The access a session cookie stands for.\<close>

definition session_access :: "io \<Rightarrow> request \<Rightarrow> idb \<Rightarrow> access option" where
  "session_access w r db =
     (case hr_cookie r of
        None \<Rightarrow> None
      | Some c \<Rightarrow>
          if c = [] \<or> io_faults w 0 0 then None
          else case session_user (io_env w) (io_clock w 0) db c of
            None \<Rightarrow> None
          | Some u \<Rightarrow>
              (case LoadAccess (io_faults w 1) (io_ord_projects w) (io_ord_strings w) db u of
                 Inl e \<Rightarrow> None | Inr ac \<Rightarrow> Some ac))"

lemma session_user_in: "session_user env t db c = Some u \<Longrightarrow> u \<in> set (db_users db) \<and> us_is_active u"
  by (auto simp: session_user_def dest!: findD split: option.splits)

lemma session_access_user:
  assumes "session_access w r db = Some ac"
  shows "\<exists>c u. hr_cookie r = Some c \<and> c \<noteq> [] \<and> session_user (io_env w) (io_clock w 0) db c = Some u
     \<and> us_is_active u \<and> ac_User ac = Some u \<and> u \<in> set (db_users db)"
proof -
  from assms obtain c u where c: "hr_cookie r = Some c" "c \<noteq> []" "session_user (io_env w) (io_clock w 0) db c = Some u"
    and ac: "LoadAccess (io_faults w 1) (io_ord_projects w) (io_ord_strings w) db u = Inr ac"
    by (auto simp: session_access_def split: option.splits if_splits sum.splits)
  from ac have "ac_User ac = Some u" by (auto simp: LoadAccess_def Let_def split: if_splits)
  with c session_user_in [OF c(3)] show ?thesis by blast
qed

definition add_cookies :: "cookie list \<Rightarrow> response \<times> api_server \<Rightarrow> response \<times> api_server" where
  "add_cookies cs res = (case res of (rp, sv) \<Rightarrow> (rp\<lparr>rp_cookies := cs @ rp_cookies rp\<rparr>, sv))"

lemma add_cookies_nil: "add_cookies [] res = res"
  by (simp add: add_cookies_def split: prod.split)

lemma add_cookies_simps [simp]:
  "snd (add_cookies cs res) = snd res"
  "rp_status (fst (add_cookies cs res)) = rp_status (fst res)" "rp_body (fst (add_cookies cs res)) = rp_body (fst res)"
  by (simp_all add: add_cookies_def split: prod.split)

lemma withSession_cases:
  assumes "hr_access r = None" "hr_token r = None"
  shows "case session_access w r (sv_db sv) of
      None \<Rightarrow> \<exists>cs. withSession w h r sv = add_cookies cs (h r sv)
    | Some ac \<Rightarrow> withSession w h r sv = h (r\<lparr>hr_access := Some ac, hr_token := hr_cookie r\<rparr>) sv"
proof (cases "hr_cookie r")
  case None
  then have "withSession w h r sv = add_cookies [] (h r sv)" by (simp add: withSession_def add_cookies_nil)
  then have "\<exists>cs. withSession w h r sv = add_cookies cs (h r sv)" by blast
  with None show ?thesis by (simp add: session_access_def)
next
  case (Some c)
  have ck: "(case h r sv of (rp, sv1) \<Rightarrow> (set_cookie c rp, sv1)) = add_cookies [c] (h r sv)" for c
    by (simp add: set_cookie_def add_cookies_def split: prod.split)
  have "withSession w h r sv = (case session_access w r (sv_db sv) of
      Some ac \<Rightarrow> h (r\<lparr>hr_access := Some ac, hr_token := hr_cookie r\<rparr>) sv
    | None \<Rightarrow> if c \<noteq> [] \<and> \<not> io_faults w 0 0 \<and> session_user (io_env w) (io_clock w 0) (sv_db sv) c = None
              then add_cookies [clearSessionCookie r] (h r sv) else add_cookies [] (h r sv))"
    unfolding add_cookies_nil ck [symmetric]
    by (simp add: Some session_access_def withSession_def LookupSession_def scanUser_def
        split: option.split sum.split)
  then show ?thesis by (cases "session_access w r (sv_db sv)") auto
qed

text \<open>Every protected endpoint is behind the same gate: without a session that names an active
  user it answers 401, with one that lacks the permission 403, both without touching any state; and
  otherwise the handler runs with that user's access.\<close>

theorem permission_gate:
  assumes "hr_access r = None" "hr_token r = None" "withSession w (requirePermission p h) r sv = (rp, sv1)"
  shows "case session_access w r (sv_db sv) of
      None \<Rightarrow> rp_status rp = 401 \<and> sv1 = sv
    | Some ac \<Rightarrow>
        (\<exists>u c. hr_cookie r = Some c \<and> session_user (io_env w) (io_clock w 0) (sv_db sv) c = Some u
           \<and> us_is_active u \<and> ac_User ac = Some u)
        \<and> (if Can (Some ac) p then (rp, sv1) = h (r\<lparr>hr_access := Some ac, hr_token := hr_cookie r\<rparr>) sv
            else rp_status rp = 403 \<and> sv1 = sv)"
proof (cases "session_access w r (sv_db sv)")
  case None
  with withSession_cases [OF assms(1,2), where w = w and sv = sv and h = "requirePermission p h"] assms(1,3) show ?thesis
    by (auto simp: requirePermission_def requireAuth_def writeErrorCode_def respond_def add_cookies_def)
next
  case (Some ac)
  with withSession_cases [OF assms(1,2), where w = w and sv = sv and h = "requirePermission p h"] assms(3)
  have "requirePermission p h (r\<lparr>hr_access := Some ac, hr_token := hr_cookie r\<rparr>) sv = (rp, sv1)" by simp
  then have "if Can (Some ac) p then (rp, sv1) = h (r\<lparr>hr_access := Some ac, hr_token := hr_cookie r\<rparr>) sv
      else rp_status rp = 403 \<and> sv1 = sv"
    by (auto simp: requirePermission_def requireAuth_def writeErrorCode_def respond_def)
  with session_access_user [OF Some] Some show ?thesis by auto
qed

lemma example_session_user:
  "session_user example_env 5 (two_admins\<lparr>db_sessions := [example_session]\<rparr>) ''tok'' = Some (admin_row ''a'' ''ann'')"
  by (simp add: session_user_def example_session_def two_admins_def admin_row_def)

theorem permission_gate_witness:
  "rp_status (fst (withSession example_io (requirePermission PermAdmin (\<lambda>r sv. (respond 200 NoBody, sv)))
      example_http (new_server two_admins ''/d'' \<lparr>fs_files = [], fs_dirs = []\<rparr>))) = 401
   \<and> rp_status (fst (withSession example_io (requirePermission PermAdmin (\<lambda>r sv. (respond 200 NoBody, sv)))
      (example_http\<lparr>hr_cookie := Some ''tok''\<rparr>)
      (new_server (two_admins\<lparr>db_sessions := [example_session]\<rparr>) ''/d'' \<lparr>fs_files = [], fs_dirs = []\<rparr>))) = 200"
proof -
  let ?h = "\<lambda>r sv. (respond 200 NoBody, sv) :: response \<times> api_server"
  let ?fs = "\<lparr>fs_files = [], fs_dirs = []\<rparr>"
  let ?sv1 = "new_server two_admins ''/d'' ?fs"
  let ?sv2 = "new_server (two_admins\<lparr>db_sessions := [example_session]\<rparr>) ''/d'' ?fs"
  obtain rp1 s1 rp2 s2 where
    w1: "withSession example_io (requirePermission PermAdmin ?h) example_http ?sv1 = (rp1, s1)" and
    w2: "withSession example_io (requirePermission PermAdmin ?h) (example_http\<lparr>hr_cookie := Some ''tok''\<rparr>) ?sv2 = (rp2, s2)"
    by fastforce
  have "session_access example_io example_http (sv_db ?sv1) = None"
    by (simp add: session_access_def example_http_def)
  with permission_gate [OF _ _ w1] have "rp_status rp1 = 401" by (simp add: example_http_def)
  moreover have "\<exists>ac. session_access example_io (example_http\<lparr>hr_cookie := Some ''tok''\<rparr>) (sv_db ?sv2) = Some ac
      \<and> Can (Some ac) PermAdmin"
    using example_session_user
    by (simp add: session_access_def example_io_def no_faults_def new_server_def LoadAccess_def Let_def Can_def admin_row_def)
  with permission_gate [OF _ _ w2] have "rp_status rp2 = 200"
    by (auto simp: example_http_def respond_def)
  ultimately show ?thesis using w1 w2 by simp
qed

section \<open>Signing in and out\<close>


definition ann_server :: api_server where
  "ann_server = new_server two_admins ''/d'' \<lparr>fs_files = [], fs_dirs = []\<rparr>"


text \<open>Signing out ends the session: unless the database fails, the token of the request names
  nobody any more, at any time; the response removes the cookie in any case.\<close>

theorem logout_ends_session:
  assumes "hr_token r = Some token" "\<not> io_faults w 2 0" "handleLogout w r sv = (rp, sv1)"
  shows "rp_status rp = 204 \<and> session_user (io_env w) t (sv_db sv1) token = None
    \<and> rp_cookies rp = [clearSessionCookie r]"
  using assms session_deleted [of "io_faults w 2" "io_env w" t "sv_db sv" token]
  by (auto simp: handleLogout_def Let_def set_cookie_def respond_def)

theorem logout_ends_session_witness:
  "session_user example_env 5 (sv_db (snd (handleLogout example_io (example_http\<lparr>hr_token := Some ''tok''\<rparr>)
     (ann_server\<lparr>sv_db := two_admins\<lparr>db_sessions := [example_session]\<rparr>\<rparr>)))) ''tok'' = None"
proof -
  obtain rp sv1 where h: "handleLogout example_io (example_http\<lparr>hr_token := Some ''tok''\<rparr>)
     (ann_server\<lparr>sv_db := two_admins\<lparr>db_sessions := [example_session]\<rparr>\<rparr>) = (rp, sv1)" by fastforce
  from logout_ends_session [OF _ _ h, of "''tok''" 5] h show ?thesis
    by (simp add: example_io_def no_faults_def)
qed

text \<open>A user changes the own password only with the current one: when the endpoint answers 204 the
  current password was checked against the account, every session of the user is closed, and the
  new password is in force; with a wrong current password it answers 401 and no user row changes.\<close>

theorem own_password_needs_current:
  assumes "handleChangeOwnPassword w (Inr (current, new)) r sv = (rp, sv1)" "\<not> io_faults w 2 0"
    and "id_ok (io_env w) (sv_db sv)" "hr_access r = Some ac" "ac_User ac = Some u0" "u0 \<in> set (db_users (sv_db sv))"
    and "trim_space (us_email u0) = us_email u0"
  shows "(rp_status rp = 204 \<longrightarrow> en_check (io_env w) (us_password_hash u0) current \<and> us_is_active u0
       \<and> (\<forall>s \<in> set (db_sessions (sv_db sv1)). se_user_id s \<noteq> us_id u0)
       \<and> (\<exists>h. en_bcrypt (io_env w) new = Some h
            \<and> (\<forall>u \<in> set (db_users (sv_db sv1)). us_id u = us_id u0 \<longrightarrow> us_password_hash u = h)))
    \<and> (\<not> en_check (io_env w) (us_password_hash u0) current \<longrightarrow>
         rp_status rp = 401 \<and> db_users (sv_db sv1) = db_users (sv_db sv))"
proof -
  let ?env = "io_env w"
  have me: "access_user r = u0" using assms(4,5) by (simp add: access_user_def)
  have "find (\<lambda>u. en_lower ?env (us_email u) = en_lower ?env (us_email u0)) (db_users (sv_db sv)) = Some u0"
    using find_unique [of "en_lower ?env \<circ> us_email" "db_users (sv_db sv)" u0] assms(3,6)
    by (simp add: id_ok_def users_ok_def)
  then have au: "fst (Authenticate ?env (io_faults w 2) (io_clock w 2) (sv_db sv) (us_email u0) current) =
      (if \<not> en_check ?env (us_password_hash u0) current then Inl ErrBadCredential
       else if \<not> us_is_active u0 then Inl ErrInactive else Inr u0)"
    "\<not> en_check ?env (us_password_hash u0) current \<Longrightarrow>
      Authenticate ?env (io_faults w 2) (io_clock w 2) (sv_db sv) (us_email u0) current = (Inl ErrBadCredential, sv_db sv)"
    using assms(2,7) by (simp_all add: Authenticate_def)
  have sp: "(\<forall>s \<in> set (db_sessions db2). se_user_id s \<noteq> us_id u0) \<and> (\<exists>h. en_bcrypt ?env new = Some h
      \<and> (\<forall>u \<in> set (db_users db2). us_id u = us_id u0 \<longrightarrow> us_password_hash u = h))"
    if "SetPassword ?env f t db1 (us_id u0) new = (Inr (), db2)" for f t db1 db2
    using that by (auto simp: SetPassword_def Let_def split: if_splits option.splits)
  show ?thesis
  proof (cases "en_check ?env (us_password_hash u0) current \<and> us_is_active u0")
    case True
    then obtain db1 where a: "Authenticate ?env (io_faults w 2) (io_clock w 2) (sv_db sv) (us_email u0) current = (Inr u0, db1)"
      using au(1) by (metis prod.collapse)
    obtain q db2 where q: "SetPassword ?env (io_faults w 3) (io_clock w 3) db1 (us_id u0) new = (q, db2)" by fastforce
    show ?thesis
    proof (cases q)
      case (Inl e)
      with a q assms(1) me have "rp_status rp = 400"
        by (auto simp: handleChangeOwnPassword_def writeError_def respond_def)
      with True show ?thesis by simp
    next
      case (Inr x)
      with a q assms(1) me have "sv_db sv1 = db2" by (auto simp: handleChangeOwnPassword_def split: unit.splits)
      with True sp q Inr show ?thesis by simp
    qed
  next
    case False
    then obtain e db1 where
      "Authenticate ?env (io_faults w 2) (io_clock w 2) (sv_db sv) (us_email u0) current = (Inl e, db1)"
      using au(1) by (metis prod.collapse)
    with False assms(1) me au(2) show ?thesis
      by (auto simp: handleChangeOwnPassword_def writeErrorCode_def respond_def)
  qed
qed

theorem own_password_needs_current_witness:
  "rp_status (fst (handleChangeOwnPassword example_io (Inr (''wrong'', ''new-secret''))
     (example_http\<lparr>hr_access := Some \<lparr>ac_User = Some (admin_row ''a'' ''ann''), ac_Permissions = [], ac_Projects = [],
        ac_Applications = []\<rparr>\<rparr>) ann_server)) = 401"
proof -
  let ?ac = "\<lparr>ac_User = Some (admin_row ''a'' ''ann''), ac_Permissions = [], ac_Projects = [], ac_Applications = []\<rparr>"
  obtain rp sv1 where h: "handleChangeOwnPassword example_io (Inr (''wrong'', ''new-secret''))
     (example_http\<lparr>hr_access := Some ?ac\<rparr>) ann_server = (rp, sv1)" by fastforce
  have env: "io_env example_io = example_env" "io_faults example_io = (\<lambda>_. no_faults)" "sv_db ann_server = two_admins"
    by (simp_all add: example_io_def ann_server_def new_server_def)
  have u: "admin_row ''a'' ''ann'' \<in> set (db_users two_admins)" by (simp add: two_admins_def)
  have t: "trim_space (us_email (admin_row ''a'' ''ann'')) = us_email (admin_row ''a'' ''ann'')"
    by (simp add: admin_row_def trim_eval)
  have "\<not> en_check example_env (us_password_hash (admin_row ''a'' ''ann'')) ''wrong''"
    by (simp add: admin_row_def example_env_def)
  with own_password_needs_current [OF h, unfolded env, OF _ two_admins_ok _ _ u t, of ?ac] h
  show ?thesis by (simp add: no_faults_def)
qed

end
