(* ===== verification/Authz.thy ===== *)
theory Authz
  imports Auth TopologySpec
begin

text \<open>
  internal/api/authz.go: the scope of a request, the set of applications it may see, and the
  conditions every query and every handler takes from it. Below the texts of the conditions, what
  they say of a row: a service name, the two ends of an edge, the services of a trace.
\<close>

record scope =
  sc_unrestricted :: bool
  sc_services :: "string list"

definition scopeFor :: "request \<Rightarrow> scope" where
  "scopeFor r =
     (case hr_access r of
        None \<Rightarrow> \<lparr>sc_unrestricted = False, sc_services = []\<rparr>
      | Some ac \<Rightarrow>
          if hr_project r = [] then
            (if SeesEverything (Some ac) then \<lparr>sc_unrestricted = True, sc_services = []\<rparr>
             else \<lparr>sc_unrestricted = False, sc_services = ac_Applications ac\<rparr>)
          else case find (\<lambda>(p, apps). pj_key p = hr_project r) (ac_Projects ac) of
            Some (p, apps) \<Rightarrow> \<lparr>sc_unrestricted = False, sc_services = apps\<rparr>
          | None \<Rightarrow> \<lparr>sc_unrestricted = False, sc_services = []\<rparr>)"

definition scope_empty :: "scope \<Rightarrow> bool" where
  "scope_empty s \<longleftrightarrow> \<not> sc_unrestricted s \<and> sc_services s = []"

definition allows :: "scope \<Rightarrow> string \<Rightarrow> bool" where
  "allows s service = (if sc_unrestricted s then True else list_ex (\<lambda>svc. svc = service) (sc_services s))"

text \<open>The conditions: a text with placeholders and their arguments.\<close>

type_synonym sql = "string \<times> string list list"

definition filterServiceName :: "scope \<Rightarrow> string \<Rightarrow> sql" where
  "filterServiceName s column =
     (if sc_unrestricted s then ([], []) else ('' AND '' @ column @ '' IN ?'', [sc_services s]))"

definition filterTopology :: "scope \<Rightarrow> sql" where
  "filterTopology s =
     (if sc_unrestricted s then ([], [])
      else ('' AND (arrayElement(splitByChar('/', client), -1) IN ?'' @
            '' OR arrayElement(splitByChar('/', server), -1) IN ?)'', [sc_services s, sc_services s]))"

definition filterTraces :: "scope \<Rightarrow> sql" where
  "filterTraces s = (if sc_unrestricted s then ([], []) else ('' AND hasAny(services, ?)'', [sc_services s]))"

text \<open>What a condition says of a row: the arguments are the lists of \<open>IN\<close> and \<open>hasAny\<close>, and an
  empty text is no condition.\<close>

definition service_row_passes :: "sql \<Rightarrow> string \<Rightarrow> bool" where
  "service_row_passes q service = (case snd q of [] \<Rightarrow> True | xs # _ \<Rightarrow> service \<in> set xs)"

definition edge_row_passes :: "sql \<Rightarrow> string \<Rightarrow> string \<Rightarrow> bool" where
  "edge_row_passes q client server =
     (case snd q of
        [xs, ys] \<Rightarrow> last_segment (CHR ''/'') client \<in> set xs \<or> last_segment (CHR ''/'') server \<in> set ys
      | _ \<Rightarrow> True)"

definition trace_row_passes :: "sql \<Rightarrow> string list \<Rightarrow> bool" where
  "trace_row_passes q services = (case snd q of [] \<Rightarrow> True | xs # _ \<Rightarrow> list_ex (\<lambda>s. s \<in> set xs) services)"

section \<open>Facts\<close>

lemma service_row_allowed: "service_row_passes (filterServiceName s column) service = allows s service"
  by (auto simp: service_row_passes_def filterServiceName_def allows_def list_ex_iff)

lemma trace_row_allowed: "trace_row_passes (filterTraces s) services \<longleftrightarrow>
    sc_unrestricted s \<or> (\<exists>x \<in> set services. allows s x)"
  by (auto simp: trace_row_passes_def filterTraces_def allows_def list_ex_iff)

lemma edge_row_allowed: "edge_row_passes (filterTopology s) client server \<longleftrightarrow>
    allows s (last_segment (CHR ''/'') client) \<or> allows s (last_segment (CHR ''/'') server)"
  by (auto simp: edge_row_passes_def filterTopology_def allows_def list_ex_iff)

lemma nothing_allowed: "scope_empty s \<longleftrightarrow> (\<forall>x. \<not> allows s x)"
  by (auto simp: scope_empty_def allows_def list_ex_iff)

section \<open>Properties\<close>

text \<open>The projects a user reaches.\<close>

definition reaches :: "idb \<Rightarrow> user_row \<Rightarrow> project_row \<Rightarrow> bool" where
  "reaches db u p \<longleftrightarrow> p \<in> set (db_projects db) \<and> (us_is_super_admin u
     \<or> (\<exists>g. (us_id u, g) \<in> set (db_user_role_groups db) \<and> (pj_id p, g) \<in> set (db_project_role_groups db)))"

lemma projects_of_iff: "p \<in> set (projects_of db u) \<longleftrightarrow> reaches db u p"
  by (auto simp: projects_of_def reaches_def list_ex_iff groups_of_def image_iff)

lemma loaded_access:
  assumes "LoadAccess flt ordp ords db u = Inr ac" "is_order ordp" "is_order ords"
  shows "ac_User ac = Some u"
    and "(p, apps) \<in> set (ac_Projects ac) \<Longrightarrow> reaches db u p \<and> set apps = {s. (pj_id p, s) \<in> set (db_project_applications db)}"
    and "reaches db u p \<Longrightarrow> \<exists>apps. (p, apps) \<in> set (ac_Projects ac)"
    and "set (ac_Applications ac) = (\<Union>(p, apps) \<in> set (ac_Projects ac). set apps)"
proof -
  have apps: "set (project_apps ords db pid) = {s. (pid, s) \<in> set (db_project_applications db)}" for pid
    by (auto simp: project_apps_def is_order_set [OF assms(3)] image_iff)
  from assms(1) have ac: "ac_User ac = Some u"
    "ac_Projects ac = map (\<lambda>p. (p, project_apps ords db (pj_id p))) (ordp (projects_of db u))"
    "set (ac_Applications ac) = set (concat (map snd (ac_Projects ac)))"
    by (auto simp: LoadAccess_def Let_def foldl_distinct split: if_splits)
  show "ac_User ac = Some u" by (rule ac)
  show "(p, apps) \<in> set (ac_Projects ac) \<Longrightarrow> reaches db u p \<and> set apps = {s. (pj_id p, s) \<in> set (db_project_applications db)}"
    using apps by (auto simp: ac(2) is_order_set [OF assms(2)] projects_of_iff)
  show "reaches db u p \<Longrightarrow> \<exists>apps. (p, apps) \<in> set (ac_Projects ac)"
    by (auto simp: ac(2) is_order_set [OF assms(2)] projects_of_iff image_iff)
  show "set (ac_Applications ac) = (\<Union>(p, apps) \<in> set (ac_Projects ac). set apps)"
    using ac(3) by (auto simp: split_beta)
qed

text \<open>(C14) What a request may see, in terms of the tables: without the \<open>project\<close> parameter an
  administrator sees everything and anybody else the applications of the projects they reach; with
  the parameter everybody, administrators included, sees the applications of the one project with
  that key, if they reach it, and nothing otherwise: a project out of reach and one that does not
  exist are the same.\<close>

theorem scope_specification:
  assumes "LoadAccess flt ordp ords db u = Inr ac" "is_order ordp" "is_order ords" "hr_access r = Some ac"
    and "id_ok env db"
  shows "allows (scopeFor r) svc \<longleftrightarrow>
      (if hr_project r = [] then us_is_super_admin u
         \<or> (\<exists>p. reaches db u p \<and> (pj_id p, svc) \<in> set (db_project_applications db))
       else (\<exists>p. reaches db u p \<and> pj_key p = hr_project r \<and> (pj_id p, svc) \<in> set (db_project_applications db)))"
proof -
  note la = loaded_access [OF assms(1-3)]
  have "(\<exists>apps. (p, apps) \<in> set (ac_Projects ac) \<and> svc \<in> set apps) \<longleftrightarrow>
      reaches db u p \<and> (pj_id p, svc) \<in> set (db_project_applications db)" for p
    using la(2,3) by blast
  then have all: "svc \<in> set (ac_Applications ac) \<longleftrightarrow>
      (\<exists>p. reaches db u p \<and> (pj_id p, svc) \<in> set (db_project_applications db))"
    using la(4) by fast
  show ?thesis
  proof (cases "hr_project r = []")
    case True
    then show ?thesis using all la(1) assms(4)
      by (auto simp: scopeFor_def SeesEverything_def allows_def list_ex_iff)
  next
    case False
    have keys: "p = q" if "reaches db u p" "reaches db u q" "pj_key p = pj_key q" for p q
      using that assms(5) by (auto simp: reaches_def id_ok_def projects_ok_def distinct_map inj_on_def)
    show ?thesis
    proof (cases "find (\<lambda>(p, apps). pj_key p = hr_project r) (ac_Projects ac)")
      case None
      then have "\<not> (reaches db u p \<and> pj_key p = hr_project r)" for p
        using la(3) [of p] by (auto simp: find_None_iff)
      with None False assms(4) show ?thesis by (auto simp: scopeFor_def allows_def)
    next
      case (Some x)
      then obtain p apps where x: "x = (p, apps)" "(p, apps) \<in> set (ac_Projects ac)" "pj_key p = hr_project r"
        by (cases x) (auto dest!: findD)
      have "allows (scopeFor r) svc \<longleftrightarrow> svc \<in> set apps"
        using Some x(1) False assms(4) by (simp add: scopeFor_def allows_def list_ex_iff)
      also have "\<dots> \<longleftrightarrow> (pj_id p, svc) \<in> set (db_project_applications db)" using la(2) [OF x(2)] by simp
      also have "\<dots> \<longleftrightarrow> (\<exists>q. reaches db u q \<and> pj_key q = hr_project r \<and> (pj_id q, svc) \<in> set (db_project_applications db))"
        using la(2) [OF x(2)] x(3) keys [of p] by metis
      finally show ?thesis using False by simp
    qed
  qed
qed

definition example_ac :: access where
  "example_ac = (case LoadAccess no_faults (\<lambda>xs. xs) rev mixed_roles (hd (db_users mixed_roles)) of
     Inr ac \<Rightarrow> ac | Inl e \<Rightarrow> \<lparr>ac_User = None, ac_Permissions = [], ac_Projects = [], ac_Applications = []\<rparr>)"

theorem scope_specification_witness:
  "allows (scopeFor (example_http\<lparr>hr_access := Some example_ac, hr_project := ''web''\<rparr>)) ''shop''
   \<and> \<not> allows (scopeFor (example_http\<lparr>hr_access := Some example_ac, hr_project := ''web''\<rparr>)) ''ledger''"
proof -
  let ?u = "hd (db_users mixed_roles)"
  have ac: "LoadAccess no_faults (\<lambda>xs. xs) rev mixed_roles ?u = Inr example_ac"
    by (simp add: example_ac_def LoadAccess_def no_faults_def Let_def)
  note sp = scope_specification [OF ac is_order_id is_order_rev _ mixed_roles_ok,
      where r = "example_http\<lparr>hr_access := Some example_ac, hr_project := ''web''\<rparr>"]
  have "reaches mixed_roles ?u (project_of ''web'')"
    by (simp add: reaches_def mixed_roles_def admin_row_def project_of_def)
  with sp [of "''shop''"] have "allows (scopeFor (example_http\<lparr>hr_access := Some example_ac, hr_project := ''web''\<rparr>)) ''shop''"
    by (auto simp: mixed_roles_def project_of_def intro!: exI [of _ "project_of ''web''"])
  moreover from sp [of "''ledger''"]
  have "\<not> allows (scopeFor (example_http\<lparr>hr_access := Some example_ac, hr_project := ''web''\<rparr>)) ''ledger''"
    by (auto simp: mixed_roles_def project_of_def reaches_def)
  ultimately show ?thesis by blast
qed

text \<open>The three conditions and the handlers' test agree with the spans: a span passes the service
  condition exactly when its service is allowed; the edge of a pair passes the topology condition
  exactly when the service of the caller or of the callee is allowed, whatever their namespaces, as
  long as the service names have no slash; a trace passes when one of its services is allowed.\<close>

theorem conditions_agree:
  assumes "CHR ''/'' \<notin> set (sp_ServiceName c)" "CHR ''/'' \<notin> set (sp_ServiceName s)"
  shows "(service_row_passes (filterServiceName sc column) (sp_ServiceName s) \<longleftrightarrow> allows sc (sp_ServiceName s))
    \<and> (edge_row_passes (filterTopology sc) (nd_service (nodeOf c)) (nd_service (nodeOf s)) \<longleftrightarrow>
         allows sc (sp_ServiceName c) \<or> allows sc (sp_ServiceName s))
    \<and> (trace_row_passes (filterTraces sc) [sp_ServiceName c, sp_ServiceName s] \<longleftrightarrow>
         allows sc (sp_ServiceName c) \<or> allows sc (sp_ServiceName s))
    \<and> (scope_empty sc \<longrightarrow> \<not> service_row_passes (filterServiceName sc column) (sp_ServiceName s))"
  using assms
  by (auto simp: service_row_allowed edge_row_allowed trace_row_allowed nodeOf_def ServiceKey_last_segment
      nothing_allowed) (auto simp: allows_def)

theorem conditions_agree_witness:
  "edge_row_passes (filterTopology \<lparr>sc_unrestricted = False, sc_services = [''shop'']\<rparr>)
     (nd_service (nodeOf (zero_span\<lparr>sp_ServiceNamespace := ''eu'', sp_ServiceName := ''shop''\<rparr>)))
     (nd_service (nodeOf (zero_span\<lparr>sp_ServiceName := ''ledger''\<rparr>)))"
  using conditions_agree [of "zero_span\<lparr>sp_ServiceNamespace := ''eu'', sp_ServiceName := ''shop''\<rparr>"
      "zero_span\<lparr>sp_ServiceName := ''ledger''\<rparr>" "\<lparr>sc_unrestricted = False, sc_services = [''shop'']\<rparr>" "[]"]
  by (simp add: allows_def)

text \<open>A service that puts a slash into its own name escapes the topology condition: its edges are
  shown to those who may see another application, the one named after the last slash, and not to
  those who may see the service itself.\<close>

theorem slash_name_misfiled:
  "edge_row_passes (filterTopology \<lparr>sc_unrestricted = False, sc_services = [''shop'']\<rparr>)
     (nd_service (nodeOf (zero_span\<lparr>sp_ServiceName := ''secret/shop''\<rparr>)))
     (nd_service (nodeOf (zero_span\<lparr>sp_ServiceName := ''secret/db''\<rparr>)))
   \<and> \<not> edge_row_passes (filterTopology \<lparr>sc_unrestricted = False, sc_services = [''secret/shop'', ''secret/db'']\<rparr>)
     (nd_service (nodeOf (zero_span\<lparr>sp_ServiceName := ''secret/shop''\<rparr>)))
     (nd_service (nodeOf (zero_span\<lparr>sp_ServiceName := ''secret/db''\<rparr>)))"
  by (simp add: edge_row_allowed allows_def nodeOf_def ServiceKey_def zero_span_def last_segment_def)

end
