(* ===== verification/Paths.thy ===== *)
theory Paths
  imports GoStrings
begin

text \<open>
  The functions of path/filepath the dump code uses, as the package documents them for Unix:
  \<open>Clean\<close> works on the elements between the slashes, \<open>Join\<close> cleans the joined elements, \<open>Base\<close>
  takes the last element. The lemmas say when joining a name to a directory stays in it.
\<close>

text \<open>One element at a time: empty ones and \<open>.\<close> disappear, \<open>..\<close> removes the element before it,
  disappears at the root, and stays at the front of a relative path.\<close>

definition clean_step :: "bool \<Rightarrow> string list \<Rightarrow> string \<Rightarrow> string list" where
  "clean_step rooted out e =
     (if e = [] \<or> e = ''.'' then out
      else if e = ''..'' then
        (if out \<noteq> [] \<and> last out \<noteq> ''..'' then butlast out
         else if rooted then out else out @ [e])
      else out @ [e])"

definition path_elements :: "string \<Rightarrow> string list" where
  "path_elements p = foldl (clean_step (has_prefix p ''/'')) [] (split_byte (CHR ''/'') p)"

definition path_clean :: "string \<Rightarrow> string" where
  "path_clean p =
     (let out = path_elements p; s = (if has_prefix p ''/'' then ''/'' else []) @ join out ''/''
      in if s = [] then ''.'' else s)"

definition path_join :: "string list \<Rightarrow> string" where
  "path_join es = (let ne = filter (\<lambda>e. e \<noteq> []) es in if ne = [] then [] else path_clean (join ne ''/''))"

fun drop_slashes :: "string \<Rightarrow> string" where
  "drop_slashes (c # s) = (if c = CHR ''/'' then drop_slashes s else c # s)"
| "drop_slashes [] = []"

definition path_base :: "string \<Rightarrow> string" where
  "path_base p =
     (if p = [] then ''.''
      else let q = rev (drop_slashes (rev p)); i = last_index_byte q (CHR ''/'');
               b = (if 0 \<le> i then drop (nat (i + 1)) q else q)
           in if b = [] then ''/'' else b)"

text \<open>\<open>path.Ext\<close>: from the last dot of the last element on.\<close>

definition path_ext :: "string \<Rightarrow> string" where
  "path_ext p =
     (let e = last_segment (CHR ''/'') p; i = last_index_byte e (CHR ''.'')
      in if i < 0 then [] else drop (nat i) e)"

section \<open>Facts\<close>

text \<open>A plain name: what \<open>Base\<close> leaves alone and \<open>Join\<close> puts right below the directory.\<close>

definition plain_name :: "string \<Rightarrow> bool" where
  "plain_name n \<longleftrightarrow> n \<notin> {[], ''.'', ''..''} \<and> CHR ''/'' \<notin> set n"

lemma drop_slashes_idle: "CHR ''/'' \<notin> set s \<Longrightarrow> drop_slashes s = s"
  by (cases s) auto

lemma path_base_plain: "n \<noteq> [] \<Longrightarrow> CHR ''/'' \<notin> set n \<Longrightarrow> path_base n = n"
  using last_index_byte_neg [of n "CHR ''/''"] by (simp add: path_base_def Let_def drop_slashes_idle)

text \<open>A directory as the configuration gives it: a rooted path that is already clean.\<close>

definition clean_dir :: "string list \<Rightarrow> bool" where
  "clean_dir es \<longleftrightarrow> es \<noteq> [] \<and> list_all plain_name es"

definition dir_path :: "string list \<Rightarrow> string" where
  "dir_path es = ''/'' @ join es ''/''"

lemma clean_plain: "list_all plain_name es \<Longrightarrow> foldl (clean_step r) out es = out @ es"
  by (induction es arbitrary: out) (auto simp: clean_step_def plain_name_def)

lemma join_append_one: "es \<noteq> [] \<Longrightarrow> join (es @ [n]) ''/'' = join es ''/'' @ ''/'' @ n"
  by (induction es) (simp, rename_tac e es, case_tac "es = []", simp_all add: join_cons)

lemma dir_path_elements:
  assumes "clean_dir es"
  shows "path_elements (dir_path es @ ''/'' @ s) = foldl (clean_step True) es (split_byte (CHR ''/'') s)"
proof -
  have "list_all (\<lambda>e. CHR ''/'' \<notin> set e) es" using assms by (auto simp: clean_dir_def plain_name_def list_all_iff)
  then have "split_byte (CHR ''/'') (dir_path es @ ''/'' @ s) = [] # es @ split_byte (CHR ''/'') s"
    using split_byte_append [of "CHR ''/''" "[]" "join es ''/'' @ ''/'' @ s"]
      split_byte_append [of "CHR ''/''" "join es ''/''" s] split_join [of "CHR ''/''" es] assms
    by (simp add: dir_path_def clean_dir_def)
  moreover have "has_prefix (dir_path es @ x) ''/''" for x by (simp add: has_prefix_def dir_path_def)
  ultimately show ?thesis
    using assms clean_plain [of es True "[]"] by (simp add: path_elements_def clean_dir_def clean_step_def)
qed

text \<open>Joining a name: only its own elements decide where it ends.\<close>

lemma join_in_dir:
  assumes "clean_dir es" "s \<noteq> []"
  shows "path_join [dir_path es, s] = ''/'' @ join (foldl (clean_step True) es (split_byte (CHR ''/'') s)) ''/''"
proof -
  have "dir_path es \<noteq> []" by (simp add: dir_path_def)
  with assms have "path_join [dir_path es, s] = path_clean (dir_path es @ ''/'' @ s)"
    by (simp add: path_join_def)
  moreover have "has_prefix (dir_path es @ x) ''/''" for x by (simp add: has_prefix_def dir_path_def)
  ultimately show ?thesis using dir_path_elements [OF assms(1)] by (simp add: path_clean_def Let_def)
qed

lemma join_plain:
  assumes "clean_dir es" "plain_name n"
  shows "path_join [dir_path es, n] = dir_path (es @ [n])"
  using assms join_in_dir [OF assms(1), of n]
  by (auto simp: plain_name_def split_byte_absent clean_step_def dir_path_def)

text \<open>The last element of a path never leaves the directory of its parent: it is a plain name, or
  one of \<open>.\<close>, \<open>..\<close> and \<open>/\<close>.\<close>

lemma path_base_cases: "plain_name (path_base p) \<or> path_base p \<in> {''.'', ''..'', ''/''}"
proof (cases "p = []")
  case False
  let ?q = "rev (drop_slashes (rev p))"
  let ?i = "last_index_byte ?q (CHR ''/'')"
  let ?b = "if 0 \<le> ?i then drop (nat (?i + 1)) ?q else ?q"
  have "CHR ''/'' \<notin> set ?b"
  proof (cases "0 \<le> ?i")
    case True
    then have "CHR ''/'' \<in> set ?q" using last_index_byte_neg [of ?q "CHR ''/''"] by auto
    then obtain a b where q: "?q = a @ CHR ''/'' # b" "CHR ''/'' \<notin> set b" using split_list_last by metis
    have "nat (int (length a) + 1) = Suc (length a)" by simp
    with q(2) show ?thesis unfolding q(1) by (simp add: last_index_byte_split)
  next
    case False
    then show ?thesis using last_index_byte_neg [of ?q "CHR ''/''"] by auto
  qed
  with False show ?thesis by (auto simp: path_base_def Let_def plain_name_def split: if_splits)
qed (simp add: path_base_def)

end
