(* ===== verification/Dumps.thy ===== *)
theory Dumps
  imports Http Paths
begin

text \<open>
  internal/api/dumpjanitor.go and the file operations of the dump code: the files below the dump
  directory, the cleaning by age and quota, the files no record names. Paths are cleaned before
  they reach the file system, so a file is known by its cleaned path; an operation fails where the
  oracle \<open>io_fs_fault\<close> says so.
\<close>

section \<open>Files\<close>

definition fs_has_child :: "filesystem \<Rightarrow> string \<Rightarrow> bool" where
  "fs_has_child fs p \<longleftrightarrow> list_ex (\<lambda>q. has_prefix q (p @ ''/'')) (map fst (fs_files fs) @ fs_dirs fs)"

text \<open>\<open>os.Remove\<close>: a file, or an empty directory. The flag says whether it succeeded.\<close>

definition fs_remove :: "(string \<Rightarrow> bool) \<Rightarrow> string \<Rightarrow> filesystem \<Rightarrow> bool \<times> filesystem" where
  "fs_remove fault p fs =
     (if fault p then (False, fs)
      else if map_of (fs_files fs) p \<noteq> None then (True, fs\<lparr>fs_files := AList.delete p (fs_files fs)\<rparr>)
      else if p \<in> set (fs_dirs fs) \<and> \<not> fs_has_child fs p
      then (True, fs\<lparr>fs_dirs := filter (\<lambda>d. d \<noteq> p) (fs_dirs fs)\<rparr>)
      else (False, fs))"

definition fs_parent :: "string \<Rightarrow> string" where
  "fs_parent p = (let i = last_index_byte p (CHR ''/'') in if 0 < i then take (nat i) p else ''/'')"

text \<open>\<open>os.Create\<close> truncates; it needs the directory and no directory of that name.\<close>

definition fs_create :: "(string \<Rightarrow> bool) \<Rightarrow> time \<Rightarrow> string \<Rightarrow> filesystem \<Rightarrow> filesystem option" where
  "fs_create fault now p fs =
     (if fault p \<or> p \<in> set (fs_dirs fs) \<or> fs_parent p \<notin> set (fs_dirs fs) then None
      else Some (fs\<lparr>fs_files := AList.update p \<lparr>fl_data = [], fl_mtime = now\<rparr> (fs_files fs)\<rparr>))"

definition fs_write :: "time \<Rightarrow> string \<Rightarrow> string \<Rightarrow> filesystem \<Rightarrow> filesystem" where
  "fs_write now p d fs = fs\<lparr>fs_files := AList.update p \<lparr>fl_data = d, fl_mtime = now\<rparr> (fs_files fs)\<rparr>"

definition fs_open :: "(string \<Rightarrow> bool) \<Rightarrow> string \<Rightarrow> filesystem \<Rightarrow> string option" where
  "fs_open fault p fs = (if fault p then None else map_option fl_data (map_of (fs_files fs) p))"

text \<open>The plain files directly below a directory: \<open>os.ReadDir\<close> without the directories.\<close>

definition fs_entries :: "string \<Rightarrow> filesystem \<Rightarrow> (string \<times> dump_file) list" where
  "fs_entries dir fs =
     concat (map (\<lambda>(p, f).
       if has_prefix p (dir @ ''/'') \<and> CHR ''/'' \<notin> set (drop (length dir + 1) p)
       then [(drop (length dir + 1) p, f)] else []) (fs_files fs))"

section \<open>The janitor\<close>

text \<open>What one round reads: the clock (once for the cutoff, once for the orphans), the database
  faults (of the list, and of each record's deletion), the order of the list.\<close>

record janitor_round =
  rd_now :: time
  rd_later :: time
  rd_list_faults :: faults
  rd_del_faults :: "string \<Rightarrow> faults"
  rd_fs_fault :: "string \<Rightarrow> bool"
  rd_readdir_fault :: bool
  rd_order :: "artifact_row list \<Rightarrow> artifact_row list"

definition removeDump :: "janitor_round \<Rightarrow> api_server \<Rightarrow> artifact_row \<Rightarrow> api_server" where
  "removeDump rd sv a =
     (let fs1 = (if da_filename a = [] then sv_fs sv
                 else snd (fs_remove (rd_fs_fault rd) (path_join [sv_dumpDir sv, path_base (da_filename a)]) (sv_fs sv)))
      in sv\<lparr>sv_fs := fs1, sv_db := snd (DeleteArtifact (rd_del_faults rd (da_id a)) (sv_db sv) (da_id a))\<rparr>)"

text \<open>The loop over the quota: from the oldest record, while the total is above the limit.\<close>

fun over_quota :: "int \<Rightarrow> int \<Rightarrow> artifact_row list \<Rightarrow> artifact_row list" where
  "over_quota limit used [] = []"
| "over_quota limit used (a # as) =
     (if limit < used then a # over_quota limit (used - da_bytes a) as else [])"

definition removeOrphan :: "janitor_round \<Rightarrow> string list \<Rightarrow> api_server \<Rightarrow> string \<times> dump_file \<Rightarrow> api_server" where
  "removeOrphan rd known sv e =
     (if fst e \<in> set known \<or> rd_later rd - fl_mtime (snd e) < 30 * 60 * 10 ^ 9 then sv
      else sv\<lparr>sv_fs := snd (fs_remove (rd_fs_fault rd) (path_join [sv_dumpDir sv, fst e]) (sv_fs sv))\<rparr>)"

definition removeOrphans :: "janitor_round \<Rightarrow> artifact_row list \<Rightarrow> api_server \<Rightarrow> api_server" where
  "removeOrphans rd artifacts sv =
     (if rd_readdir_fault rd then sv
      else foldl (removeOrphan rd (filter (\<lambda>n. n \<noteq> []) (map da_filename artifacts))) sv
             (fs_entries (sv_dumpDir sv) (sv_fs sv)))"

definition list_limit :: nat where
  "list_limit = 10000"

definition expired_dumps :: "janitor_round \<Rightarrow> dump_retention \<Rightarrow> artifact_row list \<Rightarrow> artifact_row list" where
  "expired_dumps rd ret artifacts = filter (\<lambda>a. da_created_at a < rd_now rd - dr_MaxAge ret) artifacts"

definition kept_dumps :: "janitor_round \<Rightarrow> dump_retention \<Rightarrow> artifact_row list \<Rightarrow> artifact_row list" where
  "kept_dumps rd ret artifacts = filter (\<lambda>a. \<not> da_created_at a < rd_now rd - dr_MaxAge ret) artifacts"

definition quota_dumps :: "janitor_round \<Rightarrow> dump_retention \<Rightarrow> artifact_row list \<Rightarrow> artifact_row list" where
  "quota_dumps rd ret artifacts =
     (let kept = kept_dumps rd ret artifacts
      in over_quota (dr_MaxBytes ret) (sum_list (map da_bytes kept)) (rev kept))"

definition cleanDumps :: "janitor_round \<Rightarrow> api_server \<Rightarrow> api_server" where
  "cleanDumps rd sv =
     (case ListArtifacts (rd_list_faults rd) (rd_order rd) (sv_db sv) None list_limit of
        Inl e \<Rightarrow> sv
      | Inr artifacts \<Rightarrow>
          let sv1 = foldl (removeDump rd) sv (expired_dumps rd (sv_retention sv) artifacts);
              sv2 = foldl (removeDump rd) sv1 (quota_dumps rd (sv_retention sv) artifacts)
          in removeOrphans rd artifacts sv2)"

definition dumpUsage :: "bool \<Rightarrow> (string \<Rightarrow> bool) \<Rightarrow> api_server \<Rightarrow> int \<times> nat" where
  "dumpUsage readdir_fault info_fault sv =
     (if readdir_fault then (0, 0)
      else let es = filter (\<lambda>(n, f). \<not> info_fault n) (fs_entries (sv_dumpDir sv) (sv_fs sv))
           in (sum_list (map (\<lambda>(n, f). int (length (fl_data f))) es), length es))"

text \<open>The loop of \<open>StartDumpJanitor\<close>: one round at the start, one per tick, until the context ends.\<close>

datatype janitor_event = Tick janitor_round | Ctx_done

fun janitor_run :: "api_server \<Rightarrow> janitor_event list \<Rightarrow> api_server" where
  "janitor_run sv [] = sv"
| "janitor_run sv (Tick rd # es) = janitor_run (cleanDumps rd sv) es"
| "janitor_run sv (Ctx_done # es) = sv"

definition StartDumpJanitor :: "janitor_round \<Rightarrow> api_server \<Rightarrow> janitor_event list \<Rightarrow> api_server" where
  "StartDumpJanitor first sv es = janitor_run (cleanDumps first sv) es"

end
