(* ===== verification/ApiDiag.thy ===== *)
theory ApiDiag
  imports Authz Dumps
begin

text \<open>
  internal/api/diagnostics.go: the registration of agents, the dumps taken from them, the files and
  records of the dumps. A dump is fetched by a job that runs beside the requests: \<open>fetchDump\<close> is
  cut into the steps between its network calls, each a function of the reply, so that other
  requests can run in between. The network and the JSON decoder are parameters: a step takes the
  reply.
\<close>

section \<open>Replies of an agent\<close>

datatype reply = NoReply string \<comment> \<open>the error of client.Do\<close>
  | Reply nat string \<comment> \<open>status and body\<close>

definition doJSON :: "(string \<Rightarrow> string + 'a) \<Rightarrow> reply \<Rightarrow> string + 'a" where
  "doJSON decode rep =
     (case rep of
        NoReply e \<Rightarrow> Inl e
      | Reply status body \<Rightarrow>
          let b = take (2 ^ 20) body in
          if status \<noteq> 200 then Inl (''HTTP '' @ nat_string status @ '': '' @ trim_space b)
          else decode b)"

definition explainFetchError :: "string \<Rightarrow> string \<Rightarrow> int \<Rightarrow> string" where
  "explainFetchError err host port =
     (let target = host @ '':'' @ int_string port in
      if contains err ''connection refused'' then
        ''could not reach the application ('' @ target @ ''): the instance may be gone, or the diagnostics endpoint is not listening on this port''
      else if contains err ''no such host'' then
        ''could not resolve the address ('' @ target @ ''): advertisedHost may be wrong''
      else if contains err ''i/o timeout'' \<or> contains err ''context deadline exceeded'' then
        ''the application did not respond ('' @ target @ ''): network access may be blocked, or the dump took longer than expected''
      else if contains err ''HTTP 401'' then
        ''the application rejected the token: does the project's diagnostics token match the value in the application's nabiz.json?''
      else if contains err ''HTTP 404'' then
        ''diagnostics endpoint not found ('' @ target @ ''): is Nabiz.Agent.Diagnostics installed and diagnostics.enabled turned on?''
      else ''could not take a dump from the application: '' @ err)"

section \<open>Where the agent is\<close>

definition join_host_port :: "string \<Rightarrow> int \<Rightarrow> string" where
  "join_host_port host port =
     (if CHR '':'' \<in> set host then ''['' @ host @ '']:'' @ int_string port else host @ '':'' @ int_string port)"

definition agent_host :: "agent_row \<Rightarrow> string" where
  "agent_host a = (if ag_advertised_host a \<noteq> [] then ag_advertised_host a else ag_source_ip a)"

definition agent_root :: "agent_row \<Rightarrow> string" where
  "agent_root a = ''http://'' @ join_host_port (agent_host a) (ag_diag_port a)
     @ (if ag_diag_path a = [] then ''/nabiz/diag'' else ag_diag_path a)"

definition job_query :: "fetch_job \<Rightarrow> string" where
  "job_query j =
     (if fj_kind j = ''cpu'' then ''?seconds='' @ int_string (if fj_seconds j \<le> 0 then 20 else fj_seconds j)
      else if fj_dumpType j \<noteq> [] then ''?type='' @ fj_dumpType j else [])"

text \<open>The two requests of a job: the address and the token sent along.\<close>

definition job_ask :: "fetch_job \<Rightarrow> string \<times> string" where
  "job_ask j = (agent_root (fj_instance j) @ ''/'' @ fj_kind j @ job_query j, fj_token j)"

definition job_download :: "fetch_job \<Rightarrow> string \<Rightarrow> string \<times> string" where
  "job_download j created = (agent_root (fj_instance j) @ ''/'' @ created, fj_token j)"

section \<open>The steps of a dump job\<close>

definition set_job :: "fetch_job \<Rightarrow> api_server \<Rightarrow> api_server" where
  "set_job j sv = sv\<lparr>sv_jobs := map (\<lambda>k. if fj_artifact k = fj_artifact j then j else k) (sv_jobs sv)\<rparr>"

text \<open>The end of a job: the deferred function takes the cancel function out of the map.\<close>

definition end_job :: "fetch_job \<Rightarrow> api_server \<Rightarrow> api_server" where
  "end_job j sv = sv\<lparr>sv_jobs := filter (\<lambda>k. fj_artifact k \<noteq> fj_artifact j) (sv_jobs sv),
     sv_inflight := AList.delete (fj_artifact j) (sv_inflight sv)\<rparr>"

definition job_cancelled :: "fetch_job \<Rightarrow> api_server \<Rightarrow> bool" where
  "job_cancelled j sv = (map_of (sv_inflight sv) (fj_artifact j) = Some True)"

definition job_register :: "fetch_job \<Rightarrow> api_server \<Rightarrow> api_server" where
  "job_register j sv =
     (set_job (j\<lparr>fj_phase := JobAsking\<rparr>) sv)\<lparr>sv_inflight := AList.update (fj_artifact j) False (sv_inflight sv)\<rparr>"

definition job_fail :: "faults \<Rightarrow> string \<Rightarrow> fetch_job \<Rightarrow> api_server \<Rightarrow> api_server" where
  "job_fail flt message j sv =
     end_job j (sv\<lparr>sv_db := snd (if job_cancelled j sv then CancelArtifact flt (sv_db sv) (fj_artifact j)
                                 else FailArtifact flt (sv_db sv) (fj_artifact j) message)\<rparr>)"

definition job_fetch_error :: "fetch_job \<Rightarrow> string \<Rightarrow> string" where
  "job_fetch_error j e = explainFetchError e (agent_host (fj_instance j)) (ag_diag_port (fj_instance j))"

definition job_asked ::
  "(string \<Rightarrow> string + string \<times> int \<times> string) \<Rightarrow> faults \<Rightarrow> reply \<Rightarrow> fetch_job \<Rightarrow> api_server \<Rightarrow> api_server" where
  "job_asked decode flt rep j sv =
     (case doJSON decode rep of
        Inl e \<Rightarrow> job_fail flt (job_fetch_error j e) j sv
      | Inr (created, bytes, err) \<Rightarrow>
          if created = [] then job_fail flt (''the application returned no filename: '' @ err) j sv
          else set_job (j\<lparr>fj_phase := JobProduced created\<rparr>) sv)"

text \<open>The download: the request cannot be built, it fails, or it is answered; the copy to the file
  and the closing of the file may fail.\<close>

datatype download = BadRequest string | NoDownload string | Download nat string "string option" "string option"

definition dump_filename :: "fetch_job \<Rightarrow> string \<Rightarrow> string" where
  "dump_filename j created = ag_service_name (fj_instance j) @ ''_'' @ take 8 (fj_artifact j) @ ''_'' @ created"

definition store_dump ::
  "faults \<Rightarrow> (string \<Rightarrow> bool) \<Rightarrow> string \<Rightarrow> time \<Rightarrow> string \<Rightarrow> string \<Rightarrow> string option \<Rightarrow> string option \<Rightarrow> fetch_job \<Rightarrow> api_server \<Rightarrow> api_server"
where
  "store_dump flt fault os_error now created body copy_err close_err j sv =
     (let filename = dump_filename j created; path = path_join [sv_dumpDir sv, filename] in
      case fs_create fault now path (sv_fs sv) of
        None \<Rightarrow> job_fail flt (''could not create the file: '' @ os_error) j sv
      | Some fs1 \<Rightarrow>
          let fs2 = fs_write now path body fs1 in
          case copy_err of
            Some e \<Rightarrow> job_fail flt (''could not write the file: '' @ e) j (sv\<lparr>sv_fs := snd (fs_remove fault path fs2)\<rparr>)
          | None \<Rightarrow>
             (case close_err of
                Some e \<Rightarrow> job_fail flt (''could not close the file: '' @ e) j (sv\<lparr>sv_fs := fs2\<rparr>)
              | None \<Rightarrow>
                  end_job j (sv\<lparr>sv_fs := fs2, sv_db := snd (CompleteArtifact (\<lambda>n. job_cancelled j sv \<or> flt n)
                    (sv_db sv) (fj_artifact j) filename (int (length body)))\<rparr>)))"

definition job_fetched :: "faults \<Rightarrow> (string \<Rightarrow> bool) \<Rightarrow> string \<Rightarrow> time \<Rightarrow> download \<Rightarrow> string \<Rightarrow> fetch_job \<Rightarrow> api_server \<Rightarrow> api_server" where
  "job_fetched flt fault os_error now d created j sv =
     (case d of
        BadRequest e \<Rightarrow> job_fail flt (''could not build the download request: '' @ e) j sv
      | NoDownload e \<Rightarrow> job_fail flt (job_fetch_error j e) j sv
      | Download status body copy_err close_err \<Rightarrow>
          if status = 403 then
            job_fail flt (''downloading is disabled in the application (diagnostics.allowDownload = false); the file stayed on ''
              @ ag_k8s_pod (fj_instance j)) j sv
          else if status \<noteq> 200 then job_fail flt (''download failed: HTTP '' @ nat_string status) j sv
          else store_dump flt fault os_error now created body copy_err close_err j sv)"

section \<open>Handlers\<close>

record register_request =
  rr_serviceName :: string
  rr_instanceId :: string
  rr_hostname :: string
  rr_pod :: string
  rr_namespace :: string
  rr_pid :: int
  rr_agentVersion :: string
  rr_advertisedHost :: string
  rr_diagPort :: int
  rr_diagPath :: string
  rr_diagReady :: bool
  rr_token :: string

definition registered_instance :: "register_request \<Rightarrow> request \<Rightarrow> agent_row" where
  "registered_instance q r = \<lparr>ag_id = [], ag_service_name = rr_serviceName q, ag_instance_id = rr_instanceId q,
     ag_hostname = rr_hostname q, ag_k8s_pod = rr_pod q, ag_k8s_namespace = rr_namespace q, ag_pid = rr_pid q,
     ag_agent_version = rr_agentVersion q, ag_source_ip = clientIP r, ag_advertised_host = rr_advertisedHost q,
     ag_diag_port = rr_diagPort q, ag_diag_path = rr_diagPath q, ag_diag_ready = rr_diagReady q,
     ag_verified = False, ag_project_id = None, ag_first_seen = 0, ag_last_seen = 0\<rparr>"

definition handleAgentRegister :: "io \<Rightarrow> sealer \<Rightarrow> string + register_request \<Rightarrow> handler" where
  "handleAgentRegister w sl body r sv =
     (case body of
        Inl e \<Rightarrow> (writeError 400 e, sv)
      | Inr q \<Rightarrow>
          if rr_serviceName q = [] \<or> rr_instanceId q = []
          then (writeError 400 ''serviceName and instanceId are required'', sv)
          else case RegisterAgent (io_env w) sl (io_faults w 2) (io_random w 2) (io_clock w 2) (sv_db sv)
                      (registered_instance q r) (rr_token q) of
            (Inl e, db1) \<Rightarrow> (writeError 500 (error_text e), sv\<lparr>sv_db := db1\<rparr>)
          | (Inr a, db1) \<Rightarrow> (respond 200 (RegisteredBody (ag_id a) (ag_verified a)), sv\<lparr>sv_db := db1\<rparr>))"

definition scope_services :: "scope \<Rightarrow> string list option" where
  "scope_services sc = (if sc_unrestricted sc then None else Some (sc_services sc))"

definition handleListInstances :: "io \<Rightarrow> handler" where
  "handleListInstances w r sv =
     (let sc = scopeFor r in
      if scope_empty sc then (respond 200 (InstancesBody []), sv)
      else case ListAgents (io_faults w 2) (io_ord_agents w) (io_clock w 2) (sv_db sv) (scope_services sc)
                  (5 * 60 * 10 ^ 9) of
        Inl e \<Rightarrow> (writeError 500 (error_text e), sv)
      | Inr as \<Rightarrow> (respond 200 (InstancesBody as), sv))"

definition handleListArtifacts :: "io \<Rightarrow> handler" where
  "handleListArtifacts w r sv =
     (let sc = scopeFor r in
      if scope_empty sc then (respond 200 (ArtifactsBody [] None), sv)
      else case ListArtifacts (io_faults w 2) (io_ord_artifacts w) (sv_db sv) (scope_services sc) 100 of
        Inl e \<Rightarrow> (writeError 500 (error_text e), sv)
      | Inr as \<Rightarrow>
          (case dumpUsage (io_fs_fault w (sv_dumpDir sv)) (io_fs_fault w) sv of
             (used, files) \<Rightarrow>
               (respond 200 (ArtifactsBody as (Some (sv_dumpDir sv, used, dr_MaxBytes (sv_retention sv), files,
                  dr_MaxAge (sv_retention sv)))), sv)))"

text \<open>The errors of \<open>GetAgent\<close> as \<open>handleCapture\<close> answers them.\<close>

definition agent_error :: "id_error \<Rightarrow> response" where
  "agent_error e = (case e of
      ErrNotFound \<Rightarrow> writeErrorCode 404 ''instance not found'' ''not_found''
    | ErrTokenMismatch \<Rightarrow> writeErrorCode 412
        ''this instance is not verified: set a diagnostics token on the project and restart the application'' ''unverified''
    | ErrNoSecretKey \<Rightarrow> writeErrorCode 412 ''NABIZ_SECRET_KEY is not set: the token cannot be stored'' ''no_secret_key''
    | _ \<Rightarrow> writeError 500 (error_text e))"

definition no_access :: response where
  "no_access = writeErrorCode 403 ''you do not have access to this service'' ''forbidden''"

text \<open>Body: kind, seconds, type.\<close>

definition handleCapture :: "io \<Rightarrow> sealer \<Rightarrow> string + string \<times> int \<times> string \<Rightarrow> handler" where
  "handleCapture w sl body r sv =
     (case body of
        Inl e \<Rightarrow> (writeError 400 e, sv)
      | Inr (kind, seconds, dtype) \<Rightarrow>
          if kind \<noteq> ''cpu'' \<and> kind \<noteq> ''memory'' then (writeError 400 (''kind must be 'cpu' or 'memory'' @ [CHR 0x27]), sv)
          else let g = GetAgent sl (io_faults w 2) (sv_db sv) (hr_id r) in
          case (ar_error g, ar_agent g) of
            (Some e, _) \<Rightarrow> (agent_error e, sv)
          | (None, None) \<Rightarrow> (writeError 500 [], sv)
          | (None, Some a) \<Rightarrow>
              if \<not> allows (scopeFor r) (ag_service_name a) then (no_access, sv)
              else case CreateArtifact (io_faults w 3) (io_random w 3) (io_clock w 3) (sv_db sv) (ag_id a)
                          (ag_service_name a) kind (us_email (access_user r)) of
                (Inl e, db1) \<Rightarrow> (writeError 500 (error_text e), sv\<lparr>sv_db := db1\<rparr>)
              | (Inr did, db1) \<Rightarrow>
                  (respond 202 (PendingBody did),
                   sv\<lparr>sv_db := db1, sv_jobs := sv_jobs sv @ [\<lparr>fj_instance = a, fj_token = ar_token g, fj_kind = kind,
                     fj_seconds = seconds, fj_dumpType = dtype, fj_artifact = did,
                     fj_by = us_email (access_user r), fj_phase = JobSpawned\<rparr>]\<rparr>))"

text \<open>\<open>askAgentToStop\<close>: the address asked, if any, and what its reply means: reached, stopped, reason.\<close>

definition stop_request :: "sealer \<Rightarrow> faults \<Rightarrow> idb \<Rightarrow> artifact_row \<Rightarrow> (string \<times> string) option" where
  "stop_request sl flt db art =
     (case da_instance_id art of
        None \<Rightarrow> None
      | Some iid \<Rightarrow>
          if iid = [] then None
          else let g = GetAgent sl flt db iid in
          case (ar_error g, ar_agent g) of
            (None, Some a) \<Rightarrow> Some (agent_root a @ ''/cancel'', ar_token g)
          | _ \<Rightarrow> None)"

definition askAgentToStop ::
  "(string \<Rightarrow> string + bool \<times> string) \<Rightarrow> sealer \<Rightarrow> faults \<Rightarrow> (string \<times> string \<Rightarrow> reply) \<Rightarrow> idb \<Rightarrow> artifact_row
    \<Rightarrow> bool \<times> bool \<times> string" where
  "askAgentToStop decode sl flt net db art =
     (case stop_request sl flt db art of
        None \<Rightarrow> (False, False, [])
      | Some q \<Rightarrow>
          (case doJSON decode (net q) of
             Inl e \<Rightarrow> (False, False, [])
           | Inr (stopped, reason) \<Rightarrow> (True, stopped, reason)))"

definition handleCancelCapture ::
  "io \<Rightarrow> (string \<Rightarrow> string + bool \<times> string) \<Rightarrow> sealer \<Rightarrow> (string \<times> string \<Rightarrow> reply) \<Rightarrow> handler" where
  "handleCancelCapture w decode sl net r sv =
     (case GetArtifact (io_faults w 2) (sv_db sv) (hr_id r) of
        Inl e \<Rightarrow> (writeIdentityError e, sv)
      | Inr art \<Rightarrow>
          if \<not> allows (scopeFor r) (da_service_name art) then (no_access, sv)
          else if da_status art \<noteq> ''pending''
          then (writeErrorCode 409 ''this job has already finished'' ''not_running'', sv)
          else case askAgentToStop decode sl (io_faults w 3) net (sv_db sv) art of
            (True, stopped, reason) \<Rightarrow> (respond 200 (CancelBody stopped stopped reason), sv)
          | (False, stopped, reason) \<Rightarrow>
              let running = (map_of (sv_inflight sv) (hr_id r) \<noteq> None);
                  sv1 = (if running then sv\<lparr>sv_inflight := AList.update (hr_id r) True (sv_inflight sv)\<rparr> else sv)
              in (respond 200 (CancelBody (stopped \<or> running) stopped
                    ''the application could not be reached; nabiz stopped waiting''), sv1))"

definition handleGetArtifact :: "io \<Rightarrow> handler" where
  "handleGetArtifact w r sv =
     (case GetArtifact (io_faults w 2) (sv_db sv) (hr_id r) of
        Inl e \<Rightarrow> (writeIdentityError e, sv)
      | Inr art \<Rightarrow>
          if \<not> allows (scopeFor r) (da_service_name art) then (no_access, sv)
          else (respond 200 (ArtifactBody art), sv))"

definition handleDownloadArtifact :: "io \<Rightarrow> handler" where
  "handleDownloadArtifact w r sv =
     (case GetArtifact (io_faults w 2) (sv_db sv) (hr_id r) of
        Inl e \<Rightarrow> (writeIdentityError e, sv)
      | Inr art \<Rightarrow>
          if \<not> allows (scopeFor r) (da_service_name art) then (no_access, sv)
          else if da_status art \<noteq> ''ready'' then (writeErrorCode 409 ''the file is not ready yet'' ''not_ready'', sv)
          else case fs_open (io_fs_fault w) (path_join [sv_dumpDir sv, path_base (da_filename art)]) (sv_fs sv) of
            None \<Rightarrow> (writeErrorCode 404 ''the file was not found on disk'' ''missing_file'', sv)
          | Some d \<Rightarrow> (respond 200 (FileBody (da_filename art) (da_bytes art) d), sv))"

definition handleDeleteArtifact :: "io \<Rightarrow> handler" where
  "handleDeleteArtifact w r sv =
     (case GetArtifact (io_faults w 2) (sv_db sv) (hr_id r) of
        Inl e \<Rightarrow> (writeIdentityError e, sv)
      | Inr art \<Rightarrow>
          if \<not> allows (scopeFor r) (da_service_name art) then (no_access, sv)
          else
            let fs1 = (if da_filename art = [] then sv_fs sv
                       else snd (fs_remove (io_fs_fault w) (path_join [sv_dumpDir sv, path_base (da_filename art)]) (sv_fs sv)))
            in case DeleteArtifact (io_faults w 3) (sv_db sv) (da_id art) of
                 (Inl e, db1) \<Rightarrow> (writeIdentityError e, sv\<lparr>sv_fs := fs1, sv_db := db1\<rparr>)
               | (Inr (), db1) \<Rightarrow> (respond 204 NoBody, sv\<lparr>sv_fs := fs1, sv_db := db1\<rparr>))"

definition handleSetDiagToken :: "io \<Rightarrow> sealer \<Rightarrow> string + string \<Rightarrow> handler" where
  "handleSetDiagToken w sl body r sv =
     (case body of
        Inl e \<Rightarrow> (writeError 400 e, sv)
      | Inr token \<Rightarrow>
          (case SetProjectDiagnosticsToken sl (str_bytes (io_random w 4)) (io_faults w 2) (io_clock w 2) (sv_db sv)
                  (hr_id r) token (us_email (access_user r)) of
             (Inl e, db1) \<Rightarrow>
               (if e = ErrNoSecretKey then writeErrorCode 412
                  ''NABIZ_SECRET_KEY is not set: the token cannot be encrypted, so it is not stored'' ''no_secret_key''
                else writeError 500 (error_text e), sv\<lparr>sv_db := db1\<rparr>)
           | (Inr (), db1) \<Rightarrow> (respond 204 NoBody, sv\<lparr>sv_db := db1\<rparr>)))"

end
