(* ===== verification/DumpTheorems.thy ===== *)
theory DumpTheorems
  imports Dumps Auth
begin

text \<open>
  What a round of the janitor does: the records it leaves respect the age and the quota and are the
  newest ones; the files it deletes are those of the records it deletes and the old files no listed
  record names; and a record past the end of the list loses its file.
\<close>

section \<open>Records\<close>

lemma DeleteArtifact_db: "\<not> flt 0 \<Longrightarrow>
    snd (DeleteArtifact flt db did) = db\<lparr>db_artifacts := filter (\<lambda>d. da_id d \<noteq> did) (db_artifacts db)\<rparr>"
  by (auto simp: DeleteArtifact_def has_id_def image_iff intro!: idb.equality filter_True [symmetric])

lemma removeDump_frame [simp]:
  "sv_dumpDir (removeDump rd sv a) = sv_dumpDir sv" "sv_retention (removeDump rd sv a) = sv_retention sv"
  by (simp_all add: removeDump_def Let_def)

lemma removeDumps_frame [simp]:
  "sv_dumpDir (foldl (removeDump rd) sv xs) = sv_dumpDir sv"
  by (induction xs arbitrary: sv) simp_all

lemma removeOrphans_frame [simp]:
  "sv_db (removeOrphans rd as sv) = sv_db sv" "sv_dumpDir (removeOrphans rd as sv) = sv_dumpDir sv"
proof -
  have "sv_db (foldl (removeOrphan rd k) sv es) = sv_db sv \<and> sv_dumpDir (foldl (removeOrphan rd k) sv es) = sv_dumpDir sv" for k es
    by (induction es arbitrary: sv) (simp_all add: removeOrphan_def)
  then show "sv_db (removeOrphans rd as sv) = sv_db sv" "sv_dumpDir (removeOrphans rd as sv) = sv_dumpDir sv"
    by (simp_all add: removeOrphans_def)
qed

lemma removeDumps_db:
  assumes "\<And>i. \<not> rd_del_faults rd i 0"
  shows "sv_db (foldl (removeDump rd) sv xs) =
    (sv_db sv)\<lparr>db_artifacts := filter (\<lambda>d. da_id d \<notin> da_id ` set xs) (db_artifacts (sv_db sv))\<rparr>"
proof (induction xs arbitrary: sv)
  case (Cons a xs)
  have "sv_db (removeDump rd sv a) =
      (sv_db sv)\<lparr>db_artifacts := filter (\<lambda>d. da_id d \<noteq> da_id a) (db_artifacts (sv_db sv))\<rparr>"
    using DeleteArtifact_db [where flt = "rd_del_faults rd (da_id a)", OF assms] by (simp add: removeDump_def Let_def)
  with Cons.IH [of "removeDump rd sv a"] show ?case by (simp add: conj_commute)
qed simp

text \<open>The loop over the quota takes a prefix, the shortest that brings the total down.\<close>

lemma over_quota_prefix:
  "\<exists>rest. xs = over_quota limit used xs @ rest
     \<and> (rest = [] \<or> used - sum_list (map da_bytes (over_quota limit used xs)) \<le> limit)
     \<and> (over_quota limit used xs \<noteq> [] \<longrightarrow>
          limit < used - sum_list (map da_bytes (butlast (over_quota limit used xs))))"
proof (induction xs arbitrary: used)
  case (Cons a xs)
  show ?case
  proof (cases "limit < used")
    case True
    obtain rest where r: "xs = over_quota limit (used - da_bytes a) xs @ rest"
      "rest = [] \<or> used - da_bytes a - sum_list (map da_bytes (over_quota limit (used - da_bytes a) xs)) \<le> limit"
      "over_quota limit (used - da_bytes a) xs \<noteq> [] \<longrightarrow>
         limit < used - da_bytes a - sum_list (map da_bytes (butlast (over_quota limit (used - da_bytes a) xs)))"
      using Cons.IH by blast
    with True show ?thesis by (intro exI [of _ rest]) (auto simp: algebra_simps)
  next
    case False
    then show ?thesis by auto
  qed
qed simp

definition newest_first :: "(artifact_row list \<Rightarrow> artifact_row list) \<Rightarrow> bool" where
  "newest_first ord \<longleftrightarrow> is_order ord \<and> (\<forall>as. sorted (map da_created_at (rev (ord as))))"

lemma sum_list_mset: "mset xs = mset ys \<Longrightarrow> sum_list (map f xs) = (sum_list (map f ys) :: int)"
  by (metis mset_map sum_mset_sum_list)

lemma filter_ids_split:
  assumes "distinct (map k (xs @ ys))"
  shows "filter (\<lambda>x. k x \<notin> k ` set xs) (xs @ ys) = ys"
proof -
  have "filter (\<lambda>x. k x \<notin> k ` set xs) xs = []" by (simp add: filter_empty_conv)
  moreover have "filter (\<lambda>x. k x \<notin> k ` set xs) ys = ys" using assms by (auto simp: filter_id_conv)
  ultimately show ?thesis by simp
qed

lemma round_records:
  assumes "\<not> rd_list_faults rd 0" "\<And>i. \<not> rd_del_faults rd i 0" "newest_first (rd_order rd)"
    and "distinct (map da_id (db_artifacts (sv_db sv)))" "length (db_artifacts (sv_db sv)) \<le> list_limit"
  shows "\<exists>gone rest. mset (kept_dumps rd (sv_retention sv) (db_artifacts (sv_db sv))) = mset (gone @ rest)
    \<and> mset (db_artifacts (sv_db (cleanDumps rd sv))) = mset rest
    \<and> (rest = [] \<or> sum_list (map da_bytes rest) \<le> dr_MaxBytes (sv_retention sv))
    \<and> (gone \<noteq> [] \<longrightarrow> dr_MaxBytes (sv_retention sv) < sum_list (map da_bytes (last gone # rest)))
    \<and> sorted (map da_created_at (gone @ rest))"
proof -
  let ?ret = "sv_retention sv" and ?db = "db_artifacts (sv_db sv)"
  let ?as = "rd_order rd ?db"
  have ord: "is_order (rd_order rd)" using assms(3) by (simp add: newest_first_def)
  then have ms: "mset ?as = mset ?db" by (simp add: is_order_def)
  have l: "ListArtifacts (rd_list_faults rd) (rd_order rd) (sv_db sv) None list_limit = Inr ?as"
    using assms(1,5) is_order_length [OF ord] by (simp add: ListArtifacts_def)
  let ?exp = "expired_dumps rd ?ret ?as" and ?kept = "kept_dumps rd ?ret ?as" and ?gone = "quota_dumps rd ?ret ?as"
  obtain rest where r: "rev ?kept = ?gone @ rest"
    "rest = [] \<or> sum_list (map da_bytes ?kept) - sum_list (map da_bytes ?gone) \<le> dr_MaxBytes ?ret"
    "?gone \<noteq> [] \<longrightarrow> dr_MaxBytes ?ret < sum_list (map da_bytes ?kept) - sum_list (map da_bytes (butlast ?gone))"
    using over_quota_prefix [of "rev ?kept" "dr_MaxBytes ?ret" "sum_list (map da_bytes ?kept)"]
    by (auto simp: quota_dumps_def Let_def)
  have "sum_list (map da_bytes ?kept) = sum_list (map da_bytes (?gone @ rest))"
    using r(1) by (intro sum_list_mset) (metis mset_rev)
  then have tot: "sum_list (map da_bytes ?kept) = sum_list (map da_bytes ?gone) + sum_list (map da_bytes rest)" by simp
  have split: "xs \<noteq> [] \<Longrightarrow> sum_list (map da_bytes xs) = sum_list (map da_bytes (butlast xs)) + da_bytes (last xs)"
    for xs :: "artifact_row list" by (induction xs) auto
  have last: "sum_list (map da_bytes ?gone) = sum_list (map da_bytes (butlast ?gone)) + da_bytes (last ?gone)" if "?gone \<noteq> []"
    using that by (rule split)
  have mas: "mset ?as = mset (?exp @ ?gone @ rest)"
  proof -
    have "mset ?as = mset ?exp + mset ?kept" by (simp add: expired_dumps_def kept_dumps_def mset_filter)
    with r(1) show ?thesis by (metis mset_append mset_rev)
  qed
  then have "mset (map da_id (?exp @ ?gone @ rest)) = mset (map da_id ?db)" using ms by (simp only: mset_map)
  then have dist: "distinct (map da_id ((?exp @ ?gone) @ rest))"
    using assms(4) by (metis append_assoc mset_eq_imp_distinct_iff)
  have "db_artifacts (sv_db (cleanDumps rd sv)) = filter (\<lambda>d. da_id d \<notin> da_id ` set (?exp @ ?gone)) ?db"
    by (auto simp: cleanDumps_def l Let_def removeDumps_db [OF assms(2)] intro!: filter_cong)
  then have "mset (db_artifacts (sv_db (cleanDumps rd sv))) =
      mset (filter (\<lambda>d. da_id d \<notin> da_id ` set (?exp @ ?gone)) ((?exp @ ?gone) @ rest))"
    using ms mas by (metis append_assoc mset_filter)
  then have "mset (db_artifacts (sv_db (cleanDumps rd sv))) = mset rest"
    by (simp only: filter_ids_split [OF dist])
  moreover have "mset (kept_dumps rd ?ret ?db) = mset (?gone @ rest)"
    using ms r(1) by (metis kept_dumps_def mset_filter mset_rev)
  moreover have "sorted (map da_created_at (?gone @ rest))"
  proof -
    have "sorted (map da_created_at (rev ?as))" using assms(3) by (simp add: newest_first_def)
    then have "sorted (map da_created_at (filter (\<lambda>a. \<not> da_created_at a < rd_now rd - dr_MaxAge ?ret) (rev ?as)))"
      by (rule sorted_filter)
    then show ?thesis using r(1) by (simp add: kept_dumps_def rev_filter)
  qed
  moreover have "rest = [] \<or> sum_list (map da_bytes rest) \<le> dr_MaxBytes ?ret" using r(2) tot by auto
  moreover have "?gone \<noteq> [] \<longrightarrow> dr_MaxBytes ?ret < sum_list (map da_bytes (last ?gone # rest))"
    using r(3) tot last by auto
  ultimately show ?thesis by blast
qed

text \<open>(C38) A round whose statements succeed enforces the retention rules and no more: no record left is
  older than the age limit, what is left fits the quota, the records deleted for the quota are the
  oldest, and leaving the last of them would have broken the quota.\<close>

theorem janitor_enforces_retention:
  assumes "\<not> rd_list_faults rd 0" "\<And>i. \<not> rd_del_faults rd i 0" "newest_first (rd_order rd)"
    and "id_ok env (sv_db sv)" "length (db_artifacts (sv_db sv)) \<le> list_limit" "0 \<le> dr_MaxBytes (sv_retention sv)"
  shows "\<exists>gone rest. mset (filter (\<lambda>a. rd_now rd - dr_MaxAge (sv_retention sv) \<le> da_created_at a)
          (db_artifacts (sv_db sv))) = mset gone + mset rest
    \<and> mset (db_artifacts (sv_db (cleanDumps rd sv))) = mset rest
    \<and> sum_list (map da_bytes rest) \<le> dr_MaxBytes (sv_retention sv)
    \<and> (\<forall>a \<in> set gone. \<forall>b \<in> set rest. da_created_at a \<le> da_created_at b)
    \<and> (gone \<noteq> [] \<longrightarrow> dr_MaxBytes (sv_retention sv) < da_bytes (last gone) + sum_list (map da_bytes rest))"
proof -
  have "distinct (map da_id (db_artifacts (sv_db sv)))" using assms(4) by (simp add: id_ok_def artifacts_ok_def)
  from round_records [OF assms(1-3) this assms(5)] obtain gone rest where
    "mset (kept_dumps rd (sv_retention sv) (db_artifacts (sv_db sv))) = mset (gone @ rest)"
    "mset (db_artifacts (sv_db (cleanDumps rd sv))) = mset rest"
    "rest = [] \<or> sum_list (map da_bytes rest) \<le> dr_MaxBytes (sv_retention sv)"
    "gone \<noteq> [] \<longrightarrow> dr_MaxBytes (sv_retention sv) < sum_list (map da_bytes (last gone # rest))"
    "sorted (map da_created_at (gone @ rest))" by blast
  then show ?thesis using assms(6)
    by (intro exI [of _ gone] exI [of _ rest]) (auto simp: kept_dumps_def not_less sorted_append)
qed

definition dump_row :: "string \<Rightarrow> string \<Rightarrow> int \<Rightarrow> time \<Rightarrow> artifact_row" where
  "dump_row i fn n t = \<lparr>da_id = i, da_instance_id = None, da_service_name = ''shop'', da_kind = ''memory'',
     da_filename = fn, da_bytes = n, da_status = ''ready'', da_error = [], da_created_by = [], da_created_at = t\<rparr>"

definition by_age :: "artifact_row list \<Rightarrow> artifact_row list" where
  "by_age as = rev (sort_key da_created_at as)"

lemma by_age_newest: "newest_first by_age"
  by (simp add: newest_first_def by_age_def is_order_def)

definition example_round :: janitor_round where
  "example_round = \<lparr>rd_now = 1000 * 10 ^ 15, rd_later = 1000 * 10 ^ 15, rd_list_faults = no_faults,
     rd_del_faults = (\<lambda>_. no_faults), rd_fs_fault = (\<lambda>_. False), rd_readdir_fault = False, rd_order = by_age\<rparr>"

theorem janitor_enforces_retention_witness:
  "length (db_artifacts (sv_db (cleanDumps example_round (ann_server\<lparr>sv_db := empty_idb\<lparr>db_artifacts :=
     [dump_row ''1'' ''a'' (6 * 2 ^ 30) (1000 * 10 ^ 15), dump_row ''2'' ''b'' (5 * 2 ^ 30) (1000 * 10 ^ 15 - 1)]\<rparr>\<rparr>)))) \<le> 1"
proof -
  let ?as = "[dump_row ''1'' ''a'' (6 * 2 ^ 30) (1000 * 10 ^ 15), dump_row ''2'' ''b'' (5 * 2 ^ 30) (1000 * 10 ^ 15 - 1)]"
  let ?sv = "ann_server\<lparr>sv_db := empty_idb\<lparr>db_artifacts := ?as\<rparr>\<rparr>"
  have 1: "\<not> rd_list_faults example_round 0" "\<And>i. \<not> rd_del_faults example_round i 0" "newest_first (rd_order example_round)"
    by (simp_all add: example_round_def no_faults_def by_age_newest)
  have "id_ok example_env (sv_db ?sv)"
    by (simp add: id_ok_def table_defs id_sets empty_idb_def dump_row_def)
  note j = janitor_enforces_retention [OF 1 this]
  have "length (db_artifacts (sv_db ?sv)) \<le> list_limit" "0 \<le> dr_MaxBytes (sv_retention ?sv)"
    by (simp_all add: list_limit_def ann_server_def new_server_def DefaultDumpRetention_def)
  from j [OF this] obtain gone rest where gr: "mset ?as = mset gone + mset rest"
    "mset (db_artifacts (sv_db (cleanDumps example_round ?sv))) = mset rest"
    "sum_list (map da_bytes rest) \<le> 10 * 2 ^ 30"
    by (auto simp: example_round_def ann_server_def new_server_def DefaultDumpRetention_def dump_row_def)
  have "length gone + length rest = 2" using arg_cong [OF gr(1), of size] by simp
  moreover have "gone \<noteq> []"
  proof
    assume "gone = []"
    then have "sum_list (map da_bytes ?as) = sum_list (map da_bytes rest)" using gr(1) by (intro sum_list_mset) simp
    with gr(3) show False by (simp add: dump_row_def)
  qed
  ultimately have "length rest \<le> 1" by (cases gone) auto
  then show ?thesis using arg_cong [OF gr(2), of size] by simp
qed

section \<open>Files\<close>

text \<open>The janitor only ever deletes: a file is as it was, or it is gone.\<close>

definition file_at :: "api_server \<Rightarrow> string \<Rightarrow> dump_file option" where
  "file_at sv p = map_of (fs_files (sv_fs sv)) p"

lemma fs_remove_file: "map_of (fs_files (snd (fs_remove fault q fs))) p = map_of (fs_files fs) p
    \<or> p = q \<and> map_of (fs_files (snd (fs_remove fault q fs))) p = None"
  by (auto simp: fs_remove_def gm.look_del)

lemma removeDump_file: "file_at (removeDump rd sv a) p = file_at sv p
    \<or> file_at (removeDump rd sv a) p = None \<and> p = path_join [sv_dumpDir sv, path_base (da_filename a)]"
  using fs_remove_file [of "rd_fs_fault rd" "path_join [sv_dumpDir sv, path_base (da_filename a)]" "sv_fs sv" p]
  by (auto simp: removeDump_def Let_def file_at_def)

lemma removeDumps_file: "file_at (foldl (removeDump rd) sv xs) p = file_at sv p
    \<or> file_at (foldl (removeDump rd) sv xs) p = None
       \<and> (\<exists>a \<in> set xs. p = path_join [sv_dumpDir sv, path_base (da_filename a)])"
proof (induction xs arbitrary: sv)
  case (Cons a xs)
  show ?case using Cons.IH [of "removeDump rd sv a"] removeDump_file [of rd sv a p] by auto
qed simp

lemma removeOrphan_file: "file_at (removeOrphan rd known sv e) p = file_at sv p
    \<or> file_at (removeOrphan rd known sv e) p = None \<and> p = path_join [sv_dumpDir sv, fst e]
       \<and> fst e \<notin> set known \<and> 30 * 60 * 10 ^ 9 \<le> rd_later rd - fl_mtime (snd e)"
  using fs_remove_file [of "rd_fs_fault rd" "path_join [sv_dumpDir sv, fst e]" "sv_fs sv" p]
  by (auto simp: removeOrphan_def file_at_def)

lemma removeOrphan_dir: "sv_dumpDir (removeOrphan rd known sv e) = sv_dumpDir sv"
  by (simp add: removeOrphan_def)

lemma removeOrphans_file: "file_at (foldl (removeOrphan rd known) sv es) p = file_at sv p
    \<or> file_at (foldl (removeOrphan rd known) sv es) p = None
       \<and> (\<exists>e \<in> set es. p = path_join [sv_dumpDir sv, fst e] \<and> fst e \<notin> set known
            \<and> 30 * 60 * 10 ^ 9 \<le> rd_later rd - fl_mtime (snd e))"
proof (induction es arbitrary: sv)
  case (Cons e es)
  show ?case using Cons.IH [of "removeOrphan rd known sv e"] removeOrphan_file [of rd known sv e p] removeOrphan_dir
    by auto
qed simp

text \<open>A file system as the dump code leaves it: names directly below the dump directory, and the
  directory and its parents are directories.\<close>

definition fs_ok :: "string list \<Rightarrow> filesystem \<Rightarrow> bool" where
  "fs_ok es fs \<longleftrightarrow> is_gomap (fs_files fs) \<and> list_all (\<lambda>(n, f). plain_name n) (fs_entries (dir_path es) fs)
     \<and> (\<forall>k. map_of (fs_files fs) (dir_path (take k es)) = None)"

lemma fs_entries_in: "(n, f) \<in> set (fs_entries dir fs) \<Longrightarrow> (dir @ ''/'' @ n, f) \<in> set (fs_files fs)"
proof -
  assume "(n, f) \<in> set (fs_entries dir fs)"
  then obtain p where p: "(p, f) \<in> set (fs_files fs)" "has_prefix p (dir @ ''/'')" "n = drop (length dir + 1) p"
    by (auto simp: fs_entries_def split: if_splits)
  then have "p = (dir @ ''/'') @ n" using append_take_drop_id [of "length (dir @ ''/'')" p]
    by (simp add: has_prefix_def)
  with p(1) show ?thesis by simp
qed

lemma joined_base:
  assumes "clean_dir es" "fs_ok es fs" "map_of (fs_files fs) (path_join [dir_path es, path_base q]) \<noteq> None"
  shows "plain_name (path_base q) \<and> path_join [dir_path es, path_base q] = dir_path (es @ [path_base q])"
proof (rule ccontr)
  assume "\<not> ?thesis"
  with join_plain [OF assms(1)] path_base_cases [of q] have "path_base q \<in> {''.'', ''..'', ''/''}" by auto
  then have "path_join [dir_path es, path_base q] \<in> {dir_path es, dir_path (butlast es)}"
    using assms(1) join_in_dir [OF assms(1), of "path_base q"]
    by (auto simp: clean_dir_def clean_step_def dir_path_def plain_name_def)
  then show False using assms(2,3) by (auto simp: fs_ok_def butlast_conv_take) (metis take_all_iff order_refl option.distinct(1))+
qed

lemma entries_kept:
  "(\<And>p f. map_of (fs_files fs1) p = Some f \<Longrightarrow> map_of (fs_files fs) p = Some f) \<Longrightarrow> is_gomap (fs_files fs1) \<Longrightarrow>
   is_gomap (fs_files fs) \<Longrightarrow> (n, f) \<in> set (fs_entries dir fs1) \<Longrightarrow> (n, f) \<in> set (fs_entries dir fs)"
proof -
  assume sub: "\<And>p f. map_of (fs_files fs1) p = Some f \<Longrightarrow> map_of (fs_files fs) p = Some f"
    and g: "is_gomap (fs_files fs1)" "is_gomap (fs_files fs)" and e: "(n, f) \<in> set (fs_entries dir fs1)"
  from e obtain p where "(p, f) \<in> set (fs_files fs1)" "has_prefix p (dir @ ''/'')"
    "CHR ''/'' \<notin> set (drop (length dir + 1) p)" "n = drop (length dir + 1) p"
    by (auto simp: fs_entries_def split: if_splits)
  with sub gomap_entry [OF g(1)] gomap_entry [OF g(2)] show ?thesis
    by (fastforce simp: fs_entries_def intro!: bexI [of _ "(p, f)"])
qed

lemma removeDumps_gomap: "is_gomap (fs_files (sv_fs sv)) \<Longrightarrow> is_gomap (fs_files (sv_fs (foldl (removeDump rd) sv xs)))"
proof (induction xs arbitrary: sv)
  case (Cons a xs)
  have "is_gomap (fs_files (sv_fs (removeDump rd sv a)))"
    using Cons.prems by (simp add: removeDump_def Let_def fs_remove_def gm.ok_del)
  with Cons.IH show ?case by simp
qed simp

text \<open>What the janitor deletes: a file disappears in a round only from directly below the dump
  directory, and only because a listed record of that name is past the age or chosen for the quota,
  or because no listed record has that name and it was not written to for half an hour. Everything
  else, a dump still being written above all, stays as it is.\<close>

theorem janitor_deletes_only:
  assumes "clean_dir es" "sv_dumpDir sv = dir_path es" "fs_ok es (sv_fs sv)"
    and "ListArtifacts (rd_list_faults rd) (rd_order rd) (sv_db sv) None list_limit = Inr as"
    and "file_at sv p = Some f" "file_at (cleanDumps rd sv) p \<noteq> Some f"
  shows "file_at (cleanDumps rd sv) p = None \<and> (\<exists>n. plain_name n \<and> p = dir_path (es @ [n])
    \<and> ((\<exists>a \<in> set as. path_base (da_filename a) = n \<and>
           (da_created_at a < rd_now rd - dr_MaxAge (sv_retention sv) \<or> a \<in> set (quota_dumps rd (sv_retention sv) as)))
       \<or> n \<notin> da_filename ` set as \<and> 30 * 60 * 10 ^ 9 \<le> rd_later rd - fl_mtime f))"
proof -
  let ?exp = "expired_dumps rd (sv_retention sv) as" and ?quota = "quota_dumps rd (sv_retention sv) as"
  let ?sv2 = "foldl (removeDump rd) sv (?exp @ ?quota)"
  let ?known = "filter (\<lambda>n. n \<noteq> []) (map da_filename as)"
  have c: "cleanDumps rd sv = removeOrphans rd as ?sv2" using assms(4) by (simp add: cleanDumps_def Let_def)
  have gone2: "file_at ?sv2 q = file_at sv q \<or> file_at ?sv2 q = None
      \<and> (\<exists>a \<in> set (?exp @ ?quota). q = path_join [dir_path es, path_base (da_filename a)])" for q
    using removeDumps_file [of rd sv "?exp @ ?quota" q] assms(2) by simp
  have sub: "map_of (fs_files (sv_fs ?sv2)) q = Some g \<Longrightarrow> map_of (fs_files (sv_fs sv)) q = Some g" for q g
    using gone2 [of q] by (auto simp: file_at_def)
  have gm: "is_gomap (fs_files (sv_fs sv))" using assms(3) by (simp add: fs_ok_def)
  note gm2 = removeDumps_gomap [OF gm, of rd "?exp @ ?quota"]
  show ?thesis
  proof (cases "file_at ?sv2 p = Some f")
    case False
    with gone2 [of p] assms(5) obtain a where a: "file_at ?sv2 p = None" "a \<in> set (?exp @ ?quota)"
      "p = path_join [dir_path es, path_base (da_filename a)]" by auto
    have "map_of (fs_files (sv_fs sv)) (path_join [dir_path es, path_base (da_filename a)]) \<noteq> None"
      using assms(5) a(3) by (simp add: file_at_def)
    from joined_base [OF assms(1,3) this] a(3) have n: "plain_name (path_base (da_filename a))"
      "p = dir_path (es @ [path_base (da_filename a)])" by auto
    have "a \<in> set as" using a(2) over_quota_prefix [of "rev (kept_dumps rd (sv_retention sv) as)"
        "dr_MaxBytes (sv_retention sv)" "sum_list (map da_bytes (kept_dumps rd (sv_retention sv) as))"]
      by (auto simp: expired_dumps_def quota_dumps_def Let_def kept_dumps_def)
        (metis (no_types, lifting) UnCI mem_Collect_eq set_append set_filter set_rev)
    moreover have "da_created_at a < rd_now rd - dr_MaxAge (sv_retention sv) \<or> a \<in> set ?quota"
      using a(2) by (auto simp: expired_dumps_def)
    moreover have "file_at (cleanDumps rd sv) p = None"
      using a(1) removeOrphans_file [of rd ?known ?sv2 "fs_entries (sv_dumpDir ?sv2) (sv_fs ?sv2)" p]
      by (auto simp: c removeOrphans_def)
    ultimately show ?thesis using n by blast
  next
    case True
    with assms(6) removeOrphans_file [of rd ?known ?sv2 "fs_entries (dir_path es) (sv_fs ?sv2)" p]
    obtain n g where e: "(n, g) \<in> set (fs_entries (dir_path es) (sv_fs ?sv2))" "p = path_join [dir_path es, n]"
      "n \<notin> set ?known" "30 * 60 * 10 ^ 9 \<le> rd_later rd - fl_mtime g" "file_at (cleanDumps rd sv) p = None"
      using assms(2) by (auto simp: c removeOrphans_def split: if_splits)
    have "(n, g) \<in> set (fs_entries (dir_path es) (sv_fs sv))" by (rule entries_kept [OF sub gm2 gm e(1)])
    with assms(3) have n: "plain_name n" by (auto simp: fs_ok_def list_all_iff)
    then have p: "p = dir_path (es @ [n])" using e(2) join_plain [OF assms(1)] by simp
    have "dir_path (es @ [n]) = dir_path es @ ''/'' @ n"
      using assms(1) join_append_one [of es n] by (simp add: clean_dir_def dir_path_def)
    with fs_entries_in [OF e(1)] gomap_entry [OF gm2] p True have "g = f" by (simp add: file_at_def)
    moreover have "n \<noteq> []" using n by (simp add: plain_name_def)
    ultimately show ?thesis using n p e(3-5) by auto
  qed
qed

definition dump_fs :: "(string \<times> dump_file) list \<Rightarrow> filesystem" where
  "dump_fs fs = \<lparr>fs_files = fs, fs_dirs = [''/'', ''/d'']\<rparr>"

lemmas path_eval = path_join_def path_clean_def path_elements_def clean_step_def has_prefix_def

theorem janitor_deletes_only_witness:
  "file_at (cleanDumps example_round (ann_server\<lparr>sv_fs := dump_fs [(''/d/a'', \<lparr>fl_data = [], fl_mtime = 0\<rparr>)]\<rparr>)) ''/d/a'' = None
   \<and> (\<exists>n. plain_name n \<and> ''/d/a'' = dir_path [''d'', n])"
proof -
  let ?f = "\<lparr>fl_data = [], fl_mtime = 0\<rparr>"
  let ?sv = "ann_server\<lparr>sv_fs := dump_fs [(''/d/a'', ?f)]\<rparr>"
  have d: "clean_dir [''d'']" "sv_dumpDir ?sv = dir_path [''d'']" "file_at ?sv ''/d/a'' = Some ?f"
    by (simp_all add: clean_dir_def plain_name_def ann_server_def new_server_def dir_path_def file_at_def dump_fs_def)
  have "dir_path (take k [''d'']) \<noteq> ''/d/a''" for k
    by (cases k) (simp_all add: dir_path_def)
  then have ok: "fs_ok [''d''] (sv_fs ?sv)"
    by (auto simp: fs_ok_def dump_fs_def is_gomap_def fs_entries_def dir_path_def plain_name_def)
  have l: "ListArtifacts (rd_list_faults example_round) (rd_order example_round) (sv_db ?sv) None list_limit = Inr []"
    by (simp add: ListArtifacts_def example_round_def no_faults_def by_age_def ann_server_def new_server_def
        two_admins_def empty_idb_def)
  have c: "cleanDumps example_round ?sv = removeOrphans example_round [] ?sv"
    unfolding cleanDumps_def l by (simp add: expired_dumps_def quota_dumps_def kept_dumps_def)
  have "file_at (cleanDumps example_round ?sv) ''/d/a'' \<noteq> Some ?f"
    unfolding c by (simp add: removeOrphans_def removeOrphan_def fs_entries_def example_round_def dump_fs_def ann_server_def new_server_def has_prefix_def
        fs_remove_def file_at_def path_eval)
  from janitor_deletes_only [OF d(1,2) ok l d(3) this] show ?thesis by auto
qed

text \<open>The janitor reads ten thousand records and takes every other file for an orphan: with more
  records than that, the file of a finished dump whose record stays is deleted.\<close>

theorem orphan_sweep_forgets_records:
  "\<exists>sv a. id_ok example_env (sv_db sv) \<and> a \<in> set (db_artifacts (sv_db (cleanDumps example_round sv)))
     \<and> da_status a = ''ready'' \<and> da_filename a = ''last'' \<and> file_at sv ''/d/last'' \<noteq> None
     \<and> file_at (cleanDumps example_round sv) ''/d/last'' = None"
proof -
  let ?a = "\<lambda>i. dump_row (nat_string i) ''first'' 0 (1000 * 10 ^ 15)"
  let ?last = "dump_row ''last'' ''last'' 0 (1000 * 10 ^ 15)"
  let ?rows = "map ?a (rev [0..<list_limit])"
  let ?sv = "ann_server\<lparr>sv_fs := dump_fs [(''/d/last'', \<lparr>fl_data = [], fl_mtime = 0\<rparr>)],
     sv_db := empty_idb\<lparr>db_artifacts := ?last # ?rows\<rparr>\<rparr>"
  have "distinct (map da_id ?rows)"
    by (simp add: dump_row_def comp_def distinct_map inj_on_def nat_string_inj del: rev_map)
  moreover have "''last'' \<noteq> nat_string i" for i
  proof
    assume "''last'' = nat_string i"
    then have "CHR ''l'' \<in> set (nat_string i)" by (metis list.set_intros(1))
    from nat_string_digits [OF this] show False by (simp add: is_digit_def)
  qed
  ultimately have ok: "id_ok example_env (sv_db ?sv)"
    by (auto simp: id_ok_def table_defs id_sets empty_idb_def dump_row_def)
  have "sort_key da_created_at (?last # ?rows) = ?last # ?rows"
    by (intro sort_key_id_if_sorted) (simp add: dump_row_def comp_def map_replicate_const sorted_replicate)
  then have "by_age (?last # ?rows) = rev ?rows @ [?last]" by (simp add: by_age_def)
  then have l: "ListArtifacts (rd_list_faults example_round) (rd_order example_round) (sv_db ?sv) None list_limit =
      Inr (rev ?rows)"
    by (simp add: ListArtifacts_def example_round_def no_faults_def)
  have new: "list_all (\<lambda>a. da_bytes a = 0 \<and> da_created_at a = 1000 * 10 ^ 15 \<and> da_filename a = ''first'') (rev ?rows)"
    by (simp add: list_all_iff dump_row_def)
  have ex: "expired_dumps example_round (sv_retention ?sv) xs = []"
    if "list_all (\<lambda>a. da_bytes a = 0 \<and> da_created_at a = 1000 * 10 ^ 15 \<and> da_filename a = ''first'') xs" for xs
    using that by (auto simp: expired_dumps_def filter_empty_conv example_round_def ann_server_def new_server_def
        DefaultDumpRetention_def list_all_iff)
  have none: "over_quota q 0 ys = []" if "0 \<le> q" for q ys using that by (cases ys) simp_all
  have q: "quota_dumps example_round (sv_retention ?sv) xs = []"
    if "list_all (\<lambda>a. da_bytes a = 0 \<and> da_created_at a = 1000 * 10 ^ 15 \<and> da_filename a = ''first'') xs" for xs
  proof -
    have "map da_bytes (kept_dumps example_round (sv_retention ?sv) xs) =
        map (\<lambda>_. 0) (kept_dumps example_round (sv_retention ?sv) xs)"
      using that by (auto simp: kept_dumps_def list_all_iff)
    then have "sum_list (map da_bytes (kept_dumps example_round (sv_retention ?sv) xs)) = 0"
      by (simp only: sum_list_0)
    then show ?thesis
      unfolding quota_dumps_def Let_def by (simp add: none ann_server_def new_server_def DefaultDumpRetention_def)
  qed
  have c: "cleanDumps example_round ?sv = removeOrphans example_round (rev ?rows) ?sv"
    unfolding cleanDumps_def l sum.case ex [OF new] q [OF new] by simp
  have "''last'' \<notin> set (filter (\<lambda>n. n \<noteq> []) (map da_filename (rev ?rows)))"
    using new by (auto simp: list_all_iff)
  then have "file_at (removeOrphans example_round (rev ?rows) ?sv) ''/d/last'' = None"
    unfolding removeOrphans_def by (simp add: removeOrphan_def fs_entries_def example_round_def dump_fs_def
      ann_server_def new_server_def has_prefix_def fs_remove_def file_at_def path_eval del: set_filter set_map)
  moreover have "?last \<in> set (db_artifacts (sv_db (removeOrphans example_round (rev ?rows) ?sv)))" by simp
  ultimately show ?thesis unfolding c [symmetric] using ok
    by (intro exI [of _ ?sv] exI [of _ ?last]) (simp add: dump_row_def file_at_def dump_fs_def)
qed

end
