(* ===== verification/DiagTheorems.thy ===== *)
theory DiagTheorems
  imports IdentityTheorems
begin

text \<open>
  Properties of the diagnostics side of the control plane: the sealed project tokens, the
  verification of registrations, and which instance is given which token.
\<close>

section \<open>Comparing digests\<close>

lemma foldl_or_xor_0:
  "(foldl (\<lambda>d (a, b). d OR (a XOR b)) (acc :: u8) zs = 0) = (acc = 0 \<and> (\<forall>(a, b) \<in> set zs. a = b))"
proof (induction zs arbitrary: acc)
  case (Cons z zs)
  obtain a b where z: "z = (a, b)" by fastforce
  have "(acc OR (a XOR b) = 0) = (acc = 0 \<and> a = b)"
    by (auto simp: bit_eq_iff bit_or_iff bit_xor_iff)
  with Cons.IH z show ?case by auto
qed simp

lemma constantTimeEqual_iff:
  assumes "\<And>x. length (en_sha256 env x) = n"
  shows "constantTimeEqual env x y = (en_sha256 env x = en_sha256 env y)"
proof -
  have "constantTimeEqual env x y = (\<forall>(a, b) \<in> set (zip (en_sha256 env x) (en_sha256 env y)). a = b)"
    by (simp add: constantTimeEqual_def foldl_or_xor_0)
  also have "\<dots> = (en_sha256 env x = en_sha256 env y)"
    using assms by (auto simp: list_eq_iff_zip_eq)
  finally show ?thesis .
qed

lemma constantTimeEqual_refl: "constantTimeEqual env x x"
  by (auto simp: constantTimeEqual_def foldl_or_xor_0 in_set_zip)

section \<open>Sealed tokens\<close>

text \<open>What the code relies on of base64 and of the authenticated cipher: decoding inverts
  encoding, opening inverts sealing under the same nonce.\<close>

definition sealer_ok :: "b64 \<Rightarrow> aead \<Rightarrow> bool" where
  "sealer_ok b a \<longleftrightarrow> (\<forall>bs. b64_decode b (b64_encode b bs) = Some bs)
     \<and> (\<forall>n p. length n = ae_nonce_size a \<longrightarrow> ae_open a n (ae_seal a n p) = Some p)"

lemma Open_Seal: "sealer_ok b a \<Longrightarrow> length nonce = ae_nonce_size a \<Longrightarrow> Open_token b a (Seal b a nonce s) = Inr s"
  by (simp add: sealer_ok_def Open_token_def Seal_def)

lemma token_stored:
  assumes "SetProjectDiagnosticsToken (Some (b, a)) nonce flt now db pid token who = (Inr (), db1)"
    and "trim_space token \<noteq> []"
  shows "(\<exists>d \<in> set (db_project_diagnostics db1). dg_project_id d = pid \<and> dg_token_sealed d = Seal b a nonce token)
    \<and> db_project_applications db1 = db_project_applications db \<and> db_projects db1 = db_projects db
    \<and> db_agents db1 = db_agents db \<and> pid \<in> project_ids db"
proof (cases "has_id dg_project_id (db_project_diagnostics db) pid")
  case True
  then obtain d where "d \<in> set (db_project_diagnostics db)" "dg_project_id d = pid" by (auto simp: has_id_def)
  with True assms show ?thesis
    by (auto simp: SetProjectDiagnosticsToken_def Let_def has_id_def id_sets split: if_splits
        intro!: bexI [of _ "d\<lparr>dg_token_sealed := Seal b a nonce token, dg_updated_by := who, dg_updated_at := now\<rparr>"])
next
  case False
  with assms show ?thesis by (auto simp: SetProjectDiagnosticsToken_def Let_def has_id_def id_sets split: if_splits)
qed

lemma projectTokenFor_has:
  assumes "d \<in> set (db_project_diagnostics db)" "dg_project_id d = p" "Open_token b a (dg_token_sealed d) = Inr t"
    and "(p, svc) \<in> set (db_project_applications db)" "p \<in> project_ids db"
  shows "\<exists>ms. projectTokenFor (Some (b, a)) False db svc = Inr ms \<and> (p, t) \<in> set ms"
proof -
  have "(p, dg_token_sealed d) \<in> set (service_tokens db svc)"
    using assms by (auto simp: service_tokens_def has_id_def id_sets intro!: bexI [of _ "(p, svc)"])
  then have "(p, t) \<in> set (open_tokens b a (service_tokens db svc))"
    using assms(3) by (force simp: open_tokens_def)
  then show ?thesis by (simp add: projectTokenFor_def)
qed

lemma projectTokenFor_cong:
  "db_project_applications db' = db_project_applications db \<Longrightarrow> db_projects db' = db_projects db \<Longrightarrow>
   db_project_diagnostics db' = db_project_diagnostics db \<Longrightarrow> projectTokenFor sl f db' svc = projectTokenFor sl f db svc"
  by (simp only: projectTokenFor_def service_tokens_def)

lemma one_token_per_project:
  assumes "id_ok env db" "projectTokenFor sl fault db svc = Inr ms" "(p, t) \<in> set ms" "(p, t') \<in> set ms"
  shows "t = t'"
proof -
  have "distinct (map dg_project_id (db_project_diagnostics db))"
    using assms(1) by (simp add: id_ok_def diags_ok_def)
  then have "d = d'" if "d \<in> set (db_project_diagnostics db)" "d' \<in> set (db_project_diagnostics db)"
      "dg_project_id d = dg_project_id d'" for d d'
    using that by (auto simp: distinct_map inj_on_def)
  with projectTokenFor_in [OF assms(2,3)] projectTokenFor_in [OF assms(2,4)]
  show ?thesis by fastforce
qed

section \<open>Release\<close>

text \<open>A verified instance of a project whose service is assigned to it gets the token of that
  project, and nothing else.\<close>

lemma GetAgent_releases:
  assumes "id_ok env db" "ag \<in> set (db_agents db)" "ag_verified ag" "ag_project_id ag = Some p"
    and "projectTokenFor sl False db (ag_service_name ag) = Inr ms" "(p, t) \<in> set ms"
    and "\<not> flt 0" "\<not> flt 1"
  shows "GetAgent sl flt db (ag_id ag) = \<lparr>ar_agent = Some ag, ar_token = t, ar_error = None\<rparr>"
proof -
  have f: "find (\<lambda>a. ag_id a = ag_id ag) (db_agents db) = Some ag"
    using assms(1,2) by (intro find_unique) (simp_all add: id_ok_def agents_ok_def)
  from assms(4,6) have "\<exists>x \<in> set ms. (\<lambda>(q, t). Some q = ag_project_id ag \<or> ag_project_id ag = None \<and> q = []) x"
    by (auto intro!: bexI [of _ "(p, t)"])
  then obtain q u where q: "find (\<lambda>(q, t). Some q = ag_project_id ag \<or> ag_project_id ag = None \<and> q = []) ms = Some (q, u)"
    by (metis (no_types, lifting) find_None_iff not_None_eq surj_pair)
  then have "q = p" "(q, u) \<in> set ms" using assms(4) by (auto dest!: findD)
  with one_token_per_project [OF assms(1,5,6)] have "u = t" by simp
  with q f assms(3,5,7,8) show ?thesis by (simp add: GetAgent_def)
qed

text \<open>(C21) A token leaves the store only for a verified instance, and it is the token of the project
  the instance was verified for, opened from that project's own row, while the service of the
  instance is still assigned to that project.\<close>

theorem token_release:
  assumes "GetAgent sl flt db aid = \<lparr>ar_agent = Some ag, ar_token = t, ar_error = None\<rparr>" "[] \<notin> project_ids db"
  shows "ag \<in> set (db_agents db) \<and> ag_id ag = aid \<and> ag_verified ag
    \<and> (\<exists>p d b a. ag_project_id ag = Some p \<and> (p, ag_service_name ag) \<in> set (db_project_applications db)
        \<and> d \<in> set (db_project_diagnostics db) \<and> dg_project_id d = p
        \<and> sl = Some (b, a) \<and> Open_token b a (dg_token_sealed d) = Inr t)"
proof -
  from assms(1) obtain ms p where ag: "find (\<lambda>a. ag_id a = aid) (db_agents db) = Some ag" "ag_verified ag"
    and ms: "projectTokenFor sl (flt 1) db (ag_service_name ag) = Inr ms"
    and f: "find (\<lambda>(p, t). Some p = ag_project_id ag \<or> ag_project_id ag = None \<and> p = []) ms = Some (p, t)"
    by (auto simp: GetAgent_def split: if_splits option.splits sum.splits)
  from f have p: "(p, t) \<in> set ms" "Some p = ag_project_id ag \<or> ag_project_id ag = None \<and> p = []"
    by (auto dest!: findD)
  from projectTokenFor_in [OF ms p(1)] p(2) assms(2) have "ag_project_id ag = Some p" by auto
  moreover have "ag \<in> set (db_agents db)" "ag_id ag = aid" using ag(1) by (auto simp: find_Some_iff)
  ultimately show ?thesis using projectTokenFor_in [OF ms p(1)] ag(2) by blast
qed

text \<open>The handshake completes: an instance that registers with the token stored for a project of
  its service is verified, and the token later sent to it is the one it registered with (equal
  under the digest).\<close>

theorem diagnostics_handshake:
  assumes "id_ok env db" "[] \<notin> project_ids db" "sealer_ok b a" "length nonce = ae_nonce_size a"
    and "SetProjectDiagnosticsToken (Some (b, a)) nonce flt now db pid token who = (Inr (), db1)"
    and "trim_space token \<noteq> []" "(pid, ag_service_name inp) \<in> set (db_project_applications db)"
    and "RegisterAgent env (Some (b, a)) flt1 nid now1 db1 inp token = (Inr row, db2)"
    and "\<not> flt2 0" "\<not> flt2 1"
  shows "ag_verified row \<and> (\<exists>t. GetAgent (Some (b, a)) flt2 db2 (ag_id row) =
      \<lparr>ar_agent = Some row, ar_token = t, ar_error = None\<rparr> \<and> constantTimeEqual env t token)"
proof -
  note st = token_stored [OF assms(5,6)]
  from st obtain d where d: "d \<in> set (db_project_diagnostics db1)" "dg_project_id d = pid"
    "Open_token b a (dg_token_sealed d) = Inr token"
    using Open_Seal [OF assms(3,4)] by metis
  have "pid \<in> project_ids db1" using st by (simp add: id_sets)
  with projectTokenFor_has [OF d, of "ag_service_name inp"] st assms(7)
  obtain ms where ms: "projectTokenFor (Some (b, a)) False db1 (ag_service_name inp) = Inr ms" "(pid, token) \<in> set ms"
    by auto
  have "\<exists>x \<in> set ms. (\<lambda>(p, t). constantTimeEqual env t token) x"
    using ms(2) constantTimeEqual_refl by (auto intro!: bexI [of _ "(pid, token)"])
  then obtain q u where q: "find (\<lambda>(p, t). constantTimeEqual env t token) ms = Some (q, u)"
    by (metis (no_types, lifting) find_None_iff not_None_eq surj_pair)
  then have qu: "(q, u) \<in> set ms" "constantTimeEqual env u token" by (auto dest!: findD)
  have "token \<noteq> []" using assms(6) by (auto simp: trim_space_def strip.simps)
  with q ms(1) have v: "verify_registration env (Some (b, a)) (flt1 0) db1 (ag_service_name inp) token = Inr (Some q)"
    if "\<not> flt1 0"
    using that by (simp add: verify_registration_def verify_token_def)
  have f0: "\<not> flt1 0"
    using assms(8) \<open>token \<noteq> []\<close> by (auto simp: RegisterAgent_def verify_registration_def projectTokenFor_def)
  from assms(8) v [OF f0]
  have row: "row \<in> set (db_agents db2)" "ag_verified row" "ag_project_id row = Some q"
    "ag_service_name row = ag_service_name inp"
    "db_project_applications db2 = db_project_applications db1" "db_projects db2 = db_projects db1"
    "db_project_diagnostics db2 = db_project_diagnostics db1"
    by (auto simp: RegisterAgent_def Let_def split: if_splits option.splits dest!: findD)
  have "projectTokenFor (Some (b, a)) False db2 (ag_service_name row) = Inr ms"
    using ms(1) row by (metis projectTokenFor_cong)
  moreover have "id_ok env db2"
    using RegisterAgent_ok [OF SetProjectDiagnosticsToken_ok [OF assms(1)]] assms(5,8) by (metis snd_conv)
  ultimately have "GetAgent (Some (b, a)) flt2 db2 (ag_id row) = \<lparr>ar_agent = Some row, ar_token = u, ar_error = None\<rparr>"
    using row qu assms(9,10) by (intro GetAgent_releases)
  with row(2) qu(2) show ?thesis by blast
qed

text \<open>A forged registration gets no token: when the token presented is none of the project
  tokens of the service, the instance is stored unverified, also over a verified row of the same
  service and instance, and no token is released for it.\<close>

theorem forged_registration_gets_no_token:
  assumes "id_ok env db" "RegisterAgent env sl flt nid now db inp presented = (Inr row, db1)"
    and "\<And>d b a t. d \<in> set (db_project_diagnostics db) \<Longrightarrow> sl = Some (b, a) \<Longrightarrow>
       Open_token b a (dg_token_sealed d) = Inr t \<Longrightarrow> \<not> constantTimeEqual env t presented"
  shows "\<not> ag_verified row \<and> ar_token (GetAgent sl flt2 db1 (ag_id row)) = []
    \<and> ar_error (GetAgent sl flt2 db1 (ag_id row)) \<noteq> None"
proof -
  from assms(2) obtain proj where v: "verify_registration env sl (flt 0) db (ag_service_name inp) presented = Inr proj"
    by (auto simp: RegisterAgent_def split: sum.splits)
  have "proj = None"
    using verify_registration_some [of env sl "flt 0" db "ag_service_name inp" presented] v assms(3)
    by (cases proj) blast+
  with v assms(2) have row: "row \<in> set (db_agents db1)" "\<not> ag_verified row"
    by (auto simp: RegisterAgent_def Let_def split: if_splits option.splits dest!: findD)
  moreover have "id_ok env db1" using RegisterAgent_ok [OF assms(1)] assms(2) by (metis snd_conv)
  ultimately have "find (\<lambda>a. ag_id a = ag_id row) (db_agents db1) = Some row"
    by (intro find_unique) (simp_all add: id_ok_def agents_ok_def)
  with row(2) show ?thesis by (simp add: GetAgent_def)
qed

text \<open>Replacing a leaked token does not shut the holders of the old one out: an instance verified
  with the old token stays verified and is given the new token at the next dump.\<close>

theorem rotated_token_reaches_old_agents:
  assumes "id_ok env db" "sealer_ok b a" "length nonce = ae_nonce_size a"
    and "ag \<in> set (db_agents db)" "ag_verified ag" "ag_project_id ag = Some pid"
    and "(pid, ag_service_name ag) \<in> set (db_project_applications db)"
    and "SetProjectDiagnosticsToken (Some (b, a)) nonce flt now db pid new who = (Inr (), db1)"
    and "trim_space new \<noteq> []" "\<not> flt2 0" "\<not> flt2 1"
  shows "GetAgent (Some (b, a)) flt2 db1 (ag_id ag) = \<lparr>ar_agent = Some ag, ar_token = new, ar_error = None\<rparr>"
proof -
  note st = token_stored [OF assms(8,9)]
  from st obtain d where d: "d \<in> set (db_project_diagnostics db1)" "dg_project_id d = pid"
    "Open_token b a (dg_token_sealed d) = Inr new"
    using Open_Seal [OF assms(2,3)] by metis
  have "pid \<in> project_ids db1" using st by (simp add: id_sets)
  with projectTokenFor_has [OF d, of "ag_service_name ag"] st assms(7) obtain ms
    where "projectTokenFor (Some (b, a)) False db1 (ag_service_name ag) = Inr ms" "(pid, new) \<in> set ms" by auto
  moreover have "id_ok env db1" using SetProjectDiagnosticsToken_ok [OF assms(1)] assms(8) by (metis snd_conv)
  ultimately show ?thesis using st assms(4-6,10,11) by (intro GetAgent_releases) simp_all
qed

section \<open>Witnesses\<close>

definition plain_b64 :: b64 where
  "plain_b64 = \<lparr>b64_encode = bytes_str, b64_decode = (\<lambda>s. Some (str_bytes s))\<rparr>"

definition plain_aead :: aead where
  "plain_aead = \<lparr>ae_nonce_size = 0, ae_seal = (\<lambda>n p. p), ae_open = (\<lambda>n c. Some c)\<rparr>"

lemma str_bytes_str: "str_bytes (bytes_str bs) = bs"
proof -
  have "(of_nat (unat b mod 256) :: u8) = b" for b
    proof -
    have "unat b < 256" using unsigned_less [of b] by simp
    then show ?thesis by simp
  qed
  then show ?thesis by (induction bs) (simp_all add: str_bytes_def bytes_str_def)
qed

lemma plain_ok: "sealer_ok plain_b64 plain_aead"
  by (simp add: sealer_ok_def plain_b64_def plain_aead_def str_bytes_str)

definition shop_agent :: agent_row where
  "shop_agent = \<lparr>ag_id = ''i'', ag_service_name = ''shop'', ag_instance_id = ''pod-1'', ag_hostname = [],
     ag_k8s_pod = [], ag_k8s_namespace = [], ag_pid = 7, ag_agent_version = [], ag_source_ip = ''10.0.0.1'',
     ag_advertised_host = [], ag_diag_port = 5199, ag_diag_path = [], ag_diag_ready = True,
     ag_verified = True, ag_project_id = Some ''p'', ag_first_seen = 0, ag_last_seen = 0\<rparr>"

definition shop_db :: idb where
  "shop_db = empty_idb\<lparr>db_projects := [\<lparr>pj_id = ''p'', pj_key = ''shop'', pj_name = ''Shop'', pj_description = [],
       pj_created_at = 0\<rparr>],
     db_project_applications := [(''p'', ''shop'')],
     db_project_diagnostics := [\<lparr>dg_project_id = ''p'', dg_token_sealed = ''old-token'', dg_updated_at = 0,
       dg_updated_by = []\<rparr>],
     db_agents := [shop_agent]\<rparr>"

lemma shop_db_ok: "id_ok example_env shop_db" "[] \<notin> project_ids shop_db"
  by (simp_all add: id_ok_def table_defs id_sets shop_db_def shop_agent_def empty_idb_def)

abbreviation plain_sealer :: sealer where
  "plain_sealer \<equiv> Some (plain_b64, plain_aead)"

lemma plain_open: "Open_token plain_b64 plain_aead s = Inr s"
  by (simp add: Open_token_def plain_b64_def plain_aead_def)

lemma plain_seal: "Seal plain_b64 plain_aead [] s = s"
  by (simp add: Seal_def plain_b64_def plain_aead_def)

lemma shop_tokens:
  "projectTokenFor plain_sealer False shop_db ''shop'' = Inr [(''p'', ''old-token'')]"
  by (simp add: projectTokenFor_def service_tokens_def shop_db_def has_id_def open_tokens_def plain_open)

theorem token_release_witness:
  "ar_token (GetAgent plain_sealer no_faults shop_db ''i'') = ''old-token''
    \<and> (\<exists>d \<in> set (db_project_diagnostics shop_db). dg_project_id d = ''p''
         \<and> Open_token plain_b64 plain_aead (dg_token_sealed d) = Inr ''old-token'')"
proof -
  have "GetAgent plain_sealer no_faults shop_db ''i'' =
      \<lparr>ar_agent = Some shop_agent, ar_token = ''old-token'', ar_error = None\<rparr>"
    using shop_tokens by (simp add: GetAgent_def no_faults_def shop_db_def shop_agent_def)
  from token_release [OF this shop_db_ok(2)] this show ?thesis by (auto simp: shop_agent_def)
qed

lemma set_shop_token:
  "SetProjectDiagnosticsToken plain_sealer [] no_faults 1 shop_db ''p'' ''new-token'' ''ann'' =
     (Inr (), snd (SetProjectDiagnosticsToken plain_sealer [] no_faults 1 shop_db ''p'' ''new-token'' ''ann''))"
  "trim_space ''new-token'' \<noteq> []"
  by (simp_all add: SetProjectDiagnosticsToken_def no_faults_def shop_db_def has_id_def Let_def
      trim_space_def strip.simps space_len_def space_len_rev_def ascii_space_def wide_space2_def wide_space3_def)

theorem rotated_token_reaches_old_agents_witness:
  "ar_token (GetAgent plain_sealer no_faults
     (snd (SetProjectDiagnosticsToken plain_sealer [] no_faults 1 shop_db ''p'' ''new-token'' ''ann'')) ''i'') = ''new-token''"
  using rotated_token_reaches_old_agents [OF shop_db_ok(1) plain_ok _ _ _ _ _ set_shop_token, of shop_agent no_faults]
  by (simp add: shop_db_def shop_agent_def plain_aead_def no_faults_def)

theorem diagnostics_handshake_witness:
  "\<exists>row db2. RegisterAgent example_env plain_sealer no_faults ''j'' 2
       (snd (SetProjectDiagnosticsToken plain_sealer [] no_faults 1 shop_db ''p'' ''new-token'' ''ann''))
       (shop_agent\<lparr>ag_instance_id := ''pod-2''\<rparr>) ''new-token'' = (Inr row, db2) \<and> ag_verified row"
proof -
  let ?db1 = "snd (SetProjectDiagnosticsToken plain_sealer [] no_faults 1 shop_db ''p'' ''new-token'' ''ann'')"
  let ?inp = "shop_agent\<lparr>ag_instance_id := ''pod-2''\<rparr>"
  have t: "projectTokenFor plain_sealer False ?db1 ''shop'' = Inr [(''p'', ''new-token'')]"
    using set_shop_token(2) by (simp add: SetProjectDiagnosticsToken_def no_faults_def shop_db_def has_id_def Let_def
      projectTokenFor_def service_tokens_def open_tokens_def plain_open plain_seal)
  obtain row db2 where r: "RegisterAgent example_env plain_sealer no_faults ''j'' 2 ?db1 ?inp ''new-token'' = (Inr row, db2)"
    using t set_shop_token(2) by (simp add: RegisterAgent_def no_faults_def verify_registration_def shop_agent_def Let_def
      SetProjectDiagnosticsToken_def shop_db_def has_id_def same_agent_def)
  have "(''p'', ag_service_name ?inp) \<in> set (db_project_applications shop_db)"
    by (simp add: shop_db_def shop_agent_def)
  from diagnostics_handshake [OF shop_db_ok plain_ok _ set_shop_token this r, of no_faults] r
  show ?thesis by (auto simp: plain_aead_def no_faults_def)
qed

theorem forged_registration_gets_no_token_witness:
  "\<exists>row db1. RegisterAgent example_env plain_sealer no_faults ''j'' 2 shop_db
       (shop_agent\<lparr>ag_source_ip := ''6.6.6.6''\<rparr>) ''guess'' = (Inr row, db1)
     \<and> ar_token (GetAgent plain_sealer no_faults db1 (ag_id row)) = []"
proof -
  let ?inp = "shop_agent\<lparr>ag_source_ip := ''6.6.6.6''\<rparr>"
  obtain row db1 where r: "RegisterAgent example_env plain_sealer no_faults ''j'' 2 shop_db ?inp ''guess'' = (Inr row, db1)"
    using shop_tokens by (simp add: RegisterAgent_def no_faults_def verify_registration_def shop_agent_def Let_def
      shop_db_def same_agent_def)
  have "\<not> constantTimeEqual example_env ''old-token'' ''guess''"
    by (simp add: constantTimeEqual_def foldl_or_xor_0 example_env_def str_bytes_def)
  then have "\<not> constantTimeEqual example_env t ''guess''"
    if "d \<in> set (db_project_diagnostics shop_db)" "plain_sealer = Some (b, a)"
      "Open_token b a (dg_token_sealed d) = Inr t" for d b a t
    using that by (auto simp: shop_db_def plain_open)
  from forged_registration_gets_no_token [where ?flt2.0 = no_faults, OF shop_db_ok(1) r this] r show ?thesis by auto
qed

end
