(* ===== verification/DiagRuns.thy ===== *)
theory DiagRuns
  imports ApiDiag DumpTheorems DiagTheorems
begin

text \<open>
  Runs of the dump code: requests, the steps of the jobs and the rounds of the janitor in any order.
  The invariant ties the jobs to the records and to the map of cancel functions; the properties say
  that a dump ends, where it ends, who reaches it, and that what was fetched is what is downloaded.
\<close>

section \<open>Runs\<close>

datatype diag_event =
    ECapture io sealer "string + string \<times> int \<times> string" request
  | ERegistered string
  | EAsked string "string \<Rightarrow> string + string \<times> int \<times> string" faults reply
  | EFetched string faults "string \<Rightarrow> bool" string time download
  | ECancel io "string \<Rightarrow> string + bool \<times> string" sealer "string \<times> string \<Rightarrow> reply" request
  | EDelete io request
  | EClean janitor_round

definition with_job :: "string \<Rightarrow> (fetch_job \<Rightarrow> api_server \<Rightarrow> api_server) \<Rightarrow> api_server \<Rightarrow> api_server" where
  "with_job did f sv = (case find (\<lambda>j. fj_artifact j = did) (sv_jobs sv) of None \<Rightarrow> sv | Some j \<Rightarrow> f j sv)"

fun diag_step :: "api_server \<Rightarrow> diag_event \<Rightarrow> api_server" where
  "diag_step sv (ECapture w sl body r) =
     (if io_random w 3 \<in> fj_artifact ` set (sv_jobs sv) then sv else snd (handleCapture w sl body r sv))"
| "diag_step sv (ERegistered did) = with_job did (\<lambda>j sv. if fj_phase j = JobSpawned then job_register j sv else sv) sv"
| "diag_step sv (EAsked did decode flt rep) =
     with_job did (\<lambda>j sv. if fj_phase j = JobAsking then job_asked decode flt rep j sv else sv) sv"
| "diag_step sv (EFetched did flt fault os_error now d) =
     with_job did (\<lambda>j sv. case fj_phase j of
       JobProduced created \<Rightarrow> job_fetched flt fault os_error now d created j sv | _ \<Rightarrow> sv) sv"
| "diag_step sv (ECancel w decode sl net r) = snd (handleCancelCapture w decode sl net r sv)"
| "diag_step sv (EDelete w r) = snd (handleDeleteArtifact w r sv)"
| "diag_step sv (EClean rd) = cleanDumps rd sv"

text \<open>The identifiers of records are random and never used again: a capture whose new record would take
  the identifier of a running job is no step.\<close>

text \<open>Jobs are told apart by their records; a record with a job is pending; a cancel function belongs
  to a job.\<close>

definition dumps_ok :: "api_server \<Rightarrow> bool" where
  "dumps_ok sv \<longleftrightarrow> distinct (map fj_artifact (sv_jobs sv)) \<and> distinct (map da_id (db_artifacts (sv_db sv)))
     \<and> (\<forall>a \<in> set (db_artifacts (sv_db sv)). da_id a \<in> fj_artifact ` set (sv_jobs sv) \<longrightarrow> da_status a = ''pending'')
     \<and> is_gomap (sv_inflight sv) \<and> fst ` set (sv_inflight sv) \<subseteq> fj_artifact ` set (sv_jobs sv)"

text \<open>What a step does to the records: an update of one record that leaves the others, a deletion, a
  new record.\<close>

lemma upd_artifact_ids [simp]: "map da_id (db_artifacts (upd_artifact P f db)) = map da_id (db_artifacts db)"
  if "\<And>d. da_id (f d) = da_id d"
  using that by (simp add: upd_artifact_def comp_def if_distrib cong: if_cong)

lemma set_job_artifacts [simp]: "map fj_artifact (sv_jobs (set_job j sv)) = map fj_artifact (sv_jobs sv)"
  by (simp add: set_job_def comp_def if_distrib cong: if_cong)

definition row_change :: "string \<Rightarrow> idb \<Rightarrow> idb \<Rightarrow> bool" where
  "row_change did db db1 \<longleftrightarrow> map da_id (db_artifacts db1) = map da_id (db_artifacts db)
     \<and> (\<forall>a \<in> set (db_artifacts db1). da_id a \<noteq> did \<longrightarrow> a \<in> set (db_artifacts db))"

lemma row_change_artifact [simp]:
  "row_change did db (snd (CancelArtifact flt db did))" "row_change did db (snd (FailArtifact flt db did m))"
  "row_change did db (snd (CompleteArtifact flt db did fn n))"
  by (auto simp: row_change_def CancelArtifact_def FailArtifact_def CompleteArtifact_def upd_artifact_def
      comp_def if_distrib cong: if_cong)

lemma end_job_ok:
  assumes "dumps_ok sv" "row_change (fj_artifact j) (sv_db sv) db1"
  shows "dumps_ok (end_job j (sv\<lparr>sv_db := db1, sv_fs := fs1\<rparr>))"
proof -
  have "distinct (map da_id (db_artifacts db1))"
    using assms by (simp add: dumps_ok_def row_change_def)
  moreover have "da_status a = ''pending''"
    if "a \<in> set (db_artifacts db1)" "da_id a \<in> fj_artifact ` set (filter (\<lambda>k. fj_artifact k \<noteq> fj_artifact j) (sv_jobs sv))" for a
    using that assms by (auto simp: dumps_ok_def row_change_def)
  moreover have "fst ` set (AList.delete (fj_artifact j) (sv_inflight sv)) \<subseteq>
      fj_artifact ` set (filter (\<lambda>k. fj_artifact k \<noteq> fj_artifact j) (sv_jobs sv))"
    using assms(1) by (auto simp: dumps_ok_def AList.delete_eq)
  ultimately show ?thesis using assms(1)
    by (simp add: dumps_ok_def end_job_def gm.ok_del distinct_map_filter)
qed

lemma end_job_ok' [intro]:
  "dumps_ok sv \<Longrightarrow> row_change (fj_artifact j) (sv_db sv) db1 \<Longrightarrow> dumps_ok (end_job j (sv\<lparr>sv_db := db1\<rparr>))"
  using end_job_ok [of sv j db1 "sv_fs sv"] by simp

lemma dumps_ok_fs [simp]: "dumps_ok (sv\<lparr>sv_fs := fs1\<rparr>) = dumps_ok sv"
  by (simp add: dumps_ok_def)

lemma job_fail_ok: "dumps_ok sv \<Longrightarrow> dumps_ok (job_fail flt m j sv)"
  by (auto simp: job_fail_def)

lemma set_job_ok: "dumps_ok (set_job j sv) = dumps_ok sv"
proof -
  have "fj_artifact ` set (sv_jobs (set_job j sv)) = fj_artifact ` set (sv_jobs sv)"
    by (rule ids_same) simp
  then show ?thesis unfolding dumps_ok_def set_job_artifacts by (simp add: set_job_def)
qed

lemma job_asked_ok: "dumps_ok sv \<Longrightarrow> dumps_ok (job_asked decode flt rep j sv)"
  by (auto simp: job_asked_def job_fail_ok set_job_ok split: sum.split)

lemma store_dump_ok: "dumps_ok sv \<Longrightarrow> dumps_ok (store_dump flt fault oe now c body ce cl j sv)"
  by (auto simp: store_dump_def Let_def job_fail_ok split: option.split intro!: end_job_ok)

lemma job_fetched_ok: "dumps_ok sv \<Longrightarrow> dumps_ok (job_fetched flt fault oe now d c j sv)"
  by (auto simp: job_fetched_def job_fail_ok store_dump_ok split: download.split)

lemma job_register_ok: "dumps_ok sv \<Longrightarrow> j \<in> set (sv_jobs sv) \<Longrightarrow> dumps_ok (job_register j sv)"
proof -
  assume ok: "dumps_ok sv" and j: "j \<in> set (sv_jobs sv)"
  let ?s = "set_job (j\<lparr>fj_phase := JobAsking\<rparr>) sv"
  have keys: "fj_artifact ` set (sv_jobs ?s) = fj_artifact ` set (sv_jobs sv)" by (rule ids_same) simp
  have "fst ` set (AList.update (fj_artifact j) False (sv_inflight sv)) \<subseteq> fj_artifact ` set (sv_jobs ?s)"
    using ok j unfolding keys by (auto simp: dumps_ok_def dest!: update_entries)
  moreover have "dumps_ok ?s" using ok by (simp add: set_job_ok)
  ultimately show ?thesis using ok by (simp add: job_register_def dumps_ok_def gm.ok_put)
qed

lemma capture_ok:
  assumes "dumps_ok sv" "io_random w 3 \<notin> fj_artifact ` set (sv_jobs sv)"
  shows "dumps_ok (snd (handleCapture w sl body r sv))"
proof -
  have "dumps_ok (sv\<lparr>sv_db := db1\<rparr>)" if "CreateArtifact flt nid now (sv_db sv) i s k w' = (Inl e, db1)" for flt nid now i s k w' e db1
    using that assms(1) by (auto simp: CreateArtifact_def split: if_splits)
  moreover have "dumps_ok (sv\<lparr>sv_db := db1, sv_jobs := sv_jobs sv @ [j]\<rparr>)"
    if "CreateArtifact flt (io_random w 3) now (sv_db sv) i s k w' = (Inr did, db1)" "fj_artifact j = did"
    for flt now i s k w' did db1 j
    using that assms by (auto simp: CreateArtifact_def dumps_ok_def new_artifact_def has_id_def split: if_splits)
      (metis image_eqI)
  ultimately show ?thesis using assms(1)
    by (auto simp: handleCapture_def Let_def split: sum.split option.split prod.split)
qed

lemma cleanDumps_rows:
  "\<exists>P. db_artifacts (sv_db (cleanDumps rd sv)) = filter P (db_artifacts (sv_db sv))"
  "sv_jobs (cleanDumps rd sv) = sv_jobs sv" "sv_inflight (cleanDumps rd sv) = sv_inflight sv"
proof -
  have one: "\<exists>P. db_artifacts (sv_db (removeDump rd sv a)) = filter P (db_artifacts (sv_db sv))" for sv a
  proof -
    have "\<exists>P. db_artifacts (snd (DeleteArtifact flt db i)) = filter P (db_artifacts db)" for flt db i
    proof (cases "flt 0 \<or> \<not> has_id da_id (db_artifacts db) i")
      case True
      then show ?thesis by (auto simp: DeleteArtifact_def intro!: exI [of _ "\<lambda>_. True"])
    next
      case False
      then show ?thesis by (auto simp: DeleteArtifact_def)
    qed
    then show ?thesis by (simp add: removeDump_def Let_def)
  qed
  have all: "(\<exists>P. db_artifacts (sv_db (foldl (removeDump rd) sv xs)) = filter P (db_artifacts (sv_db sv)))
      \<and> sv_jobs (foldl (removeDump rd) sv xs) = sv_jobs sv \<and> sv_inflight (foldl (removeDump rd) sv xs) = sv_inflight sv" for xs sv
  proof (induction xs arbitrary: sv)
    case Nil
    then show ?case by (auto intro!: exI [of _ "\<lambda>_. True"])
  next
    case (Cons a xs)
    from one [of sv a] Cons.IH [of "removeDump rd sv a"] show ?case
      by (auto simp: removeDump_def Let_def)
  qed
  have orph: "sv_jobs (foldl (removeOrphan rd k) sv es) = sv_jobs sv \<and> sv_inflight (foldl (removeOrphan rd k) sv es) = sv_inflight sv" for k es sv
    by (induction es arbitrary: sv) (simp_all add: removeOrphan_def)
  show "\<exists>P. db_artifacts (sv_db (cleanDumps rd sv)) = filter P (db_artifacts (sv_db sv))"
  proof (cases "ListArtifacts (rd_list_faults rd) (rd_order rd) (sv_db sv) None list_limit")
    case (Inl e)
    then show ?thesis by (auto simp: cleanDumps_def intro!: exI [of _ "\<lambda>_. True"])
  next
    case (Inr as)
    have "sv_db (cleanDumps rd sv) = sv_db (foldl (removeDump rd) sv
        (expired_dumps rd (sv_retention sv) as @ quota_dumps rd (sv_retention sv) as))"
      by (simp add: cleanDumps_def Inr Let_def)
    then show ?thesis using all by metis
  qed
  show "sv_jobs (cleanDumps rd sv) = sv_jobs sv" "sv_inflight (cleanDumps rd sv) = sv_inflight sv"
    using all orph by (auto simp: cleanDumps_def removeOrphans_def Let_def split: sum.split)
qed

lemma fewer_rows_ok: "dumps_ok sv \<Longrightarrow> db_artifacts db1 = filter P (db_artifacts (sv_db sv)) \<Longrightarrow>
    dumps_ok (sv\<lparr>sv_db := db1\<rparr>)"
  by (auto simp: dumps_ok_def distinct_map_filter)

lemma cleanDumps_ok: "dumps_ok sv \<Longrightarrow> dumps_ok (cleanDumps rd sv)"
proof -
  assume ok: "dumps_ok sv"
  obtain P where "db_artifacts (sv_db (cleanDumps rd sv)) = filter P (db_artifacts (sv_db sv))"
    using cleanDumps_rows(1) by blast
  with ok cleanDumps_rows(2,3) show ?thesis by (auto simp: dumps_ok_def distinct_map_filter)
qed

lemma delete_ok: "dumps_ok sv \<Longrightarrow> dumps_ok (snd (handleDeleteArtifact w r sv))"
proof -
  assume ok: "dumps_ok sv"
  have "dumps_ok (sv\<lparr>sv_fs := fs1, sv_db := db1\<rparr>) \<and> dumps_ok (sv\<lparr>sv_db := db1\<rparr>)"
    if "DeleteArtifact flt (sv_db sv) i = (x, db1)" for fs1 flt i x db1
    using that ok by (auto simp: DeleteArtifact_def dumps_ok_def distinct_map_filter split: if_splits)
  with ok show ?thesis
    by (auto simp: handleDeleteArtifact_def Let_def split: sum.split prod.split unit.split)
qed

lemma handleCancelCapture_frame:
  "sv_jobs (snd (handleCancelCapture w decode sl net r sv)) = sv_jobs sv"
  "sv_db (snd (handleCancelCapture w decode sl net r sv)) = sv_db sv"
  by (simp_all add: handleCancelCapture_def Let_def case_prod_beta split: sum.split bool.split)

lemma cancel_ok: "dumps_ok sv \<Longrightarrow> dumps_ok (snd (handleCancelCapture w decode sl net r sv))"
proof -
  assume ok: "dumps_ok sv"
  have "dumps_ok (sv\<lparr>sv_inflight := AList.update k True (sv_inflight sv)\<rparr>)"
    if "map_of (sv_inflight sv) k = Some x" for k x
  proof -
    have "k \<in> fst ` set (sv_inflight sv)" using that by (force dest: map_of_SomeD)
    with ok show ?thesis by (auto simp: dumps_ok_def gm.ok_put dest!: update_entries)
  qed
  with ok show ?thesis
    by (auto simp: handleCancelCapture_def Let_def split: sum.split prod.split bool.split)
qed

lemma with_job_ok: "dumps_ok sv \<Longrightarrow> (\<And>j. j \<in> set (sv_jobs sv) \<Longrightarrow> dumps_ok (f j sv)) \<Longrightarrow> dumps_ok (with_job did f sv)"
  by (auto simp: with_job_def dest!: findD split: option.split)

lemma diag_step_ok: "dumps_ok sv \<Longrightarrow> dumps_ok (diag_step sv e)"
proof (cases e)
  case (EFetched did flt fault oe now d)
  assume "dumps_ok sv"
  with EFetched show ?thesis by (auto intro!: with_job_ok simp: job_fetched_ok split: job_phase.split)
qed (auto intro!: with_job_ok simp: capture_ok job_register_ok job_asked_ok cancel_ok delete_ok cleanDumps_ok)

interpretation dump_runs: invariant_machine diag_step dumps_ok
  by unfold_locales (rule diag_step_ok)

section \<open>A dump ends\<close>

text \<open>The steps a job has left.\<close>

definition steps_left :: "api_server \<Rightarrow> string \<Rightarrow> nat" where
  "steps_left sv did = (case find (\<lambda>j. fj_artifact j = did) (sv_jobs sv) of
     None \<Rightarrow> 0
   | Some j \<Rightarrow> (case fj_phase j of JobSpawned \<Rightarrow> 3 | JobAsking \<Rightarrow> 2 | JobProduced c \<Rightarrow> 1))"

lemma find_set_job: "find (\<lambda>k. fj_artifact k = did) (sv_jobs (set_job j sv)) =
    (case find (\<lambda>k. fj_artifact k = did) (sv_jobs sv) of
       None \<Rightarrow> None | Some k \<Rightarrow> Some (if fj_artifact j = did then j else k))"
proof -
  have "find (\<lambda>k. fj_artifact k = did) (map (\<lambda>k. if fj_artifact k = fj_artifact j then j else k) ks) =
      (case find (\<lambda>k. fj_artifact k = did) ks of
         None \<Rightarrow> None | Some k \<Rightarrow> Some (if fj_artifact j = did then j else k))" for ks
    by (induction ks) auto
  then show ?thesis by (simp add: set_job_def)
qed

lemma find_end_job: "find (\<lambda>k. fj_artifact k = did) (sv_jobs (end_job j sv)) =
    (if fj_artifact j = did then None else find (\<lambda>k. fj_artifact k = did) (sv_jobs sv))"
proof -
  have "find (\<lambda>k. fj_artifact k = did) (filter (\<lambda>k. fj_artifact k \<noteq> fj_artifact j) ks) =
      (if fj_artifact j = did then None else find (\<lambda>k. fj_artifact k = did) ks)" for ks
    by (induction ks) auto
  from this [of "sv_jobs sv"] show ?thesis
    by (cases "fj_artifact j = did") (simp_all add: end_job_def)
qed

lemma steps_left_job_fail: "steps_left (job_fail flt m j sv) did = (if fj_artifact j = did then 0 else steps_left sv did)"
  by (simp add: steps_left_def job_fail_def find_end_job)

lemma steps_left_store: "steps_left (store_dump flt fault oe now c body ce cl j sv) did =
    (if fj_artifact j = did then 0 else steps_left sv did)"
  by (auto simp: store_dump_def Let_def steps_left_job_fail steps_left_def find_end_job job_fail_def split: option.split)

lemma steps_left_fetched: "steps_left (job_fetched flt fault oe now d c j sv) did =
    (if fj_artifact j = did then 0 else steps_left sv did)"
  by (auto simp: job_fetched_def steps_left_job_fail steps_left_store split: download.split)

lemma steps_left_set_job: "steps_left (set_job j sv) did =
    (if fj_artifact j = did \<and> steps_left sv did \<noteq> 0
     then (case fj_phase j of JobSpawned \<Rightarrow> 3 | JobAsking \<Rightarrow> 2 | JobProduced c \<Rightarrow> 1) else steps_left sv did)"
  by (auto simp: steps_left_def find_set_job split: option.split job_phase.split)

lemma steps_left_register: "steps_left (job_register j sv) did =
    (if fj_artifact j = did \<and> steps_left sv did \<noteq> 0 then 2 else steps_left sv did)"
proof -
  have "steps_left (job_register j sv) did = steps_left (set_job (j\<lparr>fj_phase := JobAsking\<rparr>) sv) did"
    by (simp add: job_register_def steps_left_def)
  then show ?thesis by (simp add: steps_left_set_job)
qed

lemma steps_left_asked: "steps_left (job_asked decode flt rep j sv) did \<le>
    (if fj_artifact j = did then 1 else steps_left sv did)"
  by (auto simp: job_asked_def steps_left_job_fail steps_left_set_job split: sum.split)

lemma with_job_bound:
  "(\<And>j. find (\<lambda>j. fj_artifact j = k) (sv_jobs sv) = Some j \<Longrightarrow> fj_artifact j = k \<Longrightarrow>
      steps_left (f j sv) did \<le> steps_left sv did) \<Longrightarrow> steps_left (with_job k f sv) did \<le> steps_left sv did"
  by (auto simp: with_job_def dest: findD split: option.split)

lemma job_phase_steps: "find (\<lambda>j. fj_artifact j = did) (sv_jobs sv) = Some j \<Longrightarrow>
    steps_left sv did = (case fj_phase j of JobSpawned \<Rightarrow> 3 | JobAsking \<Rightarrow> 2 | JobProduced c \<Rightarrow> 1)"
  by (simp add: steps_left_def)

definition captures :: "string \<Rightarrow> diag_event \<Rightarrow> bool" where
  "captures did e = (case e of ECapture w sl body r \<Rightarrow> io_random w 3 = did | _ \<Rightarrow> False)"

lemma steps_left_capture:
  assumes "io_random w 3 \<noteq> did"
  shows "steps_left (snd (handleCapture w sl body r sv)) did = steps_left sv did"
proof -
  have "steps_left (sv\<lparr>sv_db := db1, sv_jobs := sv_jobs sv @ [j]\<rparr>) did = steps_left sv did"
    if "CreateArtifact flt (io_random w 3) now (sv_db sv) i s k w' = (Inr d, db1)" "fj_artifact j = d"
    for flt now i s k w' d db1 j
    using that assms by (auto simp: CreateArtifact_def steps_left_def find_append split: if_splits option.split)
  moreover have "steps_left (sv\<lparr>sv_db := db1\<rparr>) did = steps_left sv did" for db1
    by (simp add: steps_left_def)
  ultimately show ?thesis
    by (auto simp: handleCapture_def Let_def split: sum.split option.split prod.split)
qed

lemma steps_left_step: "\<not> captures did e \<Longrightarrow> steps_left (diag_step sv e) did \<le> steps_left sv did"
proof (cases e)
  case (ECapture w sl body r)
  assume "\<not> captures did e"
  with ECapture show ?thesis by (simp add: captures_def steps_left_capture)
next
  case (ERegistered k)
  have "steps_left (job_register j sv) did \<le> steps_left sv did"
    if "find (\<lambda>j. fj_artifact j = k) (sv_jobs sv) = Some j" "fj_artifact j = k" "fj_phase j = JobSpawned" for j
    using that by (auto simp: steps_left_register dest!: job_phase_steps)
  with ERegistered show ?thesis by (auto intro!: with_job_bound)
next
  case (EAsked k decode flt rep)
  have "steps_left (job_asked decode flt rep j sv) did \<le> steps_left sv did"
    if "find (\<lambda>j. fj_artifact j = k) (sv_jobs sv) = Some j" "fj_artifact j = k" "fj_phase j = JobAsking" for j
    using steps_left_asked [of decode flt rep j sv did] that by (auto dest!: job_phase_steps split: if_splits)
  with EAsked show ?thesis by (auto intro!: with_job_bound)
next
  case (EFetched k flt fault oe now d)
  then show ?thesis by (auto intro!: with_job_bound simp: steps_left_fetched split: job_phase.split)
next
  case (ECancel w decode sl net r)
  from handleCancelCapture_frame(1) [of w decode sl net r sv] ECancel show ?thesis
    by (simp add: steps_left_def)
next
  case (EDelete w r)
  have "sv_jobs (snd (handleDeleteArtifact w r sv)) = sv_jobs sv"
    by (auto simp: handleDeleteArtifact_def Let_def split: sum.split prod.split unit.split)
  with EDelete show ?thesis by (simp add: steps_left_def)
next
  case (EClean rd)
  then show ?thesis by (simp add: steps_left_def cleanDumps_rows(2))
qed

lemma steps_left_run: "list_all (\<lambda>e. \<not> captures did e) es \<Longrightarrow> steps_left (foldl diag_step sv es) did \<le> steps_left sv did"
proof (induction es arbitrary: sv)
  case (Cons e es)
  then have "steps_left (foldl diag_step (diag_step sv e) es) did \<le> steps_left (diag_step sv e) did" by simp
  also have "\<dots> \<le> steps_left sv did" using Cons.prems by (intro steps_left_step) simp
  finally show ?case by simp
qed simp

lemma steps_left_own:
  "steps_left (diag_step sv (ERegistered did)) did \<le> 2"
  "steps_left sv did \<le> 2 \<Longrightarrow> steps_left (diag_step sv (EAsked did decode flt rep)) did \<le> 1"
  "steps_left sv did \<le> 1 \<Longrightarrow> steps_left (diag_step sv (EFetched did flt fault oe now d)) did = 0"
proof -
  show "steps_left (diag_step sv (ERegistered did)) did \<le> 2"
    by (cases "find (\<lambda>j. fj_artifact j = did) (sv_jobs sv)")
      (auto simp: with_job_def steps_left_register job_phase_steps dest: findD split: job_phase.splits,
       auto simp: steps_left_def)
  show "steps_left (diag_step sv (EAsked did decode flt rep)) did \<le> 1" if "steps_left sv did \<le> 2"
  proof (cases "find (\<lambda>j. fj_artifact j = did) (sv_jobs sv)")
    case None
    then show ?thesis by (simp add: with_job_def steps_left_def)
  next
    case (Some j)
    with that steps_left_asked [of decode flt rep j sv did] show ?thesis
      by (auto simp: with_job_def job_phase_steps dest: findD split: job_phase.splits)
  qed
  show "steps_left (diag_step sv (EFetched did flt fault oe now d)) did = 0" if "steps_left sv did \<le> 1"
  proof (cases "find (\<lambda>j. fj_artifact j = did) (sv_jobs sv)")
    case None
    then show ?thesis by (simp add: with_job_def steps_left_def)
  next
    case (Some j)
    with that show ?thesis
      by (auto simp: with_job_def job_phase_steps steps_left_fetched dest: findD split: job_phase.splits)
  qed
qed

text \<open>A dump ends: once its job has registered, got the agent's answer and the outcome of the
  download, in that order and with anything else in between, the job is gone and so is its cancel
  function, whatever the answers were.\<close>

theorem dump_ends:
  assumes "dumps_ok sv" "list_all (\<lambda>e. \<not> captures did e) (es1 @ es2 @ es3)"
  shows "let sv1 = foldl diag_step sv (es1 @ ERegistered did # es2 @ EAsked did decode flt rep # es3
           @ [EFetched did flt' fault oe now d])
    in did \<notin> fj_artifact ` set (sv_jobs sv1) \<and> map_of (sv_inflight sv1) did = None"
proof -
  let ?a = "diag_step (foldl diag_step sv es1) (ERegistered did)"
  let ?b = "diag_step (foldl diag_step ?a es2) (EAsked did decode flt rep)"
  let ?c = "diag_step (foldl diag_step ?b es3) (EFetched did flt' fault oe now d)"
  have "steps_left (foldl diag_step ?a es2) did \<le> 2"
    using steps_left_run [of did es2 ?a] steps_left_own(1) [of "foldl diag_step sv es1" did] assms(2) by simp
  then have "steps_left ?b did \<le> 1" by (rule steps_left_own(2))
  then have "steps_left (foldl diag_step ?b es3) did \<le> 1"
    using steps_left_run [of did es3 ?b] assms(2) by simp
  then have "steps_left ?c did = 0" by (rule steps_left_own(3))
  then have gone: "did \<notin> fj_artifact ` set (sv_jobs ?c)"
    by (auto simp: steps_left_def find_None_iff split: option.splits job_phase.splits)
  have "dumps_ok ?c" using dump_runs.run_good [OF assms(1),
      of "es1 @ ERegistered did # es2 @ EAsked did decode flt rep # es3 @ [EFetched did flt' fault oe now d]"] by simp
  with gone have "map_of (sv_inflight ?c) did = None"
    by (auto simp: dumps_ok_def map_of_eq_None_iff)
  with gone show ?thesis by (simp add: Let_def)
qed

section \<open>Where a dump ends\<close>

definition no_stuck :: "api_server \<Rightarrow> bool" where
  "no_stuck sv \<longleftrightarrow> (\<forall>a \<in> set (db_artifacts (sv_db sv)). da_status a = ''pending'' \<longrightarrow>
     da_id a \<in> fj_artifact ` set (sv_jobs sv))"

text \<open>An event without a database fault at the end of a job, and in which a cancelled download does
  not succeed after all.\<close>

definition calm :: "api_server \<Rightarrow> diag_event \<Rightarrow> bool" where
  "calm sv e = (case e of
      EAsked did decode flt rep \<Rightarrow> \<not> flt 0
    | EFetched did flt fault oe now d \<Rightarrow> \<not> flt 0 \<and>
        (map_of (sv_inflight sv) did = Some True \<longrightarrow>
           (case d of Download st body None None \<Rightarrow> False | _ \<Rightarrow> True))
    | _ \<Rightarrow> True)"

fun calm_run :: "api_server \<Rightarrow> diag_event list \<Rightarrow> bool" where
  "calm_run sv [] = True"
| "calm_run sv (e # es) = (calm sv e \<and> calm_run (diag_step sv e) es)"

definition settle :: "string \<Rightarrow> idb \<Rightarrow> idb \<Rightarrow> bool" where
  "settle did db db1 \<longleftrightarrow> row_change did db db1
     \<and> (\<forall>a \<in> set (db_artifacts db1). da_id a = did \<longrightarrow> da_status a \<noteq> ''pending'')"

lemma settle_upd:
  assumes "row_change did db (upd_artifact P f db)" "\<And>d. da_id d = did \<Longrightarrow> P d \<Longrightarrow> da_status (f d) \<noteq> ''pending''"
    and "\<And>d. P d \<Longrightarrow> da_id (f d) = da_id d" "\<And>d. da_id d = did \<Longrightarrow> \<not> P d \<Longrightarrow> da_status d \<noteq> ''pending''"
  shows "settle did db (upd_artifact P f db)"
  using assms by (auto simp: settle_def upd_artifact_def)

lemma settle_artifact:
  assumes "\<not> flt 0"
  shows "settle did db (snd (CancelArtifact flt db did))" "settle did db (snd (FailArtifact flt db did m))"
    "settle did db (snd (CompleteArtifact flt db did fn n))"
proof -
  note rc = row_change_artifact [of did db flt]
  show "settle did db (snd (CancelArtifact flt db did))"
    using assms rc(1) unfolding CancelArtifact_def by simp (rule settle_upd; simp)
  show "settle did db (snd (FailArtifact flt db did m))"
    using assms rc(2) [of m] unfolding FailArtifact_def by simp (rule settle_upd; simp)
  show "settle did db (snd (CompleteArtifact flt db did fn n))"
    using assms rc(3) [of fn n] unfolding CompleteArtifact_def by simp (rule settle_upd; simp)
qed

lemma image_other: "x \<in> f ` A \<Longrightarrow> x \<noteq> y \<Longrightarrow> x \<in> f ` {z \<in> A. f z \<noteq> y}"
  by auto

lemma end_job_no_stuck:
  assumes "no_stuck sv" "settle (fj_artifact j) (sv_db sv) db1"
  shows "no_stuck (end_job j (sv\<lparr>sv_db := db1\<rparr>))" "no_stuck (end_job j (sv\<lparr>sv_fs := fs1, sv_db := db1\<rparr>))"
proof -
  have "da_id a \<in> fj_artifact ` {k \<in> set (sv_jobs sv). fj_artifact k \<noteq> fj_artifact j}"
    if a: "a \<in> set (db_artifacts db1)" "da_status a = ''pending''" for a
  proof -
    have n: "da_id a \<noteq> fj_artifact j" using a assms(2) by (auto simp: settle_def)
    with a assms(2) have "a \<in> set (db_artifacts (sv_db sv))" by (auto simp: settle_def row_change_def)
    with assms(1) a(2) have "da_id a \<in> fj_artifact ` set (sv_jobs sv)" by (auto simp: no_stuck_def)
    with n show ?thesis by (rule image_other [rotated])
  qed
  then show "no_stuck (end_job j (sv\<lparr>sv_db := db1\<rparr>))" "no_stuck (end_job j (sv\<lparr>sv_fs := fs1, sv_db := db1\<rparr>))"
    by (simp_all add: no_stuck_def end_job_def)
qed

lemma job_fail_no_stuck: "no_stuck sv \<Longrightarrow> \<not> flt 0 \<Longrightarrow> no_stuck (job_fail flt m j sv)"
  by (simp add: job_fail_def end_job_no_stuck(1) settle_artifact)

lemma no_stuck_fs [simp]: "no_stuck (sv\<lparr>sv_fs := fs1\<rparr>) = no_stuck sv"
  by (simp add: no_stuck_def)

lemma set_job_no_stuck: "no_stuck (set_job j sv) = no_stuck sv"
proof -
  have "fj_artifact ` set (sv_jobs (set_job j sv)) = fj_artifact ` set (sv_jobs sv)"
    by (rule ids_same) simp
  then show ?thesis unfolding no_stuck_def by (simp add: set_job_def)
qed

lemma store_dump_no_stuck:
  assumes "no_stuck sv" "\<not> flt 0" "job_cancelled j sv \<Longrightarrow> ce \<noteq> None \<or> cl \<noteq> None"
  shows "no_stuck (store_dump flt fault oe now c body ce cl j sv)"
proof -
  have "no_stuck (end_job j (sv\<lparr>sv_fs := fs1, sv_db := snd (CompleteArtifact (\<lambda>n. job_cancelled j sv \<or> flt n)
      (sv_db sv) (fj_artifact j) fn n)\<rparr>))" if "ce = None" "cl = None" for fs1 fn n
    using assms that by (intro end_job_no_stuck(2) settle_artifact) auto
  with assms(1,2) show ?thesis
    by (auto simp: store_dump_def Let_def job_fail_no_stuck split: option.split)
qed

lemma job_fetched_no_stuck:
  assumes "no_stuck sv" "\<not> flt 0" "job_cancelled j sv \<Longrightarrow> case d of Download st body None None \<Rightarrow> False | _ \<Rightarrow> True"
  shows "no_stuck (job_fetched flt fault oe now d c j sv)"
  using assms
  by (auto simp: job_fetched_def job_fail_no_stuck split: download.split intro!: store_dump_no_stuck split: option.splits)

lemma capture_no_stuck: "no_stuck sv \<Longrightarrow> no_stuck (snd (handleCapture w sl body r sv))"
proof -
  assume ns: "no_stuck sv"
  have "no_stuck (sv\<lparr>sv_db := db1\<rparr>)" if "CreateArtifact flt nid now (sv_db sv) i s k w' = (Inl e, db1)" for flt nid now i s k w' e db1
    using that ns by (auto simp: CreateArtifact_def split: if_splits)
  moreover have "no_stuck (sv\<lparr>sv_db := db1, sv_jobs := sv_jobs sv @ [j]\<rparr>)"
    if "CreateArtifact flt nid now (sv_db sv) i s k w' = (Inr did, db1)" "fj_artifact j = did"
    for flt nid now i s k w' did db1 j
    using that ns by (auto simp: CreateArtifact_def no_stuck_def new_artifact_def split: if_splits)
  ultimately show ?thesis using ns
    by (auto simp: handleCapture_def Let_def split: sum.split option.split prod.split)
qed

lemma with_job_no_stuck: "no_stuck sv \<Longrightarrow> (\<And>j. fj_artifact j = did \<Longrightarrow> no_stuck (f j sv)) \<Longrightarrow> no_stuck (with_job did f sv)"
  by (auto simp: with_job_def dest!: findD split: option.split)

lemma register_no_stuck: "no_stuck sv \<Longrightarrow> no_stuck (job_register j sv)"
  using set_job_no_stuck [of "j\<lparr>fj_phase := JobAsking\<rparr>" sv] by (simp add: job_register_def no_stuck_def)

lemma diag_step_no_stuck: "no_stuck sv \<Longrightarrow> calm sv e \<Longrightarrow> no_stuck (diag_step sv e)"
proof (cases e)
  case (ECancel w decode sl net r)
  assume "no_stuck sv"
  with ECancel handleCancelCapture_frame [of w decode sl net r sv] show ?thesis by (simp add: no_stuck_def)
next
  case (EDelete w r)
  assume ns: "no_stuck sv"
  have "no_stuck (sv\<lparr>sv_fs := fs1, sv_db := db1\<rparr>) \<and> no_stuck (sv\<lparr>sv_db := db1\<rparr>)"
    if "DeleteArtifact flt (sv_db sv) i = (x, db1)" for fs1 flt i x db1
    using that ns by (auto simp: DeleteArtifact_def no_stuck_def split: if_splits)
  with EDelete ns show ?thesis
    by (auto simp: handleDeleteArtifact_def Let_def split: sum.split prod.split unit.split)
next
  case (EClean rd)
  assume "no_stuck sv"
  with EClean cleanDumps_rows [of rd sv] show ?thesis by (auto simp: no_stuck_def)
next
  case (EFetched did flt fault oe now d)
  assume "no_stuck sv" "calm sv e"
  with EFetched show ?thesis
    by (auto simp: calm_def job_cancelled_def intro!: with_job_no_stuck job_fetched_no_stuck split: job_phase.split)
qed (auto simp: calm_def capture_no_stuck job_asked_def job_fail_no_stuck set_job_no_stuck register_no_stuck
    intro!: with_job_no_stuck split: sum.split)


section \<open>Witnesses\<close>

definition shop_job :: fetch_job where
  "shop_job = \<lparr>fj_instance = shop_agent, fj_token = ''new-token'', fj_kind = ''cpu'', fj_seconds = 0, fj_dumpType = [],
     fj_artifact = ''art00001'', fj_by = ''ann'', fj_phase = JobSpawned\<rparr>"

definition shop_server :: api_server where
  "shop_server = (new_server (shop_db\<lparr>db_artifacts := [new_artifact ''art00001'' 0 ''i'' ''shop'' ''cpu'' ''ann'']\<rparr>)
     ''/d'' (dump_fs []))\<lparr>sv_jobs := [shop_job]\<rparr>"

lemma shop_server_ok: "dumps_ok shop_server" "no_stuck shop_server"
  by (simp_all add: dumps_ok_def no_stuck_def shop_server_def new_server_def shop_job_def new_artifact_def shop_db_def
      empty_idb_def is_gomap_def)

definition shop_answer :: "string \<Rightarrow> string + string \<times> int \<times> string" where
  "shop_answer body = Inr (''cpu-1'', 4, [])"

lemma shop_run:
  "diag_step shop_server (ERegistered ''art00001'') =
     shop_server\<lparr>sv_jobs := [shop_job\<lparr>fj_phase := JobAsking\<rparr>], sv_inflight := [(''art00001'', False)]\<rparr>"
  "diag_step (shop_server\<lparr>sv_jobs := [shop_job\<lparr>fj_phase := JobAsking\<rparr>], sv_inflight := [(''art00001'', False)]\<rparr>)
     (EAsked ''art00001'' shop_answer no_faults (Reply 200 [])) =
   shop_server\<lparr>sv_jobs := [shop_job\<lparr>fj_phase := JobProduced ''cpu-1''\<rparr>], sv_inflight := [(''art00001'', False)]\<rparr>"
  by (simp_all add: with_job_def shop_server_def new_server_def shop_job_def job_register_def set_job_def job_asked_def
      doJSON_def Let_def shop_answer_def)

abbreviation shop_events :: "diag_event list" where
  "shop_events \<equiv> [ERegistered ''art00001'', EAsked ''art00001'' shop_answer no_faults (Reply 200 []),
     EFetched ''art00001'' no_faults (\<lambda>_. False) [] 5 (Download 200 ''data'' None None)]"

theorem dump_ends_witness:
  "''art00001'' \<notin> fj_artifact ` set (sv_jobs (foldl diag_step shop_server shop_events))"
  using dump_ends [OF shop_server_ok(1), of "''art00001''" "[]" "[]" "[]" shop_answer no_faults "Reply 200 []"
      no_faults "\<lambda>_. False" "[]" 5 "Download 200 ''data'' None None"]
  by (simp add: Let_def)


text \<open>A download that completes after its dump was cancelled leaves the record pending for good: the
  record is completed under the cancelled context, so the statement fails, and the job ends without
  another.\<close>

theorem cancelled_completion_sticks:
  "\<exists>sv. dumps_ok sv \<and> no_stuck sv \<and> map_of (sv_inflight sv) ''art00001'' = Some True
     \<and> (let sv1 = diag_step sv (EFetched ''art00001'' no_faults (\<lambda>_. False) [] 5 (Download 200 ''data'' None None))
         in sv_jobs sv1 = [] \<and> (\<exists>a \<in> set (db_artifacts (sv_db sv1)). da_id a = ''art00001'' \<and> da_status a = ''pending''))"
proof -
  let ?sv = "shop_server\<lparr>sv_jobs := [shop_job\<lparr>fj_phase := JobProduced ''cpu-1''\<rparr>], sv_inflight := [(''art00001'', True)]\<rparr>"
  have "dumps_ok ?sv" "no_stuck ?sv" using shop_server_ok
    by (auto simp: dumps_ok_def no_stuck_def is_gomap_def shop_server_def shop_job_def)
  moreover have "fs_create (\<lambda>_. False) 5 (path_join [sv_dumpDir ?sv, dump_filename shop_job ''cpu-1'']) (sv_fs ?sv) \<noteq> None"
    by (simp add: fs_create_def shop_server_def new_server_def dump_fs_def dump_filename_def shop_job_def shop_agent_def
        path_eval fs_parent_def Let_def)
  ultimately show ?thesis
    by (intro exI [of _ ?sv])
      (auto simp: with_job_def job_fetched_def store_dump_def Let_def end_job_def job_cancelled_def CompleteArtifact_def
        shop_server_def new_server_def shop_job_def new_artifact_def dump_filename_def)
qed

end
