(* ===== verification/DumpAccess.thy ===== *)
theory DumpAccess
  imports DiagRuns
begin

text \<open>
  Who reaches a dump and its file: the scope checks of the handlers, the capture, the way of the
  bytes from the agent to the download, and the names under which files are written and read.
\<close>

section \<open>Scope\<close>

text \<open>(C22) A dump out of scope is out of reach: when the record belongs to a service the request may not
  see, reading it, downloading its file, cancelling its job and deleting it all answer 403 and change
  nothing, neither the records nor the files nor the jobs.\<close>

theorem dump_scope_enforced:
  assumes "GetArtifact (io_faults w 2) (sv_db sv) (hr_id r) = Inr art" "\<not> allows (scopeFor r) (da_service_name art)"
  shows "handleGetArtifact w r sv = (no_access, sv) \<and> handleDownloadArtifact w r sv = (no_access, sv)
    \<and> handleCancelCapture w decode sl net r sv = (no_access, sv) \<and> handleDeleteArtifact w r sv = (no_access, sv)"
  using assms
  by (simp add: handleGetArtifact_def handleDownloadArtifact_def handleCancelCapture_def handleDeleteArtifact_def)

theorem dump_scope_enforced_witness:
  "handleDeleteArtifact example_io (example_http\<lparr>hr_id := ''art00001'', hr_access := Some example_ac, hr_project := ''pay''\<rparr>)
     shop_server = (no_access, shop_server)"
proof -
  let ?r = "example_http\<lparr>hr_id := ''art00001'', hr_access := Some example_ac, hr_project := ''pay''\<rparr>"
  have "\<not> allows (scopeFor ?r) ''shop''"
    by (simp add: allows_def scopeFor_def example_ac_def LoadAccess_def no_faults_def Let_def mixed_roles_def
        admin_row_def project_of_def projects_of_def groups_of_def project_apps_def)
  moreover have "GetArtifact (io_faults example_io 2) (sv_db shop_server) (hr_id ?r) =
      Inr (new_artifact ''art00001'' 0 ''i'' ''shop'' ''cpu'' ''ann'')"
    by (simp add: GetArtifact_def example_io_def no_faults_def shop_server_def new_server_def new_artifact_def)
  ultimately show ?thesis
    using dump_scope_enforced [of example_io shop_server ?r "new_artifact ''art00001'' 0 ''i'' ''shop'' ''cpu'' ''ann''"]
    by (simp add: new_artifact_def)
qed

text \<open>A capture is accepted only for a verified instance of a service in scope, with the token of
  its project; then there is one new pending record in the caller's name and one new job for it.
  Any other answer starts no job and adds no record.\<close>

theorem capture_outcome:
  assumes "handleCapture w sl body r sv = (rp, sv1)"
  shows "if rp_status rp = 202 then
      (\<exists>kind seconds dtype a did. body = Inr (kind, seconds, dtype) \<and> kind \<in> {''cpu'', ''memory''}
        \<and> ar_agent (GetAgent sl (io_faults w 2) (sv_db sv) (hr_id r)) = Some a
        \<and> ar_error (GetAgent sl (io_faults w 2) (sv_db sv) (hr_id r)) = None
        \<and> ag_verified a \<and> allows (scopeFor r) (ag_service_name a)
        \<and> rp_body rp = PendingBody did \<and> did \<notin> da_id ` set (db_artifacts (sv_db sv))
        \<and> db_artifacts (sv_db sv1) = db_artifacts (sv_db sv) @
            [new_artifact did (io_clock w 3) (ag_id a) (ag_service_name a) kind (us_email (access_user r))]
        \<and> (\<exists>j. sv_jobs sv1 = sv_jobs sv @ [j] \<and> fj_artifact j = did \<and> fj_instance j = a
              \<and> fj_token j = ar_token (GetAgent sl (io_faults w 2) (sv_db sv) (hr_id r))))
    else sv_jobs sv1 = sv_jobs sv \<and> db_artifacts (sv_db sv1) = db_artifacts (sv_db sv)"
proof -
  have err: "rp_status (agent_error e) \<noteq> 202" for e
    by (cases e) (simp_all add: agent_error_def writeErrorCode_def writeError_def respond_def)
  have st: "rp_status (writeError n m) = n" "rp_status no_access = 403" for n m
    by (simp_all add: writeError_def no_access_def writeErrorCode_def respond_def)
  show ?thesis
  proof (cases body)
    case (Inl e)
    with assms st show ?thesis by (auto simp: handleCapture_def)
  next
    case (Inr b)
    obtain kind seconds dtype where b: "b = (kind, seconds, dtype)" by (cases b) auto
    let ?g = "GetAgent sl (io_faults w 2) (sv_db sv) (hr_id r)"
    show ?thesis
    proof (cases "kind \<in> {''cpu'', ''memory''} \<and> ar_error ?g = None \<and> ar_agent ?g \<noteq> None
        \<and> allows (scopeFor r) (ag_service_name (the (ar_agent ?g)))")
      case False
      with assms Inr b st err show ?thesis
        by (auto simp: handleCapture_def Let_def split: option.splits if_splits)
    next
      case True
      then obtain a where a: "ar_agent ?g = Some a" by auto
      have v: "ag_verified a" using True a by (auto simp: GetAgent_def split: if_splits option.splits sum.splits)
      obtain res db1 where c: "CreateArtifact (io_faults w 3) (io_random w 3) (io_clock w 3) (sv_db sv) (ag_id a)
          (ag_service_name a) kind (us_email (access_user r)) = (res, db1)" by fastforce
      show ?thesis
      proof (cases res)
        case (Inl e)
        with assms Inr b True a c st have "rp_status rp = 500" "sv1 = sv\<lparr>sv_db := db1\<rparr>"
          by (auto simp: handleCapture_def Let_def)
        moreover have "db1 = sv_db sv" using c Inl by (auto simp: CreateArtifact_def split: if_splits)
        ultimately show ?thesis by simp
      next
        case (Inr did)
        then have "db_artifacts db1 = db_artifacts (sv_db sv) @
            [new_artifact did (io_clock w 3) (ag_id a) (ag_service_name a) kind (us_email (access_user r))]"
          "did \<notin> da_id ` set (db_artifacts (sv_db sv))"
          using c by (auto simp: CreateArtifact_def has_id_def split: if_splits)
        with assms Inr \<open>body = Inr b\<close> b True a c v st show ?thesis
          by (auto simp: handleCapture_def Let_def respond_def)
      qed
    qed
  qed
qed

theorem capture_outcome_witness:
  "rp_status (fst (handleCapture example_io plain_sealer (Inr (''cpu'', 0, []))
      (example_http\<lparr>hr_id := ''i'', hr_access := Some \<lparr>ac_User = Some (admin_row ''a'' ''ann''), ac_Permissions = [],
         ac_Projects = [], ac_Applications = []\<rparr>\<rparr>) (shop_server\<lparr>sv_db := shop_db\<rparr>))) = 202
   \<and> length (sv_jobs (snd (handleCapture example_io plain_sealer (Inr (''cpu'', 0, []))
      (example_http\<lparr>hr_id := ''i'', hr_access := Some \<lparr>ac_User = Some (admin_row ''a'' ''ann''), ac_Permissions = [],
         ac_Projects = [], ac_Applications = []\<rparr>\<rparr>) (shop_server\<lparr>sv_db := shop_db\<rparr>)))) = 2"
proof -
  let ?r = "example_http\<lparr>hr_id := ''i'', hr_access := Some \<lparr>ac_User = Some (admin_row ''a'' ''ann''), ac_Permissions = [],
         ac_Projects = [], ac_Applications = []\<rparr>\<rparr>"
  let ?sv = "shop_server\<lparr>sv_db := shop_db\<rparr>"
  obtain rp sv1 where h: "handleCapture example_io plain_sealer (Inr (''cpu'', 0, [])) ?r ?sv = (rp, sv1)" by fastforce
  have g: "GetAgent plain_sealer no_faults shop_db ''i'' =
      \<lparr>ar_agent = Some shop_agent, ar_token = ''old-token'', ar_error = None\<rparr>"
    using shop_tokens by (simp add: GetAgent_def no_faults_def shop_db_def shop_agent_def)
  have c: "CreateArtifact no_faults ''tok'' 5 shop_db ''i'' ''shop'' ''cpu'' ''ann'' =
      (Inr ''tok'', shop_db\<lparr>db_artifacts := [new_artifact ''tok'' 5 ''i'' ''shop'' ''cpu'' ''ann'']\<rparr>)"
    by (simp add: CreateArtifact_def no_faults_def has_id_def shop_db_def shop_agent_def empty_idb_def)
  have al: "allows (scopeFor ?r) x" "us_email (access_user ?r) = ''ann''" for x
    by (simp_all add: scopeFor_def SeesEverything_def allows_def admin_row_def example_http_def access_user_def)
  have "rp_status rp = 202"
    using h g c al by (auto simp: handleCapture_def Let_def example_io_def shop_agent_def respond_def split: if_splits)
  with capture_outcome [OF h] show ?thesis
    using h by (auto simp: shop_server_def new_server_def)
qed

section \<open>From the agent to the download\<close>

lemma path_base_child:
  assumes "n \<noteq> []" "CHR ''/'' \<notin> set n"
  shows "path_base (a @ CHR ''/'' # n) = n"
proof -
  have "drop_slashes (rev n @ CHR ''/'' # rev a) = rev n @ CHR ''/'' # rev a"
    using assms by (cases "rev n") (auto dest: arg_cong [of _ _ set])
  then have "rev (drop_slashes (rev (a @ CHR ''/'' # n))) = a @ CHR ''/'' # n" by simp
  moreover have "nat (int (length a) + 1) = Suc (length a)" by simp
  ultimately show ?thesis using assms last_index_byte_split [of "CHR ''/''" n a] by (simp add: path_base_def Let_def)
qed

lemma dir_path_append: "clean_dir es \<Longrightarrow> dir_path (es @ [n]) = dir_path es @ ''/'' @ n"
  using join_append_one [of es n] by (simp add: clean_dir_def dir_path_def)

lemma fs_parent_child:
  assumes "clean_dir es" "CHR ''/'' \<notin> set n"
  shows "fs_parent (dir_path (es @ [n])) = dir_path es"
proof -
  have "last_index_byte (dir_path es @ CHR ''/'' # n) (CHR ''/'') = int (length (dir_path es))"
    using assms(2) by (rule last_index_byte_split)
  moreover have "0 < length (dir_path es)" by (simp add: dir_path_def)
  ultimately show ?thesis using dir_path_append [OF assms(1), of n] by (simp add: fs_parent_def Let_def)
qed

lemma dump_filename_plain:
  assumes "CHR ''/'' \<notin> set (ag_service_name (fj_instance j))" "CHR ''/'' \<notin> set (fj_artifact j)" "CHR ''/'' \<notin> set created"
  shows "plain_name (dump_filename j created)"
proof -
  have "CHR ''_'' \<in> set (dump_filename j created)" by (simp add: dump_filename_def)
  then have "dump_filename j created \<notin> {[], ''.'', ''..''}" by auto
  moreover have "CHR ''/'' \<notin> set (take 8 (fj_artifact j))" using assms(2) by (auto dest: in_set_takeD)
  ultimately show ?thesis using assms by (simp add: plain_name_def dump_filename_def)
qed

lemma completed_row:
  assumes "\<not> flt 0" "GetArtifact no_faults db did = Inr art"
  shows "GetArtifact no_faults (snd (CompleteArtifact flt db did fn n)) did =
    Inr (art\<lparr>da_filename := fn, da_bytes := n, da_status := ''ready''\<rparr>)"
proof -
  have "find (\<lambda>d. da_id d = did) (map (\<lambda>d. if da_id d = did then f d else d) xs) =
      map_option f (find (\<lambda>d. da_id d = did) xs)" if "\<And>d. da_id (f d) = da_id d" for f xs
    using that by (induction xs) auto
  from this [of "\<lambda>d. d\<lparr>da_filename := fn, da_bytes := n, da_status := ''ready''\<rparr>" "db_artifacts db"]
  have f: "find (\<lambda>d. da_id d = did) (db_artifacts (snd (CompleteArtifact flt db did fn n))) =
      map_option (\<lambda>d. d\<lparr>da_filename := fn, da_bytes := n, da_status := ''ready''\<rparr>) (find (\<lambda>d. da_id d = did) (db_artifacts db))"
    using assms(1) by (simp add: CompleteArtifact_def upd_artifact_def)
  have "find (\<lambda>d. da_id d = did) (db_artifacts db) = Some art"
    using assms(2) by (simp add: GetArtifact_def no_faults_def split: option.splits)
  with f show ?thesis by (simp add: GetArtifact_def no_faults_def)
qed

text \<open>(C39) What was fetched is what is downloaded: when the agent's file arrives whole and its name has no
  slash, a later download of the record by a request in whose scope the service is returns exactly
  the bytes that arrived, with their number as the length and the name under which they were
  stored.\<close>

theorem dump_roundtrip:
  assumes "clean_dir es" "sv_dumpDir sv = dir_path es" "dir_path es \<in> set (fs_dirs (sv_fs sv))"
    and "CHR ''/'' \<notin> set (ag_service_name (fj_instance j))" "CHR ''/'' \<notin> set (fj_artifact j)" "CHR ''/'' \<notin> set created"
    and "dir_path (es @ [dump_filename j created]) \<notin> set (fs_dirs (sv_fs sv))"
    and "\<not> flt 0" "\<not> job_cancelled j sv" "\<And>p. \<not> fault p"
    and "GetArtifact no_faults (sv_db sv) (fj_artifact j) = Inr art"
    and "io_faults w 2 = no_faults" "\<And>p. \<not> io_fs_fault w p" "hr_id r = fj_artifact j"
    and "allows (scopeFor r) (da_service_name art)"
  shows "let sv1 = store_dump flt fault os_error now created body None None j sv in
    handleDownloadArtifact w r sv1 =
      (respond 200 (FileBody (dump_filename j created) (int (length body)) body), sv1)"
proof -
  let ?n = "dump_filename j created"
  let ?p = "dir_path (es @ [?n])"
  let ?sv1 = "store_dump flt fault os_error now created body None None j sv"
  have n: "plain_name ?n" by (rule dump_filename_plain [OF assms(4-6)])
  have path: "path_join [sv_dumpDir sv, ?n] = ?p" using join_plain [OF assms(1) n] assms(2) by simp
  have "fs_create fault now ?p (sv_fs sv) \<noteq> None"
    using assms(3,7,10) fs_parent_child [OF assms(1), of ?n] n by (simp add: fs_create_def plain_name_def)
  then obtain fs1 where "fs_create fault now ?p (sv_fs sv) = Some fs1" by blast
  then have sv1: "?sv1 = end_job j (sv\<lparr>sv_fs := fs_write now ?p body fs1,
      sv_db := snd (CompleteArtifact flt (sv_db sv) (fj_artifact j) ?n (int (length body)))\<rparr>)"
    using path assms(9) by (simp add: store_dump_def Let_def)
  have "GetArtifact (io_faults w 2) (sv_db ?sv1) (hr_id r) =
      Inr (art\<lparr>da_filename := ?n, da_bytes := int (length body), da_status := ''ready''\<rparr>)"
    using completed_row [where flt = flt, OF assms(8,11)] assms(12,14) by (simp add: sv1 end_job_def)
  moreover have "path_base ?n = ?n" using n by (intro path_base_plain) (auto simp: plain_name_def)
  moreover have "fs_open (io_fs_fault w) ?p (sv_fs ?sv1) = Some body"
    using assms(13) by (simp add: sv1 end_job_def fs_open_def fs_write_def gm.look_put)
  moreover have "sv_dumpDir ?sv1 = sv_dumpDir sv" by (simp add: sv1 end_job_def)
  ultimately show ?thesis using assms(15) path
    by (simp add: handleDownloadArtifact_def Let_def)
qed

theorem dump_roundtrip_witness:
  "handleDownloadArtifact example_io
      (example_http\<lparr>hr_id := ''art00001'', hr_access := Some \<lparr>ac_User = Some (admin_row ''a'' ''ann''), ac_Permissions = [],
         ac_Projects = [], ac_Applications = []\<rparr>\<rparr>)
      (store_dump no_faults (\<lambda>_. False) [] 5 ''cpu-1'' ''data'' None None shop_job shop_server) =
    (respond 200 (FileBody ''shop_art00001_cpu-1'' 4 ''data''),
     store_dump no_faults (\<lambda>_. False) [] 5 ''cpu-1'' ''data'' None None shop_job shop_server)"
proof -
  let ?r = "example_http\<lparr>hr_id := ''art00001'', hr_access := Some \<lparr>ac_User = Some (admin_row ''a'' ''ann''), ac_Permissions = [],
         ac_Projects = [], ac_Applications = []\<rparr>\<rparr>"
  have fn: "dump_filename shop_job ''cpu-1'' = ''shop_art00001_cpu-1''"
    by (simp add: dump_filename_def shop_job_def shop_agent_def)
  have d: "dir_path [''d''] = ''/d''" "dir_path [''d'', ''shop_art00001_cpu-1''] = ''/d/shop_art00001_cpu-1''"
    by (simp_all add: dir_path_def)
  have jb: "fj_artifact shop_job = ''art00001''" "ag_service_name (fj_instance shop_job) = ''shop''" "\<not> no_faults 0"
      "io_faults example_io 2 = no_faults" "io_fs_fault example_io = (\<lambda>_. False)"
      "da_service_name (new_artifact x1 x2 x3 x4 x5 x6) = x4" for x1 x2 x3 x4 x5 x6
    by (simp_all add: shop_job_def shop_agent_def example_io_def no_faults_def new_artifact_def)
  have "GetArtifact no_faults (sv_db shop_server) (fj_artifact shop_job) = Inr (new_artifact ''art00001'' 0 ''i'' ''shop'' ''cpu'' ''ann'')"
    by (simp add: GetArtifact_def no_faults_def shop_server_def new_server_def new_artifact_def shop_job_def)
  moreover have "allows (scopeFor ?r) x" for x
    by (simp add: scopeFor_def SeesEverything_def allows_def admin_row_def example_http_def)
  moreover have "\<not> job_cancelled shop_job shop_server" by (simp add: job_cancelled_def shop_server_def new_server_def)
  moreover have "sv_dumpDir shop_server = ''/d''" "fs_dirs (sv_fs shop_server) = [''/'', ''/d'']"
    by (simp_all add: shop_server_def new_server_def dump_fs_def)
  ultimately show ?thesis
    using dump_roundtrip [of "[''d'']" shop_server shop_job "''cpu-1''" no_faults "\<lambda>_. False"
        "new_artifact ''art00001'' 0 ''i'' ''shop'' ''cpu'' ''ann''" example_io ?r "[]" 5 "''data''"]
    by (simp add: fn d jb clean_dir_def plain_name_def Let_def)
qed

text \<open>The name of the file is taken from the agent's answer without its directories removed, so an
  agent that answers with a path writes the dump outside the dump directory, wherever the process
  may write; reading and deleting look only below the dump directory and never find the file.\<close>

theorem dump_name_escapes:
  "\<exists>sv j created. dumps_ok sv \<and> sv_dumpDir sv = ''/d'' \<and> j \<in> set (sv_jobs sv)
     \<and> (let sv1 = store_dump no_faults (\<lambda>_. False) [] 5 created ''data'' None None j sv in
          map_option fl_data (file_at sv1 ''/etc/x'') = Some ''data'' \<and> file_at sv ''/etc/x'' = None
          \<and> rp_status (fst (handleDownloadArtifact example_io
               (example_http\<lparr>hr_id := fj_artifact j, hr_access := Some \<lparr>ac_User = Some (admin_row ''a'' ''ann''),
                  ac_Permissions = [], ac_Projects = [], ac_Applications = []\<rparr>\<rparr>) sv1)) = 404)"
proof -
  let ?sv = "shop_server\<lparr>sv_fs := \<lparr>fs_files = [], fs_dirs = [''/'', ''/d'', ''/etc'']\<rparr>\<rparr>"
  let ?c = "''/../../etc/x''"
  let ?r = "example_http\<lparr>hr_id := fj_artifact shop_job, hr_access := Some \<lparr>ac_User = Some (admin_row ''a'' ''ann''),
                  ac_Permissions = [], ac_Projects = [], ac_Applications = []\<rparr>\<rparr>"
  let ?sv1 = "store_dump no_faults (\<lambda>_. False) [] 5 ?c ''data'' None None shop_job ?sv"
  have fn: "dump_filename shop_job ?c = ''shop_art00001_/../../etc/x''"
    by (simp add: dump_filename_def shop_job_def shop_agent_def)
  have path: "path_join [sv_dumpDir ?sv, dump_filename shop_job ?c] = ''/etc/x''"
    unfolding fn by (simp add: shop_server_def new_server_def path_eval)
  have cr: "fs_create (\<lambda>_. False) 5 ''/etc/x'' (sv_fs ?sv) =
      Some ((sv_fs ?sv)\<lparr>fs_files := [(''/etc/x'', \<lparr>fl_data = [], fl_mtime = 5\<rparr>)]\<rparr>)"
    by (simp add: fs_create_def fs_parent_def Let_def)
  have nc: "\<not> job_cancelled shop_job ?sv" by (simp add: job_cancelled_def shop_server_def new_server_def)
  have sv1: "?sv1 = end_job shop_job (?sv\<lparr>sv_fs := (sv_fs ?sv)\<lparr>fs_files := [(''/etc/x'', \<lparr>fl_data = ''data'', fl_mtime = 5\<rparr>)]\<rparr>,
      sv_db := snd (CompleteArtifact no_faults (sv_db ?sv) (fj_artifact shop_job) (dump_filename shop_job ?c) 4)\<rparr>)"
    unfolding store_dump_def Let_def path cr using nc by (simp add: fs_write_def)
  have "GetArtifact no_faults (sv_db ?sv) (fj_artifact shop_job) = Inr (new_artifact ''art00001'' 0 ''i'' ''shop'' ''cpu'' ''ann'')"
    by (simp add: GetArtifact_def no_faults_def shop_server_def new_server_def new_artifact_def shop_job_def)
  from completed_row [where flt = no_faults, OF _ this]
  have "GetArtifact no_faults (sv_db ?sv1) (fj_artifact shop_job) = Inr ((new_artifact ''art00001'' 0 ''i'' ''shop'' ''cpu'' ''ann'')
      \<lparr>da_filename := dump_filename shop_job ?c, da_bytes := 4, da_status := ''ready''\<rparr>)"
    by (simp add: sv1 end_job_def no_faults_def)
  moreover have "path_base (dump_filename shop_job ?c) = ''x''"
    using path_base_child [of "''x''" "''shop_art00001_/../../etc''"] by (simp add: fn)
  moreover have "sv_dumpDir ?sv1 = ''/d''" unfolding sv1 by (simp add: end_job_def shop_server_def new_server_def)
  moreover have "path_join [''/d'', ''x''] = ''/d/x''" by (simp add: path_eval)
  moreover have "allows (scopeFor ?r) x" for x
    by (simp add: scopeFor_def SeesEverything_def allows_def admin_row_def example_http_def)
  moreover have "fs_open (\<lambda>_. False) ''/d/x'' (sv_fs ?sv1) = None" by (simp add: sv1 end_job_def fs_open_def)
  ultimately have "rp_status (fst (handleDownloadArtifact example_io ?r ?sv1)) = 404"
    by (simp add: handleDownloadArtifact_def example_io_def writeErrorCode_def respond_def)
  moreover have "map_option fl_data (file_at ?sv1 ''/etc/x'') = Some ''data''" by (simp add: sv1 end_job_def file_at_def)
  moreover have "dumps_ok ?sv" using shop_server_ok(1) by (simp add: dumps_ok_def)
  moreover have "sv_dumpDir ?sv = ''/d''" "shop_job \<in> set (sv_jobs ?sv)" "file_at ?sv ''/etc/x'' = None"
    by (simp_all add: shop_server_def new_server_def file_at_def)
  ultimately show ?thesis unfolding Let_def by blast
qed

end
