(* ===== verification/Admin.thy ===== *)
theory Admin
  imports Auth
begin

text \<open>
  internal/api/admin.go: the control plane, users, role groups, projects and the assignment of
  applications. Each handler takes the decoded body (\<open>Inl\<close> is the error of \<open>decodeJSON\<close>) and calls
  the store one statement after the other; nothing spans two calls. The identifier in the path is
  compared as text in Go and as a UUID by the database, which reads several spellings of one.
\<close>

definition path_id :: "io \<Rightarrow> request \<Rightarrow> string" where
  "path_id w r = io_uuid w (hr_id r)"

definition handleListPermissions :: handler where
  "handleListPermissions r sv = (respond 200 (PermissionsBody AllPermissions), sv)"

text \<open>The services seen in telemetry, and the projects each is assigned to.\<close>

definition assigned_projects :: "(project_row \<times> string list \<times> (string \<times> string) list) list \<Rightarrow> string \<Rightarrow> string list" where
  "assigned_projects ps svc =
     concat (map (\<lambda>(p, apps, gs). concat (map (\<lambda>a. if a = svc then [pj_name p] else []) apps)) ps)"

definition handleDiscoveredApplications :: "io \<Rightarrow> (string \<times> u64 \<times> time) rows \<Rightarrow> handler" where
  "handleDiscoveredApplications w q r sv =
     (case q of
        QueryError e \<Rightarrow> (writeError 500 e, sv)
      | Rows rs \<Rightarrow>
          (case ListProjects (io_faults w 2) (io_ord_projects w) (io_ord_groups w) (io_ord_strings w) (sv_db sv) of
             Inl e \<Rightarrow> (writeError 500 (error_text e), sv)
           | Inr ps \<Rightarrow>
               (case scan_rows rs of
                  Inl e \<Rightarrow> (writeError 500 e, sv)
                | Inr xs \<Rightarrow> (respond 200 (DiscoveredBody
                    (map (\<lambda>(svc, calls, seen). (svc, calls, seen, assigned_projects ps svc)) xs)), sv))))"

section \<open>Users\<close>

definition handleListUsers :: "io \<Rightarrow> handler" where
  "handleListUsers w r sv =
     (case ListUsers (io_faults w 2) (io_ord_users w) (io_ord_groups w) (sv_db sv) of
        Inl e \<Rightarrow> (writeError 500 (error_text e), sv)
      | Inr us \<Rightarrow> (respond 200 (UsersBody us), sv))"

record create_user_request =
  cu_email :: string
  cu_name :: string
  cu_password :: string
  cu_isSuperAdmin :: bool
  cu_roleGroupIds :: "string list"

definition handleCreateUser :: "io \<Rightarrow> string + create_user_request \<Rightarrow> handler" where
  "handleCreateUser w body r sv =
     (case body of
        Inl e \<Rightarrow> (writeError 400 e, sv)
      | Inr q \<Rightarrow>
          (case CreateUser (io_env w) (io_faults w 2) (io_random w 2) (io_clock w 2) (sv_db sv) (cu_email q) (cu_name q)
                  (cu_password q) (cu_isSuperAdmin q) of
             (Inl e, db1) \<Rightarrow> (writeIdentityError e, sv\<lparr>sv_db := db1\<rparr>)
           | (Inr u, db1) \<Rightarrow>
               (case SetUserRoleGroups (io_faults w 3) db1 (us_id u) (cu_roleGroupIds q) of
                  (Inl e, db2) \<Rightarrow> (writeError 500 (error_text e), sv\<lparr>sv_db := db2\<rparr>)
                | (Inr (), db2) \<Rightarrow> (respond 201 (UserBody u), sv\<lparr>sv_db := db2\<rparr>))))"

record update_user_request =
  uu_name :: string
  uu_isActive :: bool
  uu_isSuperAdmin :: bool
  uu_roleGroupIds :: "string list"

definition handleUpdateUser :: "io \<Rightarrow> string + update_user_request \<Rightarrow> handler" where
  "handleUpdateUser w body r sv =
     (case body of
        Inl e \<Rightarrow> (writeError 400 e, sv)
      | Inr q \<Rightarrow>
          (case UpdateUser (io_faults w 2) (io_clock w 2) (sv_db sv) (path_id w r) (uu_name q) (uu_isActive q) (uu_isSuperAdmin q) of
             (Inl e, db1) \<Rightarrow> (writeIdentityError e, sv\<lparr>sv_db := db1\<rparr>)
           | (Inr u, db1) \<Rightarrow>
               (case SetUserRoleGroups (io_faults w 3) db1 (path_id w r) (uu_roleGroupIds q) of
                  (Inl e, db2) \<Rightarrow> (writeError 500 (error_text e), sv\<lparr>sv_db := db2\<rparr>)
                | (Inr (), db2) \<Rightarrow> (respond 200 (UserBody u), sv\<lparr>sv_db := db2\<rparr>))))"

definition handleResetPassword :: "io \<Rightarrow> string + string \<Rightarrow> handler" where
  "handleResetPassword w body r sv =
     (case body of
        Inl e \<Rightarrow> (writeError 400 e, sv)
      | Inr password \<Rightarrow>
          (case SetPassword (io_env w) (io_faults w 2) (io_clock w 2) (sv_db sv) (path_id w r) password of
             (Inl e, db1) \<Rightarrow> (writeIdentityError e, sv\<lparr>sv_db := db1\<rparr>)
           | (Inr (), db1) \<Rightarrow> (respond 204 NoBody, sv\<lparr>sv_db := db1\<rparr>)))"

definition handleDeleteUser :: "io \<Rightarrow> handler" where
  "handleDeleteUser w r sv =
     (if hr_id r = us_id (access_user r)
      then (writeErrorCode 400 ''you cannot delete your own account'' ''self_delete'', sv)
      else case DeleteUser (io_faults w 2) (sv_db sv) (path_id w r) of
        (Inl e, db1) \<Rightarrow> (writeIdentityError e, sv\<lparr>sv_db := db1\<rparr>)
      | (Inr (), db1) \<Rightarrow> (respond 204 NoBody, sv\<lparr>sv_db := db1\<rparr>))"

section \<open>Role groups\<close>

definition handleListRoleGroups :: "io \<Rightarrow> handler" where
  "handleListRoleGroups w r sv =
     (case ListRoleGroups (io_faults w 2) (io_ord_groups w) (sv_db sv) of
        Inl e \<Rightarrow> (writeError 500 (error_text e), sv)
      | Inr gs \<Rightarrow> (respond 200 (GroupsBody gs), sv))"

record role_group_request =
  rg_name :: string
  rg_description :: string
  rg_permissions :: "permission list"

definition handleCreateRoleGroup :: "io \<Rightarrow> string + role_group_request \<Rightarrow> handler" where
  "handleCreateRoleGroup w body r sv =
     (case body of
        Inl e \<Rightarrow> (writeError 400 e, sv)
      | Inr q \<Rightarrow>
          (case CreateRoleGroup (io_env w) (io_faults w 2) (io_random w 2) (io_clock w 2) (sv_db sv) (rg_name q)
                  (rg_description q) (rg_permissions q) of
             (Inl e, db1) \<Rightarrow> (writeIdentityError e, sv\<lparr>sv_db := db1\<rparr>)
           | (Inr g, db1) \<Rightarrow> (respond 201 (GroupBody g), sv\<lparr>sv_db := db1\<rparr>)))"

definition handleUpdateRoleGroup :: "io \<Rightarrow> string + role_group_request \<Rightarrow> handler" where
  "handleUpdateRoleGroup w body r sv =
     (case body of
        Inl e \<Rightarrow> (writeError 400 e, sv)
      | Inr q \<Rightarrow>
          (case UpdateRoleGroup (io_env w) (io_faults w 2) (sv_db sv) (path_id w r) (rg_name q) (rg_description q) (rg_permissions q) of
             (Inl e, db1) \<Rightarrow> (writeIdentityError e, sv\<lparr>sv_db := db1\<rparr>)
           | (Inr g, db1) \<Rightarrow> (respond 200 (GroupBody g), sv\<lparr>sv_db := db1\<rparr>)))"

definition handleDeleteRoleGroup :: "io \<Rightarrow> handler" where
  "handleDeleteRoleGroup w r sv =
     (case DeleteRoleGroup (io_faults w 2) (sv_db sv) (path_id w r) of
        (Inl e, db1) \<Rightarrow> (writeIdentityError e, sv\<lparr>sv_db := db1\<rparr>)
      | (Inr (), db1) \<Rightarrow> (respond 204 NoBody, sv\<lparr>sv_db := db1\<rparr>))"

section \<open>Projects\<close>

definition handleListProjects :: "io \<Rightarrow> handler" where
  "handleListProjects w r sv =
     (case ListProjects (io_faults w 2) (io_ord_projects w) (io_ord_groups w) (io_ord_strings w) (sv_db sv) of
        Inl e \<Rightarrow> (writeError 500 (error_text e), sv)
      | Inr ps \<Rightarrow> (respond 200 (ProjectsBody ps), sv))"

record create_project_request =
  cp_key :: string
  cp_name :: string
  cp_description :: string

definition handleCreateProject :: "io \<Rightarrow> string + create_project_request \<Rightarrow> handler" where
  "handleCreateProject w body r sv =
     (case body of
        Inl e \<Rightarrow> (writeError 400 e, sv)
      | Inr q \<Rightarrow>
          (case CreateProject (io_env w) (io_faults w 2) (io_random w 2) (io_clock w 2) (sv_db sv) (cp_key q) (cp_name q)
                  (cp_description q) of
             (Inl e, db1) \<Rightarrow> (writeIdentityError e, sv\<lparr>sv_db := db1\<rparr>)
           | (Inr p, db1) \<Rightarrow> (respond 201 (ProjectBody p), sv\<lparr>sv_db := db1\<rparr>)))"

record update_project_request =
  up_name :: string
  up_description :: string
  up_applications :: "string list"
  up_roleGroupIds :: "string list"

definition handleUpdateProject :: "io \<Rightarrow> string + update_project_request \<Rightarrow> handler" where
  "handleUpdateProject w body r sv =
     (case body of
        Inl e \<Rightarrow> (writeError 400 e, sv)
      | Inr q \<Rightarrow>
          (case UpdateProject (io_faults w 2) (sv_db sv) (path_id w r) (up_name q) (up_description q) of
             (Inl e, db1) \<Rightarrow> (writeIdentityError e, sv\<lparr>sv_db := db1\<rparr>)
           | (Inr p, db1) \<Rightarrow>
               (case SetProjectApplications (io_faults w 3) db1 (path_id w r) (up_applications q) of
                  (Inl e, db2) \<Rightarrow> (writeError 500 (error_text e), sv\<lparr>sv_db := db2\<rparr>)
                | (Inr (), db2) \<Rightarrow>
                    (case SetProjectRoleGroups (io_faults w 4) db2 (path_id w r) (up_roleGroupIds q) of
                       (Inl e, db3) \<Rightarrow> (writeError 500 (error_text e), sv\<lparr>sv_db := db3\<rparr>)
                     | (Inr (), db3) \<Rightarrow> (respond 200 (ProjectBody p), sv\<lparr>sv_db := db3\<rparr>)))))"

definition handleDeleteProject :: "io \<Rightarrow> handler" where
  "handleDeleteProject w r sv =
     (case DeleteProject (io_faults w 2) (sv_db sv) (path_id w r) of
        (Inl e, db1) \<Rightarrow> (writeIdentityError e, sv\<lparr>sv_db := db1\<rparr>)
      | (Inr (), db1) \<Rightarrow> (respond 204 NoBody, sv\<lparr>sv_db := db1\<rparr>))"

end
