(* ===== verification/AdminProps.thy ===== *)
theory AdminProps
  imports Admin
begin

text \<open>
  What the control plane's handlers achieve: saving a project, and where the handlers fall short of
  what they mean to do, when one of several statements fails and when an identifier is spelled in
  another way.
\<close>

lemma project_update_row:
  assumes "UpdateProject flt db pid name description = (Inr p, db1)"
  shows "p \<in> set (db_projects db1) \<and> pj_id p = pid \<and> pj_name p = trim_space name \<and> pj_description p = trim_space description
    \<and> db_project_applications db1 = db_project_applications db \<and> db_project_role_groups db1 = db_project_role_groups db"
proof -
  let ?ps = "map (\<lambda>p. if pj_id p = pid then p\<lparr>pj_name := trim_space name, pj_description := trim_space description\<rparr> else p) (db_projects db)"
  have db1: "db1 = db\<lparr>db_projects := ?ps\<rparr>" using assms by (simp add: UpdateProject_def Let_def split: if_splits)
  have "scan_project (find (\<lambda>p. pj_id p = pid) ?ps) = Inr p"
    using assms by (simp add: UpdateProject_def Let_def split: if_splits)
  then have f: "find (\<lambda>p. pj_id p = pid) ?ps = Some p" unfolding scan_project_def by (simp split: option.splits)
  have m: "p \<in> set ?ps" "pj_id p = pid" using findD [OF f] by blast+
  from m(1) obtain x where x: "x \<in> set (db_projects db)"
    "p = (if pj_id x = pid then x\<lparr>pj_name := trim_space name, pj_description := trim_space description\<rparr> else x)"
    unfolding set_map by (elim imageE)
  with m(2) have "pj_id x = pid" by (simp split: if_splits)
  with x m show ?thesis unfolding db1 by (simp del: set_map)
qed

lemma replaced_set:
  assumes "insert_pairs flt n fk owner xs (filter (\<lambda>(a, b). a \<noteq> owner) rs) = (None, rs')" "distinct rs"
  shows "set rs' = {p \<in> set rs. fst p \<noteq> owner} \<union> {owner} \<times> set xs"
proof -
  have "distinct (filter (\<lambda>(a, b). a \<noteq> owner) rs)" using assms(2) by simp
  from insert_pairs_spec [OF assms(1) this] show ?thesis by auto
qed

lemma applications_replaced:
  assumes "SetProjectApplications flt db pid services = (Inr (), db1)" "distinct (db_project_applications db)"
  shows "set (db_project_applications db1) = {p \<in> set (db_project_applications db). fst p \<noteq> pid}
      \<union> {pid} \<times> set (filter (\<lambda>s. s \<noteq> []) (map NormalizeServiceName services))
    \<and> db_projects db1 = db_projects db \<and> db_project_role_groups db1 = db_project_role_groups db"
proof -
  obtain rs where "insert_pairs flt 3 (\<lambda>s. has_id pj_id (db_projects db) pid) pid (filter (\<lambda>s. s \<noteq> []) (map NormalizeServiceName services))
      (filter (\<lambda>(a, b). a \<noteq> pid) (db_project_applications db)) = (None, rs)" "db1 = db\<lparr>db_project_applications := rs\<rparr>"
    using assms(1) by (auto simp: SetProjectApplications_def inTx_def split: if_splits prod.splits option.splits)
  with replaced_set [OF this(1) assms(2)] show ?thesis by simp
qed

lemma groups_replaced:
  assumes "SetProjectRoleGroups flt db pid gids = (Inr (), db1)" "distinct (db_project_role_groups db)"
  shows "set (db_project_role_groups db1) = {p \<in> set (db_project_role_groups db). fst p \<noteq> pid} \<union> {pid} \<times> set gids
    \<and> db_projects db1 = db_projects db \<and> db_project_applications db1 = db_project_applications db"
proof -
  obtain rs where "insert_pairs flt 3 (\<lambda>g. has_id pj_id (db_projects db) pid \<and> has_id gr_id (db_role_groups db) g) pid gids
      (filter (\<lambda>(a, b). a \<noteq> pid) (db_project_role_groups db)) = (None, rs)" "db1 = db\<lparr>db_project_role_groups := rs\<rparr>"
    using assms(1) by (auto simp: SetProjectRoleGroups_def inTx_def split: if_splits prod.splits option.splits)
  with replaced_set [OF this(1) assms(2)] show ?thesis by simp
qed

text \<open>Saving a project does what the form says: when the answer is 200 the project has the given
  name and description, exactly the given applications and role groups, and no other project's
  assignments have changed.\<close>

theorem project_saved:
  assumes "id_ok env (sv_db sv)" "handleUpdateProject w (Inr q) r sv = (rp, sv1)" "rp_status rp = 200"
  shows "(\<exists>p \<in> set (db_projects (sv_db sv1)). pj_id p = path_id w r \<and> pj_name p = trim_space (up_name q)
        \<and> pj_description p = trim_space (up_description q))
    \<and> set (db_project_applications (sv_db sv1)) = {p \<in> set (db_project_applications (sv_db sv)). fst p \<noteq> path_id w r}
        \<union> {path_id w r} \<times> {s. s \<noteq> [] \<and> s \<in> trim_space ` set (up_applications q)}
    \<and> set (db_project_role_groups (sv_db sv1)) = {p \<in> set (db_project_role_groups (sv_db sv)). fst p \<noteq> path_id w r}
        \<union> {path_id w r} \<times> set (up_roleGroupIds q)"
proof -
  have e: "rp_status (writeIdentityError x) \<noteq> 200" "rp_status (writeError 500 m) \<noteq> 200" for x m
    by (cases x) (simp_all add: writeIdentityError_def writeErrorCode_def writeError_def respond_def)
  let ?i = "path_id w r"
  obtain x1 db1 where u': "UpdateProject (io_faults w 2) (sv_db sv) ?i (up_name q) (up_description q) = (x1, db1)" by fastforce
  with assms(2,3) e obtain p where u: "UpdateProject (io_faults w 2) (sv_db sv) ?i (up_name q) (up_description q) = (Inr p, db1)"
    by (cases x1) (auto simp: handleUpdateProject_def)
  obtain x2 db2 where a': "SetProjectApplications (io_faults w 3) db1 ?i (up_applications q) = (x2, db2)" by fastforce
  with assms(2,3) e u have a: "SetProjectApplications (io_faults w 3) db1 ?i (up_applications q) = (Inr (), db2)"
    by (cases x2) (auto simp: handleUpdateProject_def split: unit.splits)
  obtain x3 db3 where g': "SetProjectRoleGroups (io_faults w 4) db2 ?i (up_roleGroupIds q) = (x3, db3)" by fastforce
  with assms(2,3) e u a have g: "SetProjectRoleGroups (io_faults w 4) db2 ?i (up_roleGroupIds q) = (Inr (), db3)"
    by (cases x3) (auto simp: handleUpdateProject_def split: unit.splits)
  have sv1: "sv_db sv1 = db3" using assms(2) u a g by (auto simp: handleUpdateProject_def split: unit.splits)
  note u1 = project_update_row [OF u]
  have d: "distinct (db_project_applications db1)" "distinct (db_project_role_groups db2)"
    using assms(1) u1 applications_replaced [OF a] by (simp_all add: id_ok_def pairs_ok_def)
  have "p \<in> set (db_projects db3)" using u1 applications_replaced [OF a d(1)] groups_replaced [OF g d(2)] by simp
  moreover have "set (filter (\<lambda>s. s \<noteq> []) (map NormalizeServiceName (up_applications q))) =
      {s. s \<noteq> [] \<and> s \<in> trim_space ` set (up_applications q)}"
    by (auto simp: NormalizeServiceName_def)
  ultimately show ?thesis
    using u1 applications_replaced [OF a d(1)] groups_replaced [OF g d(2)] by (auto simp: sv1)
qed

definition mixed_server :: api_server where
  "mixed_server = new_server mixed_roles ''/d'' \<lparr>fs_files = [], fs_dirs = []\<rparr>"

abbreviation save_pay :: update_project_request where
  "save_pay \<equiv> \<lparr>up_name = ''Pay'', up_description = [], up_applications = [''shop'', '' shop''], up_roleGroupIds = [''x'']\<rparr>"

lemma shop_trimmed: "trim_space ''shop'' = ''shop''" "trim_space '' shop'' = ''shop''" "trim_space ''Pay'' = ''Pay''" "trim_space [] = []"
  by (simp_all add: trim_eval)

lemma save_steps:
  "UpdateProject no_faults (sv_db mixed_server) ''pay'' ''Pay'' [] =
     (Inr ((project_of ''pay'')\<lparr>pj_name := ''Pay''\<rparr>),
      mixed_roles\<lparr>db_projects := [(project_of ''pay'')\<lparr>pj_name := ''Pay''\<rparr>, project_of ''web'']\<rparr>)"
  "SetProjectApplications no_faults (mixed_roles\<lparr>db_projects := [(project_of ''pay'')\<lparr>pj_name := ''Pay''\<rparr>, project_of ''web'']\<rparr>)
     ''pay'' [''shop'', '' shop''] =
     (Inr (), mixed_roles\<lparr>db_projects := [(project_of ''pay'')\<lparr>pj_name := ''Pay''\<rparr>, project_of ''web''],
                db_project_applications := [(''web'', ''shop''), (''pay'', ''shop'')]\<rparr>)"
  "SetProjectRoleGroups no_faults (mixed_roles\<lparr>db_projects := [(project_of ''pay'')\<lparr>pj_name := ''Pay''\<rparr>, project_of ''web''],
                db_project_applications := [(''web'', ''shop''), (''pay'', ''shop'')]\<rparr>) ''pay'' [''x''] =
     (Inr (), mixed_roles\<lparr>db_projects := [(project_of ''pay'')\<lparr>pj_name := ''Pay''\<rparr>, project_of ''web''],
                db_project_applications := [(''web'', ''shop''), (''pay'', ''shop'')],
                db_project_role_groups := [(''web'', ''x''), (''pay'', ''x'')]\<rparr>)"
  "SetProjectRoleGroups no_faults (mixed_roles\<lparr>db_projects := [(project_of ''pay'')\<lparr>pj_name := ''Pay''\<rparr>, project_of ''web''],
                db_project_applications := [(''web'', ''shop''), (''pay'', ''shop'')]\<rparr>) ''pay'' [''gone''] =
     (Inl ErrDb, mixed_roles\<lparr>db_projects := [(project_of ''pay'')\<lparr>pj_name := ''Pay''\<rparr>, project_of ''web''],
                db_project_applications := [(''web'', ''shop''), (''pay'', ''shop'')]\<rparr>)"
  by (simp_all add: UpdateProject_def SetProjectApplications_def SetProjectRoleGroups_def inTx_def no_faults_def
      mixed_server_def new_server_def mixed_roles_def project_of_def group_of_def has_id_def NormalizeServiceName_def
      scan_project_def shop_trimmed Let_def empty_idb_def)

theorem project_saved_witness:
  "set (db_project_applications (sv_db (snd (handleUpdateProject example_io (Inr save_pay) (example_http\<lparr>hr_id := ''pay''\<rparr>) mixed_server))))
     = {(''web'', ''shop''), (''pay'', ''shop'')}"
proof -
  let ?r = "example_http\<lparr>hr_id := ''pay''\<rparr>"
  have ok: "id_ok example_env (sv_db mixed_server)" using mixed_roles_ok by (simp add: mixed_server_def new_server_def)
  obtain rp sv1 where h: "handleUpdateProject example_io (Inr save_pay) ?r mixed_server = (rp, sv1)" by fastforce
  have "rp_status (fst (handleUpdateProject example_io (Inr save_pay) ?r mixed_server)) = 200"
    using save_steps by (simp add: handleUpdateProject_def example_io_def path_id_def respond_def split: unit.split)
  with h have "rp_status rp = 200" by simp
  note saved = project_saved [OF ok h this, THEN conjunct2, THEN conjunct1]
  have ap: "db_project_applications (sv_db mixed_server) = [(''pay'', ''ledger''), (''web'', ''shop'')]"
    and pid: "path_id example_io ?r = ''pay''" and up: "up_applications save_pay = [''shop'', '' shop'']"
    by (simp_all add: mixed_server_def new_server_def mixed_roles_def path_id_def example_io_def)
  have tr: "{s. s \<noteq> [] \<and> s \<in> trim_space ` set [''shop'', '' shop'']} = {''shop''}" by (auto simp: shop_trimmed)
  have "set (db_project_applications (sv_db sv1)) =
      {p \<in> set [(''pay'', ''ledger''), (''web'', ''shop'')]. fst p \<noteq> ''pay''} \<union> {''pay''} \<times> {''shop''}"
    using saved unfolding ap pid up tr .
  also have "\<dots> = {(''web'', ''shop''), (''pay'', ''shop'')}" by auto
  finally show ?thesis using h by simp
qed

text \<open>Saving a project is three statements without a transaction around them: with one role group
  that does not exist the answer is an error, and yet the name and the applications are the new
  ones.\<close>

theorem project_save_not_atomic:
  "rp_status (fst (handleUpdateProject example_io (Inr (save_pay\<lparr>up_roleGroupIds := [''gone'']\<rparr>)) (example_http\<lparr>hr_id := ''pay''\<rparr>) mixed_server)) = 500
   \<and> sv_db (snd (handleUpdateProject example_io (Inr (save_pay\<lparr>up_roleGroupIds := [''gone'']\<rparr>)) (example_http\<lparr>hr_id := ''pay''\<rparr>) mixed_server))
      = mixed_roles\<lparr>db_projects := [(project_of ''pay'')\<lparr>pj_name := ''Pay''\<rparr>, project_of ''web''],
                    db_project_applications := [(''web'', ''shop''), (''pay'', ''shop'')]\<rparr>"
  using save_steps by (simp add: handleUpdateProject_def example_io_def path_id_def writeError_def respond_def split: unit.splits)

text \<open>The guard against deleting one's own account compares texts where the database compares
  identifiers: written in capitals the same identifier passes the guard, and the account is gone
  together with the session.\<close>

theorem self_delete_by_spelling:
  "let r = example_http\<lparr>hr_access := Some \<lparr>ac_User = Some (admin_row ''a'' ''ann''), ac_Permissions = [], ac_Projects = [],
             ac_Applications = []\<rparr>\<rparr>;
       w = example_io\<lparr>io_uuid := to_lower\<rparr>
   in rp_status (fst (handleDeleteUser w (r\<lparr>hr_id := ''a''\<rparr>) ann_server)) = 400
    \<and> rp_status (fst (handleDeleteUser w (r\<lparr>hr_id := ''A''\<rparr>) ann_server)) = 204
    \<and> db_users (sv_db (snd (handleDeleteUser w (r\<lparr>hr_id := ''A''\<rparr>) ann_server))) = [admin_row ''b'' ''bob'']"
proof -
  have "to_lower ''A'' = ''a''" by code_simp
  then show ?thesis
    by (simp add: handleDeleteUser_def path_id_def access_user_def DeleteUser_def isLastActiveAdmin_def find_user_def
        is_active_admin_def has_id_def delete_user_rows_def ann_server_def new_server_def two_admins_def admin_row_def
        example_io_def example_http_def no_faults_def writeErrorCode_def respond_def Let_def
        split: unit.split)
qed

end
