(* ===== verification/GoTime.thy ===== *)
theory GoTime
  imports GoStrings
begin

text \<open>
  The functions of package time the program reads durations with: \<open>time.ParseDuration\<close> as the
  package defines it (a fraction of a unit is computed exactly here and rounded down; the package
  goes through \<open>float64\<close>), and the saturating difference of two times. \<open>None\<close> is the error.
\<close>

fun leading_int :: "nat \<Rightarrow> string \<Rightarrow> (nat \<times> string) option" where
  "leading_int x [] = Some (x, [])"
| "leading_int x (c # cs) =
     (if \<not> is_digit c then Some (x, c # cs)
      else if 2 ^ 63 div 10 < x then None
      else let y = x * 10 + digit_value c in if 2 ^ 63 < y then None else leading_int y cs)"

text \<open>The digits after the point and their power of ten; digits past the range are skipped.\<close>

fun leading_fraction :: "nat \<Rightarrow> nat \<Rightarrow> bool \<Rightarrow> string \<Rightarrow> nat \<times> nat \<times> string" where
  "leading_fraction x scale overflow [] = (x, scale, [])"
| "leading_fraction x scale overflow (c # cs) =
     (if \<not> is_digit c then (x, scale, c # cs)
      else if overflow \<or> (2 ^ 63 - 1) div 10 < x \<or> 2 ^ 63 < x * 10 + digit_value c
      then leading_fraction x scale True cs
      else leading_fraction (x * 10 + digit_value c) (scale * 10) False cs)"

definition duration_units :: "(string \<times> nat) list" where
  "duration_units = [(''ns'', 1), (''us'', 10 ^ 3), ([CHR 0xC2, CHR 0xB5, CHR ''s''], 10 ^ 3),
     ([CHR 0xCE, CHR 0xBC, CHR ''s''], 10 ^ 3), (''ms'', 10 ^ 6), (''s'', 10 ^ 9),
     (''m'', 60 * 10 ^ 9), (''h'', 3600 * 10 ^ 9)]"

definition unit_char :: "char \<Rightarrow> bool" where
  "unit_char c \<longleftrightarrow> c \<noteq> CHR ''.'' \<and> \<not> is_digit c"

text \<open>One number with its unit: the nanoseconds and what follows.\<close>

definition duration_term :: "string \<Rightarrow> (nat \<times> string) option" where
  "duration_term s =
     (case s of
        [] \<Rightarrow> None
      | c # cs \<Rightarrow>
          if \<not> (c = CHR ''.'' \<or> is_digit c) then None
          else case leading_int 0 s of
            None \<Rightarrow> None
          | Some (v, s1) \<Rightarrow>
              let pre = (length s1 \<noteq> length s);
                  (f, scale, s2) = (if s1 \<noteq> [] \<and> hd s1 = CHR ''.'' then leading_fraction 0 1 False (tl s1) else (0, 1, s1));
                  post = (s1 \<noteq> [] \<and> hd s1 = CHR ''.'' \<and> length s2 \<noteq> length (tl s1));
                  u = takeWhile unit_char s2; s3 = dropWhile unit_char s2
              in if \<not> pre \<and> \<not> post then None
                 else if u = [] then None
                 else case map_of duration_units u of
                   None \<Rightarrow> None
                 | Some unit \<Rightarrow>
                     if 2 ^ 63 div unit < v then None
                     else let v1 = v * unit + (f * unit) div scale in
                          if 2 ^ 63 < v1 then None else Some (v1, s3))"

lemma leading_int_rest: "leading_int x s = Some (y, t) \<Longrightarrow> length t \<le> length s"
  by (induction x s rule: leading_int.induct) (force simp: Let_def split: if_splits)+

lemma leading_fraction_rest: "leading_fraction x sc ov s = (y, sc', t) \<Longrightarrow> length t \<le> length s"
  by (induction x sc ov s rule: leading_fraction.induct) (force split: if_splits)+

lemma take_drop_while_less: "takeWhile P s \<noteq> [] \<Longrightarrow> length (dropWhile P s) < length s"
  by (cases s) (auto intro: le_imp_less_Suc length_dropWhile_le split: if_splits)

lemma duration_term_rest: "duration_term s = Some (v, t) \<Longrightarrow> length t < length s"
proof -
  assume "duration_term s = Some (v, t)"
  then obtain w s1 where l: "leading_int 0 s = Some (w, s1)"
    and r: "t = dropWhile unit_char (if s1 \<noteq> [] \<and> hd s1 = CHR ''.'' then snd (snd (leading_fraction 0 1 False (tl s1))) else s1)"
      "takeWhile unit_char (if s1 \<noteq> [] \<and> hd s1 = CHR ''.'' then snd (snd (leading_fraction 0 1 False (tl s1))) else s1) \<noteq> []"
    by (auto simp: duration_term_def Let_def case_prod_beta split: list.splits if_splits option.splits)
  let ?s2 = "if s1 \<noteq> [] \<and> hd s1 = CHR ''.'' then snd (snd (leading_fraction 0 1 False (tl s1))) else s1"
  have "length ?s2 \<le> length s1"
    using leading_fraction_rest [of 0 1 False "tl s1"] by (cases "leading_fraction 0 1 False (tl s1)") (auto intro: le_trans)
  moreover have "length t < length ?s2" unfolding r(1) by (rule take_drop_while_less [OF r(2)])
  ultimately show ?thesis using leading_int_rest [OF l] by (meson less_le_trans le_trans)
qed

function duration_sum :: "nat \<Rightarrow> string \<Rightarrow> nat option" where
  "duration_sum d s =
     (if s = [] then Some d
      else case duration_term s of
        None \<Rightarrow> None
      | Some (v, t) \<Rightarrow> if 2 ^ 63 < d + v then None else duration_sum (d + v) t)"
  by pat_completeness auto
termination
  by (relation "measure (\<lambda>(d, s). length s)") (auto dest: duration_term_rest)

declare duration_sum.simps [simp del]

definition parse_duration :: "string \<Rightarrow> int option" where
  "parse_duration s =
     (let signed = (s \<noteq> [] \<and> (hd s = CHR ''-'' \<or> hd s = CHR ''+'')); neg = (signed \<and> hd s = CHR ''-'');
          s1 = (if signed then tl s else s)
      in if s1 = ''0'' then Some 0
         else if s1 = [] then None
         else case duration_sum 0 s1 of
           None \<Rightarrow> None
         | Some d \<Rightarrow> if neg then Some (- int d) else if 2 ^ 63 - 1 < d then None else Some (int d))"

text \<open>\<open>Time.Sub\<close>: the difference, saturating at the range of a duration.\<close>

definition time_sub :: "int \<Rightarrow> int \<Rightarrow> int" where
  "time_sub t u = max (- (2 ^ 63)) (min (2 ^ 63 - 1) (t - u))"

section \<open>Facts\<close>

lemma duration_sum_bound: "duration_sum d s = Some r \<Longrightarrow> d \<le> 2 ^ 63 \<Longrightarrow> r \<le> 2 ^ 63"
proof (induction d s rule: duration_sum.induct)
  case (1 d s)
  from "1.prems"(1) show ?case
    unfolding duration_sum.simps [of d s]
    using "1.IH" "1.prems"(2) by (auto split: if_splits option.splits)
qed

text \<open>A parsed duration is a value of the type.\<close>

lemma parse_duration_range: "parse_duration s = Some d \<Longrightarrow> - (2 ^ 63) \<le> d \<and> d < 2 ^ 63"
  by (auto simp: parse_duration_def Let_def split: if_splits option.splits dest!: duration_sum_bound)

text \<open>Whole units are read back: digits and a unit give their product.\<close>

lemma leading_int_digits:
  "list_all is_digit ds \<Longrightarrow> \<not> is_digit c \<Longrightarrow> parse_digits x ds = Some n \<Longrightarrow> n \<le> 2 ^ 63 \<Longrightarrow>
    leading_int x (ds @ c # cs) = Some (n, c # cs)"
proof (induction ds arbitrary: x)
  case (Cons d ds)
  have grow: "m \<le> k" if "parse_digits m xs = Some k" for m k xs
    using that
  proof (induction m xs rule: parse_digits.induct)
    case (2 m e es)
    then show ?case by (fastforce split: if_splits)
  qed simp
  from Cons.prems have p: "parse_digits (10 * x + digit_value d) ds = Some n" "is_digit d" by auto
  from grow [OF p(1)] Cons.prems(4) have b: "x * 10 + digit_value d \<le> 2 ^ 63" by linarith
  then have "x \<le> 2 ^ 63 div 10" by simp
  with b p Cons show ?case by (simp add: Let_def mult.commute)
qed simp

lemma parse_duration_unit:
  assumes "map_of duration_units u = Some unit" "n \<le> 2 ^ 63 div unit" "n * unit < 2 ^ 63"
  shows "parse_duration (nat_string n @ u) = Some (int (n * unit))"
proof -
  have u: "u \<noteq> []" "list_all unit_char u" "\<not> is_digit (hd u)" "hd u \<noteq> CHR ''.''" "0 < unit"
    using assms(1) by (auto simp: duration_units_def unit_char_def is_digit_def split: if_splits)
  obtain c cs where c: "u = c # cs" using u(1) by (cases u) auto
  have "n \<le> 2 ^ 63" using assms(3) u(5) by (metis le_trans less_imp_le mult_le_mono2 nat_mult_1_right Suc_leI One_nat_def)
  moreover have "list_all is_digit (nat_string n)" using nat_string_digits by (auto simp: list_all_iff)
  ultimately have l: "leading_int 0 (nat_string n @ u) = Some (n, u)"
    using leading_int_digits [of "nat_string n" c 0 n cs] u(3) parse_digits_nat_string [of n] by (simp add: c)
  obtain d ds where d: "nat_string n = d # ds" by (cases "nat_string n") (use nat_string_nonempty [of n] in auto)
  then have dd: "is_digit d" using nat_string_digits [of d n] by simp
  have w: "takeWhile unit_char u = u" "dropWhile unit_char u = []"
    using u(2) by (auto simp: takeWhile_eq_all_conv list_all_iff)
  have t: "duration_term (nat_string n @ u) = Some (n * unit, [])"
    using l u assms d dd by (simp add: duration_term_def Let_def w del: leading_int.simps)
  have "nat_string n @ u \<noteq> []" "hd (nat_string n @ u) = d" using d by simp_all
  moreover have "d \<noteq> CHR ''-''" "d \<noteq> CHR ''+''" using dd by (auto simp: is_digit_def)
  moreover have "nat_string n @ u \<noteq> ''0''"
    using d u(1) by (cases ds) auto
  moreover have "duration_sum 0 (nat_string n @ u) = Some (n * unit)"
    using t calculation(1) assms(3) by (simp add: duration_sum.simps [of 0] duration_sum.simps [of _ "[]"])
  ultimately show ?thesis using assms(3) by (simp add: parse_duration_def Let_def)
qed

end
