(* ===== verification/Telemetry.thy ===== *)
theory Telemetry
  imports Authz GoTime
begin

text \<open>
  internal/api/server.go: the endpoints for services, operations and the topology. A handler
  composes a query from its time range, its scope and its parameters, and computes the answer from
  the rows. ClickHouse is a parameter: a function from what the handler composes to the rows; so is
  \<open>time.Parse\<close> of an RFC 3339 text. Rates and milliseconds are exact where Go rounds to \<open>float64\<close>.
\<close>

section \<open>Arithmetic\<close>

definition float_u64 :: "u64 \<Rightarrow> rat" where
  "float_u64 n = of_nat (unat n)"

definition ratio :: "u64 \<Rightarrow> u64 \<Rightarrow> rat" where
  "ratio part whole = (if whole = 0 then 0 else float_u64 part / float_u64 whole)"

definition avg :: "u64 \<Rightarrow> u64 \<Rightarrow> rat" where
  "avg durs cnt = (if cnt = 0 then 0 else float_u64 durs / float_u64 cnt)"

definition nsToMS :: "rat \<Rightarrow> rat" where
  "nsToMS ns = ns / 10 ^ 6"

definition quantileAt :: "rat list \<Rightarrow> nat \<Rightarrow> rat" where
  "quantileAt q i = (if i < length q then q ! i else 0)"

text \<open>The loop of \<open>histogramQuantile\<close> from bucket \<open>i\<close> on, with the count of the buckets before.\<close>

definition last_bound :: rat where
  "last_bound = of_nat (LatencyBounds ! (length LatencyBounds - 1))"

fun quantile_from :: "rat \<Rightarrow> nat \<Rightarrow> rat \<Rightarrow> u64 list \<Rightarrow> rat" where
  "quantile_from target i cum [] = last_bound"
| "quantile_from target i cum (c # cs) =
     (let prev = cum; cum1 = cum + float_u64 c in
      if cum1 < target then quantile_from target (Suc i) cum1 cs
      else if length LatencyBounds \<le> i then last_bound
      else
        let lower = (if 0 < i then of_nat (LatencyBounds ! (i - 1)) else 0); upper = of_nat (LatencyBounds ! i)
        in if c = 0 then upper else lower + (upper - lower) * ((target - prev) / float_u64 c))"

definition histogramQuantile :: "u64 list \<Rightarrow> rat \<Rightarrow> rat" where
  "histogramQuantile counts q =
     (let total = sum_list counts in
      if total = 0 then 0 else quantile_from (q * float_u64 total) 0 0 counts)"

section \<open>Parameters of a request\<close>

record telemetry_query =
  tq_from :: string
  tq_to :: string
  tq_service :: string
  tq_level :: string
  tq_minDurationMs :: string
  tq_onlyErrors :: string
  tq_limit :: string

definition timeRange :: "(string \<Rightarrow> time option) \<Rightarrow> time \<Rightarrow> telemetry_query \<Rightarrow> string + time \<times> time" where
  "timeRange parse now qp =
     (case (if tq_to qp = [] then Some now else parse (tq_to qp)) of
        None \<Rightarrow> Inl ''the to parameter must be RFC3339''
      | Some t \<Rightarrow>
          (case (if tq_from qp = [] then Some (t - 3600 * 10 ^ 9)
                 else case parse_duration (tq_from qp) of
                   Some d \<Rightarrow> Some (t + wrap_i64 (- d))
                 | None \<Rightarrow> parse (tq_from qp)) of
             None \<Rightarrow> Inl ''the from parameter must be RFC3339 or a duration (15m, 2h)''
           | Some f \<Rightarrow> if \<not> f < t then Inl ''from must be before to'' else Inr (f, t)))"

section \<open>Services\<close>

record service_row =
  sr_service :: string
  sr_ns :: string
  sr_wl :: string
  sr_calls :: u64
  sr_errs :: u64
  sr_durSum :: u64
  sr_durMax :: u64
  sr_q :: "rat list"

definition service_summary_of :: "rat \<Rightarrow> service_row \<Rightarrow> service_summary" where
  "service_summary_of window x = \<lparr>ss_Service = sr_service x, ss_Namespace = sr_ns x, ss_Workload = sr_wl x,
     ss_Calls = sr_calls x, ss_Errors = sr_errs x, ss_ErrorRate = ratio (sr_errs x) (sr_calls x),
     ss_RatePerSec = float_u64 (sr_calls x) / window, ss_AvgMS = nsToMS (avg (sr_durSum x) (sr_calls x)),
     ss_P50MS = nsToMS (quantileAt (sr_q x) 0), ss_P95MS = nsToMS (quantileAt (sr_q x) 1),
     ss_P99MS = nsToMS (quantileAt (sr_q x) 2), ss_MaxMS = nsToMS (float_u64 (sr_durMax x))\<rparr>"

text \<open>What the query of a handler takes: the range and the condition of the scope.\<close>

definition handleServices ::
  "(string \<Rightarrow> time option) \<Rightarrow> time \<Rightarrow> telemetry_query \<Rightarrow> (time \<Rightarrow> time \<Rightarrow> sql \<Rightarrow> service_row rows) \<Rightarrow> handler" where
  "handleServices parse now qp ask r sv =
     (case timeRange parse now qp of
        Inl e \<Rightarrow> (writeError 400 e, sv)
      | Inr (f, t) \<Rightarrow>
          let sc = scopeFor r in
          if scope_empty sc then (respond 200 (ServicesBody f t []), sv)
          else case ask f t (filterServiceName sc ''service_name'') of
            QueryError e \<Rightarrow> (writeError 500 e, sv)
          | Rows rs \<Rightarrow>
              (case scan_rows rs of
                 Inl e \<Rightarrow> (writeError 500 e, sv)
               | Inr xs \<Rightarrow>
                   (respond 200 (ServicesBody f t (map (service_summary_of (of_int (time_sub t f) / 10 ^ 9)) xs)), sv)))"

section \<open>Operations\<close>

record operation_row =
  or_op :: string
  or_kind :: string
  or_calls :: u64
  or_errs :: u64
  or_durSum :: u64
  or_qs :: "rat list"

definition operation_summary_of :: "string \<Rightarrow> operation_row \<Rightarrow> operation_summary" where
  "operation_summary_of service x = \<lparr>om_Service = service, om_Operation = or_op x, om_Kind = or_kind x,
     om_Calls = or_calls x, om_Errors = or_errs x, om_ErrorRate = ratio (or_errs x) (or_calls x),
     om_AvgMS = nsToMS (avg (or_durSum x) (or_calls x)), om_P95MS = nsToMS (quantileAt (or_qs x) 1),
     om_P99MS = nsToMS (quantileAt (or_qs x) 2)\<rparr>"

definition handleOperations ::
  "(string \<Rightarrow> time option) \<Rightarrow> time \<Rightarrow> telemetry_query \<Rightarrow> (time \<Rightarrow> time \<Rightarrow> string \<Rightarrow> operation_row rows) \<Rightarrow> handler" where
  "handleOperations parse now qp ask r sv =
     (case timeRange parse now qp of
        Inl e \<Rightarrow> (writeError 400 e, sv)
      | Inr (f, t) \<Rightarrow>
          if tq_service qp = [] then (writeError 400 ''the service parameter is required'', sv)
          else if \<not> allows (scopeFor r) (tq_service qp) then (respond 200 (OperationsBody f t []), sv)
          else case ask f t (tq_service qp) of
            QueryError e \<Rightarrow> (writeError 500 e, sv)
          | Rows rs \<Rightarrow>
              (case scan_rows rs of
                 Inl e \<Rightarrow> (writeError 500 e, sv)
               | Inr xs \<Rightarrow> (respond 200 (OperationsBody f t (map (operation_summary_of (tq_service qp)) xs)), sv)))"

section \<open>Topology\<close>

definition groupExprs :: "string \<Rightarrow> string \<times> string" where
  "groupExprs level =
     (if level = ''workload'' then
        (''if(client_workload != '' @ [CHR 0x27, CHR 0x27] @ '', concat(client_namespace, '/', client_workload), client)'',
         ''if(server_workload != '' @ [CHR 0x27, CHR 0x27] @ '', concat(server_namespace, '/', server_workload), server)'')
      else if level = ''namespace'' then
        (''if(client_namespace != '' @ [CHR 0x27, CHR 0x27] @ '', client_namespace, client)'',
         ''if(server_namespace != '' @ [CHR 0x27, CHR 0x27] @ '', server_namespace, server)'')
      else (''client'', ''server''))"

definition levelName :: "string \<Rightarrow> string" where
  "levelName level = (if level = ''workload'' \<or> level = ''namespace'' then level else ''service'')"

definition bucketColumns :: "string list" where
  "bucketColumns = map (\<lambda>b. ''le_'' @ nat_string b @ ''ms'') LatencyBounds @ [''le_inf'']"

type_synonym node_map = "(string, graph_node) gomap"

definition upsertNode :: "node_map \<Rightarrow> string \<Rightarrow> string \<Rightarrow> string \<Rightarrow> string \<Rightarrow> graph_node \<times> node_map" where
  "upsertNode nodes i typ ns wl =
     (let n = (case map_of nodes i of
          Some n \<Rightarrow> n\<lparr>gn_Namespace := (if gn_Namespace n = [] then ns else gn_Namespace n),
                     gn_Workload := (if gn_Workload n = [] then wl else gn_Workload n)\<rparr>
        | None \<Rightarrow> \<lparr>gn_ID = i, gn_Label = i, gn_Type = typ, gn_Namespace = ns, gn_Workload = wl,
                   gn_Calls = 0, gn_Errors = 0, gn_ErrorRate = 0\<rparr>)
      in (n, AList.update i n nodes))"

record edge_row_t =
  er_src :: string
  er_dst :: string
  er_connType :: string
  er_clientNS :: string
  er_clientWL :: string
  er_serverNS :: string
  er_serverWL :: string
  er_calls :: u64
  er_errs :: u64
  er_durSum :: u64
  er_durMax :: u64
  er_buckets :: "u64 list"

definition src_type :: "string \<Rightarrow> string" where
  "src_type connType = (if connType = ''entry'' then ''user'' else ''service'')"

definition dst_type :: "string \<Rightarrow> string" where
  "dst_type connType = (if connType \<in> {''database'', ''messaging'', ''external''} then connType else ''service'')"

text \<open>The destination is a pointer into the map: its counters are added in place.\<close>

definition add_nodes :: "node_map \<Rightarrow> edge_row_t \<Rightarrow> node_map" where
  "add_nodes nodes x =
     (case upsertNode nodes (er_src x) (src_type (er_connType x)) (er_clientNS x) (er_clientWL x) of
        (_, nodes1) \<Rightarrow>
      (case upsertNode nodes1 (er_dst x) (dst_type (er_connType x)) (er_serverNS x) (er_serverWL x) of
         (dn, nodes2) \<Rightarrow>
           let calls = gn_Calls dn + er_calls x; errs = gn_Errors dn + er_errs x
           in AList.update (er_dst x) (dn\<lparr>gn_Calls := calls, gn_Errors := errs, gn_ErrorRate := ratio errs calls\<rparr>) nodes2))"

definition graph_edge_of :: "edge_row_t \<Rightarrow> graph_edge" where
  "graph_edge_of x = \<lparr>ge_Source = er_src x, ge_Target = er_dst x, ge_Type = er_connType x, ge_Calls = er_calls x,
     ge_Errors = er_errs x, ge_ErrorRate = ratio (er_errs x) (er_calls x), ge_AvgMS = nsToMS (avg (er_durSum x) (er_calls x)),
     ge_P95MS = histogramQuantile (er_buckets x) (95 / 100), ge_P99MS = histogramQuantile (er_buckets x) (99 / 100),
     ge_MaxMS = nsToMS (float_u64 (er_durMax x))\<rparr>"

text \<open>\<open>ord\<close> is the order in which the map of nodes is iterated.\<close>

definition handleTopology ::
  "(node_map \<Rightarrow> node_map) \<Rightarrow> (string \<Rightarrow> time option) \<Rightarrow> time \<Rightarrow> telemetry_query
    \<Rightarrow> (string \<times> string \<Rightarrow> string list \<Rightarrow> time \<Rightarrow> time \<Rightarrow> sql \<Rightarrow> edge_row_t rows) \<Rightarrow> handler" where
  "handleTopology ord parse now qp ask r sv =
     (case timeRange parse now qp of
        Inl e \<Rightarrow> (writeError 400 e, sv)
      | Inr (f, t) \<Rightarrow>
          let level = tq_level qp; sc = scopeFor r in
          if scope_empty sc then (respond 200 (TopologyBody f t (levelName level) [] []), sv)
          else case ask (groupExprs level) (map (\<lambda>c. ''sum('' @ c @ '')'') bucketColumns) f t (filterTopology sc) of
            QueryError e \<Rightarrow> (writeError 500 e, sv)
          | Rows rs \<Rightarrow>
              (case scan_rows rs of
                 Inl e \<Rightarrow> (writeError 500 e, sv)
               | Inr xs \<Rightarrow>
                   (respond 200 (TopologyBody f t (levelName level) (map snd (ord (foldl add_nodes [] xs)))
                      (map graph_edge_of xs)), sv)))"

end
