(* ===== verification/TraceView.thy ===== *)
theory TraceView
  imports Telemetry
begin

text \<open>
  internal/api/server.go: the search for traces and the detail of one: self times, the code location
  and events of a span, the breakdown by category and by service, the hotspots. As in Telemetry, a
  query is what the handler composes for it, and its rows are a parameter.
\<close>

section \<open>Search\<close>

datatype sql_arg = ATime time | AStr string | AStrs "string list" | AU64 u64

record trace_row =
  tw_id :: string
  tw_rootSvc :: string
  tw_rootName :: string
  tw_start :: time
  tw_durNS :: u64
  tw_spans :: u64
  tw_errs :: u64
  tw_services :: "string list"

definition trace_summary_of :: "trace_row \<Rightarrow> trace_summary" where
  "trace_summary_of x = \<lparr>tr_TraceID = tw_id x, tr_RootService = tw_rootSvc x, tr_RootName = tw_rootName x,
     tr_Start = tw_start x, tr_DurationMS = nsToMS (float_u64 (tw_durNS x)), tr_Spans = tw_spans x,
     tr_Errors = tw_errs x, tr_Services = tw_services x\<rparr>"

text \<open>The conditions and their arguments; \<open>parse_ms\<close> is \<open>uint64(ms*1e6)\<close> of the parsed number.\<close>

definition search_conditions ::
  "(string \<Rightarrow> u64 option) \<Rightarrow> time \<Rightarrow> time \<Rightarrow> scope \<Rightarrow> telemetry_query \<Rightarrow> (string list \<times> sql_arg list) option" where
  "search_conditions parse_ms f t sc qp =
     (let w0 = ([''start >= ? AND start < ?''], [ATime f, ATime t]);
          flt = filterTraces sc;
          w1 = (if fst flt \<noteq> []
                then (fst w0 @ [trim_prefix (fst flt) '' AND ''], snd w0 @ map AStrs (snd flt)) else w0);
          w2 = (if tq_service qp \<noteq> []
                then (fst w1 @ [''has(services, ?)''], snd w1 @ [AStr (tq_service qp)]) else w1)
      in case (if tq_minDurationMs qp = [] then Some w2
               else case parse_ms (tq_minDurationMs qp) of
                 None \<Rightarrow> None
               | Some ns \<Rightarrow> Some (fst w2 @ [''duration_ns >= ?''], snd w2 @ [AU64 ns])) of
           None \<Rightarrow> None
         | Some w3 \<Rightarrow> Some (if tq_onlyErrors qp = ''true'' then (fst w3 @ [''errors > 0''], snd w3) else w3))"

definition search_limit :: "telemetry_query \<Rightarrow> int" where
  "search_limit qp =
     (if tq_limit qp = [] then 100
      else case atoi (tq_limit qp) of None \<Rightarrow> 100 | Some n \<Rightarrow> if 0 < n \<and> n \<le> 1000 then n else 100)"

definition handleTraceSearch ::
  "(string \<Rightarrow> time option) \<Rightarrow> (string \<Rightarrow> u64 option) \<Rightarrow> time \<Rightarrow> telemetry_query
    \<Rightarrow> (string \<Rightarrow> sql_arg list \<Rightarrow> int \<Rightarrow> trace_row rows) \<Rightarrow> handler" where
  "handleTraceSearch parse parse_ms now qp ask r sv =
     (case timeRange parse now qp of
        Inl e \<Rightarrow> (writeError 400 e, sv)
      | Inr (f, t) \<Rightarrow>
          let sc = scopeFor r in
          if scope_empty sc then (respond 200 (TracesBody f t []), sv)
          else case search_conditions parse_ms f t sc qp of
            None \<Rightarrow> (writeError 400 ''minDurationMs must be a number'', sv)
          | Some (conds, args) \<Rightarrow>
              (case ask (join conds '' AND '') args (search_limit qp) of
                 QueryError e \<Rightarrow> (writeError 500 e, sv)
               | Rows rs \<Rightarrow>
                   (case scan_rows rs of
                      Inl e \<Rightarrow> (writeError 500 e, sv)
                    | Inr xs \<Rightarrow> (respond 200 (TracesBody f t (map trace_summary_of xs)), sv))))"

section \<open>A span\<close>

fun pick :: "attrs \<Rightarrow> string list \<Rightarrow> string" where
  "pick m [] = []"
| "pick m (k # ks) = (if attr m k \<noteq> [] then attr m k else pick m ks)"

definition codeLocationOf :: "attrs \<Rightarrow> code_location option" where
  "codeLocationOf m =
     (if attrs_len m = 0 then None
      else
        let loc = \<lparr>cl_Function = pick m [''code.function.name'', ''code.function''],
                   cl_File = pick m [''code.file.path'', ''code.filepath''],
                   cl_Line = (case atoi (pick m [''code.line.number'', ''code.lineno'']) of None \<Rightarrow> 0 | Some n \<Rightarrow> n),
                   cl_Namespace = pick m [''code.namespace''], cl_StackTrace = pick m [''code.stacktrace'']\<rparr>
        in if cl_Function loc = [] \<and> cl_File loc = [] \<and> cl_StackTrace loc = [] then None else Some loc)"

definition buildEvents :: "time list \<Rightarrow> string list \<Rightarrow> attrs list \<Rightarrow> span_event list" where
  "buildEvents tms names as =
     map (\<lambda>i. \<lparr>sev_Timestamp = (if i < length tms then Some (tms ! i) else None), sev_Name = names ! i,
               sev_Attributes = (if i < length as then as ! i else None)\<rparr>) [0..<length names]"

definition categoryOf :: "span_view \<Rightarrow> string" where
  "categoryOf s =
     (let a = vw_Attributes s in
      if attr a ''db.system'' \<noteq> [] \<or> attr a ''db.system.name'' \<noteq> [] then ''database''
      else if attr a ''messaging.system'' \<noteq> [] then ''messaging''
      else if vw_Kind s = ''client'' \<or> vw_Kind s = ''producer'' then ''outbound''
      else ''code'')"

section \<open>Breakdown and hotspots\<close>

text \<open>Sorting by a key, the largest first; the order of equal elements is that of the map, \<open>ord\<close>.\<close>

definition sort_desc :: "('a \<Rightarrow> rat) \<Rightarrow> 'a list \<Rightarrow> 'a list" where
  "sort_desc k xs = sort_key (\<lambda>x. - k x) xs"

definition add_slice :: "string \<Rightarrow> rat \<Rightarrow> (string, time_slice) gomap \<Rightarrow> (string, time_slice) gomap" where
  "add_slice key ms m =
     AList.update key
       (case map_of m key of
          Some c \<Rightarrow> c\<lparr>sl_MS := sl_MS c + ms, sl_Count := sl_Count c + 1\<rparr>
        | None \<Rightarrow> \<lparr>sl_Key = key, sl_MS = ms, sl_Share = 0, sl_Count = 1\<rparr>) m"

definition flatten_slices ::
  "((string, time_slice) gomap \<Rightarrow> (string, time_slice) gomap) \<Rightarrow> rat \<Rightarrow> (string, time_slice) gomap \<Rightarrow> time_slice list" where
  "flatten_slices ord whole m =
     sort_desc sl_MS (map (\<lambda>(k, v). if 0 < whole then v\<lparr>sl_Share := sl_MS v / whole\<rparr> else v) (ord m))"

definition slices_by :: "(span_view \<Rightarrow> string) \<Rightarrow> span_view list \<Rightarrow> (string, time_slice) gomap" where
  "slices_by key spans = foldl (\<lambda>m s. add_slice (key s) (vw_SelfMS s) m) [] spans"

definition total_self :: "span_view list \<Rightarrow> rat" where
  "total_self spans = foldl (\<lambda>t s. t + vw_SelfMS s) 0 spans"

definition buildBreakdown ::
  "((string, time_slice) gomap \<Rightarrow> (string, time_slice) gomap) \<Rightarrow> span_view list \<Rightarrow> time_slice list \<times> time_slice list" where
  "buildBreakdown ord spans =
     (flatten_slices ord (total_self spans) (slices_by categoryOf spans),
      flatten_slices ord (total_self spans) (slices_by vw_Service spans))"

definition hotspot_key :: "span_view \<Rightarrow> string" where
  "hotspot_key s = vw_Service s @ [CHR 0x00] @ vw_Name s"

definition add_hotspot :: "(string, hotspot) gomap \<Rightarrow> span_view \<Rightarrow> (string, hotspot) gomap" where
  "add_hotspot m s =
     (let a = (case map_of m (hotspot_key s) of
          Some a \<Rightarrow> a
        | None \<Rightarrow> \<lparr>hs_Name = vw_Name s, hs_Service = vw_Service s, hs_Kind = vw_Kind s, hs_SelfMS = 0, hs_Share = 0,
                   hs_Count = 0, hs_Code = vw_Code s\<rparr>)
      in AList.update (hotspot_key s)
           (a\<lparr>hs_SelfMS := hs_SelfMS a + vw_SelfMS s, hs_Count := hs_Count a + 1,
              hs_Code := (if hs_Code a = None then vw_Code s else hs_Code a)\<rparr>) m)"

definition buildHotspots ::
  "((string, hotspot) gomap \<Rightarrow> (string, hotspot) gomap) \<Rightarrow> span_view list \<Rightarrow> hotspot list" where
  "buildHotspots ord spans =
     (if spans = [] then []
      else
        let whole = total_self spans;
            out = map (\<lambda>(k, a). if 0 < whole then a\<lparr>hs_Share := hs_SelfMS a / whole\<rparr> else a)
                    (ord (foldl add_hotspot [] spans))
        in take 10 (sort_desc hs_SelfMS out))"

section \<open>Detail\<close>

record span_record =
  rc_spanID :: string
  rc_parentID :: string
  rc_name :: string
  rc_kind :: string
  rc_svc :: string
  rc_ns :: string
  rc_pod :: string
  rc_workload :: string
  rc_node :: string
  rc_ts :: time
  rc_durNS :: u64
  rc_status :: string
  rc_statusMsg :: string
  rc_attrs :: attrs
  rc_evTimes :: "time list"
  rc_evNames :: "string list"
  rc_evAttrs :: "attrs list"

definition span_view_of :: "span_record \<Rightarrow> span_view" where
  "span_view_of x = \<lparr>vw_SpanID = rc_spanID x, vw_ParentSpanID = rc_parentID x, vw_Name = rc_name x, vw_Kind = rc_kind x,
     vw_Service = rc_svc x, vw_Namespace = rc_ns x, vw_Pod = rc_pod x, vw_Workload = rc_workload x, vw_Node = rc_node x,
     vw_Start = rc_ts x, vw_DurationMS = nsToMS (float_u64 (rc_durNS x)), vw_SelfMS = 0, vw_Status = rc_status x,
     vw_StatusMsg = rc_statusMsg x, vw_Code = codeLocationOf (rc_attrs x),
     vw_Events = buildEvents (rc_evTimes x) (rc_evNames x) (rc_evAttrs x), vw_Attributes = rc_attrs x\<rparr>"

text \<open>The two maps the loop over the rows fills; reading a missing key gives zero.\<close>

definition look_u64 :: "(string, u64) gomap \<Rightarrow> string \<Rightarrow> u64" where
  "look_u64 m k = (case map_of m k of None \<Rightarrow> 0 | Some n \<Rightarrow> n)"

definition durations_of :: "span_record list \<Rightarrow> (string, u64) gomap" where
  "durations_of xs = foldl (\<lambda>m x. AList.update (rc_spanID x) (rc_durNS x) m) [] xs"

definition child_sums :: "span_record list \<Rightarrow> (string, u64) gomap" where
  "child_sums xs = foldl (\<lambda>m x. if rc_parentID x \<noteq> []
     then AList.update (rc_parentID x) (look_u64 m (rc_parentID x) + rc_durNS x) m else m) [] xs"

definition self_time :: "(string, u64) gomap \<Rightarrow> (string, u64) gomap \<Rightarrow> string \<Rightarrow> u64" where
  "self_time durations childSum i =
     (let self = look_u64 durations i; children = look_u64 childSum i
      in if children < self then self - children else 0)"

definition span_views :: "span_record list \<Rightarrow> span_view list" where
  "span_views xs =
     map (\<lambda>v. v\<lparr>vw_SelfMS := nsToMS (float_u64 (self_time (durations_of xs) (child_sums xs) (vw_SpanID v)))\<rparr>)
       (map span_view_of xs)"

record map_orders =
  mo_slices :: "(string, time_slice) gomap \<Rightarrow> (string, time_slice) gomap"
  mo_hotspots :: "(string, hotspot) gomap \<Rightarrow> (string, hotspot) gomap"

text \<open>\<open>index\<close> answers the query of the trace's time range, \<open>None\<close> for an error or no row.\<close>

definition handleTraceDetail ::
  "map_orders \<Rightarrow> (string \<Rightarrow> sql \<Rightarrow> (time \<times> time) option) \<Rightarrow> (string \<Rightarrow> time \<Rightarrow> time \<Rightarrow> span_record rows) \<Rightarrow> handler" where
  "handleTraceDetail mo index ask r sv =
     (let traceID = hr_id r; sc = scopeFor r in
      if length traceID \<noteq> 32 then (writeError 400 ''traceID must be 32 hex characters'', sv)
      else if scope_empty sc then (writeErrorCode 404 ''trace not found'' ''not_found'', sv)
      else case index traceID (filterTraces sc) of
        None \<Rightarrow> (writeErrorCode 404 ''trace not found'' ''not_found'', sv)
      | Some (start, fin) \<Rightarrow>
          (case ask traceID (start - 60 * 10 ^ 9) (fin + 60 * 10 ^ 9) of
             QueryError e \<Rightarrow> (writeError 500 e, sv)
           | Rows rs \<Rightarrow>
               (case scan_rows rs of
                  Inl e \<Rightarrow> (writeError 500 e, sv)
                | Inr xs \<Rightarrow>
                    let out = span_views xs; (byCategory, byService) = buildBreakdown (mo_slices mo) out
                    in (respond 200 (TraceBody traceID out (buildHotspots (mo_hotspots mo) out) byCategory byService), sv))))"

end
