(* ===== verification/Server.thy ===== *)
theory Server
  imports Admin TraceView ApiDiag
begin

text \<open>
  internal/api: the routes of \<open>Handler\<close>, \<open>registerAdmin\<close>, \<open>registerDiagnostics\<close> and \<open>registerUI\<close>, each
  with its guard, behind the session middleware. An \<open>api_call\<close> is a route with what its handler
  decodes from the request; choosing the route by method and path is net/http's own.
\<close>

section \<open>The user interface\<close>

text \<open>web.go: the embedded files by name. A path that names none of them is answered with the index.\<close>

definition asset_type :: "string \<Rightarrow> string" where
  "asset_type name =
     (let e = path_ext name in
      if e = ''.html'' then ''text/html; charset=utf-8''
      else if e = ''.css'' then ''text/css; charset=utf-8''
      else if e = ''.js'' then ''text/javascript; charset=utf-8''
      else [])"

definition serveAsset :: "string \<Rightarrow> string \<Rightarrow> response" where
  "serveAsset name d = respond 200 (TextBody (asset_type name) d)"

definition index_page :: "(string \<times> string) list \<Rightarrow> string" where
  "index_page assets = (case map_of assets ''index.html'' of None \<Rightarrow> [] | Some d \<Rightarrow> d)"

definition handleUI :: "(string \<times> string) list \<Rightarrow> string \<Rightarrow> handler" where
  "handleUI assets p r sv =
     (let name = trim_prefix (path_clean p) ''/'' in
      if name = [] \<or> name = ''.'' \<or> name = ''index.html'' then (serveAsset ''index.html'' (index_page assets), sv)
      else case map_of assets name of
        None \<Rightarrow> (serveAsset ''index.html'' (index_page assets), sv)
      | Some d \<Rightarrow> (serveAsset name d, sv))"

section \<open>What the telemetry and diagnostics handlers ask\<close>

record backend =
  bk_parse_time :: "string \<Rightarrow> time option"
  bk_parse_ms :: "string \<Rightarrow> u64 option"
  bk_discovered :: "(string \<times> u64 \<times> time) rows"
  bk_services :: "time \<Rightarrow> time \<Rightarrow> sql \<Rightarrow> service_row rows"
  bk_operations :: "time \<Rightarrow> time \<Rightarrow> string \<Rightarrow> operation_row rows"
  bk_topology :: "string \<times> string \<Rightarrow> string list \<Rightarrow> time \<Rightarrow> time \<Rightarrow> sql \<Rightarrow> edge_row_t rows"
  bk_search :: "string \<Rightarrow> sql_arg list \<Rightarrow> int \<Rightarrow> trace_row rows"
  bk_index :: "string \<Rightarrow> sql \<Rightarrow> (time \<times> time) option"
  bk_spans :: "string \<Rightarrow> time \<Rightarrow> time \<Rightarrow> span_record rows"
  bk_ord_nodes :: "node_map \<Rightarrow> node_map"
  bk_orders :: map_orders
  bk_decode_stop :: "string \<Rightarrow> string + bool \<times> string"
  bk_net :: "string \<times> string \<Rightarrow> reply"
  bk_assets :: "(string \<times> string) list"

section \<open>Routes\<close>

datatype api_call =
    Healthz | UI string
  | Login "string + string \<times> string" | Logout | Me | ChangeOwnPassword "string + string \<times> string"
  | Services telemetry_query | Operations telemetry_query | TopologyGraph telemetry_query
  | TraceSearch telemetry_query | TraceDetail
  | AgentRegister "string + register_request"
  | ListInstances | ListDumps | Capture "string + string \<times> int \<times> string" | DownloadDump | CancelCapture
  | GetDump | DeleteDump | SetDiagToken "string + string"
  | ListPermissions | DiscoveredApplications
  | ListUsersC | CreateUserC "string + create_user_request" | UpdateUserC "string + update_user_request"
  | ResetPassword "string + string" | DeleteUserC
  | ListRoleGroupsC | CreateRoleGroupC "string + role_group_request" | UpdateRoleGroupC "string + role_group_request"
  | DeleteRoleGroupC
  | ListProjectsC | CreateProjectC "string + create_project_request" | UpdateProjectC "string + update_project_request"
  | DeleteProjectC

datatype guard = Open | Session | Needs permission

fun guarded :: "guard \<Rightarrow> handler \<Rightarrow> handler" where
  "guarded Open h = h"
| "guarded Session h = requireAuth h"
| "guarded (Needs p) h = requirePermission p h"

fun route_guard :: "api_call \<Rightarrow> guard" where
  "route_guard Healthz = Open"
| "route_guard (UI p) = Open"
| "route_guard (Login b) = Open"
| "route_guard Logout = Open"
| "route_guard Me = Open"
| "route_guard (ChangeOwnPassword b) = Session"
| "route_guard (Services q) = Needs PermServicesRead"
| "route_guard (Operations q) = Needs PermServicesRead"
| "route_guard (TopologyGraph q) = Needs PermTopologyRead"
| "route_guard (TraceSearch q) = Needs PermTracesRead"
| "route_guard TraceDetail = Needs PermTracesRead"
| "route_guard (AgentRegister b) = Open"
| "route_guard ListInstances = Needs PermDiagnostics"
| "route_guard ListDumps = Needs PermDiagnostics"
| "route_guard (Capture b) = Needs PermDiagnostics"
| "route_guard DownloadDump = Needs PermDiagnostics"
| "route_guard CancelCapture = Needs PermDiagnostics"
| "route_guard GetDump = Needs PermDiagnostics"
| "route_guard DeleteDump = Needs PermDiagnostics"
| "route_guard (SetDiagToken b) = Needs PermAdmin"
| "route_guard ListPermissions = Needs PermAdmin"
| "route_guard DiscoveredApplications = Needs PermAdmin"
| "route_guard ListUsersC = Needs PermAdmin"
| "route_guard (CreateUserC b) = Needs PermAdmin"
| "route_guard (UpdateUserC b) = Needs PermAdmin"
| "route_guard (ResetPassword b) = Needs PermAdmin"
| "route_guard DeleteUserC = Needs PermAdmin"
| "route_guard ListRoleGroupsC = Needs PermAdmin"
| "route_guard (CreateRoleGroupC b) = Needs PermAdmin"
| "route_guard (UpdateRoleGroupC b) = Needs PermAdmin"
| "route_guard DeleteRoleGroupC = Needs PermAdmin"
| "route_guard ListProjectsC = Needs PermAdmin"
| "route_guard (CreateProjectC b) = Needs PermAdmin"
| "route_guard (UpdateProjectC b) = Needs PermAdmin"
| "route_guard DeleteProjectC = Needs PermAdmin"

fun route_handler :: "io \<Rightarrow> backend \<Rightarrow> sealer \<Rightarrow> api_call \<Rightarrow> handler" where
  "route_handler w bk sl Healthz = (\<lambda>r sv. (respond 200 (TextBody [] ''ok''), sv))"
| "route_handler w bk sl (UI p) = handleUI (bk_assets bk) p"
| "route_handler w bk sl (Login b) = handleLogin w b"
| "route_handler w bk sl Logout = handleLogout w"
| "route_handler w bk sl Me = handleMe"
| "route_handler w bk sl (ChangeOwnPassword b) = handleChangeOwnPassword w b"
| "route_handler w bk sl (Services q) = handleServices (bk_parse_time bk) (io_clock w 2) q (bk_services bk)"
| "route_handler w bk sl (Operations q) = handleOperations (bk_parse_time bk) (io_clock w 2) q (bk_operations bk)"
| "route_handler w bk sl (TopologyGraph q) =
     handleTopology (bk_ord_nodes bk) (bk_parse_time bk) (io_clock w 2) q (bk_topology bk)"
| "route_handler w bk sl (TraceSearch q) =
     handleTraceSearch (bk_parse_time bk) (bk_parse_ms bk) (io_clock w 2) q (bk_search bk)"
| "route_handler w bk sl TraceDetail = handleTraceDetail (bk_orders bk) (bk_index bk) (bk_spans bk)"
| "route_handler w bk sl (AgentRegister b) = handleAgentRegister w sl b"
| "route_handler w bk sl ListInstances = handleListInstances w"
| "route_handler w bk sl ListDumps = handleListArtifacts w"
| "route_handler w bk sl (Capture b) = handleCapture w sl b"
| "route_handler w bk sl DownloadDump = handleDownloadArtifact w"
| "route_handler w bk sl CancelCapture = handleCancelCapture w (bk_decode_stop bk) sl (bk_net bk)"
| "route_handler w bk sl GetDump = handleGetArtifact w"
| "route_handler w bk sl DeleteDump = handleDeleteArtifact w"
| "route_handler w bk sl (SetDiagToken b) = handleSetDiagToken w sl b"
| "route_handler w bk sl ListPermissions = handleListPermissions"
| "route_handler w bk sl DiscoveredApplications = handleDiscoveredApplications w (bk_discovered bk)"
| "route_handler w bk sl ListUsersC = handleListUsers w"
| "route_handler w bk sl (CreateUserC b) = handleCreateUser w b"
| "route_handler w bk sl (UpdateUserC b) = handleUpdateUser w b"
| "route_handler w bk sl (ResetPassword b) = handleResetPassword w b"
| "route_handler w bk sl DeleteUserC = handleDeleteUser w"
| "route_handler w bk sl ListRoleGroupsC = handleListRoleGroups w"
| "route_handler w bk sl (CreateRoleGroupC b) = handleCreateRoleGroup w b"
| "route_handler w bk sl (UpdateRoleGroupC b) = handleUpdateRoleGroup w b"
| "route_handler w bk sl DeleteRoleGroupC = handleDeleteRoleGroup w"
| "route_handler w bk sl ListProjectsC = handleListProjects w"
| "route_handler w bk sl (CreateProjectC b) = handleCreateProject w b"
| "route_handler w bk sl (UpdateProjectC b) = handleUpdateProject w b"
| "route_handler w bk sl DeleteProjectC = handleDeleteProject w"

definition serve :: "io \<Rightarrow> backend \<Rightarrow> sealer \<Rightarrow> api_call \<Rightarrow> handler" where
  "serve w bk sl call = withSession w (guarded (route_guard call) (route_handler w bk sl call))"

end
