(* ===== verification/ServerProps.thy ===== *)
theory ServerProps
  imports Server DiagRuns
begin

text \<open>
  The API as a whole: what a request may change. Every change a request makes to the control plane
  is a run of store operations, each of which the caller is permitted; from there the invariants
  of the store carry over to the server.
\<close>

section \<open>Changes as runs of store operations\<close>

definition by_ops :: "id_env \<Rightarrow> sealer \<Rightarrow> (id_op \<Rightarrow> bool) \<Rightarrow> idb \<Rightarrow> idb \<Rightarrow> bool" where
  "by_ops env sl P db db1 \<longleftrightarrow> (\<exists>ops. db1 = foldl (id_step env sl) db ops \<and> list_all (P \<circ> snd) ops)"

lemma by_ops_refl [intro, simp]: "by_ops env sl P db db"
  unfolding by_ops_def by (rule exI [of _ "[]"]) simp

lemma by_ops_trans [trans]:
  assumes "by_ops env sl P db db1" "by_ops env sl P db1 db2"
  shows "by_ops env sl P db db2"
proof -
  from assms obtain o1 o2 where "db1 = foldl (id_step env sl) db o1" "list_all (P \<circ> snd) o1"
    "db2 = foldl (id_step env sl) db1 o2" "list_all (P \<circ> snd) o2" by (auto simp: by_ops_def)
  then have "db2 = foldl (id_step env sl) db (o1 @ o2) \<and> list_all (P \<circ> snd) (o1 @ o2)" by simp
  then show ?thesis unfolding by_ops_def by blast
qed

lemma by_op:
  assumes "P op" "id_step env sl db (f, op) = db1"
  shows "by_ops env sl P db db1"
  unfolding by_ops_def by (rule exI [of _ "[(f, op)]"]) (use assms in simp)

text \<open>One rule per operation, in the form the handlers call it.\<close>

lemma op_run:
  "CreateUser env f nid now db e n p s = (x1, db1) \<Longrightarrow> P (OpCreateUser nid now e n p s) \<Longrightarrow> by_ops env sl P db db1"
  "UpdateUser f now db i n a s = (x2, db1) \<Longrightarrow> P (OpUpdateUser now i n a s) \<Longrightarrow> by_ops env sl P db db1"
  "SetPassword env f now db i p = (x3, db1) \<Longrightarrow> P (OpSetPassword now i p) \<Longrightarrow> by_ops env sl P db db1"
  "DeleteUser f db i = (x4, db1) \<Longrightarrow> P (OpDeleteUser i) \<Longrightarrow> by_ops env sl P db db1"
  "SetUserRoleGroups f db i gs = (x5, db1) \<Longrightarrow> P (OpSetUserRoleGroups i gs) \<Longrightarrow> by_ops env sl P db db1"
  "CreateRoleGroup env f nid now db n d ps = (x6, db1) \<Longrightarrow> P (OpCreateRoleGroup nid now n d ps) \<Longrightarrow> by_ops env sl P db db1"
  "UpdateRoleGroup env f db i n d ps = (x7, db1) \<Longrightarrow> P (OpUpdateRoleGroup i n d ps) \<Longrightarrow> by_ops env sl P db db1"
  "DeleteRoleGroup f db i = (x8, db1) \<Longrightarrow> P (OpDeleteRoleGroup i) \<Longrightarrow> by_ops env sl P db db1"
  "CreateProject env f nid now db k n d = (x9, db1) \<Longrightarrow> P (OpCreateProject nid now k n d) \<Longrightarrow> by_ops env sl P db db1"
  "UpdateProject f db i n d = (x10, db1) \<Longrightarrow> P (OpUpdateProject i n d) \<Longrightarrow> by_ops env sl P db db1"
  "DeleteProject f db i = (x11, db1) \<Longrightarrow> P (OpDeleteProject i) \<Longrightarrow> by_ops env sl P db db1"
  "SetProjectApplications f db i ss = (x12, db1) \<Longrightarrow> P (OpSetProjectApplications i ss) \<Longrightarrow> by_ops env sl P db db1"
  "SetProjectRoleGroups f db i gs = (x13, db1) \<Longrightarrow> P (OpSetProjectRoleGroups i gs) \<Longrightarrow> by_ops env sl P db db1"
  "Authenticate env f now db e p = (x14, db1) \<Longrightarrow> P (OpAuthenticate now e p) \<Longrightarrow> by_ops env sl P db db1"
  "CreateSession env f tok now db i ua ttl = (x15, db1) \<Longrightarrow> P (OpCreateSession tok now i ua ttl) \<Longrightarrow> by_ops env sl P db db1"
  "SetProjectDiagnosticsToken sl nonce f now db i tok w = (x16, db1) \<Longrightarrow> P (OpSetToken nonce now i tok w) \<Longrightarrow> by_ops env sl P db db1"
  "RegisterAgent env sl f nid now db ag tok = (x17, db1) \<Longrightarrow> P (OpRegister nid now ag tok) \<Longrightarrow> by_ops env sl P db db1"
  "CreateArtifact f nid now db i sv k w = (x18, db1) \<Longrightarrow> P (OpCreateArtifact nid now i sv k w) \<Longrightarrow> by_ops env sl P db db1"
  "DeleteArtifact f db i = (x19, db1) \<Longrightarrow> P (OpDeleteArtifact i) \<Longrightarrow> by_ops env sl P db db1"
  "P (OpDeleteSession tok) \<Longrightarrow> by_ops env sl P db (snd (DeleteSession env f db tok))"
  by - (erule by_op [where f = f], simp)+

section \<open>What a caller may do\<close>

text \<open>The request as the handlers see it: with the access its session stands for.\<close>

definition signed_in :: "io \<Rightarrow> request \<Rightarrow> idb \<Rightarrow> request" where
  "signed_in w r db =
     (case session_access w r db of
        None \<Rightarrow> r
      | Some ac \<Rightarrow> r\<lparr>hr_access := Some ac, hr_token := hr_cookie r\<rparr>)"

text \<open>The policy: anybody may try a password, open a session of an active account and register an
  agent; a signed-in user may end the own session and change the own password; dumps of the
  services in scope are for those with the diagnostics permission; all else is for
  administrators. What jobs and timers do, no request may.\<close>

fun permitted :: "idb \<Rightarrow> request \<Rightarrow> id_op \<Rightarrow> bool" where
  "permitted db r (OpAuthenticate now e p) = True"
| "permitted db r (OpCreateSession tok now i ua ttl) = list_ex (\<lambda>u. us_id u = i \<and> us_is_active u) (db_users db)"
| "permitted db r (OpRegister nid now a tok) = True"
| "permitted db r (OpDeleteSession tok) = (hr_token r = Some tok)"
| "permitted db r (OpSetPassword now i p) =
     (hr_access r \<noteq> None \<and> (i = us_id (access_user r) \<or> Can (hr_access r) PermAdmin))"
| "permitted db r (OpCreateArtifact nid now i s k who) =
     (Can (hr_access r) PermDiagnostics \<and> allows (scopeFor r) s \<and> who = us_email (access_user r))"
| "permitted db r (OpDeleteArtifact did) =
     (Can (hr_access r) PermDiagnostics
      \<and> list_ex (\<lambda>a. da_id a = did \<and> allows (scopeFor r) (da_service_name a)) (db_artifacts db))"
| "permitted db r (OpCompleteArtifact did fn n) = False"
| "permitted db r (OpFailArtifact did m) = False"
| "permitted db r (OpCancelArtifact did) = False"
| "permitted db r (OpPurge now) = False"
| "permitted db r (OpBootstrap nid rnd now e p) = False"
| "permitted db r op = Can (hr_access r) PermAdmin"

section \<open>Every handler keeps to the policy\<close>

definition keeps_to :: "io \<Rightarrow> sealer \<Rightarrow> request \<Rightarrow> handler \<Rightarrow> bool" where
  "keeps_to w sl r h \<longleftrightarrow>
     (\<forall>sv. by_ops (io_env w) sl (permitted (sv_db sv) r) (sv_db sv) (sv_db (snd (h r sv))))"

lemma admin_handlers:
  assumes "Can (hr_access r) PermAdmin"
  shows "keeps_to w sl r (handleCreateUser w b1)" "keeps_to w sl r (handleUpdateUser w b2)"
    "keeps_to w sl r (handleResetPassword w b3)" "keeps_to w sl r (handleDeleteUser w)"
    "keeps_to w sl r (handleCreateRoleGroup w b4)" "keeps_to w sl r (handleUpdateRoleGroup w b5)"
    "keeps_to w sl r (handleDeleteRoleGroup w)" "keeps_to w sl r (handleCreateProject w b6)"
    "keeps_to w sl r (handleUpdateProject w b7)" "keeps_to w sl r (handleDeleteProject w)"
    "keeps_to w sl r (handleSetDiagToken w sl b8)"
proof -
  have acc: "hr_access r \<noteq> None" using assms by (auto simp: Can_def split: option.splits)
  note [simp] = assms acc
  show "keeps_to w sl r (handleCreateUser w b1)"
    by (auto simp: keeps_to_def handleCreateUser_def intro: op_run(1) by_ops_trans [OF op_run(1) op_run(5)] split: sum.split prod.split unit.split)
  show "keeps_to w sl r (handleUpdateUser w b2)"
    by (auto simp: keeps_to_def handleUpdateUser_def intro: op_run(2) by_ops_trans [OF op_run(2) op_run(5)] split: sum.split prod.split unit.split)
  show "keeps_to w sl r (handleResetPassword w b3)"
    by (auto simp: keeps_to_def handleResetPassword_def intro: op_run(3) split: sum.split prod.split unit.split)
  show "keeps_to w sl r (handleDeleteUser w)"
    by (auto simp: keeps_to_def handleDeleteUser_def intro: op_run(4) split: sum.split prod.split unit.split)
  show "keeps_to w sl r (handleCreateRoleGroup w b4)"
    by (auto simp: keeps_to_def handleCreateRoleGroup_def intro: op_run(6) split: sum.split prod.split unit.split)
  show "keeps_to w sl r (handleUpdateRoleGroup w b5)"
    by (auto simp: keeps_to_def handleUpdateRoleGroup_def intro: op_run(7) split: sum.split prod.split unit.split)
  show "keeps_to w sl r (handleDeleteRoleGroup w)"
    by (auto simp: keeps_to_def handleDeleteRoleGroup_def intro: op_run(8) split: sum.split prod.split unit.split)
  show "keeps_to w sl r (handleCreateProject w b6)"
    by (auto simp: keeps_to_def handleCreateProject_def intro: op_run(9) split: sum.split prod.split unit.split)
  show "keeps_to w sl r (handleUpdateProject w b7)"
    by (auto simp: keeps_to_def handleUpdateProject_def intro: op_run(10) by_ops_trans [OF op_run(10) op_run(12)]
        by_ops_trans [OF by_ops_trans [OF op_run(10) op_run(12)] op_run(13)] split: sum.split prod.split unit.split)
  show "keeps_to w sl r (handleDeleteProject w)"
    by (auto simp: keeps_to_def handleDeleteProject_def intro: op_run(11) split: sum.split prod.split unit.split)
  show "keeps_to w sl r (handleSetDiagToken w sl b8)"
    by (auto simp: keeps_to_def handleSetDiagToken_def intro: op_run(16) split: sum.split prod.split unit.split)
qed

lemma reading_handlers:
  "snd (handleListPermissions r sv) = sv"
  "snd (handleDiscoveredApplications w q r sv) = sv"
  "snd (handleListUsers w r sv) = sv"
  "snd (handleListRoleGroups w r sv) = sv"
  "snd (handleListProjects w r sv) = sv"
  "snd (handleMe r sv) = sv"
  "snd (handleUI assets p r sv) = sv"
  "snd (handleServices parse now tq a1 r sv) = sv"
  "snd (handleOperations parse now tq a2 r sv) = sv"
  "snd (handleTopology ord parse now tq a3 r sv) = sv"
  "snd (handleTraceSearch parse pm now tq a4 r sv) = sv"
  "snd (handleTraceDetail mo a5 a6 r sv) = sv"
  "snd (handleListInstances w r sv) = sv"
  "snd (handleListArtifacts w r sv) = sv"
  "snd (handleGetArtifact w r sv) = sv"
  "snd (handleDownloadArtifact w r sv) = sv"
  by - ((simp add: handleListPermissions_def Let_def case_prod_beta split: sum.split option.split rows.split),
     (simp add: handleDiscoveredApplications_def Let_def case_prod_beta split: sum.split option.split rows.split),
     (simp add: handleListUsers_def Let_def case_prod_beta split: sum.split option.split rows.split),
     (simp add: handleListRoleGroups_def Let_def case_prod_beta split: sum.split option.split rows.split),
     (simp add: handleListProjects_def Let_def case_prod_beta split: sum.split option.split rows.split),
     (simp add: handleMe_def Let_def case_prod_beta split: sum.split option.split rows.split),
     (simp add: handleUI_def Let_def case_prod_beta split: sum.split option.split rows.split),
     (simp add: handleServices_def Let_def case_prod_beta split: sum.split option.split rows.split),
     (simp add: handleOperations_def Let_def case_prod_beta split: sum.split option.split rows.split),
     (simp add: handleTopology_def Let_def case_prod_beta split: sum.split option.split rows.split),
     (simp add: handleTraceSearch_def Let_def case_prod_beta split: sum.split option.split rows.split),
     (simp add: handleTraceDetail_def Let_def case_prod_beta split: sum.split option.split rows.split),
     (simp add: handleListInstances_def Let_def case_prod_beta split: sum.split option.split rows.split),
     (simp add: handleListArtifacts_def Let_def case_prod_beta split: sum.split option.split rows.split),
     (simp add: handleGetArtifact_def Let_def case_prod_beta split: sum.split option.split rows.split),
     (simp add: handleDownloadArtifact_def Let_def case_prod_beta split: sum.split option.split rows.split))

lemma reading_keep:
  "keeps_to w sl r (handleListPermissions)"
  "keeps_to w sl r (handleDiscoveredApplications w q)"
  "keeps_to w sl r (handleListUsers w)"
  "keeps_to w sl r (handleListRoleGroups w)"
  "keeps_to w sl r (handleListProjects w)"
  "keeps_to w sl r (handleMe)"
  "keeps_to w sl r (handleUI assets p)"
  "keeps_to w sl r (handleServices parse now tq a1)"
  "keeps_to w sl r (handleOperations parse now tq a2)"
  "keeps_to w sl r (handleTopology ord parse now tq a3)"
  "keeps_to w sl r (handleTraceSearch parse pm now tq a4)"
  "keeps_to w sl r (handleTraceDetail mo a5 a6)"
  "keeps_to w sl r (handleListInstances w)"
  "keeps_to w sl r (handleListArtifacts w)"
  "keeps_to w sl r (handleGetArtifact w)"
  "keeps_to w sl r (handleDownloadArtifact w)"
  "keeps_to w sl r (handleCancelCapture w dec sl net)"
  by - (simp_all only: keeps_to_def reading_handlers handleCancelCapture_frame by_ops_refl simp_thms)

lemma session_handlers:
  assumes "hr_access r \<noteq> None"
  shows "keeps_to w sl r (handleChangeOwnPassword w b)"
proof -
  note [simp] = assms
  show ?thesis
    by (auto simp: keeps_to_def handleChangeOwnPassword_def intro: op_run(14) by_ops_trans [OF op_run(14) op_run(3)]
        split: sum.split prod.split unit.split)
qed

lemma logout_keeps: "keeps_to w sl r (handleLogout w)"
  by (auto simp: keeps_to_def handleLogout_def Let_def intro: op_run(20) split: option.split)

lemma login_keeps: "keeps_to w sl r (handleLogin w b)"
  unfolding keeps_to_def
proof
  fix sv
  have "by_ops (io_env w) sl (permitted (sv_db sv) r) (sv_db sv) (sv_db (snd (sign_in w key u r (sv\<lparr>sv_logins := l, sv_db := db1\<rparr>))))"
    if auth: "Authenticate (io_env w) (io_faults w 2) (io_clock w 2) (sv_db sv) e p = (Inr u, db1)" for e p u db1 l key
  proof -
    have s: "by_ops (io_env w) sl (permitted (sv_db sv) r) db1 db2"
      if "CreateSession (io_env w) f tok now db1 (us_id u) ua ttl = (x, db2)" for f tok now ua ttl x db2
      using that
    proof (rule op_run(15))
      show "permitted (sv_db sv) r (OpCreateSession tok now (us_id u) ua ttl)"
        using Authenticate_outcome [OF auth] auth by (auto simp: list_ex_iff Authenticate_def split: if_splits)
    qed
    have "by_ops (io_env w) sl (permitted (sv_db sv) r) (sv_db sv) db1" by (rule op_run(14) [OF auth]) simp
    then show ?thesis
      by (auto simp: sign_in_def Let_def set_cookie_def intro: by_ops_trans [OF _ s] split: sum.split prod.split)
  qed
  then show "by_ops (io_env w) sl (permitted (sv_db sv) r) (sv_db sv) (sv_db (snd (handleLogin w b r sv)))"
    by (auto simp: handleLogin_def Let_def intro: op_run(14) split: sum.split prod.split bool.split)
qed

lemma register_keeps: "keeps_to w sl r (handleAgentRegister w sl b)"
  by (auto simp: keeps_to_def handleAgentRegister_def intro: op_run(17) split: sum.split prod.split)

lemma dump_handlers:
  assumes "Can (hr_access r) PermDiagnostics"
  shows "keeps_to w sl r (handleCapture w sl b)" "keeps_to w sl r (handleDeleteArtifact w)"
proof -
  note [simp] = assms
  show "keeps_to w sl r (handleCapture w sl b)"
    by (auto simp: keeps_to_def handleCapture_def Let_def intro: op_run(18) split: sum.split prod.split option.split)
  have "by_ops (io_env w) sl (permitted (sv_db sv) r) (sv_db sv) db1"
    if "GetArtifact f (sv_db sv) i = Inr art" "allows (scopeFor r) (da_service_name art)"
      "DeleteArtifact f' (sv_db sv) (da_id art) = (x, db1)" for sv f i art f' x db1
    using that(3)
  proof (rule op_run(19))
    show "permitted (sv_db sv) r (OpDeleteArtifact (da_id art))"
      using that by (auto simp: GetArtifact_def list_ex_iff split: if_splits option.splits dest!: findD)
  qed
  then show "keeps_to w sl r (handleDeleteArtifact w)"
    by (auto simp: keeps_to_def handleDeleteArtifact_def Let_def split: sum.split prod.split unit.split)
qed

lemma routes_keep:
  assumes "case route_guard call of Open \<Rightarrow> True | Session \<Rightarrow> hr_access r \<noteq> None | Needs p \<Rightarrow> Can (hr_access r) p"
  shows "keeps_to w sl r (route_handler w bk sl call)"
  using assms
  by (cases call) (simp_all only: route_guard.simps route_handler.simps guard.case admin_handlers reading_keep session_handlers
      logout_keeps login_keeps register_keeps dump_handlers not_None_eq, simp_all add: keeps_to_def)

lemma guarded_keeps: "keeps_to w sl r (guarded (route_guard call) (route_handler w bk sl call))"
proof (cases "case route_guard call of Open \<Rightarrow> True | Session \<Rightarrow> hr_access r \<noteq> None | Needs p \<Rightarrow> Can (hr_access r) p")
  case True
  from routes_keep [OF this, of w sl bk] show ?thesis
    by (cases "route_guard call") (auto simp: keeps_to_def requirePermission_def requireAuth_def)
next
  case False
  then show ?thesis
    by (cases "route_guard call") (auto simp: keeps_to_def requirePermission_def requireAuth_def)
qed

lemma serve_cases:
  assumes "hr_access r = None" "hr_token r = None"
  shows "snd (serve w bk sl call r sv) =
    snd (guarded (route_guard call) (route_handler w bk sl call) (signed_in w r (sv_db sv)) sv)"
  using withSession_cases [OF assms, where w = w and sv = sv and h = "guarded (route_guard call) (route_handler w bk sl call)"]
  by (cases "session_access w r (sv_db sv)") (auto simp: serve_def signed_in_def)

definition example_backend :: backend where
  "example_backend = \<lparr>bk_parse_time = (\<lambda>_. None), bk_parse_ms = (\<lambda>_. None), bk_discovered = Rows [],
     bk_services = (\<lambda>_ _ _. Rows []), bk_operations = (\<lambda>_ _ _. Rows []), bk_topology = (\<lambda>_ _ _ _ _. Rows []),
     bk_search = (\<lambda>_ _ _. Rows []), bk_index = (\<lambda>_ _. None), bk_spans = (\<lambda>_ _ _. Rows []),
     bk_ord_nodes = (\<lambda>xs. xs), bk_orders = \<lparr>mo_slices = (\<lambda>xs. xs), mo_hotspots = (\<lambda>xs. xs)\<rparr>,
     bk_decode_stop = (\<lambda>_. Inl []), bk_net = (\<lambda>_. NoReply []), bk_assets = [(''index.html'', ''nabiz'')]\<rparr>"

abbreviation guest_delete :: "response \<times> api_server" where
  "guest_delete \<equiv> serve example_io example_backend None DeleteUserC (example_http\<lparr>hr_id := ''a''\<rparr>) ann_server"

lemma guest_facts:
  "hr_access (example_http\<lparr>hr_id := i\<rparr>) = None" "hr_token (example_http\<lparr>hr_id := i\<rparr>) = None"
  "session_access w (example_http\<lparr>hr_id := i\<rparr>) db = None" "sv_db ann_server = two_admins" "io_env example_io = example_env"
  by (simp_all add: example_http_def session_access_def ann_server_def new_server_def example_io_def)



section \<open>Who manages\<close>

text \<open>What administration is about, as user \<open>me\<close> may not change it: role groups, memberships, projects,
  their applications, groups and tokens, and of the users everything but the times and the own
  password.\<close>

definition managed_user :: "string option \<Rightarrow> user_row \<Rightarrow> string \<times> string \<times> string \<times> bool \<times> bool \<times> string" where
  "managed_user me u = (us_id u, us_email u, us_name u, us_is_super_admin u, us_is_active u,
     if Some (us_id u) = me then [] else us_password_hash u)"

definition managed :: "string option \<Rightarrow> idb \<Rightarrow> _" where
  "managed me db = (db_role_groups db, db_user_role_groups db, db_projects db, db_project_applications db,
     db_project_role_groups db, db_project_diagnostics db, map (managed_user me) (db_users db))"

definition caller :: "request \<Rightarrow> string option" where
  "caller r = (case hr_access r of None \<Rightarrow> None | Some ac \<Rightarrow> Some (us_id (access_user r)))"

lemma managed_users_map:
  "(\<And>u. P u \<Longrightarrow> managed_user me (g u) = managed_user me u) \<Longrightarrow>
    managed me (db\<lparr>db_users := map (\<lambda>u. if P u then g u else u) us\<rparr>) = managed me (db\<lparr>db_users := us\<rparr>)"
  by (simp add: managed_def)

lemma managed_frame [simp]:
  "managed me (db\<lparr>db_sessions := ss\<rparr>) = managed me db" "managed me (db\<lparr>db_agents := as\<rparr>) = managed me db"
  "managed me (db\<lparr>db_artifacts := ds\<rparr>) = managed me db" "managed me (db\<lparr>db_users := db_users db\<rparr>) = managed me db"
  by (simp_all add: managed_def)

lemma managed_kept:
  assumes "permitted db0 r op" "\<not> Can (hr_access r) PermAdmin"
  shows "managed (caller r) (id_step env sl db (f, op)) = managed (caller r) db"
proof -
  have login: "managed me (snd (Authenticate env f now db e p)) = managed me db" for me now e p
  proof -
    have "managed me (db\<lparr>db_users := map (\<lambda>v. if us_id v = k then v\<lparr>us_last_login_at := t\<rparr> else v) (db_users db)\<rparr>) = managed me db" for k t
      using managed_users_map [where P = "\<lambda>v. us_id v = k" and g = "\<lambda>v. v\<lparr>us_last_login_at := t\<rparr>"
          and me = me and db = db and us = "db_users db"] by (simp add: managed_user_def)
    then show ?thesis by (auto simp: Authenticate_def split: option.split)
  qed
  have pw: "managed (Some i) (snd (SetPassword env f now db i p)) = managed (Some i) db" for now i p
  proof -
    have "managed (Some i) (db\<lparr>db_users := map (\<lambda>u. if us_id u = i then u\<lparr>us_password_hash := h, us_updated_at := now\<rparr> else u) (db_users db)\<rparr>)
        = managed (Some i) db" for h
      using managed_users_map [where P = "\<lambda>u. us_id u = i" and me = "Some i" and db = db and us = "db_users db"
          and g = "\<lambda>u. u\<lparr>us_password_hash := h, us_updated_at := now\<rparr>"]
      by (simp add: managed_user_def)
    then show ?thesis by (auto simp: SetPassword_def Let_def split: option.split)
  qed
  have reg: "managed me (snd (RegisterAgent env sl f nid now db a tok)) = managed me db" for me nid now a tok
    by (auto simp: RegisterAgent_def Let_def split: sum.split prod.split option.split)
  show ?thesis
  proof (cases op)
    case (OpAuthenticate now e p) then show ?thesis by (simp add: login)
  next
    case (OpRegister nid now a tok) then show ?thesis by (simp add: reg)
  next
    case (OpSetPassword now i p)
    with assms have "caller r = Some i" by (auto simp: caller_def)
    with OpSetPassword show ?thesis by (simp add: pw)
  next
    case (OpCreateSession tok now i ua ttl)
    then show ?thesis by (simp add: CreateSession_def Let_def)
  next
    case (OpDeleteSession tok)
    then show ?thesis by (simp add: DeleteSession_def)
  next
    case (OpCreateArtifact nid now i s k who)
    then show ?thesis by (simp add: CreateArtifact_def)
  next
    case (OpDeleteArtifact did)
    then show ?thesis by (simp add: DeleteArtifact_def)
  qed (use assms in simp_all)
qed

lemma managed_run:
  assumes "\<not> Can (hr_access r) PermAdmin" "list_all (\<lambda>x. permitted db0 r (snd x)) ops"
  shows "managed (caller r) (foldl (id_step env sl) db ops) = managed (caller r) db"
  using assms(2)
proof (induction ops arbitrary: db)
  case (Cons x ops)
  then have "managed (caller r) (id_step env sl db (fst x, snd x)) = managed (caller r) db"
    using managed_kept [OF _ assms(1)] by fastforce
  with Cons show ?case by simp
qed simp

lemma policy_runs:
  assumes "hr_access r = None" "hr_token r = None"
  shows "by_ops (io_env w) sl (permitted (sv_db sv) (signed_in w r (sv_db sv))) (sv_db sv) (sv_db (snd (serve w bk sl call r sv)))"
  using guarded_keeps [of w sl "signed_in w r (sv_db sv)" call bk] serve_cases [OF assms, of w bk sl call sv]
  by (simp add: keeps_to_def)



section \<open>Runs of the server\<close>

datatype server_event = Request io backend api_call request
  | JobStarted string
  | JobAsked string "string \<Rightarrow> string + string \<times> int \<times> string" faults reply
  | JobFetched string faults "string \<Rightarrow> bool" string time download
  | Janitor janitor_round
  | PurgeSessions faults time

text \<open>The cryptographic environment and the sealer belong to the process; a request arrives without an
  access, which only the session middleware attaches.\<close>

fun server_step :: "id_env \<Rightarrow> sealer \<Rightarrow> api_server \<Rightarrow> server_event \<Rightarrow> api_server" where
  "server_step env sl sv (Request w bk call r) =
     snd (serve (w\<lparr>io_env := env\<rparr>) bk sl call (r\<lparr>hr_access := None, hr_token := None\<rparr>) sv)"
| "server_step env sl sv (JobStarted did) = diag_step sv (ERegistered did)"
| "server_step env sl sv (JobAsked did decode flt rep) = diag_step sv (EAsked did decode flt rep)"
| "server_step env sl sv (JobFetched did flt fault os_error now d) = diag_step sv (EFetched did flt fault os_error now d)"
| "server_step env sl sv (Janitor rd) = cleanDumps rd sv"
| "server_step env sl sv (PurgeSessions flt now) = sv\<lparr>sv_db := snd (PurgeExpiredSessions flt now (sv_db sv))\<rparr>"

abbreviation anything :: "id_op \<Rightarrow> bool" where "anything \<equiv> \<lambda>_. True"

lemma job_run:
  "by_ops env sl anything db (snd (CompleteArtifact f1 db i fn n))"
  "by_ops env sl anything db (snd (FailArtifact f2 db i m))"
  "by_ops env sl anything db (snd (CancelArtifact f3 db i))"
  "by_ops env sl anything db (snd (DeleteArtifact f4 db i))"
  "by_ops env sl anything db (snd (PurgeExpiredSessions f5 now db))"
proof -
  show "by_ops env sl anything db (snd (CompleteArtifact f1 db i fn n))"
    by (rule by_op [where op = "OpCompleteArtifact i fn n" and f = f1]) simp_all
  show "by_ops env sl anything db (snd (FailArtifact f2 db i m))"
    by (rule by_op [where op = "OpFailArtifact i m" and f = f2]) simp_all
  show "by_ops env sl anything db (snd (CancelArtifact f3 db i))"
    by (rule by_op [where op = "OpCancelArtifact i" and f = f3]) simp_all
  show "by_ops env sl anything db (snd (DeleteArtifact f4 db i))"
    by (rule by_op [where op = "OpDeleteArtifact i" and f = f4]) simp_all
  show "by_ops env sl anything db (snd (PurgeExpiredSessions f5 now db))"
    by (rule by_op [where op = "OpPurge now" and f = f5]) simp_all
qed

lemma with_job_runs:
  "(\<And>j. by_ops env sl P (sv_db sv) (sv_db (f j sv))) \<Longrightarrow> by_ops env sl P (sv_db sv) (sv_db (with_job did f sv))"
  by (auto simp: with_job_def split: option.split)

lemma job_fail_runs: "by_ops env sl anything (sv_db sv) (sv_db (job_fail flt m j sv))"
  by (simp add: job_fail_def end_job_def job_run)

lemma job_fail_fs_runs: "by_ops env sl anything (sv_db sv) (sv_db (job_fail flt m j (sv\<lparr>sv_fs := fs1\<rparr>)))"
  using job_fail_runs [of env sl "sv\<lparr>sv_fs := fs1\<rparr>" flt m j] by simp

lemma job_steps_run:
  "by_ops env sl anything (sv_db sv) (sv_db (diag_step sv (ERegistered did)))"
  "by_ops env sl anything (sv_db sv) (sv_db (diag_step sv (EAsked did decode flt rep)))"
  "by_ops env sl anything (sv_db sv) (sv_db (diag_step sv (EFetched did flt2 fault os_error now d)))"
proof -
  show "by_ops env sl anything (sv_db sv) (sv_db (diag_step sv (ERegistered did)))"
    by (auto intro!: with_job_runs simp: job_register_def set_job_def)
  show "by_ops env sl anything (sv_db sv) (sv_db (diag_step sv (EAsked did decode flt rep)))"
    by (auto intro!: with_job_runs simp: job_asked_def job_fail_runs set_job_def split: sum.split)
  have "by_ops env sl anything (sv_db sv) (sv_db (store_dump flt2 fault os_error now c body ce cl j sv))" for c body ce cl j
    by (auto simp: store_dump_def Let_def job_fail_runs job_fail_fs_runs end_job_def job_run split: option.split)
  then show "by_ops env sl anything (sv_db sv) (sv_db (diag_step sv (EFetched did flt2 fault os_error now d)))"
    by (auto intro!: with_job_runs simp: job_fetched_def job_fail_runs split: job_phase.split download.split)
qed

lemma janitor_runs: "by_ops env sl anything (sv_db sv) (sv_db (cleanDumps rd sv))"
proof -
  have all: "by_ops env sl anything (sv_db sv) (sv_db (foldl (removeDump rd) sv xs))" for xs sv
  proof (induction xs arbitrary: sv)
    case (Cons a xs)
    have "by_ops env sl anything (sv_db sv) (sv_db (removeDump rd sv a))" by (simp add: removeDump_def Let_def job_run)
    from by_ops_trans [OF this Cons.IH] show ?case by simp
  qed simp
  have "sv_db (foldl (removeOrphan rd k) sv es) = sv_db sv" for k es sv
    by (induction es arbitrary: sv) (simp_all add: removeOrphan_def)
  then show ?thesis
    using by_ops_trans [OF all all] by (auto simp: cleanDumps_def removeOrphans_def Let_def split: sum.split)
qed

lemma by_ops_good:
  assumes "by_ops env sl P db db1" "id_ok env db \<and> has_admin db"
  shows "id_ok env db1 \<and> has_admin db1"
  using assms admins.run_good [of env db sl] by (auto simp: by_ops_def)

lemma server_step_good:
  assumes "id_ok env (sv_db sv) \<and> has_admin (sv_db sv)"
  shows "id_ok env (sv_db (server_step env sl sv e)) \<and> has_admin (sv_db (server_step env sl sv e))"
proof (cases e)
  case (Request w bk call r)
  have "by_ops env sl (permitted (sv_db sv) (signed_in (w\<lparr>io_env := env\<rparr>) (r\<lparr>hr_access := None, hr_token := None\<rparr>) (sv_db sv)))
      (sv_db sv) (sv_db (server_step env sl sv e))"
    using policy_runs [of "r\<lparr>hr_access := None, hr_token := None\<rparr>" "w\<lparr>io_env := env\<rparr>" sl sv bk call] by (simp add: Request)
  from by_ops_good [OF this assms] show ?thesis .
next
  case (JobStarted did)
  with by_ops_good [OF job_steps_run(1) assms] show ?thesis by (simp del: diag_step.simps)
next
  case (JobAsked did decode flt rep)
  with by_ops_good [OF job_steps_run(2) assms] show ?thesis by (simp del: diag_step.simps)
next
  case (JobFetched did flt fault os_error now d)
  with by_ops_good [OF job_steps_run(3) assms] show ?thesis by (simp del: diag_step.simps)
next
  case (Janitor rd)
  with by_ops_good [OF janitor_runs assms] show ?thesis by simp
next
  case (PurgeSessions flt now)
  with by_ops_good [OF job_run(5) assms] show ?thesis by simp
qed

interpretation api_runs: invariant_machine "server_step env sl" "\<lambda>sv. id_ok env (sv_db sv) \<and> has_admin (sv_db sv)"
  for env :: id_env and sl :: sealer
  by unfold_locales (rule server_step_good)



end
