(* ===== verification/TelemetryProps.thy ===== *)
theory TelemetryProps
  imports Telemetry TopologyProps
begin

text \<open>
  The numbers the telemetry endpoints compute: the quantile estimated from a histogram lies in the
  bucket of the true quantile, the nodes of the topology are exactly the ends of its edges and carry
  the calls into them, a time range is never empty.
\<close>

section \<open>Quantiles\<close>

text \<open>The histogram of a list of durations, as the topology builder counts them.\<close>

definition histogram :: "u64 list \<Rightarrow> u64 list" where
  "histogram ds = map (\<lambda>i. of_nat (length (filter (\<lambda>d. bucketIndex d = i) ds))) [0..<BucketCount]"

text \<open>\<open>x\<close> is the q-quantile by rank: fewer than a share \<open>q\<close> lies below it, at least that share at or
  below it.\<close>

definition is_quantile :: "rat \<Rightarrow> u64 list \<Rightarrow> u64 \<Rightarrow> bool" where
  "is_quantile q ds x \<longleftrightarrow> of_nat (length (filter (\<lambda>d. d < x) ds)) < q * of_nat (length ds)
     \<and> q * of_nat (length ds) \<le> of_nat (length (filter (\<lambda>d. d \<le> x) ds))"

definition bucket_low :: "nat \<Rightarrow> rat" where
  "bucket_low i = (if 0 < i then of_nat (LatencyBounds ! (i - 1)) else 0)"

abbreviation counted :: "u64 list \<Rightarrow> rat" where
  "counted cs \<equiv> sum_list (map float_u64 cs)"

lemma float_u64_nonneg [simp]: "0 \<le> float_u64 c"
  by (simp only: float_u64_def of_nat_0_le_iff)

lemma counted_nonneg [simp]: "0 \<le> counted cs"
  by (induction cs) simp_all

lemma quantile_from_at:
  assumes "i < length cs" "cum + counted (take i cs) < t" "t \<le> cum + counted (take (Suc i) cs)"
  shows "quantile_from t k cum cs =
    (if length LatencyBounds \<le> k + i then last_bound
     else bucket_low (k + i) + (of_nat (LatencyBounds ! (k + i)) - bucket_low (k + i))
            * ((t - (cum + counted (take i cs))) / float_u64 (cs ! i)))"
  using assms
proof (induction cs arbitrary: i k cum)
  case (Cons c cs)
  show ?case
  proof (cases i)
    case 0
    with Cons.prems have "c \<noteq> 0" by (auto simp: float_u64_def)
    with 0 Cons.prems show ?thesis by (simp add: Let_def bucket_low_def)
  next
    case (Suc j)
    have "cum + (float_u64 c + counted (take j cs)) < t" using Cons.prems(2) by (simp add: Suc add.assoc)
    with counted_nonneg [of "take j cs"] have "cum + float_u64 c < t" by linarith
    moreover have "quantile_from t (Suc k) (cum + float_u64 c) cs =
      (if length LatencyBounds \<le> Suc k + j then last_bound
       else bucket_low (Suc k + j) + (of_nat (LatencyBounds ! (Suc k + j)) - bucket_low (Suc k + j))
            * ((t - (cum + float_u64 c + counted (take j cs))) / float_u64 (cs ! j)))"
      using Cons.prems by (intro Cons.IH) (simp_all add: Suc add.assoc)
    ultimately show ?thesis by (simp add: Suc Let_def add.assoc)
  qed
qed simp

lemma bucket_low_less: "i < length LatencyBounds \<Longrightarrow> bucket_low i < of_nat (LatencyBounds ! i)"
proof -
  assume "i < length LatencyBounds"
  then have "i \<in> set [0..<13]" by (simp add: LatencyBounds_def)
  moreover have "\<forall>i \<in> set [0..<13]. bucket_low i < of_nat (LatencyBounds ! i)"
    by (simp add: upt_rec bucket_low_def LatencyBounds_def)
  ultimately show ?thesis by blast
qed

lemma quantile_from_bounds:
  assumes "i < length cs" "counted (take i cs) < t" "t \<le> counted (take (Suc i) cs)" "i < length LatencyBounds"
  shows "bucket_low i < quantile_from t 0 0 cs \<and> quantile_from t 0 0 cs \<le> of_nat (LatencyBounds ! i)"
proof -
  let ?f = "(t - counted (take i cs)) / float_u64 (cs ! i)" and ?w = "of_nat (LatencyBounds ! i) - bucket_low i"
  have step: "counted (take (Suc i) cs) = counted (take i cs) + float_u64 (cs ! i)"
    using assms(1) by (simp add: take_Suc_conv_app_nth)
  with assms(2,3) have c: "0 < float_u64 (cs ! i)" by linarith
  have f: "0 < ?f" "?f \<le> 1" using assms(2,3) step c by (simp_all add: divide_le_eq)
  have w: "0 < ?w" using bucket_low_less [OF assms(4)] by simp
  have "quantile_from t 0 0 cs = bucket_low i + ?w * ?f"
    using quantile_from_at [of i cs 0 t 0] assms by simp
  moreover have "0 < ?w * ?f" "?w * ?f \<le> ?w" using mult_pos_pos [OF w f(1)] mult_left_le [OF f(2), of ?w] w by linarith+
  ultimately show ?thesis by linarith
qed

lemma bucket_from_ge: "i + length bs = BucketCount - 1 \<Longrightarrow> i \<le> bucket_from y i bs"
proof (induction bs arbitrary: i)
  case (Cons b bs)
  from Cons.IH [of "Suc i"] Cons.prems show ?case by simp
qed simp

lemma bucket_from_mono: "x \<le> y \<Longrightarrow> i + length bs = BucketCount - 1 \<Longrightarrow> bucket_from x i bs \<le> bucket_from y i bs"
proof (induction bs arbitrary: i)
  case (Cons b bs)
  have "i \<le> bucket_from y (Suc i) bs" using bucket_from_ge [of "Suc i" bs y] Cons.prems(2) by simp
  with Cons show ?case by simp
qed simp

lemma bucketIndex_mono: "d \<le> x \<Longrightarrow> bucketIndex d \<le> bucketIndex x"
  unfolding bucketIndex_def word_le_nat_alt
  by (rule bucket_from_mono) (auto intro!: divide_right_mono of_nat_mono simp only: BucketCount_def)

lemma bucketIndex_bound: "bucketIndex d < BucketCount"
  using bucket_from_bound [of 0 LatencyBounds "of_nat (unat d) / 1000000"] unfolding bucketIndex_def BucketCount_def
  by linarith

lemma float_u64_of_nat: "k < 2 ^ 64 \<Longrightarrow> float_u64 (of_nat k) = of_nat k"
  by (simp add: float_u64_def unsigned_of_nat take_bit_nat_eq_self)

lemma length_filter_mono: "(\<And>x. P x \<Longrightarrow> Q x) \<Longrightarrow> length (filter P xs) \<le> length (filter Q xs)"
  by (induction xs) (auto simp: le_SucI)

text \<open>Counting does not wrap below \<open>2 ^ 64\<close> durations.\<close>

lemma histogram_counts:
  assumes "length ds < 2 ^ 64" "n \<le> BucketCount"
  shows "counted (take n (histogram ds)) = of_nat (length (filter (\<lambda>d. bucketIndex d < n) ds))"
  using assms(2)
proof (induction n)
  case (Suc n)
  have f: "float_u64 (of_nat (length (filter P ds))) = of_nat (length (filter P ds))" for P
    by (rule float_u64_of_nat [OF le_less_trans [OF length_filter_le assms(1)]])
  have "length (filter (\<lambda>d. bucketIndex d < Suc n) ds) =
      length (filter (\<lambda>d. bucketIndex d < n) ds) + length (filter (\<lambda>d. bucketIndex d = n) ds)"
    by (induction ds) auto
  with Suc f show ?case by (simp add: histogram_def take_map take_upt)
qed simp

lemma histogram_sum:
  assumes "length ds < 2 ^ 64"
  shows "float_u64 (sum_list (histogram ds)) = of_nat (length ds)"
proof -
  have "sum_list (map (\<lambda>i. of_nat (length (filter (\<lambda>d. bucketIndex d = i) ds))) [0..<n]) =
      (of_nat (length (filter (\<lambda>d. bucketIndex d < n) ds)) :: u64)" for n
  proof (induction n)
    case (Suc n)
    have "length (filter (\<lambda>d. bucketIndex d < Suc n) ds) =
        length (filter (\<lambda>d. bucketIndex d < n) ds) + length (filter (\<lambda>d. bucketIndex d = n) ds)"
      by (induction ds) auto
    with Suc show ?case by simp
  qed simp
  moreover have "filter (\<lambda>d. bucketIndex d < BucketCount) ds = ds"
    using bucketIndex_bound by simp
  ultimately have "sum_list (histogram ds) = of_nat (length ds)" by (metis histogram_def)
  with float_u64_of_nat [OF assms] show ?thesis by simp
qed

text \<open>(C26) The estimated quantile is off by less than one bucket: for every \<open>q\<close> the estimate lies in the
  bucket that holds the true quantile of the recorded durations, above its lower bound and not
  above its upper one; in the last bucket it is the largest bound.\<close>

theorem quantile_in_true_bucket:
  assumes "length ds < 2 ^ 64" "0 < q" "is_quantile q ds x"
  shows "let h = histogramQuantile (histogram ds) q; i = bucketIndex x in
    if i < length LatencyBounds then bucket_low i < h \<and> h \<le> of_nat (LatencyBounds ! i) else h = last_bound"
proof -
  let ?i = "bucketIndex x" and ?cs = "histogram ds" and ?t = "q * of_nat (length ds)"
  have i: "?i < length ?cs" using bucketIndex_bound by (simp add: histogram_def)
  have n: "ds \<noteq> []" using assms(3) by (auto simp: is_quantile_def)
  have "length (filter (\<lambda>d. bucketIndex d < ?i) ds) \<le> length (filter (\<lambda>d. d < x) ds)"
    using bucketIndex_mono by (intro length_filter_mono) (meson leD not_less)
  moreover have "length (filter (\<lambda>d. d \<le> x) ds) \<le> length (filter (\<lambda>d. bucketIndex d < Suc ?i) ds)"
    using bucketIndex_mono by (intro length_filter_mono) (simp add: less_Suc_eq_le)
  ultimately have b: "counted (take ?i ?cs) < ?t" "?t \<le> counted (take (Suc ?i) ?cs)"
    using assms(3) i histogram_counts [OF assms(1), of ?i] histogram_counts [OF assms(1), of "Suc ?i"]
    by (simp_all add: is_quantile_def histogram_def)
  have "sum_list ?cs \<noteq> 0" using histogram_sum [OF assms(1)] n by (auto simp: float_u64_def)
  then have h: "histogramQuantile ?cs q = quantile_from ?t 0 0 ?cs"
    by (simp add: histogramQuantile_def Let_def histogram_sum [OF assms(1)])
  show ?thesis
  proof (cases "?i < length LatencyBounds")
    case True
    with quantile_from_bounds [OF i b True] show ?thesis by (simp add: h Let_def)
  next
    case False
    with quantile_from_at [of ?i ?cs 0 ?t 0] i b show ?thesis by (simp add: h Let_def)
  qed
qed

theorem quantile_in_true_bucket_witness:
  "let h = histogramQuantile (histogram [3000000, 4000000, 7000000, 900000000]) (95 / 100) in 500 < h \<and> h \<le> 1000"
proof -
  have "is_quantile (95 / 100) [3000000, 4000000, 7000000, 900000000] 900000000" by (simp add: is_quantile_def)
  moreover have "bucketIndex 900000000 = 9" by (simp add: bucketIndex_def LatencyBounds_def)
  ultimately show ?thesis
    using quantile_in_true_bucket [of "[3000000, 4000000, 7000000, 900000000]" "95 / 100" 900000000]
    by (simp add: Let_def bucket_low_def LatencyBounds_def)
qed

section \<open>The graph\<close>

lemma map_of_update [simp]: "map_of (AList.update k v m) = (map_of m)(k \<mapsto> v)"
  by (simp add: gm.look_put)

lemma upsertNode_parts:
  assumes "upsertNode nodes i typ ns wl = (n, nodes1)"
  shows "nodes1 = AList.update i n nodes \<and> gn_ID n = (case map_of nodes i of None \<Rightarrow> i | Some m \<Rightarrow> gn_ID m)
    \<and> gn_Calls n = (case map_of nodes i of None \<Rightarrow> 0 | Some m \<Rightarrow> gn_Calls m)
    \<and> gn_Errors n = (case map_of nodes i of None \<Rightarrow> 0 | Some m \<Rightarrow> gn_Errors m)
    \<and> gn_ErrorRate n = (case map_of nodes i of None \<Rightarrow> 0 | Some m \<Rightarrow> gn_ErrorRate m)"
  using assms by (auto simp: upsertNode_def Let_def split: option.splits)

text \<open>What the map of nodes holds after the rows: an entry for every end, filed under its identifier,
  with the calls and errors into it.\<close>

definition calls_into :: "edge_row_t list \<Rightarrow> string \<Rightarrow> u64" where
  "calls_into xs i = sum_list (map er_calls (filter (\<lambda>x. er_dst x = i) xs))"

definition errors_into :: "edge_row_t list \<Rightarrow> string \<Rightarrow> u64" where
  "errors_into xs i = sum_list (map er_errs (filter (\<lambda>x. er_dst x = i) xs))"

definition nodes_of :: "node_map \<Rightarrow> edge_row_t list \<Rightarrow> bool" where
  "nodes_of m xs \<longleftrightarrow> is_gomap m \<and> dom (map_of m) = er_src ` set xs \<union> er_dst ` set xs
     \<and> (\<forall>i n. map_of m i = Some n \<longrightarrow> gn_ID n = i \<and> gn_Calls n = calls_into xs i \<and> gn_Errors n = errors_into xs i
          \<and> gn_ErrorRate n = ratio (gn_Errors n) (gn_Calls n))"

lemma upsert_nodes:
  assumes "nodes_of m xs" "upsertNode m i typ ns wl = (n, m1)" "i \<notin> dom (map_of m) \<Longrightarrow> calls_into xs i = 0 \<and> errors_into xs i = 0"
  shows "m1 = AList.update i n m \<and> gn_ID n = i \<and> gn_Calls n = calls_into xs i \<and> gn_Errors n = errors_into xs i
    \<and> gn_ErrorRate n = ratio (gn_Errors n) (gn_Calls n)"
  using assms(1,3) upsertNode_parts [OF assms(2)]
  by (cases "map_of m i") (auto simp: nodes_of_def ratio_def domIff)

lemma nothing_into: "i \<notin> er_dst ` set xs \<Longrightarrow> calls_into xs i = 0 \<and> errors_into xs i = 0"
proof -
  assume "i \<notin> er_dst ` set xs"
  then have "filter (\<lambda>x. er_dst x = i) xs = []" by (auto simp: filter_empty_conv)
  then show ?thesis by (simp add: calls_into_def errors_into_def)
qed

lemma add_nodes_keeps:
  assumes "nodes_of m xs"
  shows "nodes_of (add_nodes m x) (xs @ [x])"
proof -
  have dom: "dom (map_of m) = er_src ` set xs \<union> er_dst ` set xs" using assms by (simp add: nodes_of_def)
  obtain sn m1 where u1: "upsertNode m (er_src x) (src_type (er_connType x)) (er_clientNS x) (er_clientWL x) = (sn, m1)" by fastforce
  note p1 = upsert_nodes [OF assms u1]
  have p1: "m1 = AList.update (er_src x) sn m" "gn_ID sn = er_src x" "gn_Calls sn = calls_into xs (er_src x)"
    "gn_Errors sn = errors_into xs (er_src x)" "gn_ErrorRate sn = ratio (gn_Errors sn) (gn_Calls sn)"
    using p1 nothing_into dom by auto
  obtain dn m2 where u2: "upsertNode m1 (er_dst x) (dst_type (er_connType x)) (er_serverNS x) (er_serverWL x) = (dn, m2)" by fastforce
  have look: "map_of m1 = (map_of m)(er_src x \<mapsto> sn)" by (simp add: p1(1))
  have p2: "m2 = AList.update (er_dst x) dn m1" "gn_ID dn = er_dst x" "gn_Calls dn = calls_into xs (er_dst x)"
    "gn_Errors dn = errors_into xs (er_dst x)"
  proof -
    have "map_of m i = Some n \<Longrightarrow> gn_ID n = i \<and> gn_Calls n = calls_into xs i \<and> gn_Errors n = errors_into xs i" for i n
      using assms by (simp add: nodes_of_def)
    moreover have "map_of m i = None \<Longrightarrow> calls_into xs i = 0 \<and> errors_into xs i = 0" for i
      using nothing_into [of i xs] dom by (auto simp: domIff)
    ultimately show "m2 = AList.update (er_dst x) dn m1" "gn_ID dn = er_dst x" "gn_Calls dn = calls_into xs (er_dst x)"
      "gn_Errors dn = errors_into xs (er_dst x)"
      using upsertNode_parts [OF u2] p1 by (auto simp: look split: if_splits option.splits)
  qed
  let ?d = "dn\<lparr>gn_Calls := gn_Calls dn + er_calls x, gn_Errors := gn_Errors dn + er_errs x,
     gn_ErrorRate := ratio (gn_Errors dn + er_errs x) (gn_Calls dn + er_calls x)\<rparr>"
  have r: "add_nodes m x = AList.update (er_dst x) ?d m2" by (simp add: add_nodes_def u1 u2 Let_def)
  have l: "map_of (add_nodes m x) = (map_of m)(er_src x \<mapsto> sn, er_dst x \<mapsto> ?d)"
    by (simp add: r p2(1) look)
  have "is_gomap (add_nodes m x)" using assms by (simp add: r p2(1) p1(1) nodes_of_def gm.ok_put)
  moreover have "dom (map_of (add_nodes m x)) = er_src ` set (xs @ [x]) \<union> er_dst ` set (xs @ [x])"
    unfolding l using dom by auto
  moreover have "gn_ID n = i \<and> gn_Calls n = calls_into (xs @ [x]) i \<and> gn_Errors n = errors_into (xs @ [x]) i
      \<and> gn_ErrorRate n = ratio (gn_Errors n) (gn_Calls n)" if "map_of (add_nodes m x) i = Some n" for i n
  proof (cases "i = er_dst x")
    case True
    with that show ?thesis unfolding l by (auto simp: p2 calls_into_def errors_into_def)
  next
    case False
    then have "calls_into (xs @ [x]) i = calls_into xs i" "errors_into (xs @ [x]) i = errors_into xs i"
      by (simp_all add: calls_into_def errors_into_def)
    with False that assms p1 show ?thesis unfolding l by (auto simp: nodes_of_def split: if_splits)
  qed
  ultimately show ?thesis by (simp add: nodes_of_def)
qed

lemma all_nodes: "nodes_of (foldl add_nodes [] xs) xs"
proof (induction xs rule: rev_induct)
  case Nil
  show ?case by (simp add: nodes_of_def is_gomap_def)
next
  case (snoc x xs)
  from add_nodes_keeps [OF this, of x] show ?case by simp
qed

lemma topology_rows:
  "rp_body (fst (handleTopology ord parse now qp ask r sv)) = TopologyBody f t level nodes edges \<longrightarrow>
     nodes = [] \<and> edges = [] \<or> (\<exists>xs. nodes = map snd (ord (foldl add_nodes [] xs)) \<and> edges = map graph_edge_of xs)"
proof (cases "timeRange parse now qp")
  case (Inr b)
  obtain f' t' where b: "b = (f', t')" by fastforce
  show ?thesis
  proof (cases "ask (groupExprs (tq_level qp)) (map (\<lambda>c. ''sum('' @ c @ '')'') bucketColumns) f' t' (filterTopology (scopeFor r))")
    case (Rows rs)
    then show ?thesis using Inr b
      by (cases "scan_rows rs") (auto simp: handleTopology_def Let_def writeError_def respond_def)
  qed (use Inr b in \<open>auto simp: handleTopology_def Let_def writeError_def respond_def\<close>)
qed (simp add: handleTopology_def writeError_def respond_def)

text \<open>(C27) The topology is a graph: the nodes are exactly the ends of the edges, each once; the calls and
  errors of a node are those of the edges into it, and its error rate is their quotient.\<close>

theorem topology_is_a_graph:
  assumes "is_order ord" "handleTopology ord parse now qp ask r sv = (rp, sv1)" "rp_body rp = TopologyBody f t level nodes edges"
  shows "distinct (map gn_ID nodes) \<and> set (map gn_ID nodes) = set (map ge_Source edges) \<union> set (map ge_Target edges)
    \<and> (\<forall>n \<in> set nodes. gn_Calls n = sum_list (map ge_Calls (filter (\<lambda>e. ge_Target e = gn_ID n) edges))
         \<and> gn_Errors n = sum_list (map ge_Errors (filter (\<lambda>e. ge_Target e = gn_ID n) edges))
         \<and> gn_ErrorRate n = ratio (gn_Errors n) (gn_Calls n))"
proof -
  have "\<exists>xs. nodes = map snd (ord (foldl add_nodes [] xs)) \<and> edges = map graph_edge_of xs"
  proof -
    have "ord [] = []" using is_order_length [OF assms(1), of "[]"] by simp
    with topology_rows [of ord parse now qp ask r sv f t level nodes edges] assms(2,3) show ?thesis
      by (auto intro: exI [of _ "[]"])
  qed
  then obtain xs where nodes: "nodes = map snd (ord (foldl add_nodes [] xs))" and edges: "edges = map graph_edge_of xs" by blast
  let ?m = "foldl add_nodes [] xs"
  note inv = all_nodes [of xs, unfolded nodes_of_def]
  have ent: "(i, n) \<in> set ?m \<longleftrightarrow> map_of ?m i = Some n" for i n using inv by (intro gomap_entry) simp
  have ids: "map gn_ID nodes = map fst (ord ?m)"
    unfolding nodes using inv ent is_order_set [OF assms(1), of ?m] by (auto simp: comp_def)
  have "mset (map fst (ord ?m)) = mset (map fst ?m)" using assms(1) by (simp add: is_order_def)
  then have dist: "distinct (map gn_ID nodes)" using inv ids by (metis is_gomap_def mset_eq_imp_distinct_iff)
  have "set (map gn_ID nodes) = dom (map_of ?m)"
    unfolding ids using is_order_set [OF assms(1), of ?m] by (simp add: dom_map_of_conv_image_fst)
  then have ends: "set (map gn_ID nodes) = set (map ge_Source edges) \<union> set (map ge_Target edges)"
    using inv by (simp add: edges graph_edge_of_def image_image)
  have into: "calls_into xs i = sum_list (map ge_Calls (filter (\<lambda>e. ge_Target e = i) edges))"
    "errors_into xs i = sum_list (map ge_Errors (filter (\<lambda>e. ge_Target e = i) edges))" for i
    by (simp_all add: calls_into_def errors_into_def edges filter_map comp_def graph_edge_of_def)
  have "gn_Calls n = calls_into xs (gn_ID n) \<and> gn_Errors n = errors_into xs (gn_ID n) \<and> gn_ErrorRate n = ratio (gn_Errors n) (gn_Calls n)"
    if "n \<in> set nodes" for n
  proof -
    from that obtain i where "(i, n) \<in> set ?m" using is_order_set [OF assms(1), of ?m] by (auto simp: nodes)
    with ent inv show ?thesis by auto
  qed
  with dist ends into show ?thesis by auto
qed

definition empty_query :: telemetry_query where
  "empty_query = \<lparr>tq_from = [], tq_to = [], tq_service = [], tq_level = [], tq_minDurationMs = [],
     tq_onlyErrors = [], tq_limit = []\<rparr>"

definition super_http :: request where
  "super_http = example_http\<lparr>hr_access := Some \<lparr>ac_User = Some (admin_row ''a'' ''ann''), ac_Permissions = [],
     ac_Projects = [], ac_Applications = []\<rparr>\<rparr>"

lemma super_scope: "scopeFor super_http = \<lparr>sc_unrestricted = True, sc_services = []\<rparr>"
  by (simp add: super_http_def scopeFor_def SeesEverything_def admin_row_def example_http_def)

lemma empty_range: "timeRange parse now empty_query = Inr (now - 3600 * 10 ^ 9, now)"
  by (simp add: timeRange_def empty_query_def)

definition example_edge_row :: "string \<Rightarrow> string \<Rightarrow> string \<Rightarrow> u64 \<Rightarrow> edge_row_t" where
  "example_edge_row src dst typ n = \<lparr>er_src = src, er_dst = dst, er_connType = typ, er_clientNS = [], er_clientWL = [],
     er_serverNS = [], er_serverWL = [], er_calls = n, er_errs = 1, er_durSum = 0, er_durMax = 0,
     er_buckets = replicate BucketCount 0\<rparr>"

theorem topology_is_a_graph_witness:
  "\<exists>f t l nodes edges. rp_body (fst (handleTopology rev (\<lambda>_. None) 0 empty_query
       (\<lambda>_ _ _ _ _. Rows [Inr (example_edge_row ''shop'' ''ledger'' ''service'' 3), Inr (example_edge_row ''pay'' ''ledger'' ''service'' 4)])
       super_http ann_server)) = TopologyBody f t l nodes edges
     \<and> set (map gn_ID nodes) = {''shop'', ''pay'', ''ledger''}"
proof -
  let ?ask = "\<lambda>_ _ _ _ _. Rows [Inr (example_edge_row ''shop'' ''ledger'' ''service'' 3), Inr (example_edge_row ''pay'' ''ledger'' ''service'' 4)]"
  obtain rp sv1 where h: "handleTopology rev (\<lambda>_. None) 0 empty_query ?ask super_http ann_server = (rp, sv1)" by fastforce
  then obtain f t l nodes where b: "rp_body rp = TopologyBody f t l nodes (map graph_edge_of
      [example_edge_row ''shop'' ''ledger'' ''service'' 3, example_edge_row ''pay'' ''ledger'' ''service'' 4])"
    by (auto simp: handleTopology_def empty_range super_scope scope_empty_def Let_def respond_def)
  from topology_is_a_graph [OF is_order_rev h b] b h show ?thesis
    by (auto simp: graph_edge_of_def example_edge_row_def)
qed

section \<open>The range\<close>

text \<open>A time range that is accepted is not empty, so the rate per second divides by a positive number
  of seconds; without parameters it is the last hour.\<close>

theorem time_range_positive:
  "(\<forall>f t. timeRange parse now qp = Inr (f, t) \<longrightarrow> f < t \<and> 0 < (of_int (time_sub t f) / 10 ^ 9 :: rat))
   \<and> timeRange parse now empty_query = Inr (now - 3600 * 10 ^ 9, now)"
  by (auto simp: timeRange_def time_sub_def empty_query_def split: option.splits if_splits)

theorem time_range_positive_witness:
  "timeRange (\<lambda>_. None) 0 (empty_query\<lparr>tq_from := ''15m''\<rparr>) = Inr (- (15 * 60 * 10 ^ 9), 0)
   \<and> 0 < (of_int (time_sub 0 (- (15 * 60 * 10 ^ 9))) / 10 ^ 9 :: rat)"
proof -
  have "parse_duration (nat_string 15 @ ''m'') = Some (15 * (60 * 10 ^ 9))"
    using parse_duration_unit [of "''m''" "60 * 10 ^ 9" 15] by (simp add: duration_units_def)
  then have "parse_duration ''15m'' = Some (15 * 60 * 10 ^ 9)"
    by (simp add: nat_string.simps digit_char_def)
  then have r: "timeRange (\<lambda>_. None) 0 (empty_query\<lparr>tq_from := ''15m''\<rparr>) = Inr (- (15 * 60 * 10 ^ 9), 0)"
    by (simp add: timeRange_def empty_query_def wrap_i64_id)
  with time_range_positive [of "\<lambda>_. None" 0 "empty_query\<lparr>tq_from := ''15m''\<rparr>"] show ?thesis by blast
qed

end
