(* ===== verification/TraceProps.thy ===== *)
theory TraceProps
  imports TraceView
begin

text \<open>
  The detail of a trace: where its time went. Self times of a trace whose children run one after the
  other add up to the duration of its roots, and not where children overlap; the breakdown and the
  hotspots account for every span once. The search: the text of its query is fixed, the parameters
  of the request are arguments.
\<close>

section \<open>Self times\<close>

definition dur :: "span_record \<Rightarrow> nat" where
  "dur x = unat (rc_durNS x)"

definition children :: "span_record list \<Rightarrow> span_record \<Rightarrow> span_record list" where
  "children xs x = filter (\<lambda>y. rc_parentID y = rc_spanID x) xs"

definition top_spans :: "span_record list \<Rightarrow> span_record list" where
  "top_spans xs = filter (\<lambda>y. rc_parentID y \<notin> rc_spanID ` set xs) xs"

text \<open>A trace whose identifiers are distinct and in which the children of a span take no longer than it
  does.\<close>

definition sequential :: "span_record list \<Rightarrow> bool" where
  "sequential xs \<longleftrightarrow> distinct (map rc_spanID xs) \<and> [] \<notin> rc_spanID ` set xs
     \<and> (\<forall>x \<in> set xs. sum_list (map dur (children xs x)) \<le> dur x)"

lemma durations_look:
  assumes "distinct (map rc_spanID xs)" "x \<in> set xs"
  shows "look_u64 (durations_of xs) (rc_spanID x) = rc_durNS x"
proof -
  have other: "map_of (foldl (\<lambda>m x. AList.update (rc_spanID x) (rc_durNS x) m) m xs) k = map_of m k"
    if "k \<notin> rc_spanID ` set xs" for m k and xs :: "span_record list"
    using that by (induction xs arbitrary: m) (simp_all add: gm.look_put)
  have "map_of (foldl (\<lambda>m x. AList.update (rc_spanID x) (rc_durNS x) m) m xs) (rc_spanID x) = Some (rc_durNS x)" for m
    using assms
  proof (induction xs arbitrary: m)
    case (Cons y xs)
    show ?case
    proof (cases "x = y")
      case True
      with Cons.prems show ?thesis by (simp add: other gm.look_put)
    next
      case False
      with Cons show ?thesis by simp
    qed
  qed simp
  then show ?thesis by (simp add: durations_of_def look_u64_def)
qed

lemma child_sums_look:
  assumes "k \<noteq> []"
  shows "look_u64 (child_sums xs) k = sum_list (map rc_durNS (filter (\<lambda>y. rc_parentID y = k) xs))"
proof (induction xs rule: rev_induct)
  case (snoc x xs)
  with assms show ?case by (auto simp: child_sums_def look_u64_def gm.look_put)
qed (simp add: child_sums_def look_u64_def)

lemma unat_sum_list: "sum_list (map unat ws) < 2 ^ 64 \<Longrightarrow> unat (sum_list ws) = sum_list (map unat ws)" for ws :: "u64 list"
proof (induction ws)
  case (Cons w ws)
  then have "unat w + unat (sum_list ws) < 2 ^ LENGTH(64)" by simp
  with Cons show ?case by (simp add: unat_plus_simple word_le_nat_alt unat_word_ariths)
qed simp

lemma map_dur: "map (\<lambda>x. unat (rc_durNS x)) xs = map dur xs"
  by (simp add: dur_def [abs_def])

lemma self_time_sequential:
  assumes "sequential xs" "x \<in> set xs"
  shows "unat (self_time (durations_of xs) (child_sums xs) (rc_spanID x)) = dur x - sum_list (map dur (children xs x))"
proof -
  have k: "rc_spanID x \<noteq> []" using assms by (metis image_eqI sequential_def)
  have c: "sum_list (map dur (children xs x)) \<le> dur x" using assms by (simp add: sequential_def)
  moreover have "dur x < 2 ^ 64" unfolding dur_def by (rule order.strict_trans2 [OF unsigned_less]) simp
  ultimately have "sum_list (map unat (map rc_durNS (children xs x))) < 2 ^ 64" by (simp add: comp_def map_dur)
  from unat_sum_list [OF this] have s: "unat (sum_list (map rc_durNS (children xs x))) = sum_list (map dur (children xs x))"
    by (simp add: comp_def map_dur)
  have "look_u64 (child_sums xs) (rc_spanID x) = sum_list (map rc_durNS (children xs x))"
    using child_sums_look [OF k] by (simp add: children_def)
  moreover have "look_u64 (durations_of xs) (rc_spanID x) = rc_durNS x"
    using assms durations_look by (simp add: sequential_def)
  moreover have "dur x = unat (rc_durNS x)" by (simp add: dur_def)
  ultimately show ?thesis
    using c s by (auto simp: self_time_def Let_def word_less_nat_alt unat_sub_if' word_le_nat_alt)
qed

lemma sum_swap: "(\<Sum>x\<leftarrow>xs. \<Sum>y\<leftarrow>filter (\<lambda>y. P y x) ys. f y) = (\<Sum>y\<leftarrow>ys. f y * length (filter (P y) xs))" for f :: "'b \<Rightarrow> nat"
proof (induction xs)
  case (Cons x xs)
  have "(\<Sum>y\<leftarrow>filter (\<lambda>y. P y x) ys. f y) = (\<Sum>y\<leftarrow>ys. if P y x then f y else 0)" by (simp add: sum_list_map_filter')
  with Cons show ?case by (simp add: sum_list_addf [symmetric]) (rule arg_cong [where f = sum_list], simp)
qed simp

lemma one_parent:
  assumes "distinct (map rc_spanID xs)"
  shows "length (filter (\<lambda>x. p = rc_spanID x) xs) = (if p \<in> rc_spanID ` set xs then 1 else 0)"
  using assms
proof (induction xs)
  case (Cons x xs)
  moreover have "filter (\<lambda>x. p = rc_spanID x) xs = []" if "p \<notin> rc_spanID ` set xs"
    using that by (auto simp: filter_empty_conv)
  ultimately show ?case by (cases "p = rc_spanID x") auto
qed simp

lemma children_sum:
  assumes "distinct (map rc_spanID xs)"
  shows "(\<Sum>x\<leftarrow>xs. \<Sum>y\<leftarrow>children xs x. dur y) + (\<Sum>y\<leftarrow>top_spans xs. dur y) = (\<Sum>y\<leftarrow>xs. dur y)"
proof -
  have "(\<Sum>x\<leftarrow>xs. \<Sum>y\<leftarrow>children xs x. dur y)
      = (\<Sum>y\<leftarrow>xs. dur y * (if rc_parentID y \<in> rc_spanID ` set xs then 1 else 0))"
    unfolding children_def sum_swap [where P = "\<lambda>y x. rc_parentID y = rc_spanID x"] one_parent [OF assms] ..
  moreover have "(\<Sum>y\<leftarrow>top_spans xs. dur y) = (\<Sum>y\<leftarrow>xs. if rc_parentID y \<notin> rc_spanID ` set xs then dur y else 0)"
    by (simp add: top_spans_def sum_list_map_filter')
  ultimately show ?thesis by (simp add: sum_list_addf [symmetric]) (rule arg_cong [where f = sum_list], simp)
qed

lemma sum_diff_list: "(\<forall>x \<in> set xs. g x \<le> f x) \<Longrightarrow> (\<Sum>x\<leftarrow>xs. f x - g x) + (\<Sum>x\<leftarrow>xs. g x) = (\<Sum>x\<leftarrow>xs. f x)" for f g :: "'a \<Rightarrow> nat"
  by (induction xs) auto

definition millis :: "nat \<Rightarrow> rat" where
  "millis n = of_nat n / 1000000"

lemma millis_sum: "sum_list (map (\<lambda>x. millis (f x)) xs) = millis (sum_list (map f xs))"
  by (induction xs) (simp_all add: millis_def add_divide_distrib)

lemma self_ms: "vw_SelfMS (span_views xs ! i)
    = millis (unat (self_time (durations_of xs) (child_sums xs) (rc_spanID (xs ! i))))" if "i < length xs"
  using that by (simp add: span_views_def span_view_of_def nsToMS_def float_u64_def millis_def)

lemma self_ms_list: "map vw_SelfMS (span_views xs)
    = map (\<lambda>x. millis (unat (self_time (durations_of xs) (child_sums xs) (rc_spanID x)))) xs"
  by (simp add: span_views_def span_view_of_def nsToMS_def float_u64_def millis_def comp_def)

text \<open>(C28) In a trace whose span identifiers are distinct and where the children of a span take no longer
  than it does, the self times the page shows add up to the durations of its top spans: each
  nanosecond of the trace is attributed to exactly one span.\<close>

theorem self_times_add_up:
  assumes "sequential xs"
  shows "sum_list (map vw_SelfMS (span_views xs)) = sum_list (map (\<lambda>x. millis (dur x)) (top_spans xs))"
proof -
  have eq: "map (\<lambda>x. unat (self_time (durations_of xs) (child_sums xs) (rc_spanID x))) xs
      = map (\<lambda>x. dur x - sum_list (map dur (children xs x))) xs"
    using self_time_sequential [OF assms] by (intro map_cong) simp_all
  have "sum_list (map (\<lambda>x. unat (self_time (durations_of xs) (child_sums xs) (rc_spanID x))) xs) = sum_list (map dur (top_spans xs))"
    using sum_diff_list [of xs "\<lambda>x. sum_list (map dur (children xs x))" dur] children_sum [of xs] assms
    unfolding eq by (simp add: sequential_def)
  then show ?thesis by (simp add: self_ms_list millis_sum)
qed

definition example_span :: "string \<Rightarrow> string \<Rightarrow> u64 \<Rightarrow> span_record" where
  "example_span i p d = \<lparr>rc_spanID = i, rc_parentID = p, rc_name = ''GET /'', rc_kind = ''server'', rc_svc = ''shop'',
     rc_ns = [], rc_pod = [], rc_workload = [], rc_node = [], rc_ts = 0, rc_durNS = d, rc_status = ''ok'', rc_statusMsg = [],
     rc_attrs = None, rc_evTimes = [], rc_evNames = [], rc_evAttrs = []\<rparr>"

definition nested_trace :: "span_record list" where
  "nested_trace = [example_span ''a'' [] 100, example_span ''b'' ''a'' 60, example_span ''c'' ''b'' 20]"

theorem self_times_add_up_witness:
  "sum_list (map vw_SelfMS (span_views nested_trace)) = sum_list (map (\<lambda>x. millis (dur x)) (top_spans nested_trace))"
  by (rule self_times_add_up) (simp add: nested_trace_def example_span_def sequential_def children_def dur_def)

definition parallel_trace :: "span_record list" where
  "parallel_trace = [example_span ''a'' [] 100, example_span ''b'' ''a'' 80, example_span ''c'' ''a'' 80]"

text \<open>Two children that run at the same time: the self times add up to 160 units of a trace that took
  100, so the slices of the breakdown are shares of more time than passed.\<close>

theorem parallel_children_overrun:
  "sum_list (map vw_SelfMS (span_views parallel_trace)) = millis 160
     \<and> map (\<lambda>x. millis (dur x)) (top_spans parallel_trace) = [millis 100]"
  by (simp add: self_ms_list parallel_trace_def example_span_def durations_of_def child_sums_def self_time_def
      look_u64_def top_spans_def dur_def millis_def)

section \<open>The breakdown and the hotspots\<close>

text \<open>The iteration over a Go map: every entry once, in some order.\<close>

definition reorders :: "('a list \<Rightarrow> 'a list) \<Rightarrow> bool" where
  "reorders ord \<longleftrightarrow> (\<forall>m. mset (ord m) = mset m)"

lemma mset_sort_desc [simp]: "mset (sort_desc k xs) = mset xs"
  by (simp add: sort_desc_def)

lemma set_sort_desc [simp]: "set (sort_desc k xs) = set xs"
  by (simp add: sort_desc_def)

lemma length_sort_desc [simp]: "length (sort_desc k xs) = length xs"
  by (simp add: sort_desc_def)

lemma sorted_sort_desc: "sorted_wrt (\<lambda>a b. k b \<le> k a) (sort_desc k xs)"
  using sorted_sort_key [of "\<lambda>x. - k x" xs] by (simp add: sort_desc_def sorted_map)

lemma top_of_sorted:
  fixes k :: "'a \<Rightarrow> rat"
  assumes "sorted_wrt (\<lambda>a b. k b \<le> k a) xs" "x \<in> set xs" "x \<notin> set (take n xs)" "y \<in> set (take n xs)"
  shows "k x \<le> k y"
proof -
  have "sorted_wrt (\<lambda>a b. k b \<le> k a) (take n xs @ drop n xs)" using assms(1) by simp
  moreover have "x \<in> set (drop n xs)" using assms(2,3) by (metis Un_iff append_take_drop_id set_append)
  ultimately show ?thesis using assms(4) unfolding sorted_wrt_append by blast
qed

definition of_group :: "('a \<Rightarrow> string) \<Rightarrow> string \<Rightarrow> 'a list \<Rightarrow> 'a list" where
  "of_group key k xs = filter (\<lambda>x. key x = k) xs"

definition self_of :: "span_view list \<Rightarrow> rat" where
  "self_of xs = sum_list (map vw_SelfMS xs)"

lemma total_self_sum: "total_self xs = self_of xs"
  by (induction xs rule: rev_induct) (simp_all add: total_self_def self_of_def)

lemma self_of_group_snoc:
  "self_of (of_group key k (xs @ [x])) = self_of (of_group key k xs) + (if key x = k then vw_SelfMS x else 0)"
  by (simp add: of_group_def self_of_def)

lemma update_sum:
  "distinct (map fst m) \<Longrightarrow> sum_list (map (\<lambda>(k, v). f v) (AList.update k v m))
     = sum_list (map (\<lambda>(k, v). f v) m) - (case map_of m k of None \<Rightarrow> 0 | Some u \<Rightarrow> f u) + f v" for f :: "'a \<Rightarrow> rat"
proof (induction m)
  case (Cons p m)
  then show ?case by (cases p) (auto split: option.splits dest: map_of_SomeD simp: image_iff)
qed simp

lemma slices_by_snoc: "slices_by key (xs @ [x]) = add_slice (key x) (vw_SelfMS x) (slices_by key xs)"
  by (simp add: slices_by_def)

lemma slices_by_keys: "distinct (map fst (slices_by key xs))"
  by (induction xs rule: rev_induct) (simp_all add: slices_by_snoc add_slice_def distinct_update, simp add: slices_by_def)

lemma slices_by_look: "map_of (slices_by key xs) k = (if k \<in> key ` set xs then Some \<lparr>sl_Key = k,
     sl_MS = self_of (of_group key k xs), sl_Share = 0, sl_Count = of_nat (length (of_group key k xs))\<rparr> else None)"
proof (induction xs rule: rev_induct)
  case (snoc x xs)
  have none: "of_group key k xs = []" if "k \<notin> key ` set xs" for k using that by (auto simp: of_group_def filter_empty_conv)
  show ?case
    using snoc none by (auto simp: slices_by_snoc add_slice_def gm.look_put self_of_group_snoc of_group_def self_of_def)
qed (simp add: slices_by_def)

lemma slices_by_sum: "sum_list (map (\<lambda>(k, v). sl_MS v) (slices_by key xs)) = self_of xs"
proof (induction xs rule: rev_induct)
  case (snoc x xs)
  then show ?case
    by (simp add: slices_by_snoc add_slice_def update_sum [OF slices_by_keys] self_of_def split: option.split)
qed (simp add: slices_by_def self_of_def)

text \<open>What a list of slices owes: one for each key of a span, with the self time and the number of the
  spans under it, its share of the whole, the largest first.\<close>

definition accounts :: "(span_view \<Rightarrow> string) \<Rightarrow> span_view list \<Rightarrow> time_slice list \<Rightarrow> bool" where
  "accounts key xs out \<longleftrightarrow> distinct (map sl_Key out) \<and> sl_Key ` set out = key ` set xs
     \<and> (\<forall>c \<in> set out. sl_MS c = self_of (of_group key (sl_Key c) xs)
          \<and> sl_Count c = of_nat (length (of_group key (sl_Key c) xs))
          \<and> sl_Share c = (if 0 < self_of xs then sl_MS c / self_of xs else 0))
     \<and> sum_list (map sl_MS out) = self_of xs
     \<and> sorted_wrt (\<lambda>a b. sl_MS b \<le> sl_MS a) out"

lemma accounts_slices:
  assumes ord: "reorders ord"
  shows "accounts key xs (flatten_slices ord (total_self xs) (slices_by key xs))"
proof -
  let ?m = "slices_by key xs"
  let ?f = "\<lambda>(k, v). if 0 < self_of xs then v\<lparr>sl_Share := sl_MS v / self_of xs\<rparr> else v"
  let ?out = "flatten_slices ord (total_self xs) ?m"
  have out: "?out = sort_desc sl_MS (map ?f (ord ?m))" by (simp add: flatten_slices_def total_self_sum)
  have mo: "mset (ord ?m) = mset ?m" using ord by (simp add: reorders_def)
  have m: "mset ?out = image_mset ?f (mset ?m)" by (simp add: out mo)
  have entry: "v = \<lparr>sl_Key = k, sl_MS = self_of (of_group key k xs), sl_Share = 0,
      sl_Count = of_nat (length (of_group key k xs))\<rparr> \<and> k \<in> key ` set xs" if "(k, v) \<in> set ?m" for k v
  proof -
    have "map_of ?m k = Some v" using that slices_by_keys [of key xs] by simp
    with slices_by_look [of key xs k] show ?thesis by (simp split: if_splits)
  qed
  have key: "sl_Key (?f e) = fst e" if "e \<in> set ?m" for e
    using that entry [of "fst e" "snd e"] by (simp add: case_prod_unfold)
  have "mset (map sl_Key ?out) = image_mset (\<lambda>e. sl_Key (?f e)) (mset ?m)"
    by (simp only: mset_map m image_mset.compositionality comp_def)
  also have "\<dots> = image_mset fst (mset ?m)" using key by (intro image_mset_cong) simp
  finally have "mset (map sl_Key ?out) = mset (map fst ?m)" by simp
  then have d: "distinct (map sl_Key ?out)" using mset_eq_imp_distinct_iff slices_by_keys [of key xs] by metis
  have "set_mset (mset ?out) = set_mset (image_mset ?f (mset ?m))" unfolding m ..
  then have so: "set ?out = ?f ` set ?m" by (simp only: set_mset_mset set_image_mset)
  have "fst ` set ?m = dom (map_of ?m)" by (simp add: dom_map_of_conv_image_fst)
  also have "\<dots> = key ` set xs" using slices_by_look [of key xs] by (auto simp: dom_def split: if_splits)
  finally have ks: "fst ` set ?m = key ` set xs" .
  have "sl_Key ` set ?out = (\<lambda>e. sl_Key (?f e)) ` set ?m" by (simp only: so image_image)
  also have "\<dots> = fst ` set ?m" using key by (intro image_cong) simp_all
  finally have k: "sl_Key ` set ?out = key ` set xs" by (simp only: ks)
  have e: "\<forall>c \<in> set ?out. sl_MS c = self_of (of_group key (sl_Key c) xs)
          \<and> sl_Count c = of_nat (length (of_group key (sl_Key c) xs))
          \<and> sl_Share c = (if 0 < self_of xs then sl_MS c / self_of xs else 0)"
  proof
    fix c
    assume "c \<in> set ?out"
    then obtain k v where "(k, v) \<in> set ?m" and c: "c = ?f (k, v)" unfolding so by auto
    with entry [of k v] show "sl_MS c = self_of (of_group key (sl_Key c) xs)
          \<and> sl_Count c = of_nat (length (of_group key (sl_Key c) xs))
          \<and> sl_Share c = (if 0 < self_of xs then sl_MS c / self_of xs else 0)" by simp
  qed
  have "mset (map sl_MS ?out) = mset (map (\<lambda>(k, v). sl_MS v) ?m)"
    using m by (simp add: image_mset.compositionality comp_def case_prod_unfold if_distrib cong: if_cong)
  then have s: "sum_list (map sl_MS ?out) = self_of xs" using slices_by_sum [of key xs] by (metis sum_mset_sum_list)
  show ?thesis using d k e s sorted_sort_desc by (simp add: accounts_def out)
qed

text \<open>The breakdown of a trace: by category and by service, every span is counted in exactly one slice,
  a slice carries the self time and the number of its spans and its share of the whole, the slices
  of each list add up to the self time of the trace, and the largest comes first, whatever order the
  map is iterated in.\<close>

theorem breakdown_accounts:
  assumes "reorders ord"
  shows "accounts categoryOf spans (fst (buildBreakdown ord spans))
    \<and> accounts vw_Service spans (snd (buildBreakdown ord spans))"
  using accounts_slices [OF assms] by (simp add: buildBreakdown_def)

theorem breakdown_accounts_witness:
  "accounts categoryOf (span_views nested_trace) (fst (buildBreakdown rev (span_views nested_trace)))
    \<and> accounts vw_Service (span_views nested_trace) (snd (buildBreakdown rev (span_views nested_trace)))"
  by (rule breakdown_accounts) (simp add: reorders_def)

text \<open>The self time and the spans of a service and a name.\<close>

definition hotspot_of :: "span_view list \<Rightarrow> string \<Rightarrow> hotspot \<Rightarrow> bool" where
  "hotspot_of xs k a \<longleftrightarrow> hs_Service a @ [CHR 0x00] @ hs_Name a = k
     \<and> hs_SelfMS a = self_of (of_group hotspot_key k xs) \<and> hs_Count a = of_nat (length (of_group hotspot_key k xs))"

lemma hotspots_keys: "distinct (map fst (foldl add_hotspot [] xs))"
  by (induction xs rule: rev_induct) (simp_all add: add_hotspot_def Let_def distinct_update)

lemma add_hotspot_look:
  "map_of (add_hotspot m x) k = (if k \<noteq> hotspot_key x then map_of m k
     else case map_of m k of
       None \<Rightarrow> Some \<lparr>hs_Name = vw_Name x, hs_Service = vw_Service x, hs_Kind = vw_Kind x, hs_SelfMS = vw_SelfMS x,
         hs_Share = 0, hs_Count = 1, hs_Code = vw_Code x\<rparr>
     | Some a \<Rightarrow> Some (a\<lparr>hs_SelfMS := hs_SelfMS a + vw_SelfMS x, hs_Count := hs_Count a + 1,
         hs_Code := (if hs_Code a = None then vw_Code x else hs_Code a)\<rparr>))"
  by (simp add: add_hotspot_def Let_def gm.look_put split: option.split)

lemma hotspots_look:
  "(case map_of (foldl add_hotspot [] xs) k of None \<Rightarrow> k \<notin> hotspot_key ` set xs
    | Some a \<Rightarrow> k \<in> hotspot_key ` set xs \<and> hotspot_of xs k a)"
proof (induction xs rule: rev_induct)
  case (snoc x xs)
  have none: "of_group hotspot_key k xs = []" if "k \<notin> hotspot_key ` set xs"
    using that by (auto simp: of_group_def filter_empty_conv)
  show ?case
  proof (cases "map_of (foldl add_hotspot [] xs) k")
    case None
    have "vw_Service x @ [CHR 0x00] @ vw_Name x = hotspot_key x" by (simp add: hotspot_key_def)
    with None snoc none show ?thesis
      by (cases "k = hotspot_key x") (simp_all add: add_hotspot_look hotspot_of_def of_group_def self_of_def)
  next
    case (Some a)
    with snoc show ?thesis
      by (cases "k = hotspot_key x") (simp_all add: add_hotspot_look hotspot_of_def of_group_def self_of_def)
  qed
qed simp

text \<open>The hotspots of a trace: at most ten, the largest self time first; each is a service and a span
  name with the self time and the number of its spans; and a group that is left out has no more self
  time than any that is shown.\<close>

theorem hotspots_are_the_largest:
  assumes ord: "reorders ord"
  shows "let out = buildHotspots ord xs in
    length out \<le> 10 \<and> sorted_wrt (\<lambda>a b. hs_SelfMS b \<le> hs_SelfMS a) out
      \<and> (\<forall>h \<in> set out. \<exists>s \<in> set xs. hotspot_of xs (hotspot_key s) h)
      \<and> (\<forall>s \<in> set xs. (\<exists>h \<in> set out. hotspot_of xs (hotspot_key s) h)
           \<or> (\<forall>h \<in> set out. self_of (of_group hotspot_key (hotspot_key s) xs) \<le> hs_SelfMS h))"
proof (cases "xs = []")
  case False
  let ?m = "foldl add_hotspot [] xs"
  let ?f = "\<lambda>(k, a). if 0 < self_of xs then a\<lparr>hs_Share := hs_SelfMS a / self_of xs\<rparr> else a"
  let ?l = "sort_desc hs_SelfMS (map ?f (ord ?m))"
  have out: "buildHotspots ord xs = take 10 ?l" using False by (simp add: buildHotspots_def Let_def total_self_sum)
  have om: "set (ord ?m) = set ?m" using ord by (intro mset_eq_setD) (simp add: reorders_def)
  have so: "set ?l = ?f ` set ?m" by (simp only: set_sort_desc set_map om)
  have every: "\<exists>s \<in> set xs. hotspot_of xs (hotspot_key s) h" if "h \<in> set ?l" for h
  proof -
    from that so obtain k a where ka: "(k, a) \<in> set ?m" "h = ?f (k, a)" by auto
    then have "map_of ?m k = Some a" using hotspots_keys by simp
    with hotspots_look [where xs = xs and k = k] ka(2) show ?thesis by (auto simp: hotspot_of_def)
  qed
  have group: "\<exists>h \<in> set ?l. hotspot_of xs (hotspot_key s) h" if "s \<in> set xs" for s
  proof -
    from that hotspots_look [where xs = xs and k = "hotspot_key s"] obtain a where a: "map_of ?m (hotspot_key s) = Some a" "hotspot_of xs (hotspot_key s) a"
      by (auto split: option.splits)
    have "(hotspot_key s, a) \<in> set ?m" by (rule map_of_SomeD) (rule a(1))
    then have "?f (hotspot_key s, a) \<in> set ?l" unfolding so by (rule imageI)
    moreover have "hotspot_of xs (hotspot_key s) (?f (hotspot_key s, a))" using a(2) by (simp add: hotspot_of_def)
    ultimately show ?thesis by blast
  qed
  have "(\<exists>h \<in> set (take 10 ?l). hotspot_of xs (hotspot_key s) h)
      \<or> (\<forall>h \<in> set (take 10 ?l). self_of (of_group hotspot_key (hotspot_key s) xs) \<le> hs_SelfMS h)" if s: "s \<in> set xs" for s
  proof -
    from group [OF s] obtain g where g: "g \<in> set ?l" "hotspot_of xs (hotspot_key s) g" by blast
    then have e: "self_of (of_group hotspot_key (hotspot_key s) xs) = hs_SelfMS g" by (simp add: hotspot_of_def)
    show ?thesis unfolding e using g top_of_sorted [OF sorted_sort_desc g(1)] by blast
  qed
  then show ?thesis
    using every in_set_takeD [of _ 10 ?l] sorted_wrt_take [OF sorted_sort_desc [of hs_SelfMS], of 10]
    unfolding out Let_def by (intro conjI) (simp, blast+)
qed (simp add: buildHotspots_def)

theorem hotspots_are_the_largest_witness:
  "let out = buildHotspots rev (span_views nested_trace) in
    length out \<le> 10 \<and> sorted_wrt (\<lambda>a b. hs_SelfMS b \<le> hs_SelfMS a) out
      \<and> (\<forall>h \<in> set out. \<exists>s \<in> set (span_views nested_trace). hotspot_of (span_views nested_trace) (hotspot_key s) h)
      \<and> (\<forall>s \<in> set (span_views nested_trace). (\<exists>h \<in> set out. hotspot_of (span_views nested_trace) (hotspot_key s) h)
           \<or> (\<forall>h \<in> set out. self_of (of_group hotspot_key (hotspot_key s) (span_views nested_trace)) \<le> hs_SelfMS h))"
  by (rule hotspots_are_the_largest) (simp add: reorders_def)

section \<open>The search\<close>

definition placeholders :: "string \<Rightarrow> nat" where
  "placeholders s = length (filter (\<lambda>c. c = CHR ''?'') s)"

lemma placeholders_append [simp]: "placeholders (a @ b) = placeholders a + placeholders b"
  by (simp add: placeholders_def)

text \<open>The text of the search is built from five fixed conditions: whatever the request says reaches
  the database as an argument, and there is one argument for each placeholder.\<close>

theorem search_is_parameterised:
  assumes "search_conditions parse_ms f t sc q = Some (conds, args)"
  shows "set conds \<subseteq> {''start >= ? AND start < ?'', ''hasAny(services, ?)'', ''has(services, ?)'', ''duration_ns >= ?'', ''errors > 0''}
    \<and> placeholders (concat conds) = length args
    \<and> (sc_unrestricted sc \<or> ''hasAny(services, ?)'' \<in> set conds \<and> AStrs (sc_services sc) \<in> set args)"
  using assms
  by (auto simp: search_conditions_def Let_def filterTraces_def placeholders_def trim_prefix_def has_prefix_def
      split: if_splits option.splits)

theorem search_is_parameterised_witness:
  "set [''start >= ? AND start < ?'', ''hasAny(services, ?)'', ''has(services, ?)'']
      \<subseteq> {''start >= ? AND start < ?'', ''hasAny(services, ?)'', ''has(services, ?)'', ''duration_ns >= ?'', ''errors > 0''}
    \<and> placeholders (concat [''start >= ? AND start < ?'', ''hasAny(services, ?)'', ''has(services, ?)''])
        = length [ATime 0, ATime 60, AStrs [''shop''], AStr ''x) OR (1=1'']
    \<and> (sc_unrestricted \<lparr>sc_unrestricted = False, sc_services = [''shop'']\<rparr> \<or>
        ''hasAny(services, ?)'' \<in> set [''start >= ? AND start < ?'', ''hasAny(services, ?)'', ''has(services, ?)'']
        \<and> AStrs (sc_services \<lparr>sc_unrestricted = False, sc_services = [''shop'']\<rparr>)
            \<in> set [ATime 0, ATime 60, AStrs [''shop''], AStr ''x) OR (1=1''])"
  by (rule search_is_parameterised [where parse_ms = "\<lambda>_. None" and q = "\<lparr>tq_from = [], tq_to = [], tq_service = ''x) OR (1=1'', tq_level = [], tq_minDurationMs = [], tq_onlyErrors = [], tq_limit = []\<rparr>"])
    (simp add: search_conditions_def Let_def filterTraces_def trim_prefix_def has_prefix_def)

end
