(* ===== verification/Config.thy ===== *)
theory Config
  imports GoTime
begin

text \<open>
  internal/config/config.go: settings read from environment variables. The environment is a map from
  names to values.
\<close>

section \<open>Reading a setting\<close>

type_synonym env = "(string, string) gomap"

definition LookupEnv :: "env \<Rightarrow> string \<Rightarrow> string option" where
  "LookupEnv e key = map_of e (''NABIZ_'' @ key)"

definition String_setting :: "env \<Rightarrow> string \<Rightarrow> string \<Rightarrow> string" where
  "String_setting e key d = (case LookupEnv e key of Some v \<Rightarrow> if v \<noteq> [] then v else d | None \<Rightarrow> d)"

definition Int_setting :: "env \<Rightarrow> string \<Rightarrow> int \<Rightarrow> int" where
  "Int_setting e key d =
     (case LookupEnv e key of
        Some v \<Rightarrow> (case atoi v of Some n \<Rightarrow> n | None \<Rightarrow> d)
      | None \<Rightarrow> d)"

definition Bool_setting :: "env \<Rightarrow> string \<Rightarrow> bool \<Rightarrow> bool" where
  "Bool_setting e key d =
     (case LookupEnv e key of
        Some v \<Rightarrow> (let l = to_lower v in
          if l \<in> set [''1'', ''true'', ''yes'', ''on''] then True
          else if l \<in> set [''0'', ''false'', ''no'', ''off''] then False
          else d)
      | None \<Rightarrow> d)"

definition Duration_setting :: "env \<Rightarrow> string \<Rightarrow> int \<Rightarrow> int" where
  "Duration_setting e key d =
     (case LookupEnv e key of
        Some v \<Rightarrow> (case parse_duration v of Some n \<Rightarrow> n | None \<Rightarrow> d)
      | None \<Rightarrow> d)"

definition StringSlice :: "env \<Rightarrow> string \<Rightarrow> string list \<Rightarrow> string list" where
  "StringSlice e key d =
     (case LookupEnv e key of
        Some v \<Rightarrow>
          if v \<noteq> [] then
            let out = filter (\<lambda>p. p \<noteq> []) (map trim_space (split_byte (CHR '','') v))
            in if out \<noteq> [] then out else d
          else d
      | None \<Rightarrow> d)"

section \<open>Properties\<close>

text \<open>Setting a variable.\<close>

definition set_env :: "string \<Rightarrow> string \<Rightarrow> env \<Rightarrow> env" where
  "set_env key v e = AList.update (''NABIZ_'' @ key) v e"

lemma LookupEnv_set [simp]: "LookupEnv (set_env key v e) key = Some v"
  by (simp add: LookupEnv_def set_env_def gm.look_put)

lemma atoi_int_string:
  assumes "- (2 ^ 63) \<le> n" "n < 2 ^ 63"
  shows "atoi (int_string n) = Some n"
proof -
  have sign: "nat_string k = c # cs \<Longrightarrow> c \<noteq> CHR ''-'' \<and> c \<noteq> CHR ''+''" for k c cs
    using nat_string_digits [of c k] by (auto simp: is_digit_def)
  show ?thesis
  proof (cases "n < 0")
    case True
    with assms show ?thesis by (simp add: int_string_def atoi_def parse_digits_nat_string Let_def nat_le_iff)
  next
    case False
    obtain c cs where c: "nat_string (nat n) = c # cs" by (cases "nat_string (nat n)") (use nat_string_nonempty in auto)
    with False assms sign [OF c] parse_digits_nat_string [of "nat n"] show ?thesis
      by (simp add: int_string_def atoi_def Let_def nat_less_iff)
  qed
qed

lemma trimmed_parts:
  assumes "xs \<noteq> []" "\<forall>x \<in> set xs. x \<noteq> [] \<and> trim_space x = x \<and> CHR '','' \<notin> set x"
  shows "filter (\<lambda>p. p \<noteq> []) (map trim_space (split_byte (CHR '','') (join xs '',''))) = xs" "join xs '','' \<noteq> []"
proof -
  have "map trim_space xs = xs" using assms(2) by (induction xs) auto
  moreover have "filter (\<lambda>p. p \<noteq> []) xs = xs" using assms(2) by (simp add: filter_id_conv)
  moreover have "split_byte (CHR '','') (join xs '','') = xs" using split_join [of "CHR '',''" xs] assms by (simp add: list_all_iff)
  ultimately show "filter (\<lambda>p. p \<noteq> []) (map trim_space (split_byte (CHR '','') (join xs '',''))) = xs" by simp
  show "join xs '','' \<noteq> []" using assms by (cases xs; cases "tl xs") (auto simp: join_cons)
qed

text \<open>Settings are read back as they were written: a text, a number of 64 bits, a truth value, a whole
  number of a unit of time, and a list of trimmed items without commas; whatever the other variables
  and the default are.\<close>

theorem settings_roundtrip:
  assumes "v \<noteq> []" "- (2 ^ 63) \<le> n" "n < 2 ^ 63"
    and "map_of duration_units u = Some unit" "k * unit < 2 ^ 63"
    and "xs \<noteq> []" "\<forall>x \<in> set xs. x \<noteq> [] \<and> trim_space x = x \<and> CHR '','' \<notin> set x"
  shows "String_setting (set_env key v e) key d1 = v
    \<and> Int_setting (set_env key (int_string n) e) key d2 = n
    \<and> Bool_setting (set_env key (if b then ''true'' else ''false'') e) key d3 = b
    \<and> Duration_setting (set_env key (nat_string k @ u) e) key d4 = int (k * unit)
    \<and> StringSlice (set_env key (join xs '','') e) key d5 = xs"
proof -
  have "0 < unit" using assms(4) by (auto simp: duration_units_def split: if_splits)
  with assms(5) have "k \<le> 2 ^ 63 div unit" by (simp add: less_eq_div_iff_mult_less_eq)
  from parse_duration_unit [OF assms(4) this assms(5)] atoi_int_string [OF assms(2,3)] trimmed_parts [OF assms(6,7)]
  show ?thesis using assms(1,6)
    by (simp add: String_setting_def Int_setting_def Bool_setting_def Duration_setting_def StringSlice_def
        to_lower_def lower_char_def)
qed

theorem settings_roundtrip_witness:
  "String_setting (set_env ''X'' ''a'' []) ''X'' [] = ''a''
    \<and> Int_setting (set_env ''X'' (int_string (-5)) []) ''X'' 0 = -5
    \<and> Bool_setting (set_env ''X'' (if True then ''true'' else ''false'') []) ''X'' False = True
    \<and> Duration_setting (set_env ''X'' (nat_string 15 @ ''s'') []) ''X'' 0 = int (15 * 1000000000)
    \<and> StringSlice (set_env ''X'' (join [''a:1'', ''b:2''] '','') []) ''X'' [] = [''a:1'', ''b:2'']"
  by (rule settings_roundtrip) (simp_all add: duration_units_def trim_space_def strip.simps space_len_def space_len_rev_def
      ascii_space_def wide_space2_def wide_space3_def)

end
