(* ===== verification/Inject.thy ===== *)
theory Inject
  imports Span
begin

text \<open>
  internal/k8s/inject.go: the instrumentation of a pod. The objects of the Kubernetes API carry the
  fields the code reads or sets; what it leaves alone of an object is one value, \<open>Other\<close>.
\<close>

section \<open>Kubernetes objects\<close>

datatype env_source = FieldRef string | OtherSource string

record env_var =
  en_Name :: string
  en_Value :: string
  en_From :: "env_source option"

record volume_mount =
  vm_Name :: string
  vm_MountPath :: string
  vm_Other :: string

record security_context =
  sx_RunAsNonRoot :: "bool option"
  sx_ReadOnlyRootFilesystem :: "bool option"
  sx_AllowPrivilegeEscalation :: "bool option"
  sx_Drop :: "string list"
  sx_Other :: string

record container =
  ct_Name :: string
  ct_Image :: string
  ct_Command :: "string list"
  ct_Env :: "env_var list"
  ct_VolumeMounts :: "volume_mount list"
  ct_SecurityContext :: "security_context option"
  ct_Other :: string

record volume =
  vo_Name :: string
  vo_EmptyDir :: bool
  vo_Other :: string

record k8s_pod =
  po_Name :: string
  po_GenerateName :: string
  po_Labels :: attrs
  po_Annotations :: attrs
  po_InitContainers :: "container list"
  po_Containers :: "container list"
  po_Volumes :: "volume list"
  po_Other :: string

section \<open>Names\<close>

definition AnnotationInject :: string where
  "AnnotationInject = ''nabiz.io/inject-dotnet''"

definition AnnotationServiceName :: string where
  "AnnotationServiceName = ''nabiz.io/service-name''"

definition AnnotationContainer :: string where
  "AnnotationContainer = ''nabiz.io/container''"

definition AnnotationSampleRatio :: string where
  "AnnotationSampleRatio = ''nabiz.io/sample-ratio''"

definition AnnotationLibc :: string where
  "AnnotationLibc = ''nabiz.io/libc''"

definition AnnotationInjected :: string where
  "AnnotationInjected = ''nabiz.io/injected''"

definition volumeName :: string where
  "volumeName = ''nabiz-dotnet-auto''"

definition mountPath :: string where
  "mountPath = ''/nabiz-auto''"

definition initContainer :: string where
  "initContainer = ''nabiz-dotnet-init''"

record inject_config =
  ic_InstrumentationImage :: string
  ic_CollectorEndpoint :: string
  ic_ClusterName :: string
  ic_DefaultSampleRatio :: string

section \<open>The request for injection\<close>

definition ShouldInject :: "k8s_pod \<Rightarrow> bool" where
  "ShouldInject pod =
     (if attr (po_Annotations pod) AnnotationInjected = ''true'' then False
      else to_lower (attr (po_Annotations pod) AnnotationInject) \<in> set [''true'', ''dotnet'', ''yes'', ''1''])"

fun container_index :: "string \<Rightarrow> nat \<Rightarrow> container list \<Rightarrow> nat option" where
  "container_index name i [] = None"
| "container_index name i (c # cs) = (if ct_Name c = name then Some i else container_index name (Suc i) cs)"

definition targetContainer :: "k8s_pod \<Rightarrow> string + nat" where
  "targetContainer pod =
     (let name = attr (po_Annotations pod) AnnotationContainer in
      if name = [] then Inr 0
      else case container_index name 0 (po_Containers pod) of
        None \<Rightarrow> Inl (''the container named in the annotation was not found: '' @ name)
      | Some i \<Rightarrow> Inr i)"

section \<open>The shared volume and the init container\<close>

definition the_volume :: volume where
  "the_volume = \<lparr>vo_Name = volumeName, vo_EmptyDir = True, vo_Other = []\<rparr>"

definition addVolume :: "k8s_pod \<Rightarrow> k8s_pod" where
  "addVolume pod =
     (if list_ex (\<lambda>v. vo_Name v = volumeName) (po_Volumes pod) then pod
      else pod\<lparr>po_Volumes := po_Volumes pod @ [the_volume]\<rparr>)"

definition initScript :: "k8s_pod \<Rightarrow> string" where
  "initScript pod =
     (let libc = (if equal_fold (attr (po_Annotations pod) AnnotationLibc) ''musl'' then ''musl-'' else [])
      in ''set -e; '' @
         ''cp -a /otel/. '' @ mountPath @ ''/; '' @
         ''case '' @ [CHR 0x22] @ ''$(uname -m)'' @ [CHR 0x22] @ '' in aarch64|arm64) A=arm64;; *) A=x64;; esac; '' @
         ''ln -sfn '' @ mountPath @ ''/linux-'' @ libc @ ''${A} '' @ mountPath @ ''/native'')"

definition the_mount :: volume_mount where
  "the_mount = \<lparr>vm_Name = volumeName, vm_MountPath = mountPath, vm_Other = []\<rparr>"

definition init_container :: "k8s_pod \<Rightarrow> inject_config \<Rightarrow> container" where
  "init_container pod cfg = \<lparr>ct_Name = initContainer, ct_Image = ic_InstrumentationImage cfg,
     ct_Command = [''/bin/sh'', ''-c'', initScript pod], ct_Env = [], ct_VolumeMounts = [the_mount],
     ct_SecurityContext = Some \<lparr>sx_RunAsNonRoot = Some True, sx_ReadOnlyRootFilesystem = Some True,
       sx_AllowPrivilegeEscalation = Some False, sx_Drop = [''ALL''], sx_Other = []\<rparr>,
     ct_Other = []\<rparr>"

definition addInitContainer :: "k8s_pod \<Rightarrow> inject_config \<Rightarrow> k8s_pod" where
  "addInitContainer pod cfg =
     (if list_ex (\<lambda>c. ct_Name c = initContainer) (po_InitContainers pod) then pod
      else pod\<lparr>po_InitContainers := po_InitContainers pod @ [init_container pod cfg]\<rparr>)"

section \<open>The environment of the target\<close>

definition serviceName :: "k8s_pod \<Rightarrow> container \<Rightarrow> string" where
  "serviceName pod target =
     (if attr (po_Annotations pod) AnnotationServiceName \<noteq> [] then attr (po_Annotations pod) AnnotationServiceName
      else if attr (po_Labels pod) ''app.kubernetes.io/name'' \<noteq> [] then attr (po_Labels pod) ''app.kubernetes.io/name''
      else if attr (po_Labels pod) ''app'' \<noteq> [] then attr (po_Labels pod) ''app''
      else if po_GenerateName pod \<noteq> [] then trim_suffix (po_GenerateName pod) ''-''
      else ct_Name target)"

definition fieldEnv :: "string \<Rightarrow> string \<Rightarrow> env_var" where
  "fieldEnv name p = \<lparr>en_Name = name, en_Value = [], en_From = Some (FieldRef p)\<rparr>"

definition value_env :: "string \<Rightarrow> string \<Rightarrow> env_var" where
  "value_env name v = \<lparr>en_Name = name, en_Value = v, en_From = None\<rparr>"

definition resource_attributes :: "container \<Rightarrow> inject_config \<Rightarrow> string list" where
  "resource_attributes target cfg =
     [''k8s.namespace.name=$(NABIZ_K8S_NAMESPACE)'', ''k8s.pod.name=$(NABIZ_K8S_POD)'',
      ''k8s.node.name=$(NABIZ_K8S_NODE)'', ''k8s.container.name='' @ ct_Name target]
     @ (if ic_ClusterName cfg \<noteq> [] then [''k8s.cluster.name='' @ ic_ClusterName cfg] else [])"

definition instrumentationEnv :: "k8s_pod \<Rightarrow> container \<Rightarrow> inject_config \<Rightarrow> env_var list" where
  "instrumentationEnv pod target cfg =
     (let ratio = attr (po_Annotations pod) AnnotationSampleRatio;
          sampleRatio = (if ratio = [] then ic_DefaultSampleRatio cfg else ratio)
      in [fieldEnv ''NABIZ_K8S_NAMESPACE'' ''metadata.namespace'',
          fieldEnv ''NABIZ_K8S_POD'' ''metadata.name'',
          fieldEnv ''NABIZ_K8S_NODE'' ''spec.nodeName'',
          value_env ''CORECLR_ENABLE_PROFILING'' ''1'',
          value_env ''CORECLR_PROFILER'' ''{918728DD-259F-4A6A-AC2B-B85E1B658318}'',
          value_env ''CORECLR_PROFILER_PATH'' (mountPath @ ''/native/OpenTelemetry.AutoInstrumentation.Native.so''),
          value_env ''DOTNET_ADDITIONAL_DEPS'' (mountPath @ ''/AdditionalDeps''),
          value_env ''DOTNET_SHARED_STORE'' (mountPath @ ''/store''),
          value_env ''DOTNET_STARTUP_HOOKS'' (mountPath @ ''/net/OpenTelemetry.AutoInstrumentation.StartupHook.dll''),
          value_env ''OTEL_DOTNET_AUTO_HOME'' mountPath,
          value_env ''OTEL_EXPORTER_OTLP_ENDPOINT'' (ic_CollectorEndpoint cfg),
          value_env ''OTEL_EXPORTER_OTLP_PROTOCOL'' ''grpc'',
          value_env ''OTEL_METRICS_EXPORTER'' ''none'',
          value_env ''OTEL_LOGS_EXPORTER'' ''none'',
          value_env ''OTEL_TRACES_SAMPLER'' ''parentbased_traceidratio'',
          value_env ''OTEL_TRACES_SAMPLER_ARG'' sampleRatio,
          value_env ''OTEL_BSP_SCHEDULE_DELAY'' ''2000'',
          value_env ''OTEL_BSP_MAX_QUEUE_SIZE'' ''8192'',
          value_env ''OTEL_BSP_MAX_EXPORT_BATCH_SIZE'' ''1024'',
          value_env ''OTEL_SERVICE_NAME'' (serviceName pod target),
          value_env ''OTEL_RESOURCE_ATTRIBUTES'' (join (resource_attributes target cfg) '','')])"

definition mergeEnv :: "env_var list \<Rightarrow> env_var list \<Rightarrow> env_var list" where
  "mergeEnv existing added = existing @ filter (\<lambda>e. en_Name e \<notin> en_Name ` set existing) added"

definition appendVolumeMount :: "volume_mount list \<Rightarrow> volume_mount \<Rightarrow> volume_mount list" where
  "appendVolumeMount mounts m = (if list_ex (\<lambda>e. vm_Name e = vm_Name m) mounts then mounts else mounts @ [m])"

section \<open>Injection\<close>

text \<open>The target after injection, and the pod: \<open>i\<close> is the index of the target.\<close>

definition instrumented :: "k8s_pod \<Rightarrow> inject_config \<Rightarrow> container \<Rightarrow> container" where
  "instrumented pod cfg target =
     target\<lparr>ct_VolumeMounts := appendVolumeMount (ct_VolumeMounts target) the_mount,
       ct_Env := mergeEnv (ct_Env target) (instrumentationEnv pod target cfg)\<rparr>"

definition mark_injected :: "attrs \<Rightarrow> attrs" where
  "mark_injected as = Some (AList.update AnnotationInjected ''true'' (case as of None \<Rightarrow> [] | Some m \<Rightarrow> m))"

definition Inject :: "k8s_pod \<Rightarrow> inject_config \<Rightarrow> string + k8s_pod \<times> string" where
  "Inject pod cfg =
     (if po_Containers pod = [] then Inl ''the pod has no containers''
      else case targetContainer pod of
        Inl e \<Rightarrow> Inl e
      | Inr i \<Rightarrow>
          let target = po_Containers pod ! i;
              pod1 = addInitContainer (addVolume pod) cfg
          in Inr (pod1\<lparr>po_Containers := (po_Containers pod)[i := instrumented pod1 cfg target],
                       po_Annotations := mark_injected (po_Annotations pod1)\<rparr>, ct_Name target))"

end
