(* ===== verification/InjectProps.thy ===== *)
theory InjectProps
  imports Inject "HOL-Library.Sublist"
begin

text \<open>
  What injection does to a pod: the application is left as it was, the user's settings win, the
  instrumentation is complete, doing it again changes nothing; and where the name of the service
  comes from.
\<close>

section \<open>The pieces\<close>

lemma container_index_found:
  "container_index name k cs = Some i \<Longrightarrow> k \<le> i \<and> i < k + length cs \<and> ct_Name (cs ! (i - k)) = name"
proof (induction cs arbitrary: k)
  case (Cons c cs)
  show ?case
  proof (cases "ct_Name c = name")
    case False
    with Cons.prems have "container_index name (Suc k) cs = Some i" by simp
    from Cons.IH [OF this] show ?thesis by (auto simp: nth_Cons')
  qed (use Cons.prems in auto)
qed simp

lemma targetContainer_index:
  assumes "targetContainer pod = Inr i" "po_Containers pod \<noteq> []"
  shows "i < length (po_Containers pod)"
  using assms container_index_found [of _ 0]
  by (fastforce simp: targetContainer_def Let_def split: if_splits option.splits)

lemma container_index_update:
  "j < length cs \<Longrightarrow> ct_Name c = ct_Name (cs ! j) \<Longrightarrow> container_index name k (cs[j := c]) = container_index name k cs"
proof (induction cs arbitrary: j k)
  case (Cons d cs)
  then show ?case by (cases j) auto
qed simp

lemma attr_mark [simp]: "attr (mark_injected as) k = (if k = AnnotationInjected then ''true'' else attr as k)"
  by (auto simp: mark_injected_def attr_def gm.look_put split: option.splits)

lemma update_twice: "AList.update k v (AList.update k v m) = AList.update k v m"
  by (induction m) auto

lemma mark_twice [simp]: "mark_injected (mark_injected as) = mark_injected as"
  by (simp add: mark_injected_def update_twice)

lemma other_annotations [simp]:
  "AnnotationContainer \<noteq> AnnotationInjected" "AnnotationInject \<noteq> AnnotationInjected"
  "AnnotationServiceName \<noteq> AnnotationInjected" "AnnotationSampleRatio \<noteq> AnnotationInjected" "AnnotationLibc \<noteq> AnnotationInjected"
  by (simp_all add: AnnotationContainer_def AnnotationInjected_def AnnotationInject_def AnnotationServiceName_def
      AnnotationSampleRatio_def AnnotationLibc_def)

definition env_names :: "string list" where
  "env_names = [''NABIZ_K8S_NAMESPACE'', ''NABIZ_K8S_POD'', ''NABIZ_K8S_NODE'', ''CORECLR_ENABLE_PROFILING'',
     ''CORECLR_PROFILER'', ''CORECLR_PROFILER_PATH'', ''DOTNET_ADDITIONAL_DEPS'', ''DOTNET_SHARED_STORE'',
     ''DOTNET_STARTUP_HOOKS'', ''OTEL_DOTNET_AUTO_HOME'', ''OTEL_EXPORTER_OTLP_ENDPOINT'', ''OTEL_EXPORTER_OTLP_PROTOCOL'',
     ''OTEL_METRICS_EXPORTER'', ''OTEL_LOGS_EXPORTER'', ''OTEL_TRACES_SAMPLER'', ''OTEL_TRACES_SAMPLER_ARG'',
     ''OTEL_BSP_SCHEDULE_DELAY'', ''OTEL_BSP_MAX_QUEUE_SIZE'', ''OTEL_BSP_MAX_EXPORT_BATCH_SIZE'', ''OTEL_SERVICE_NAME'',
     ''OTEL_RESOURCE_ATTRIBUTES'']"

lemma instrumentation_names: "map en_Name (instrumentationEnv pod t cfg) = env_names"
  by (simp add: instrumentationEnv_def env_names_def fieldEnv_def value_env_def Let_def)

lemma env_names_distinct: "distinct env_names"
  by (simp add: env_names_def)

lemma mergeEnv_again:
  assumes "en_Name ` set added' \<subseteq> en_Name ` set added"
  shows "mergeEnv (mergeEnv xs added) added' = mergeEnv xs added"
proof -
  have "en_Name ` set added \<subseteq> en_Name ` set (mergeEnv xs added)" by (auto simp: mergeEnv_def)
  with assms have "filter (\<lambda>e. en_Name e \<notin> en_Name ` set (mergeEnv xs added)) added' = []"
    by (auto simp: filter_empty_conv)
  then show ?thesis by (simp add: mergeEnv_def)
qed

lemma mergeEnv_names:
  "distinct (map en_Name xs) \<Longrightarrow> distinct (map en_Name added) \<Longrightarrow> distinct (map en_Name (mergeEnv xs added))"
  by (auto simp: mergeEnv_def distinct_map_filter) (metis imageI)

lemma mergeEnv_covers:
  "e \<in> set added \<Longrightarrow> \<exists>e' \<in> set (mergeEnv xs added). en_Name e' = en_Name e \<and> (e' = e \<or> e' \<in> set xs)"
  by (cases "en_Name e \<in> en_Name ` set xs") (auto simp: mergeEnv_def)

lemma appendVolumeMount_again: "appendVolumeMount (appendVolumeMount ms m) m = appendVolumeMount ms m"
  by (simp add: appendVolumeMount_def)

lemma addVolume_again: "addVolume (addVolume pod) = addVolume pod"
  by (simp add: addVolume_def the_volume_def)

text \<open>What injection returns, field by field.\<close>

lemma Inject_result:
  assumes "Inject pod cfg = Inr (pod', name)"
  obtains i where "targetContainer pod = Inr i" "i < length (po_Containers pod)" "name = ct_Name (po_Containers pod ! i)"
    "pod' = (addInitContainer (addVolume pod) cfg)
        \<lparr>po_Containers := (po_Containers pod)[i := instrumented (addInitContainer (addVolume pod) cfg) cfg (po_Containers pod ! i)],
         po_Annotations := mark_injected (po_Annotations pod)\<rparr>"
proof -
  have a: "po_Annotations (addInitContainer (addVolume pod) cfg) = po_Annotations pod"
    by (simp add: addInitContainer_def addVolume_def)
  from assms have "po_Containers pod \<noteq> []" by (auto simp: Inject_def)
  with assms obtain i where t: "targetContainer pod = Inr i"
    by (auto simp: Inject_def split: sum.splits)
  with assms \<open>po_Containers pod \<noteq> []\<close> targetContainer_index [OF t] a that [OF t] show thesis
    by (auto simp: Inject_def Let_def)
qed

section \<open>Properties\<close>

text \<open>(C23) Injection leaves the application as it was: of the pod only the annotation that marks it, the
  volumes and the init containers change, the latter two by appending; of the containers only the
  target, and of that only the mounts and the environment, by appending; and no variable that is
  added has the name of one the user set.\<close>

theorem inject_keeps_application:
  assumes "Inject pod cfg = Inr (pod', name)"
  shows "\<exists>i t t'. targetContainer pod = Inr i \<and> i < length (po_Containers pod) \<and> t = po_Containers pod ! i
    \<and> name = ct_Name t \<and> po_Containers pod' = (po_Containers pod)[i := t']
    \<and> t' = t\<lparr>ct_Env := ct_Env t', ct_VolumeMounts := ct_VolumeMounts t'\<rparr>
    \<and> prefix (ct_VolumeMounts t) (ct_VolumeMounts t')
    \<and> (\<exists>added. ct_Env t' = ct_Env t @ added \<and> en_Name ` set added \<inter> en_Name ` set (ct_Env t) = {})
    \<and> prefix (po_Volumes pod) (po_Volumes pod') \<and> prefix (po_InitContainers pod) (po_InitContainers pod')
    \<and> (\<forall>k. k \<noteq> AnnotationInjected \<longrightarrow> attr (po_Annotations pod') k = attr (po_Annotations pod) k)
    \<and> pod' = pod\<lparr>po_Containers := po_Containers pod', po_Volumes := po_Volumes pod',
        po_InitContainers := po_InitContainers pod', po_Annotations := po_Annotations pod'\<rparr>"
proof -
  from assms obtain i where i: "targetContainer pod = Inr i" "i < length (po_Containers pod)" "name = ct_Name (po_Containers pod ! i)"
    and p: "pod' = (addInitContainer (addVolume pod) cfg)
        \<lparr>po_Containers := (po_Containers pod)[i := instrumented (addInitContainer (addVolume pod) cfg) cfg (po_Containers pod ! i)],
         po_Annotations := mark_injected (po_Annotations pod)\<rparr>"
    by (rule Inject_result)
  let ?t = "po_Containers pod ! i"
  let ?t' = "instrumented (addInitContainer (addVolume pod) cfg) cfg ?t"
  have "?t' = ?t\<lparr>ct_Env := ct_Env ?t', ct_VolumeMounts := ct_VolumeMounts ?t'\<rparr>" by (simp add: instrumented_def)
  moreover have "prefix (ct_VolumeMounts ?t) (ct_VolumeMounts ?t')" by (simp add: instrumented_def appendVolumeMount_def)
  moreover have "\<exists>added. ct_Env ?t' = ct_Env ?t @ added \<and> en_Name ` set added \<inter> en_Name ` set (ct_Env ?t) = {}"
    by (auto simp: instrumented_def mergeEnv_def)
  moreover have "prefix (po_Volumes pod) (po_Volumes pod')" "prefix (po_InitContainers pod) (po_InitContainers pod')"
    by (simp_all add: p addInitContainer_def addVolume_def)
  moreover have "pod' = pod\<lparr>po_Containers := po_Containers pod', po_Volumes := po_Volumes pod',
        po_InitContainers := po_InitContainers pod', po_Annotations := po_Annotations pod'\<rparr>"
    by (simp add: p addInitContainer_def addVolume_def)
  ultimately show ?thesis using i by (intro exI [of _ i] exI [of _ ?t] exI [of _ ?t'] conjI) (simp_all add: p)
qed


text \<open>Injecting again changes nothing: a pod that was injected does not ask for it any more, and if it
  were injected once more it would stay as it is.\<close>

theorem inject_idempotent:
  assumes "Inject pod cfg = Inr (pod', name)"
  shows "\<not> ShouldInject pod' \<and> Inject pod' cfg = Inr (pod', name)"
proof -
  from assms obtain i where i: "targetContainer pod = Inr i" "i < length (po_Containers pod)" "name = ct_Name (po_Containers pod ! i)"
    and p: "pod' = (addInitContainer (addVolume pod) cfg)
        \<lparr>po_Containers := (po_Containers pod)[i := instrumented (addInitContainer (addVolume pod) cfg) cfg (po_Containers pod ! i)],
         po_Annotations := mark_injected (po_Annotations pod)\<rparr>"
    by (rule Inject_result)
  let ?t = "po_Containers pod ! i"
  let ?t' = "instrumented (addInitContainer (addVolume pod) cfg) cfg ?t"
  have ann: "po_Annotations pod' = mark_injected (po_Annotations pod)" by (simp add: p)
  have cs: "po_Containers pod' = (po_Containers pod)[i := ?t']" by (simp add: p)
  have n: "ct_Name ?t' = ct_Name ?t" by (simp add: instrumented_def)
  have t: "targetContainer pod' = Inr i"
    using i(1) by (simp add: targetContainer_def Let_def ann cs container_index_update [OF i(2) n] split: if_splits)
  have v: "addVolume pod' = pod'" by (simp add: addVolume_def p addInitContainer_def the_volume_def)
  have c: "addInitContainer pod' cfg = pod'" by (simp add: addInitContainer_def p init_container_def)
  have "en_Name ` set (instrumentationEnv q c cfg) = set env_names" for q c
    using instrumentation_names [of q c cfg] by (metis list.set_map)
  then have again: "instrumented pod' cfg ?t' = ?t'"
    by (simp add: instrumented_def mergeEnv_again appendVolumeMount_again)
  have "po_Containers pod' \<noteq> []" using i(2) by (auto simp: cs)
  then have "Inject pod' cfg = Inr (pod'\<lparr>po_Containers := (po_Containers pod')[i := instrumented pod' cfg (po_Containers pod' ! i)],
      po_Annotations := mark_injected (po_Annotations pod')\<rparr>, ct_Name (po_Containers pod' ! i))"
    using t v c by (simp add: Inject_def Let_def)
  also have "\<dots> = Inr (pod', name)" using i(2,3) n by (simp add: cs again ann)
  finally show ?thesis by (simp add: ShouldInject_def ann)
qed

text \<open>A pod without the annotation and the labels, as a deployment makes it: its service is named after
  the ReplicaSet, so the name carries the hash of the pod template and changes with every rollout,
  where the annotation's description says that it is derived from the workload.\<close>

theorem service_name_carries_hash:
  assumes "attr (po_Annotations pod) AnnotationServiceName = []"
    and "attr (po_Labels pod) ''app.kubernetes.io/name'' = []" "attr (po_Labels pod) ''app'' = []"
    and "po_GenerateName pod = workload @ ''-'' @ template_hash @ ''-''"
  shows "serviceName pod target = workload @ ''-'' @ template_hash"
  using assms by (simp add: serviceName_def trim_suffix_def trim_prefix_def has_prefix_def)

section \<open>Examples\<close>

definition example_container :: container where
  "example_container = \<lparr>ct_Name = ''app'', ct_Image = ''app:1'', ct_Command = [],
     ct_Env = [value_env ''OTEL_SERVICE_NAME'' ''mine''], ct_VolumeMounts = [], ct_SecurityContext = None, ct_Other = []\<rparr>"

definition example_pod :: k8s_pod where
  "example_pod = \<lparr>po_Name = [], po_GenerateName = ''shop-7d9f8b6c5d-'', po_Labels = None,
     po_Annotations = Some [(AnnotationInject, ''true'')], po_InitContainers = [], po_Containers = [example_container],
     po_Volumes = [], po_Other = []\<rparr>"

definition example_inject_config :: inject_config where
  "example_inject_config = \<lparr>ic_InstrumentationImage = ''nabiz/dotnet-instrumentation:1.16.0'',
     ic_CollectorEndpoint = ''http://nabiz-collector.nabiz.svc:4317'', ic_ClusterName = ''prod-eu'', ic_DefaultSampleRatio = ''1.0''\<rparr>"

definition example_injected :: k8s_pod where
  "example_injected = (case Inject example_pod example_inject_config of Inl e \<Rightarrow> example_pod | Inr (p, n) \<Rightarrow> p)"

lemma example_inject: "Inject example_pod example_inject_config = Inr (example_injected, ''app'')"
  by (simp add: example_injected_def Inject_def targetContainer_def Let_def example_pod_def attr_def AnnotationInject_def
      AnnotationContainer_def example_container_def)

theorem inject_idempotent_witness:
  "\<not> ShouldInject example_injected \<and> Inject example_injected example_inject_config = Inr (example_injected, ''app'')"
  by (rule inject_idempotent [OF example_inject])

theorem service_name_carries_hash_witness: "serviceName example_pod example_container = ''shop'' @ ''-'' @ ''7d9f8b6c5d''"
  by (rule service_name_carries_hash)
    (simp_all add: example_pod_def attr_def AnnotationInject_def AnnotationServiceName_def)


theorem inject_keeps_application_witness:
  "\<exists>i t t'. targetContainer example_pod = Inr i \<and> t = po_Containers example_pod ! i
    \<and> po_Containers example_injected = (po_Containers example_pod)[i := t']
    \<and> (\<exists>added. ct_Env t' = ct_Env t @ added \<and> en_Name ` set added \<inter> en_Name ` set (ct_Env t) = {})"
  using inject_keeps_application [OF example_inject] by blast

end
