(* ===== verification/Webhook.thy ===== *)
theory Webhook
  imports InjectProps
begin

text \<open>
  internal/k8s/webhook.go: the admission webhook. Reading the body, decoding the review and the pod,
  encoding the mutated pod, computing the patch and encoding it are the library's and parameters;
  the answer is the review that is written back.
\<close>

section \<open>State and answers\<close>

record webhook_stats =
  wst_Reviewed :: u64
  wst_Injected :: u64
  wst_Skipped :: u64
  wst_Errors :: u64

definition zero_webhook_stats :: webhook_stats where
  "zero_webhook_stats = \<lparr>wst_Reviewed = 0, wst_Injected = 0, wst_Skipped = 0, wst_Errors = 0\<rparr>"

record webhook =
  wh_cfg :: inject_config
  wh_stats :: webhook_stats

definition NewWebhook :: "inject_config \<Rightarrow> webhook" where
  "NewWebhook cfg = \<lparr>wh_cfg = cfg, wh_stats = zero_webhook_stats\<rparr>"

record admission_request =
  ar_UID :: string
  ar_Namespace :: string
  ar_Raw :: string

record admission_response =
  as_UID :: string
  as_Allowed :: bool
  as_Patch :: string
  as_PatchType :: "string option"
  as_Message :: "string option"

text \<open>The library: \<open>lb_read\<close> reads the body up to three mebibytes, \<open>lb_review\<close> decodes it to a review that
  may carry no request, \<open>lb_marshal\<close> cannot fail on a pod it decoded.\<close>

record 'p library =
  lb_read :: "string \<Rightarrow> string + string"
  lb_review :: "string \<Rightarrow> string + admission_request option"
  lb_pod :: "string \<Rightarrow> string + k8s_pod"
  lb_marshal :: "k8s_pod \<Rightarrow> string"
  lb_create_patch :: "string \<Rightarrow> string \<Rightarrow> string + 'p"
  lb_patch_bytes :: "'p \<Rightarrow> string + string"

section \<open>Handler\<close>

definition allow_review :: "admission_request option \<Rightarrow> string \<Rightarrow> admission_response" where
  "allow_review rq patch =
     \<lparr>as_UID = (case rq of None \<Rightarrow> [] | Some a \<Rightarrow> ar_UID a), as_Allowed = True,
      as_Patch = patch, as_PatchType = (if patch \<noteq> [] then Some ''JSONPatch'' else None), as_Message = None\<rparr>"

definition count_webhook_error :: "webhook \<Rightarrow> webhook" where
  "count_webhook_error wh = wh\<lparr>wh_stats := (wh_stats wh)\<lparr>wst_Errors := wst_Errors (wh_stats wh) + 1\<rparr>\<rparr>"

definition fail_review :: "webhook \<Rightarrow> admission_request option \<Rightarrow> string \<Rightarrow> admission_response \<times> webhook" where
  "fail_review wh rq e =
     (\<lparr>as_UID = (case rq of None \<Rightarrow> [] | Some a \<Rightarrow> ar_UID a), as_Allowed = True,
       as_Patch = [], as_PatchType = None, as_Message = Some e\<rparr>, count_webhook_error wh)"

text \<open>The pod was decoded: from \<open>ShouldInject\<close> to the end of \<open>handleMutate\<close>.\<close>

definition mutate_pod :: "'p library \<Rightarrow> admission_request \<Rightarrow> k8s_pod \<Rightarrow> webhook \<Rightarrow> admission_response \<times> webhook" where
  "mutate_pod lib rq pod wh =
     (if \<not> ShouldInject pod then
        (allow_review (Some rq) [], wh\<lparr>wh_stats := (wh_stats wh)\<lparr>wst_Skipped := wst_Skipped (wh_stats wh) + 1\<rparr>\<rparr>)
      else case Inject pod (wh_cfg wh) of
        Inl e \<Rightarrow> (allow_review (Some rq) [], count_webhook_error wh)
      | Inr (mutated, container) \<Rightarrow>
          (case lb_create_patch lib (ar_Raw rq) (lb_marshal lib mutated) of
             Inl e \<Rightarrow> (allow_review (Some rq) [], count_webhook_error wh)
           | Inr patch \<Rightarrow>
               (case lb_patch_bytes lib patch of
                  Inl e \<Rightarrow> (allow_review (Some rq) [], count_webhook_error wh)
                | Inr bytes \<Rightarrow>
                    (allow_review (Some rq) bytes,
                     wh\<lparr>wh_stats := (wh_stats wh)\<lparr>wst_Injected := wst_Injected (wh_stats wh) + 1\<rparr>\<rparr>))))"

definition handleMutate :: "'p library \<Rightarrow> string \<Rightarrow> webhook \<Rightarrow> admission_response \<times> webhook" where
  "handleMutate lib body wh0 =
     (let wh = wh0\<lparr>wh_stats := (wh_stats wh0)\<lparr>wst_Reviewed := wst_Reviewed (wh_stats wh0) + 1\<rparr>\<rparr> in
      case lb_read lib body of
        Inl e \<Rightarrow> fail_review wh None (''could not read the request body: '' @ e)
      | Inr b \<Rightarrow>
          (case lb_review lib b of
             Inl e \<Rightarrow> fail_review wh None (''could not decode the AdmissionReview: '' @ e)
           | Inr None \<Rightarrow> fail_review wh None ''AdmissionReview.Request is empty''
           | Inr (Some rq) \<Rightarrow>
               (case lb_pod lib (ar_Raw rq) of
                  Inl e \<Rightarrow> fail_review wh (Some rq) (''could not decode the pod: '' @ e)
                | Inr pod \<Rightarrow> mutate_pod lib rq pod wh)))"

definition podDisplayName :: "k8s_pod \<Rightarrow> string" where
  "podDisplayName pod = (if po_Name pod \<noteq> [] then po_Name pod else po_GenerateName pod @ ''(pending)'')"

section \<open>Properties\<close>

text \<open>What the API server makes of an answer: without a patch the object as it was sent, with one the
  patched object; the law of a JSON patch is that it leads from the first document to the second.\<close>

definition admitted :: "(string \<Rightarrow> string \<Rightarrow> string option) \<Rightarrow> string \<Rightarrow> admission_response \<Rightarrow> string option" where
  "admitted patched raw rsp =
     (if \<not> as_Allowed rsp then None
      else if as_PatchType rsp = None then Some raw
      else patched raw (as_Patch rsp))"

definition patch_law :: "'p library \<Rightarrow> (string \<Rightarrow> string \<Rightarrow> string option) \<Rightarrow> bool" where
  "patch_law lib patched \<longleftrightarrow>
     (\<forall>a b p bytes. lb_create_patch lib a b = Inr p \<longrightarrow> lb_patch_bytes lib p = Inr bytes \<longrightarrow>
        bytes \<noteq> [] \<and> patched a bytes = Some b)"

text \<open>(C24) The webhook never keeps a pod from starting, and never half changes one: every request is
  allowed with its own identifier, and what the API server admits is the object that was sent,
  unless the pod asks for injection, in which case it may be the injected pod; and it is that pod
  whenever injection, patch and encoding succeed.\<close>

theorem webhook_admits:
  assumes law: "patch_law lib patched"
    and "lb_read lib body = Inr b" "lb_review lib b = Inr (Some rq)"
    and h: "handleMutate lib body wh = (rsp, wh')"
  shows "as_Allowed rsp \<and> as_UID rsp = ar_UID rq
    \<and> (admitted patched (ar_Raw rq) rsp = Some (ar_Raw rq)
       \<or> (\<exists>pod pod' n. lb_pod lib (ar_Raw rq) = Inr pod \<and> ShouldInject pod \<and> Inject pod (wh_cfg wh) = Inr (pod', n)
            \<and> admitted patched (ar_Raw rq) rsp = Some (lb_marshal lib pod')))
    \<and> (\<forall>pod pod' n p bytes. lb_pod lib (ar_Raw rq) = Inr pod \<and> ShouldInject pod \<and> Inject pod (wh_cfg wh) = Inr (pod', n)
         \<and> lb_create_patch lib (ar_Raw rq) (lb_marshal lib pod') = Inr p \<and> lb_patch_bytes lib p = Inr bytes \<longrightarrow>
         admitted patched (ar_Raw rq) rsp = Some (lb_marshal lib pod'))"
proof (cases "lb_pod lib (ar_Raw rq)")
  case (Inl e)
  with assms show ?thesis
    by (auto simp: handleMutate_def Let_def fail_review_def admitted_def)
next
  case (Inr pod)
  let ?wh = "wh\<lparr>wh_stats := (wh_stats wh)\<lparr>wst_Reviewed := wst_Reviewed (wh_stats wh) + 1\<rparr>\<rparr>"
  have m: "mutate_pod lib rq pod ?wh = (rsp, wh')"
    using h assms(2,3) Inr by (simp add: handleMutate_def Let_def)
  show ?thesis
  proof (cases "ShouldInject pod")
    case False
    with m Inr show ?thesis by (auto simp: mutate_pod_def allow_review_def admitted_def)
  next
    case should: True
    show ?thesis
    proof (cases "Inject pod (wh_cfg wh)")
      case Inl': (Inl e)
      with m should Inr show ?thesis by (auto simp: mutate_pod_def allow_review_def admitted_def)
    next
      case inj: (Inr pn)
      obtain pod' n where pn: "pn = (pod', n)" by (cases pn)
      show ?thesis
      proof (cases "lb_create_patch lib (ar_Raw rq) (lb_marshal lib pod')")
        case (Inl e)
        with m should Inr inj pn show ?thesis by (auto simp: mutate_pod_def allow_review_def admitted_def)
      next
        case patch: (Inr p)
        show ?thesis
        proof (cases "lb_patch_bytes lib p")
          case (Inl e)
          with m should Inr inj pn patch show ?thesis by (auto simp: mutate_pod_def allow_review_def admitted_def)
        next
          case bytes: (Inr bytes)
          with law patch have l: "bytes \<noteq> []" "patched (ar_Raw rq) bytes = Some (lb_marshal lib pod')"
            by (auto simp: patch_law_def)
          from m should Inr inj pn patch bytes have "rsp = allow_review (Some rq) bytes" by (simp add: mutate_pod_def)
          with l should Inr inj pn show ?thesis by (simp add: allow_review_def admitted_def)
        qed
      qed
    qed
  qed
qed

definition balanced :: "webhook \<Rightarrow> bool" where
  "balanced wh \<longleftrightarrow> wst_Reviewed (wh_stats wh) = wst_Injected (wh_stats wh) + wst_Skipped (wh_stats wh) + wst_Errors (wh_stats wh)"

definition webhook_step :: "'p library \<Rightarrow> webhook \<Rightarrow> string \<Rightarrow> webhook" where
  "webhook_step lib wh body = snd (handleMutate lib body wh)"

lemma mutate_pod_counts:
  "let st = wh_stats (snd (mutate_pod lib rq pod wh)) in
    wst_Injected st + wst_Skipped st + wst_Errors st
      = wst_Injected (wh_stats wh) + wst_Skipped (wh_stats wh) + wst_Errors (wh_stats wh) + 1
    \<and> wst_Reviewed st = wst_Reviewed (wh_stats wh)"
  by (simp add: mutate_pod_def count_webhook_error_def split: sum.split prod.split)

interpretation webhook_runs: invariant_machine "webhook_step lib" balanced for lib
proof
  fix wh :: webhook and body :: string
  assume "balanced wh"
  moreover have "wst_Injected (wh_stats (snd (handleMutate lib body wh))) + wst_Skipped (wh_stats (snd (handleMutate lib body wh)))
      + wst_Errors (wh_stats (snd (handleMutate lib body wh)))
    = wst_Injected (wh_stats wh) + wst_Skipped (wh_stats wh) + wst_Errors (wh_stats wh) + 1
    \<and> wst_Reviewed (wh_stats (snd (handleMutate lib body wh))) = wst_Reviewed (wh_stats wh) + 1"
    using mutate_pod_counts [of lib]
    by (simp add: handleMutate_def fail_review_def count_webhook_error_def Let_def split: sum.split option.split)
  ultimately show "balanced (webhook_step lib wh body)" by (simp add: webhook_step_def balanced_def)
qed

text \<open>The counters of the webhook balance after any sequence of requests: each one that was reviewed
  was injected, skipped or failed, and counted as exactly one of them.\<close>

theorem webhook_counts:
  "balanced (foldl (webhook_step lib) (NewWebhook cfg) bodies)"
  by (rule webhook_runs.run_good) (simp add: balanced_def NewWebhook_def zero_webhook_stats_def)

section \<open>Examples\<close>

definition example_library :: "string library" where
  "example_library = \<lparr>lb_read = Inr, lb_review = (\<lambda>b. Inr (Some \<lparr>ar_UID = ''u1'', ar_Namespace = ''shop'', ar_Raw = b\<rparr>)),
     lb_pod = (\<lambda>raw. Inr example_pod), lb_marshal = (\<lambda>p. ''injected''),
     lb_create_patch = (\<lambda>a b. Inr b), lb_patch_bytes = (\<lambda>p. Inr (CHR ''+'' # p))\<rparr>"

theorem webhook_admits_witness:
  "as_Allowed (fst (handleMutate example_library ''raw'' (NewWebhook example_inject_config)))
    \<and> as_UID (fst (handleMutate example_library ''raw'' (NewWebhook example_inject_config))) = ar_UID \<lparr>ar_UID = ''u1'', ar_Namespace = ''shop'', ar_Raw = ''raw''\<rparr>
    \<and> (admitted (\<lambda>a p. Some (drop 1 p)) ''raw'' (fst (handleMutate example_library ''raw'' (NewWebhook example_inject_config))) = Some ''raw''
       \<or> admitted (\<lambda>a p. Some (drop 1 p)) ''raw'' (fst (handleMutate example_library ''raw'' (NewWebhook example_inject_config))) = Some ''injected'')"
  using webhook_admits [where lib = example_library and patched = "\<lambda>a p. Some (drop 1 p)" and body = "''raw''" and b = "''raw''"
      and rq = "\<lparr>ar_UID = ''u1'', ar_Namespace = ''shop'', ar_Raw = ''raw''\<rparr>" and wh = "NewWebhook example_inject_config"
      and rsp = "fst (handleMutate example_library ''raw'' (NewWebhook example_inject_config))"
      and wh' = "snd (handleMutate example_library ''raw'' (NewWebhook example_inject_config))"]
  by (auto simp: patch_law_def example_library_def)

end
