(* ===== verification/Commands.thy ===== *)
theory Commands
  imports Config Receiver Storage Webhook Dumps Auth
begin

text \<open>
  cmd/collector, cmd/api, cmd/operator: how the three programs read their settings, wait for their
  databases and set up their components. Connecting, listening and signals are the libraries' own:
  an attempt to connect is a parameter by its number.
\<close>

section \<open>Waiting for a database\<close>

text \<open>\<open>attempt n\<close> is the outcome of the n-th attempt, \<open>done n\<close> says that the context ended while waiting
  after it.\<close>

fun attempts_from :: "(nat \<Rightarrow> 'e + 's) \<Rightarrow> (nat \<Rightarrow> bool) \<Rightarrow> 'e \<Rightarrow> 'e \<Rightarrow> nat \<Rightarrow> nat \<Rightarrow> 'e + 's" where
  "attempts_from attempt done ctx_err last_err n 0 = Inl last_err"
| "attempts_from attempt done ctx_err last_err n (Suc left) =
     (case attempt n of
        Inr s \<Rightarrow> Inr s
      | Inl e \<Rightarrow> if done n then Inl ctx_err else attempts_from attempt done ctx_err e (Suc n) left)"

definition openStoreWithRetry :: "(nat \<Rightarrow> string + 's) \<Rightarrow> (nat \<Rightarrow> bool) \<Rightarrow> string + 's" where
  "openStoreWithRetry attempt done = attempts_from attempt done ''context canceled'' [] 1 30"

definition openIdentityWithRetry :: "(nat \<Rightarrow> string + 's) \<Rightarrow> (nat \<Rightarrow> bool) \<Rightarrow> string + 's" where
  "openIdentityWithRetry attempt done = attempts_from attempt done ''context canceled'' [] 1 30"

section \<open>nabiz-collector\<close>

datatype log_level = LevelDebug | LevelInfo | LevelWarn | LevelError

definition parseLevel :: "string \<Rightarrow> log_level" where
  "parseLevel s =
     (if s = ''debug'' then LevelDebug
      else if s = ''warn'' then LevelWarn
      else if s = ''error'' then LevelError
      else LevelInfo)"

record ch_config =
  cc_Addrs :: "string list"
  cc_Database :: string
  cc_Username :: string
  cc_Password :: string
  cc_TTLDays :: int
  cc_MaxOpenConns :: int
  cc_DialTimeout :: int

definition ch_DefaultConfig :: ch_config where
  "ch_DefaultConfig = \<lparr>cc_Addrs = [''localhost:9000''], cc_Database = ''nabiz'', cc_Username = ''default'',
     cc_Password = [], cc_TTLDays = 7, cc_MaxOpenConns = 8, cc_DialTimeout = 10 * 10 ^ 9\<rparr>"

record collector_config =
  co_level :: log_level
  co_ch :: ch_config
  co_topo :: topo_config
  co_pipe :: pl_config
  co_grpc_addr :: string
  co_http_addr :: string
  co_debug_addr :: string

definition ch_settings :: "env \<Rightarrow> ch_config" where
  "ch_settings e = ch_DefaultConfig\<lparr>
     cc_Addrs := StringSlice e ''CLICKHOUSE_ADDRS'' (cc_Addrs ch_DefaultConfig),
     cc_Database := String_setting e ''CLICKHOUSE_DATABASE'' (cc_Database ch_DefaultConfig),
     cc_Username := String_setting e ''CLICKHOUSE_USERNAME'' (cc_Username ch_DefaultConfig),
     cc_Password := String_setting e ''CLICKHOUSE_PASSWORD'' (cc_Password ch_DefaultConfig)\<rparr>"

definition topo_settings :: "env \<Rightarrow> topo_config" where
  "topo_settings e = DefaultConfig\<lparr>
     tc_PairTTL := Duration_setting e ''TOPOLOGY_PAIR_TTL'' (tc_PairTTL DefaultConfig),
     tc_FlushInterval := Duration_setting e ''TOPOLOGY_FLUSH_INTERVAL'' (tc_FlushInterval DefaultConfig),
     tc_MaxPendingPerShard := Int_setting e ''TOPOLOGY_MAX_PENDING_PER_SHARD'' (tc_MaxPendingPerShard DefaultConfig),
     tc_IncludeNodeDimension := Bool_setting e ''TOPOLOGY_INCLUDE_NODE'' (tc_IncludeNodeDimension DefaultConfig)\<rparr>"

definition pipe_settings :: "env \<Rightarrow> pl_config" where
  "pipe_settings e = pl_DefaultConfig\<lparr>
     plc_QueueSize := Int_setting e ''QUEUE_SIZE'' (plc_QueueSize pl_DefaultConfig),
     plc_Workers := Int_setting e ''WORKERS'' (plc_Workers pl_DefaultConfig),
     plc_BatchSize := Int_setting e ''BATCH_SIZE'' (plc_BatchSize pl_DefaultConfig),
     plc_FlushInterval := Duration_setting e ''FLUSH_INTERVAL'' (plc_FlushInterval pl_DefaultConfig)\<rparr>"

definition collector_settings :: "env \<Rightarrow> collector_config" where
  "collector_settings e =
     \<lparr>co_level = parseLevel (String_setting e ''LOG_LEVEL'' ''info''),
      co_ch = (ch_settings e)\<lparr>
        cc_TTLDays := Int_setting e ''RETENTION_DAYS'' (cc_TTLDays ch_DefaultConfig),
        cc_MaxOpenConns := Int_setting e ''CLICKHOUSE_MAX_CONNS'' (cc_MaxOpenConns ch_DefaultConfig)\<rparr>,
      co_topo = topo_settings e,
      co_pipe = pipe_settings e,
      co_grpc_addr = String_setting e ''OTLP_GRPC_ADDR'' '':4317'',
      co_http_addr = String_setting e ''OTLP_HTTP_ADDR'' '':4318'',
      co_debug_addr = String_setting e ''DEBUG_ADDR'' '':8888''\<rparr>"

text \<open>The loop that \<open>Start\<close> launches for the topology panics at its start when the interval of one of its
  tickers is not positive.\<close>

definition topo_start :: "builder \<Rightarrow> builder option" where
  "topo_start b =
     (if go_div (tc_PairTTL (tb_cfg b)) 2 \<le> 0 \<or> tc_FlushInterval (tb_cfg b) \<le> 0 then None else Some b)"

text \<open>From the settings to the running components; \<open>None\<close> is a panic.\<close>

definition collector_components :: "env \<Rightarrow> (builder \<times> pipeline) option" where
  "collector_components e =
     (let c = collector_settings e in
      case New (co_topo c) of
        None \<Rightarrow> None
      | Some b0 \<Rightarrow>
          (case topo_start b0 of
             None \<Rightarrow> None
           | Some b \<Rightarrow>
               (case Start (pl_New (co_pipe c)) of
                  None \<Rightarrow> None
                | Some p \<Rightarrow> Some (b, p))))"

text \<open>The counters that the introspection endpoint serves; the queue depth is signed.\<close>

definition debug_stats ::
  "recv_stats \<Rightarrow> pl_stats \<Rightarrow> topo_stats \<Rightarrow> ch_stats \<Rightarrow> int \<Rightarrow> (string \<times> (string \<times> int) list) list" where
  "debug_stats rs ps ts ss latency =
     [(''receiver'', [(''spans_received'', uint (rvs_SpansReceived rs)), (''spans_dropped'', uint (rvs_SpansDropped rs)),
        (''requests'', uint (rvs_Requests rs)), (''errors'', uint (rvs_Errors rs))]),
      (''pipeline'', [(''enqueued'', uint (pls_Enqueued ps)), (''dropped'', uint (pls_Dropped ps)),
        (''processed'', uint (pls_Processed ps)), (''failed'', uint (pls_Failed ps)),
        (''queue_depth'', sint (pls_QueueDepth ps))]),
      (''topology'', [(''paired'', uint (ts_Paired ts)), (''inferred_peers'', uint (ts_InferredPeers ts)),
        (''entry_points'', uint (ts_EntryPoints ts)), (''evicted'', uint (ts_Evicted ts)),
        (''edges_written'', uint (ts_EdgesWritten ts)), (''pending_dropped'', uint (ts_PendingDropped ts))]),
      (''storage'', [(''spans_written'', uint (ch_SpansWritten ss)), (''edges_written'', uint (ch_EdgesWritten ss)),
        (''write_errors'', uint (ch_WriteErrors ss)), (''write_latency_us'', latency)])]"

section \<open>nabiz-api\<close>

text \<open>The retention of the dumps, in the 64-bit arithmetic of Go.\<close>

definition api_retention :: "env \<Rightarrow> dump_retention" where
  "api_retention e = DefaultDumpRetention\<lparr>
     dr_MaxAge := wrap_i64 (wrap_i64 (Int_setting e ''DUMP_RETENTION_DAYS'' 7 * 24) * (3600 * 10 ^ 9)),
     dr_MaxBytes := wrap_i64 (Int_setting e ''DUMP_QUOTA_GB'' 10 * 2 ^ 30)\<rparr>"

text \<open>The start of the control plane once its database is open and migrated: the first administrator,
  the server, the retention. The password in the result is the one the log shows.\<close>

definition api_start ::
  "env \<Rightarrow> id_env \<Rightarrow> faults \<Rightarrow> string \<Rightarrow> string \<Rightarrow> time \<Rightarrow> string \<Rightarrow> filesystem \<Rightarrow> idb \<Rightarrow> id_error + api_server \<times> bool \<times> string" where
  "api_start e ie flt nid rnd now tmp fs db =
     (case Bootstrap ie flt nid rnd now db (String_setting e ''ADMIN_EMAIL'' []) (String_setting e ''ADMIN_PASSWORD'' []) of
        (Inl err, db1) \<Rightarrow> Inl err
      | (Inr (created, generated), db1) \<Rightarrow>
          Inr ((new_server db1 (String_setting e ''DUMP_DIR'' (tmp @ ''/nabiz-dumps'')) fs)
            \<lparr>sv_retention := api_retention e\<rparr>, created, generated))"

datatype purge_event = PurgeTick faults time | PurgeDone

fun purgeSessions :: "idb \<Rightarrow> purge_event list \<Rightarrow> idb" where
  "purgeSessions db [] = db"
| "purgeSessions db (PurgeTick flt now # es) = purgeSessions (snd (PurgeExpiredSessions flt now db)) es"
| "purgeSessions db (PurgeDone # es) = db"

section \<open>nabiz-operator\<close>

definition operator_config :: "env \<Rightarrow> inject_config" where
  "operator_config e =
     \<lparr>ic_InstrumentationImage = String_setting e ''INSTRUMENTATION_IMAGE'' ''nabiz/dotnet-instrumentation:1.16.0'',
      ic_CollectorEndpoint = String_setting e ''COLLECTOR_ENDPOINT''
        (''http://nabiz-collector.'' @ String_setting e ''NAMESPACE'' ''nabiz'' @ ''.svc:4317''),
      ic_ClusterName = String_setting e ''CLUSTER_NAME'' [],
      ic_DefaultSampleRatio = String_setting e ''DEFAULT_SAMPLE_RATIO'' ''1.0''\<rparr>"

record patch_op =
  pa_op :: string
  pa_path :: string
  pa_value :: string

definition bundle_path :: "nat \<Rightarrow> string" where
  "bundle_path i = ''/webhooks/'' @ nat_string i @ ''/clientConfig/caBundle''"

definition bundle_ops :: "nat \<Rightarrow> string \<Rightarrow> patch_op list" where
  "bundle_ops n ca = map (\<lambda>i. \<lparr>pa_op = ''replace'', pa_path = bundle_path i, pa_value = ca\<rparr>) [0..<n]"

text \<open>\<open>get\<close> reads the number of webhooks of the configuration, \<open>patch\<close> applies operations to it; the
  client is that of the cluster the operator runs in.\<close>

definition patchCABundle ::
  "string option \<Rightarrow> string option \<Rightarrow> (string \<Rightarrow> string + nat) \<Rightarrow> (string \<Rightarrow> patch_op list \<Rightarrow> string option)
    \<Rightarrow> string \<Rightarrow> string \<Rightarrow> string option" where
  "patchCABundle cluster client get patch name ca =
     (case cluster of
        Some e \<Rightarrow> Some (''could not read the in-cluster configuration: '' @ e)
      | None \<Rightarrow>
          (case client of
             Some e \<Rightarrow> Some (''could not build the kubernetes client: '' @ e)
           | None \<Rightarrow>
               (case get name of
                  Inl e \<Rightarrow> Some (''could not read '' @ name @ '': '' @ e)
                | Inr n \<Rightarrow>
                    let ops = bundle_ops n ca in
                    if ops = [] then Some (name @ '' contains no webhook definitions'')
                    else (case patch name ops of
                            Some e \<Rightarrow> Some (''could not write the caBundle: '' @ e)
                          | None \<Rightarrow> None))))"

definition webhook_counters :: "webhook_stats \<Rightarrow> (string \<times> int) list" where
  "webhook_counters s = [(''reviewed'', uint (wst_Reviewed s)), (''injected'', uint (wst_Injected s)),
     (''skipped'', uint (wst_Skipped s)), (''errors'', uint (wst_Errors s))]"

end
