(* ===== verification/Collector.thy ===== *)
theory Collector
  imports Commands
begin

text \<open>
  cmd/collector/main.go: the collector as a whole. The receiver hands its spans to the pipeline, the
  workers of the pipeline hand their batches to the storage and to the topology, the loop of the
  topology writes its edges to the storage; \<open>main\<close> starts them in one order and stops them in another.
  One step is one request, one event of a worker, one event of the loop, the signal, or one step of
  \<open>main\<close>; they come in any order. A batch goes through both processors in one step: what the processors
  share with the other goroutines, they change under their locks, and the storage knows no order
  between batches.
\<close>

section \<open>State\<close>

text \<open>\<open>main\<close> is serving; it has closed the queue and waits for the workers; it has asked the topology to
  stop and waits for its loop; it has returned.\<close>

datatype phase = Serving | Draining | Closing | Exited

record 'db collector =
  cl_recv :: recv_stats
  cl_pipe :: pipeline
  cl_store :: "'db store"
  cl_topo :: builder
  cl_loop :: bool \<comment> \<open>the loop of the topology runs\<close>
  cl_phase :: phase

text \<open>The outside world: the database driver and the name of the database, the hash, the orders in which
  the maps of the topology are walked, the printing of a double, the codecs of the receiver.\<close>

record 'db collector_env =
  ce_drv :: "'db ch_driver"
  ce_db :: string
  ce_hash :: "string \<Rightarrow> u64"
  ce_ordp :: "(string \<times> pending) list \<Rightarrow> (string \<times> pending) list"
  ce_orda :: "(agg_key \<times> edge_sample) list \<Rightarrow> (agg_key \<times> edge_sample) list"
  ce_fmt :: "u64 \<Rightarrow> string"
  ce_codecs :: codecs

definition zero_recv_stats :: recv_stats where
  "zero_recv_stats = \<lparr>rvs_SpansReceived = 0, rvs_SpansDropped = 0, rvs_Requests = 0, rvs_Errors = 0\<rparr>"

definition zero_ch_stats :: ch_stats where
  "zero_ch_stats = \<lparr>ch_SpansWritten = 0, ch_EdgesWritten = 0, ch_WriteErrors = 0\<rparr>"

text \<open>What \<open>main\<close> has when it begins to serve, over a database that is open and migrated; \<open>None\<close> is a
  panic of a component at its start.\<close>

definition collector_start :: "env \<Rightarrow> 'db \<Rightarrow> 'db collector option" where
  "collector_start e d =
     (case collector_components e of
        None \<Rightarrow> None
      | Some (b, p) \<Rightarrow> Some \<lparr>cl_recv = zero_recv_stats, cl_pipe = p, cl_store = (d, zero_ch_stats),
          cl_topo = b, cl_loop = True, cl_phase = Serving\<rparr>)"

section \<open>The processors\<close>

text \<open>The two processors of the pipeline over their joint state, in the order \<open>main\<close> passes them. The
  topology reads the clock for every span; \<open>clk i\<close> is what it reads for the i-th of the batch.\<close>

definition store_processor :: "'db collector_env \<Rightarrow> ('db store \<times> builder) processor" where
  "store_processor E c sb spans =
     (case ch_Process (ce_drv E) (ce_db E) c (fst sb) spans of (st, r) \<Rightarrow> ((st, snd sb), r))"

definition topo_processor :: "'db collector_env \<Rightarrow> (nat \<Rightarrow> time) \<Rightarrow> ('db store \<times> builder) processor" where
  "topo_processor E clk c sb spans =
     ((fst sb, Process (ce_hash E) (snd sb) (zip (map clk [0..<length spans]) spans)), None)"

definition processors :: "'db collector_env \<Rightarrow> (nat \<Rightarrow> time) \<Rightarrow> ('db store \<times> builder) processor list" where
  "processors E clk = [store_processor E, topo_processor E clk]"

section \<open>Steps\<close>

datatype collector_event =
    EGrpc "resource_spans list"
  | EHttp http_request
  | EWork pl_event "nat \<Rightarrow> time" \<comment> \<open>a worker receives, ticks or sees the cancellation\<close>
  | ELoop loop_event
  | ESignal
  | EServeReturns serve_event
  | EWorkersDone
  | EExit

fun worker_event :: "pl_event \<Rightarrow> bool" where
  "worker_event (PRecv i) = True"
| "worker_event (PTick i) = True"
| "worker_event (PDone i) = True"
| "worker_event ev = False"

text \<open>The loop of the topology ends on the cancellation or when \<open>main\<close> asks it to. Its writes go through
  the context of the program; the last one is freed of the cancellation.\<close>

fun loop_enabled :: "'db collector \<Rightarrow> loop_event \<Rightarrow> bool" where
  "loop_enabled s (CtxDone clk) = pl_cancelled (cl_pipe s)"
| "loop_enabled s (StopRequested clk) = (cl_phase s = Closing)"
| "loop_enabled s ev = (cl_phase s \<noteq> Exited)"

fun write_cancelled :: "'db collector \<Rightarrow> loop_event \<Rightarrow> bool" where
  "write_cancelled s FlushTick = pl_cancelled (cl_pipe s)"
| "write_cancelled s ev = False"

text \<open>\<open>Serve\<close> returns for the cancellation only when there is one. It has waited for the calls of gRPC and
  up to five seconds for those of HTTP: a call of HTTP may come later, and when it finds the queue
  closed its panic is caught by net/http and ends that call alone.\<close>

definition serve_enabled :: "'db collector \<Rightarrow> serve_event \<Rightarrow> bool" where
  "serve_enabled s ev \<longleftrightarrow> cl_phase s = Serving \<and> (ev = ServeCancelled \<longrightarrow> pl_cancelled (cl_pipe s))"

definition no_worker :: "'db collector \<Rightarrow> bool" where
  "no_worker s \<longleftrightarrow> list_all (\<lambda>w. \<not> wk_running w) (pl_workers (cl_pipe s))"

inductive collector_step ::
  "'db collector_env \<Rightarrow> 'db collector \<Rightarrow> collector_event \<Rightarrow> 'db collector \<Rightarrow> bool" for E where
  grpc: "cl_phase s = Serving \<Longrightarrow> Export Accept (ce_fmt E) (cl_pipe s, cl_recv s) req = Some ((p, r), rp) \<Longrightarrow>
    collector_step E s (EGrpc req) (s\<lparr>cl_pipe := p, cl_recv := r\<rparr>)"
| http: "cl_phase s \<noteq> Exited \<Longrightarrow>
    handleHTTPTraces Accept (ce_fmt E) (ce_codecs E) (cl_pipe s, cl_recv s) rq = Some ((p, r), rp) \<Longrightarrow>
    collector_step E s (EHttp rq) (s\<lparr>cl_pipe := p, cl_recv := r\<rparr>)"
| http_panic: "cl_phase s \<noteq> Exited \<Longrightarrow>
    handleHTTPTraces Accept (ce_fmt E) (ce_codecs E) (cl_pipe s, cl_recv s) rq = None \<Longrightarrow>
    collector_step E s (EHttp rq) (s\<lparr>cl_recv := snd (count_request (cl_pipe s, cl_recv s))\<rparr>)"
| work: "cl_phase s \<noteq> Exited \<Longrightarrow> worker_event ev \<Longrightarrow>
    pl_step (processors E clk) ((cl_store s, cl_topo s), cl_pipe s) ev = Some ((st, b), p) \<Longrightarrow>
    collector_step E s (EWork ev clk) (s\<lparr>cl_pipe := p, cl_store := st, cl_topo := b\<rparr>)"
| loop: "loop_enabled s ev \<Longrightarrow>
    loop_step (WriteEdges (ce_drv E) (ce_db E) (write_cancelled s ev)) (ce_ordp E) (ce_orda E)
      ((cl_store s, cl_topo s), cl_loop s) ev = ((st, b), l) \<Longrightarrow>
    collector_step E s (ELoop ev) (s\<lparr>cl_store := st, cl_topo := b, cl_loop := l\<rparr>)"
| signal: "collector_step E s ESignal (s\<lparr>cl_pipe := (cl_pipe s)\<lparr>pl_cancelled := True\<rparr>\<rparr>)"
| serve_returns: "serve_enabled s ev \<Longrightarrow>
    collector_step E s (EServeReturns ev) (s\<lparr>cl_pipe := (cl_pipe s)\<lparr>pl_closed := True\<rparr>, cl_phase := Draining\<rparr>)"
| workers_done: "cl_phase s = Draining \<Longrightarrow> no_worker s \<Longrightarrow>
    collector_step E s EWorkersDone (s\<lparr>cl_phase := Closing\<rparr>)"
| exits: "cl_phase s = Closing \<Longrightarrow> \<not> cl_loop s \<Longrightarrow> collector_step E s EExit (s\<lparr>cl_phase := Exited\<rparr>)"

inductive_cases collector_stepE: "collector_step E s ev s1"

inductive_simps collector_step_simps:
  "collector_step E s (EGrpc req) s1"
  "collector_step E s (EHttp rq) s1"
  "collector_step E s (EWork wev clk) s1"
  "collector_step E s (ELoop lev) s1"
  "collector_step E s ESignal s1"
  "collector_step E s (EServeReturns sev) s1"
  "collector_step E s EWorkersDone s1"
  "collector_step E s EExit s1"

text \<open>The same as a function: every event has at most one outcome.\<close>

fun collector_exec :: "'db collector_env \<Rightarrow> 'db collector \<Rightarrow> collector_event \<Rightarrow> 'db collector option" where
  "collector_exec E s (EGrpc req) =
     (if cl_phase s \<noteq> Serving then None
      else case Export Accept (ce_fmt E) (cl_pipe s, cl_recv s) req of
             None \<Rightarrow> None | Some ((p, r), rp) \<Rightarrow> Some (s\<lparr>cl_pipe := p, cl_recv := r\<rparr>))"
| "collector_exec E s (EHttp rq) =
     (if cl_phase s = Exited then None
      else case handleHTTPTraces Accept (ce_fmt E) (ce_codecs E) (cl_pipe s, cl_recv s) rq of
             None \<Rightarrow> Some (s\<lparr>cl_recv := snd (count_request (cl_pipe s, cl_recv s))\<rparr>)
           | Some ((p, r), rp) \<Rightarrow> Some (s\<lparr>cl_pipe := p, cl_recv := r\<rparr>))"
| "collector_exec E s (EWork ev clk) =
     (if cl_phase s = Exited \<or> \<not> worker_event ev then None
      else case pl_step (processors E clk) ((cl_store s, cl_topo s), cl_pipe s) ev of
             None \<Rightarrow> None | Some ((st, b), p) \<Rightarrow> Some (s\<lparr>cl_pipe := p, cl_store := st, cl_topo := b\<rparr>))"
| "collector_exec E s (ELoop ev) =
     (if \<not> loop_enabled s ev then None
      else case loop_step (WriteEdges (ce_drv E) (ce_db E) (write_cancelled s ev)) (ce_ordp E) (ce_orda E)
               ((cl_store s, cl_topo s), cl_loop s) ev of
             ((st, b), l) \<Rightarrow> Some (s\<lparr>cl_store := st, cl_topo := b, cl_loop := l\<rparr>))"
| "collector_exec E s ESignal = Some (s\<lparr>cl_pipe := (cl_pipe s)\<lparr>pl_cancelled := True\<rparr>\<rparr>)"
| "collector_exec E s (EServeReturns ev) =
     (if serve_enabled s ev
      then Some (s\<lparr>cl_pipe := (cl_pipe s)\<lparr>pl_closed := True\<rparr>, cl_phase := Draining\<rparr>) else None)"
| "collector_exec E s EWorkersDone =
     (if cl_phase s = Draining \<and> no_worker s then Some (s\<lparr>cl_phase := Closing\<rparr>) else None)"
| "collector_exec E s EExit =
     (if cl_phase s = Closing \<and> \<not> cl_loop s then Some (s\<lparr>cl_phase := Exited\<rparr>) else None)"

lemma step_exec: "collector_step E s ev s1 \<longleftrightarrow> collector_exec E s ev = Some s1"
proof (cases ev)
  case (ELoop lev)
  then show ?thesis by (auto simp: collector_step_simps split: prod.splits)
qed (auto simp: collector_step_simps split: option.splits)

text \<open>The spans an event brings into the queue.\<close>

definition http_spans :: "(u64 \<Rightarrow> string) \<Rightarrow> codecs \<Rightarrow> http_request \<Rightarrow> span list" where
  "http_spans fmt cd rq =
     (case read_body cd rq of
        Inl msg \<Rightarrow> []
      | Inr raw \<Rightarrow>
          (case (if rq_ContentType rq = ''application/json'' then cd_json cd raw else cd_proto cd raw) of
             None \<Rightarrow> []
           | Some req \<Rightarrow> ConvertTraces fmt req))"

fun event_spans :: "'db collector_env \<Rightarrow> collector_event \<Rightarrow> span list" where
  "event_spans E (EGrpc req) = ConvertTraces (ce_fmt E) req"
| "event_spans E (EHttp rq) = http_spans (ce_fmt E) (ce_codecs E) rq"
| "event_spans E ev = []"

definition accepted :: "'db collector_env \<Rightarrow> 'db collector \<Rightarrow> collector_event \<Rightarrow> span list" where
  "accepted E s ev =
     (if \<not> pl_closed (cl_pipe s) \<and> length (pl_queue (cl_pipe s)) < pl_cap (cl_pipe s) then event_spans E ev else [])"

text \<open>A run from a state, with the spans it accepted.\<close>

inductive collector_run :: "'db collector_env \<Rightarrow> 'db collector \<Rightarrow> span list \<Rightarrow> 'db collector \<Rightarrow> bool" for E s0 where
  run_start: "collector_run E s0 [] s0"
| run_step: "collector_run E s0 acc s \<Longrightarrow> collector_step E s ev s1 \<Longrightarrow>
    collector_run E s0 (acc @ accepted E s ev) s1"

text \<open>A run given by its events.\<close>

fun collector_execs ::
  "'db collector_env \<Rightarrow> 'db collector \<Rightarrow> collector_event list \<Rightarrow> (span list \<times> 'db collector) option" where
  "collector_execs E s [] = Some ([], s)"
| "collector_execs E s (ev # evs) =
     (case collector_exec E s ev of
        None \<Rightarrow> None
      | Some s1 \<Rightarrow> map_option (\<lambda>(acc, s2). (accepted E s ev @ acc, s2)) (collector_execs E s1 evs))"

lemma run_append:
  "collector_run E s1 acc1 s2 \<Longrightarrow> collector_run E s0 acc s1 \<Longrightarrow> collector_run E s0 (acc @ acc1) s2"
proof (induction rule: collector_run.induct)
  case (run_step acc1 s ev s2)
  from run_step.IH [OF run_step.prems] run_step.hyps(2)
  have "collector_run E s0 ((acc @ acc1) @ accepted E s ev) s2" by (rule collector_run.run_step)
  then show ?case by simp
qed simp

lemma execs_run: "collector_execs E s evs = Some (acc, s1) \<Longrightarrow> collector_run E s acc s1"
proof (induction evs arbitrary: s acc)
  case Nil
  then show ?case by (simp add: collector_run.run_start)
next
  case (Cons ev evs)
  then obtain s2 acc2 where s2: "collector_exec E s ev = Some s2" "collector_execs E s2 evs = Some (acc2, s1)"
    "acc = accepted E s ev @ acc2" by (auto split: option.splits)
  have "collector_run E s ([] @ accepted E s ev) s2"
    by (rule collector_run.run_step [OF collector_run.run_start]) (simp add: step_exec s2(1))
  from run_append [OF Cons.IH [OF s2(2)] this] show ?case by (simp add: s2(3))
qed

text \<open>The introspection endpoint.\<close>

definition serveDebug :: "string \<Rightarrow> string \<Rightarrow> int \<Rightarrow> 'db collector \<Rightarrow> nat \<times> (string \<times> (string \<times> int) list) list" where
  "serveDebug method path latency s =
     (if path = ''/stats'' \<and> method \<in> {''GET'', ''HEAD''} then
        (200, debug_stats (cl_recv s) (pl_stats (cl_pipe s)) (tb_stats (cl_topo s)) (snd (cl_store s)) latency)
      else if path = ''/healthz'' \<and> method \<in> {''GET'', ''HEAD''} then (200, [])
      else if path = ''/stats'' \<or> path = ''/healthz'' then (405, []) else (404, []))"

end
