(* ===== verification/CollectorProps.thy ===== *)
theory CollectorProps
  imports Collector TopologyProps
begin

text \<open>
  The lemmas of the collector as a whole: what each step does to the ledger of the spans (what was
  accepted is waiting, stored or failed), to the ledger of the calls (what the topology counted is
  stored or waits to be), and to the order of a shutdown no signal started.
\<close>

section \<open>The processors\<close>

lemma span_edge_sql: "qualifyInsert InsertSpansSQL db \<noteq> qualifyInsert InsertEdgesSQL db"
  by (simp add: qualifyInsert_def InsertSpansSQL_def InsertEdgesSQL_def insert_sql_def has_prefix_def)

lemma Process_frame:
  assumes "ch_driver_ok drv rows" "ch_Process drv db c st spans = (st1, r)"
  shows "edge_rows rows db st1 = edge_rows rows db st"
  using assms(2) span_edge_sql [of db]
  by (auto simp: ch_Process_def edge_rows_def split: if_splits prod.splits option.splits
      dest!: write_batch_ok [OF assms(1)] write_batch_err [OF assms(1)])

lemma WriteEdges_frame:
  assumes "ch_driver_ok drv rows" "WriteEdges drv db c st es = (st1, r)"
  shows "span_rows rows db st1 = span_rows rows db st \<and> ch_SpansWritten (snd st1) = ch_SpansWritten (snd st)"
  using assms(2) span_edge_sql [of db]
  by (auto simp: WriteEdges_def span_rows_def split: if_splits prod.splits option.splits
      dest!: write_batch_ok [OF assms(1)] write_batch_err [OF assms(1)])

lemma Process_rows:
  assumes "ch_driver_ok drv rows" "ch_Process drv db c st spans = (st1, r)"
  shows "span_rows rows db st1 = span_rows rows db st @ (if r = None then map span_row spans else [])
    \<and> ch_SpansWritten (snd st1) = ch_SpansWritten (snd st) + (if r = None then of_nat (length spans) else 0)"
  using assms(2)
  by (auto simp: ch_Process_def span_rows_def split: if_splits prod.splits option.splits
      dest!: write_batch_ok [OF assms(1)] write_batch_err [OF assms(1)])

lemma feed_processors:
  "feed (processors E clk) c (st, b) spans =
     (fst (ch_Process (ce_drv E) (ce_db E) c st spans),
      Process (ce_hash E) b (zip (map clk [0..<length spans]) spans))"
  by (simp add: feed_def processors_def store_processor_def topo_processor_def split: prod.split)

lemma failures_processors:
  "failures (processors E clk) c (st, b) spans =
     (if snd (ch_Process (ce_drv E) (ce_db E) c st spans) = None then 0 else 1)"
  by (simp add: processors_def store_processor_def topo_processor_def split: prod.split)

section \<open>The ledger of the spans\<close>

definition ledger ::
  "'db collector_env \<Rightarrow> ('db \<Rightarrow> string \<Rightarrow> col list list) \<Rightarrow> 'db collector \<Rightarrow> span list \<Rightarrow> 'db collector \<Rightarrow> bool" where
  "ledger E rows s0 acc s \<longleftrightarrow>
     (\<exists>stored lost. mset acc = in_flight (cl_pipe s) + mset stored + mset lost
        \<and> span_rows rows (ce_db E) (cl_store s) = span_rows rows (ce_db E) (cl_store s0) @ map span_row stored
        \<and> ch_SpansWritten (snd (cl_store s)) = of_nat (length stored)
        \<and> pls_Failed (pl_stats (cl_pipe s)) = of_nat (length lost)
        \<and> recv_balance (cl_recv s) = of_nat (length acc))"

definition entering :: "pipeline \<Rightarrow> span list \<Rightarrow> span list" where
  "entering p spans = (if \<not> pl_closed p \<and> length (pl_queue p) < pl_cap p then spans else [])"

definition same_but_queue :: "pipeline \<Rightarrow> pipeline \<Rightarrow> bool" where
  "same_but_queue p p1 \<longleftrightarrow> pls_Failed (pl_stats p1) = pls_Failed (pl_stats p) \<and> pl_workers p1 = pl_workers p
     \<and> pl_closed p1 = pl_closed p \<and> pl_cancelled p1 = pl_cancelled p \<and> (pl_closed p \<longrightarrow> p1 = p)"

lemma Accept_enters:
  assumes "Accept p spans = Some (p1, d)"
  shows "in_flight p1 = in_flight p + mset (entering p spans) \<and> length spans = length (entering p spans) + d
    \<and> same_but_queue p p1"
  using assms by (auto simp: Accept_def entering_def in_flight_def upd_pl_stats_def same_but_queue_def split: if_splits)

lemma consume_enters:
  assumes "consume Accept fmt (p, r) req = Some ((p1, r1), received, dropped)"
  shows "in_flight p1 = in_flight p + mset (entering p (ConvertTraces fmt req))
    \<and> recv_balance r1 = recv_balance r + of_nat (length (entering p (ConvertTraces fmt req))) \<and> same_but_queue p p1"
proof (cases "ConvertTraces fmt req = []")
  case True
  with assms show ?thesis by (auto simp: consume_def entering_def same_but_queue_def)
next
  case False
  with assms have a: "Accept p (ConvertTraces fmt req) = Some (p1, dropped)"
    and r: "r1 = (let st = r\<lparr>rvs_SpansReceived := rvs_SpansReceived r + of_nat (length (ConvertTraces fmt req))\<rparr>
      in if dropped > 0 then st\<lparr>rvs_SpansDropped := rvs_SpansDropped st + of_nat dropped\<rparr> else st)"
    by (auto simp: consume_def Let_def split: option.splits)
  note e = Accept_enters [OF a]
  have "recv_balance r1 = recv_balance r + of_nat (length (ConvertTraces fmt req)) - of_nat dropped"
    by (simp add: r recv_balance_def Let_def)
  also have "\<dots> = recv_balance r + of_nat (length (entering p (ConvertTraces fmt req)))"
    using e by simp
  finally show ?thesis using e by blast
qed

lemma count_request_pair: "count_request (p, r) = (p, snd (count_request (p, r)))"
  by (simp add: count_request_def)

lemma Export_enters:
  assumes "Export Accept fmt (p, r) req = Some ((p1, r1), rp)"
  shows "in_flight p1 = in_flight p + mset (entering p (ConvertTraces fmt req))
    \<and> recv_balance r1 = recv_balance r + of_nat (length (entering p (ConvertTraces fmt req))) \<and> same_but_queue p p1"
proof -
  from assms obtain received dropped where
    "consume Accept fmt (p, snd (count_request (p, r))) req = Some ((p1, r1), received, dropped)"
    by (subst (asm) Export_def, subst (asm) count_request_pair) (auto split: option.splits)
  from consume_enters [OF this] show ?thesis by simp
qed

lemma http_enters:
  assumes "handleHTTPTraces Accept fmt cd (p, r) rq = Some ((p1, r1), rp)"
  shows "in_flight p1 = in_flight p + mset (entering p (http_spans fmt cd rq))
    \<and> recv_balance r1 = recv_balance r + of_nat (length (entering p (http_spans fmt cd rq))) \<and> same_but_queue p p1"
proof (cases "\<exists>req received dropped. http_spans fmt cd rq = ConvertTraces fmt req
      \<and> consume Accept fmt (p, snd (count_request (p, r))) req = Some ((p1, r1), received, dropped)")
  case True
  then obtain req received dropped where h: "http_spans fmt cd rq = ConvertTraces fmt req"
    and c: "consume Accept fmt (p, snd (count_request (p, r))) req = Some ((p1, r1), received, dropped)" by blast
  from consume_enters [OF c] show ?thesis by (simp add: h)
next
  case False
  have "http_spans fmt cd rq = [] \<and> p1 = p \<and> recv_balance r1 = recv_balance r"
  proof (cases "read_body cd rq")
    case (Inl msg)
    with assms show ?thesis
      by (auto simp: handleHTTPTraces_def http_spans_def dest: httpError_eq)
  next
    case (Inr raw)
    let ?dec = "if rq_ContentType rq = ''application/json'' then cd_json cd raw else cd_proto cd raw"
    show ?thesis
    proof (cases ?dec)
      case None
      with assms Inr show ?thesis
        by (auto simp: handleHTTPTraces_def http_spans_def Let_def dest: httpError_eq split: if_splits)
    next
      case (Some req)
      with Inr have h: "http_spans fmt cd rq = ConvertTraces fmt req" by (simp add: http_spans_def)
      from assms Some Inr obtain received dropped where
        "consume Accept fmt (count_request (p, r)) req = Some ((p1, r1), received, dropped)"
        by (auto simp: handleHTTPTraces_def Let_def split: option.splits if_splits)
      with False h show ?thesis by (subst (asm) count_request_pair) blast
    qed
  qed
  then show ?thesis by (auto simp: entering_def same_but_queue_def)
qed

lemma http_panic_closed:
  assumes "handleHTTPTraces Accept fmt cd (p, r) rq = None"
  shows "pl_closed p"
  using assms
  by (auto simp: handleHTTPTraces_def Let_def consume_def Accept_def count_request_def split: sum.splits option.splits if_splits)

section \<open>Steps\<close>

definition failed_by :: "'p processor list \<Rightarrow> bool \<Rightarrow> 'p \<Rightarrow> span list \<Rightarrow> u64" where
  "failed_by procs c ps b = of_nat (if b = [] then 0 else failures procs c ps b * length b)"

text \<open>What changes in the pipeline besides queue and batches: the failed counter.\<close>

definition only_failed :: "pipeline \<Rightarrow> u64 \<Rightarrow> pipeline \<Rightarrow> bool" where
  "only_failed p n p1 \<longleftrightarrow> pls_Failed (pl_stats p1) = pls_Failed (pl_stats p) + n
     \<and> pl_closed p1 = pl_closed p \<and> pl_cancelled p1 = pl_cancelled p"

lemma flush_worker_failed:
  "only_failed p (failed_by procs (pl_cancelled p) ps (wk_batch (pl_workers p ! i))) (snd (flush_worker procs i (ps, p)))"
  by (simp add: only_failed_def failed_by_def flush_worker_eq dispatch_eq)

lemma exit_worker_failed: "only_failed p n (snd (exit_worker i s)) = only_failed p n (snd s)"
  by (simp add: only_failed_def exit_worker_def)

lemma take_chunk_failed:
  assumes "i < length (pl_workers p)"
  shows "only_failed p (let b = wk_batch (pl_workers p ! i) @ chunk in
      failed_by procs (pl_cancelled p) ps (if plc_BatchSize (pl_cfg p) \<le> int (length b) then b else []))
    (snd (take_chunk procs i chunk rest (ps, p)))"
proof -
  let ?b = "wk_batch (pl_workers p ! i) @ chunk"
  let ?p = "upd_pl_stats (\<lambda>t. t\<lparr>pls_QueueDepth := pls_QueueDepth t - of_nat (length chunk)\<rparr>)
    (p\<lparr>pl_queue := rest, pl_workers := (pl_workers p)[i := (pl_workers p ! i)\<lparr>wk_batch := ?b\<rparr>]\<rparr>)"
  have w: "wk_batch (pl_workers ?p ! i) = ?b" "pl_cancelled ?p = pl_cancelled p"
    using assms by (simp_all add: upd_pl_stats_def)
  have same: "only_failed ?p n q \<longleftrightarrow> only_failed p n q" for n q
    by (simp add: only_failed_def upd_pl_stats_def)
  show ?thesis
  proof (cases "plc_BatchSize (pl_cfg p) \<le> int (length ?b)")
    case True
    with flush_worker_failed [of ?p procs ps i] same w show ?thesis
      by (simp add: take_chunk_def Let_def)
  next
    case False
    then show ?thesis
      by (simp add: take_chunk_def Let_def failed_by_def only_failed_def upd_pl_stats_def)
  qed
qed

lemma no_failure: "only_failed p (failed_by procs c ps []) p"
  by (simp add: only_failed_def failed_by_def)

lemma work_failed:
  assumes "pl_step procs (ps, p) ev = Some (ps1, p1)" "worker_event ev"
  shows "only_failed p (failed_by procs (pl_cancelled p) ps (flushed p ev)) p1"
proof (cases ev)
  case (PRecv i)
  show ?thesis
  proof (cases "live p i")
    case True
    then have i: "i < length (pl_workers p)" by (simp add: live_def)
    have eq: "(ps1, p1) = (case pl_queue p of chunk # rest \<Rightarrow> take_chunk procs i chunk rest (ps, p)
      | [] \<Rightarrow> if pl_closed p then exit_worker i (flush_worker procs i (ps, p)) else (ps, p))"
      using assms(1) PRecv True by simp
    then have p1: "p1 = snd (case pl_queue p of chunk # rest \<Rightarrow> take_chunk procs i chunk rest (ps, p)
      | [] \<Rightarrow> if pl_closed p then exit_worker i (flush_worker procs i (ps, p)) else (ps, p))"
      by (metis snd_conv)
    show ?thesis
    proof (cases "pl_queue p")
      case Nil
      with True PRecv show ?thesis unfolding p1
        by (simp add: exit_worker_failed flush_worker_failed no_failure)
    next
      case (Cons chunk rest)
      with True PRecv take_chunk_failed [OF i, of chunk procs ps rest] show ?thesis unfolding p1
        by (simp add: Let_def)
    qed
  qed (use assms(1) PRecv in \<open>simp add: no_failure\<close>)
next
  case (PTick i)
  have "p1 = snd (if live p i then flush_worker procs i (ps, p) else (ps, p))"
    using assms(1) PTick by (metis option.inject pl_step.simps(3) snd_conv)
  with PTick show ?thesis by (simp add: flush_worker_failed no_failure)
next
  case (PDone i)
  have "p1 = snd (if live p i \<and> pl_cancelled p then exit_worker i (flush_worker procs i (ps, p)) else (ps, p))"
    using assms(1) PDone by (metis option.inject pl_step.simps(4) snd_conv)
  with PDone flush_worker_failed [of p procs ps i] show ?thesis by (auto simp: exit_worker_failed no_failure)
qed (use assms(2) in simp_all)

text \<open>What a worker's event does to everything but its batch.\<close>

lemma work_step:
  assumes "pl_step procs (ps, p) ev = Some (ps1, p1)" "worker_event ev"
  shows "pls_Failed (pl_stats p1) = pls_Failed (pl_stats p) + failed_by procs (pl_cancelled p) ps (flushed p ev)
    \<and> in_flight p1 + mset (flushed p ev) = in_flight p
    \<and> ps1 = (if flushed p ev = [] then ps else feed procs (pl_cancelled p) ps (flushed p ev))
    \<and> pl_closed p1 = pl_closed p \<and> pl_cancelled p1 = pl_cancelled p"
proof -
  have "taken_in p ev = []" using assms(2) by (cases ev) simp_all
  then show ?thesis
    using pl_step_in_flight [OF assms(1)] pl_step_feed [OF assms(1)] work_failed [OF assms]
    by (simp add: only_failed_def)
qed

lemma flush_store: "fst (flush wr ord (k, b)) =
    (if tb_agg b = [] then k else fst (wr k (map snd (ord (tb_agg b)))))"
  by (simp add: flush_def Let_def split: prod.split option.split)

lemma loop_step_store:
  assumes "ch_driver_ok drv rows" "loop_step (WriteEdges drv db c) ordp orda ((st, b), l) ev = ((st1, b1), l1)"
  shows "span_rows rows db st1 = span_rows rows db st \<and> ch_SpansWritten (snd st1) = ch_SpansWritten (snd st)"
proof -
  have "st1 = fst (fst (loop_step (WriteEdges drv db c) ordp orda ((st, b), l) ev))"
    by (simp only: assms(2) fst_conv)
  then have "st1 = st \<or> (\<exists>es. st1 = fst (WriteEdges drv db c st es))"
    by (cases l; cases ev) (auto simp: flush_store)
  then show ?thesis
  proof
    assume "\<exists>es. st1 = fst (WriteEdges drv db c st es)"
    then obtain es where "WriteEdges drv db c st es = (st1, snd (WriteEdges drv db c st es))"
      by (metis prod.collapse)
    from WriteEdges_frame [OF assms(1) this] show ?thesis .
  qed simp
qed

lemma accepted_entering: "accepted E s ev = entering (cl_pipe s) (event_spans E ev)"
  by (simp add: accepted_def entering_def)

lemma accepted_none [simp]: "accepted E s (EWork wev clk) = []" "accepted E s (ELoop lev) = []"
  "accepted E s ESignal = []" "accepted E s (EServeReturns sev) = []" "accepted E s EWorkersDone = []"
  "accepted E s EExit = []"
  by (simp_all add: accepted_def)

lemma ledger_same:
  assumes "ledger E rows s0 acc s" "in_flight (cl_pipe s1) = in_flight (cl_pipe s)"
    "span_rows rows (ce_db E) (cl_store s1) = span_rows rows (ce_db E) (cl_store s)"
    "ch_SpansWritten (snd (cl_store s1)) = ch_SpansWritten (snd (cl_store s))"
    "pls_Failed (pl_stats (cl_pipe s1)) = pls_Failed (pl_stats (cl_pipe s))"
    "recv_balance (cl_recv s1) = recv_balance (cl_recv s)"
  shows "ledger E rows s0 acc s1"
  using assms(1) unfolding ledger_def assms(2-6) .

lemma ledger_enter:
  assumes "ledger E rows s0 acc s" "in_flight p = in_flight (cl_pipe s) + mset xs"
    "recv_balance r = recv_balance (cl_recv s) + of_nat (length xs)" "same_but_queue (cl_pipe s) p"
  shows "ledger E rows s0 (acc @ xs) (s\<lparr>cl_pipe := p, cl_recv := r\<rparr>)"
proof -
  from assms(1) obtain stored lost where l: "mset acc = in_flight (cl_pipe s) + mset stored + mset lost"
    "span_rows rows (ce_db E) (cl_store s) = span_rows rows (ce_db E) (cl_store s0) @ map span_row stored"
    "ch_SpansWritten (snd (cl_store s)) = of_nat (length stored)"
    "pls_Failed (pl_stats (cl_pipe s)) = of_nat (length lost)"
    "recv_balance (cl_recv s) = of_nat (length acc)" unfolding ledger_def by blast
  have "mset (acc @ xs) = in_flight p + mset stored + mset lost"
    using l(1) assms(2) by simp
  moreover have "pls_Failed (pl_stats p) = of_nat (length lost)"
    using l(4) assms(4) by (simp add: same_but_queue_def)
  moreover have "recv_balance r = of_nat (length (acc @ xs))"
    using l(5) assms(3) by simp
  ultimately show ?thesis using l(2,3) unfolding ledger_def by auto
qed

lemma ledger_work:
  assumes "ch_driver_ok (ce_drv E) rows" "ledger E rows s0 acc s" "worker_event ev"
    "pl_step (processors E clk) ((cl_store s, cl_topo s), cl_pipe s) ev = Some ((st, b), p)"
  shows "ledger E rows s0 acc (s\<lparr>cl_pipe := p, cl_store := st, cl_topo := b\<rparr>)"
proof -
  let ?f = "flushed (cl_pipe s) ev"
  from assms(2) obtain stored lost where l: "mset acc = in_flight (cl_pipe s) + mset stored + mset lost"
    "span_rows rows (ce_db E) (cl_store s) = span_rows rows (ce_db E) (cl_store s0) @ map span_row stored"
    "ch_SpansWritten (snd (cl_store s)) = of_nat (length stored)"
    "pls_Failed (pl_stats (cl_pipe s)) = of_nat (length lost)"
    "recv_balance (cl_recv s) = of_nat (length acc)" unfolding ledger_def by blast
  note w = work_step [OF assms(4,3)]
  show ?thesis
  proof (cases "?f = []")
    case True
    with w have "in_flight p = in_flight (cl_pipe s)" "st = cl_store s"
      "pls_Failed (pl_stats p) = pls_Failed (pl_stats (cl_pipe s))" by (simp_all add: failed_by_def)
    with l show ?thesis unfolding ledger_def by auto
  next
    case False
    obtain st2 r where c: "ch_Process (ce_drv E) (ce_db E) (pl_cancelled (cl_pipe s)) (cl_store s) ?f = (st2, r)"
      by fastforce
    from False w c have st: "st = st2" and acc: "in_flight p + mset ?f = in_flight (cl_pipe s)"
      and failed: "pls_Failed (pl_stats p) = pls_Failed (pl_stats (cl_pipe s))
        + of_nat ((if r = None then 0 else 1) * length ?f)"
      by (simp_all add: feed_processors failures_processors failed_by_def)
    note rows = Process_rows [OF assms(1) c]
    from acc l(1) have acc: "mset acc = in_flight p + mset ?f + mset stored + mset lost"
      by (simp add: algebra_simps)
    show ?thesis
    proof (cases r)
      case None
      have "mset acc = in_flight p + mset (stored @ ?f) + mset lost"
        using acc by (simp add: algebra_simps)
      moreover have "span_rows rows (ce_db E) st = span_rows rows (ce_db E) (cl_store s0) @ map span_row (stored @ ?f)"
        "ch_SpansWritten (snd st) = of_nat (length (stored @ ?f))"
        using rows st l(2,3) None by simp_all
      moreover have "pls_Failed (pl_stats p) = of_nat (length lost)" using failed l(4) None by simp
      ultimately show ?thesis
        using l(5) unfolding ledger_def
        by (intro exI [of _ "stored @ ?f"] exI [of _ lost]) simp
    next
      case (Some e)
      have "mset acc = in_flight p + mset stored + mset (lost @ ?f)"
        using acc by (simp add: algebra_simps)
      moreover have "span_rows rows (ce_db E) st = span_rows rows (ce_db E) (cl_store s0) @ map span_row stored"
        "ch_SpansWritten (snd st) = of_nat (length stored)"
        using rows st l(2,3) Some by simp_all
      moreover have "pls_Failed (pl_stats p) = of_nat (length (lost @ ?f))" using failed l(4) Some by simp
      ultimately show ?thesis
        using l(5) unfolding ledger_def
        by (intro exI [of _ stored] exI [of _ "lost @ ?f"]) simp
    qed
  qed
qed

lemma ledger_step:
  assumes "ch_driver_ok (ce_drv E) rows" "collector_step E s ev s1" "ledger E rows s0 acc s"
  shows "ledger E rows s0 (acc @ accepted E s ev) s1"
  using assms(2)
proof (cases rule: collector_step.cases)
  case (grpc req p r rp)
  from Export_enters [OF grpc(4)] ledger_enter [OF assms(3), of p "accepted E s ev" r]
  show ?thesis by (simp add: grpc(1,2) accepted_entering)
next
  case (http rq p r rp)
  from http_enters [OF http(4)] ledger_enter [OF assms(3), of p "accepted E s ev" r]
  show ?thesis by (simp add: http(1,2) accepted_entering)
next
  case (http_panic rq)
  from http_panic_closed [OF http_panic(4)] have "accepted E s ev = []" by (simp add: accepted_def)
  moreover have "ledger E rows s0 acc s1"
    by (rule ledger_same [OF assms(3)]) (simp_all add: http_panic(2))
  ultimately show ?thesis by simp
next
  case (work wev clk st b p)
  from ledger_work [OF assms(1,3) work(4,5)] show ?thesis by (simp add: work(1,2))
next
  case (loop lev st b l)
  have "ledger E rows s0 acc s1"
    using loop_step_store [OF assms(1) loop(4)]
    by (intro ledger_same [OF assms(3)]) (simp_all add: loop(2))
  then show ?thesis by (simp add: loop(1))
next
  case signal
  have "ledger E rows s0 acc s1" by (rule ledger_same [OF assms(3)]) (simp_all add: signal(2) in_flight_flags)
  then show ?thesis by (simp add: signal(1))
next
  case (serve_returns sev)
  have "ledger E rows s0 acc s1" by (rule ledger_same [OF assms(3)]) (simp_all add: serve_returns(2) in_flight_flags)
  then show ?thesis by (simp add: serve_returns(1))
next
  case workers_done
  have "ledger E rows s0 acc s1" by (rule ledger_same [OF assms(3)]) (simp_all add: workers_done(2))
  then show ?thesis by (simp add: workers_done(1))
next
  case exits
  have "ledger E rows s0 acc s1" by (rule ledger_same [OF assms(3)]) (simp_all add: exits(2))
  then show ?thesis by (simp add: exits(1))
qed

lemma ledger_run:
  assumes "collector_run E s0 acc s" "ch_driver_ok (ce_drv E) rows" "ledger E rows s0 [] s0"
  shows "ledger E rows s0 acc s"
  using assms by (induction rule: collector_run.induct) (auto intro: ledger_step)

section \<open>The ledger of the calls\<close>

definition stored_edges :: "'db collector_env \<Rightarrow> ('db \<Rightarrow> string \<Rightarrow> col list list) \<Rightarrow> 'db collector \<Rightarrow> edge_sample list" where
  "stored_edges E rows s = map edge_of_row (edge_rows rows (ce_db E) (cl_store s))"

definition calls_due :: "'db collector_env \<Rightarrow> ('db \<Rightarrow> string \<Rightarrow> col list list) \<Rightarrow> 'db collector \<Rightarrow> u64" where
  "calls_due E rows s = total_calls (stored_edges E rows s) + balance (cl_topo s)"

lemma balance_Process [simp]: "balance (Process hash b spans) = balance b"
proof -
  have "balance (foldl (\<lambda>b (now, s). observe hash now b s) b spans) = balance b"
    by (induction spans arbitrary: b) auto
  then show ?thesis by (simp add: Process_def)
qed

lemma flush_empties [simp]: "tb_agg (snd (flush wr ord (k, b))) = []"
  by (simp add: flush_def Let_def upd_stats_def split: prod.split option.split)

definition writes_succeed :: "'db collector_env \<Rightarrow> bool" where
  "writes_succeed E \<longleftrightarrow> (\<forall>st es. snd (WriteEdges (ce_drv E) (ce_db E) False st es) = None)"

lemma flush_due:
  assumes "ch_driver_ok (ce_drv E) rows" "is_order orda" "writes_succeed E"
    "flush (WriteEdges (ce_drv E) (ce_db E) False) orda (st, b) = (st1, b1)"
  shows "total_calls (map edge_of_row (edge_rows rows (ce_db E) st1)) + balance b1
    = total_calls (map edge_of_row (edge_rows rows (ce_db E) st)) + balance b"
  using edge_sink.flush_balance [OF WriteEdges_sink [OF assms(1)] assms(2,4)]
    assms(3) [unfolded writes_succeed_def, rule_format, of st "map snd (orda (tb_agg b))"]
  by simp

lemma loop_due:
  assumes "ch_driver_ok (ce_drv E) rows" "is_order orda" "writes_succeed E"
    "loop_step (WriteEdges (ce_drv E) (ce_db E) False) ordp orda ((st, b), l) ev = ((st1, b1), l1)"
  shows "total_calls (map edge_of_row (edge_rows rows (ce_db E) st1)) + balance b1
    = total_calls (map edge_of_row (edge_rows rows (ce_db E) st)) + balance b"
proof (cases "l = False \<or> (\<exists>clk. ev = RotateTick clk)")
  case True
  with assms(4) show ?thesis by (cases l) auto
next
  case False
  then obtain b2 where "flush (WriteEdges (ce_drv E) (ce_db E) False) orda (st, b2) = (st1, b1)"
    "balance b2 = balance b" using assms(4) by (cases ev) auto
  with flush_due [OF assms(1-3) this(1)] show ?thesis by simp
qed

lemma calls_due_step:
  assumes "ch_driver_ok (ce_drv E) rows" "is_order (ce_orda E)" "writes_succeed E"
    "collector_step E s ev s1" "\<not> pl_cancelled (cl_pipe s)"
  shows "calls_due E rows s1 = calls_due E rows s"
  using assms(4)
proof (cases rule: collector_step.cases)
  case (work wev clk st b p)
  note w = work_step [OF work(5,4)]
  have "balance b = balance (cl_topo s) \<and>
      edge_rows rows (ce_db E) st = edge_rows rows (ce_db E) (cl_store s)"
  proof (cases "flushed (cl_pipe s) wev = []")
    case True
    with w show ?thesis by simp
  next
    case False
    obtain st2 r where c: "ch_Process (ce_drv E) (ce_db E) (pl_cancelled (cl_pipe s)) (cl_store s) (flushed (cl_pipe s) wev)
      = (st2, r)" by fastforce
    from False w c Process_frame [OF assms(1) c] show ?thesis by (simp add: feed_processors)
  qed
  then show ?thesis by (simp add: work(2) calls_due_def stored_edges_def)
next
  case (loop lev st b l)
  have "write_cancelled s lev = False" using assms(5) by (cases lev) simp_all
  from loop_due [OF assms(1-3) loop(4) [unfolded this]] show ?thesis
    by (simp add: loop(2) calls_due_def stored_edges_def)
qed (simp_all add: calls_due_def stored_edges_def)

section \<open>Shutdown without a signal\<close>

text \<open>What a worker that has ended leaves: no batch, and a closed and empty queue.\<close>

definition drained :: "pipeline \<Rightarrow> bool" where
  "drained p \<longleftrightarrow> (\<forall>w \<in> set (pl_workers p). \<not> wk_running w \<longrightarrow> wk_batch w = [] \<and> pl_closed p \<and> pl_queue p = [])"

lemma update_all_nth: "\<forall>w \<in> set ws. P w \<Longrightarrow> (i < length ws \<Longrightarrow> P v) \<Longrightarrow> \<forall>w \<in> set (ws[i := v]). P w"
  by (cases "i < length ws") (auto simp: list_update_beyond dest!: set_update_subset_insert [THEN subsetD])

lemma drained_enter: "drained p \<Longrightarrow> same_but_queue p p1 \<Longrightarrow> drained p1"
  by (auto simp: drained_def same_but_queue_def)

lemma drained_flush:
  assumes "drained p"
  shows "drained (snd (flush_worker procs i (ps, p)))"
proof -
  let ?P = "\<lambda>w. \<not> wk_running w \<longrightarrow> wk_batch w = [] \<and> pl_closed p \<and> pl_queue p = []"
  have "\<forall>w \<in> set (pl_workers p). ?P w" using assms by (simp add: drained_def)
  then have "\<forall>w \<in> set ((pl_workers p)[i := (pl_workers p ! i)\<lparr>wk_batch := []\<rparr>]). ?P w"
    by (rule update_all_nth) (use assms in \<open>auto simp: drained_def\<close>)
  with assms show ?thesis by (simp add: flush_worker_eq drained_def)
qed

lemma flush_batch: "i < length (pl_workers p) \<Longrightarrow> wk_batch (pl_workers (snd (flush_worker procs i (ps, p))) ! i) = []"
  by (simp add: flush_worker_eq)

lemma drained_exit:
  assumes "drained p" "pl_queue p = []" "pl_closed p"
  shows "drained (snd (exit_worker i (flush_worker procs i (ps, p))))"
proof -
  let ?p = "snd (flush_worker procs i (ps, p))"
  let ?P = "\<lambda>w. \<not> wk_running w \<longrightarrow> wk_batch w = [] \<and> pl_closed p \<and> pl_queue p = []"
  have f: "pl_queue ?p = []" "pl_closed ?p" using assms(2,3) by (simp_all add: flush_worker_eq)
  have "\<forall>w \<in> set (pl_workers ?p). ?P w"
    using drained_flush [OF assms(1), of procs i ps] f assms(2,3) by (simp add: drained_def)
  then have "\<forall>w \<in> set ((pl_workers ?p)[i := (pl_workers ?p ! i)\<lparr>wk_running := False\<rparr>]). ?P w"
    by (rule update_all_nth) (use assms(2,3) in \<open>simp add: flush_batch\<close>)
  with f assms(2,3) show ?thesis by (simp add: exit_worker_def drained_def)
qed

lemma drained_take:
  assumes "drained p" "live p i" "pl_queue p = chunk # rest"
  shows "drained (snd (take_chunk procs i chunk rest (ps, p)))"
proof -
  have run: "\<forall>w \<in> set (pl_workers p). wk_running w" using assms(1,3) by (auto simp: drained_def)
  let ?w = "(pl_workers p ! i)\<lparr>wk_batch := wk_batch (pl_workers p ! i) @ chunk\<rparr>"
  let ?p = "upd_pl_stats (\<lambda>t. t\<lparr>pls_QueueDepth := pls_QueueDepth t - of_nat (length chunk)\<rparr>)
    (p\<lparr>pl_queue := rest, pl_workers := (pl_workers p)[i := ?w]\<rparr>)"
  have "\<forall>w \<in> set ((pl_workers p)[i := ?w]). wk_running w"
    using run by (rule update_all) (use assms(2) in \<open>simp add: live_def\<close>)
  then have "drained ?p" by (simp add: drained_def upd_pl_stats_def)
  from this drained_flush [OF this, of procs i ps] show ?thesis by (simp add: take_chunk_def Let_def)
qed

lemma drained_work:
  assumes "drained p" "\<not> pl_cancelled p" "worker_event ev" "pl_step procs (ps, p) ev = Some (ps1, p1)"
  shows "drained p1"
proof (cases ev)
  case (PRecv i)
  have p1: "p1 = snd (if \<not> live p i then (ps, p) else case pl_queue p of chunk # rest \<Rightarrow> take_chunk procs i chunk rest (ps, p)
      | [] \<Rightarrow> if pl_closed p then exit_worker i (flush_worker procs i (ps, p)) else (ps, p))"
    using assms(4) PRecv by (metis option.inject pl_step.simps(2) snd_conv)
  show ?thesis
  proof (cases "live p i")
    case True
    note live = this
    show ?thesis
    proof (cases "pl_queue p")
      case Nil
      have "p1 = snd (if pl_closed p then exit_worker i (flush_worker procs i (ps, p)) else (ps, p))"
        using p1 live Nil by simp
      with assms(1) Nil drained_exit [OF assms(1) Nil, where procs = procs and i = i and ps = ps] show ?thesis by (cases "pl_closed p") simp_all
    next
      case (Cons chunk rest)
      have "p1 = snd (take_chunk procs i chunk rest (ps, p))" using p1 live Cons by simp
      with drained_take [OF assms(1) live Cons, where procs = procs and ps = ps] show ?thesis by simp
    qed
  qed (use p1 assms(1) in simp)
next
  case (PTick i)
  have "p1 = snd (if live p i then flush_worker procs i (ps, p) else (ps, p))"
    using assms(4) PTick by (metis option.inject pl_step.simps(3) snd_conv)
  with assms(1) drained_flush [OF assms(1), where procs = procs and i = i and ps = ps] show ?thesis by (cases "live p i") simp_all
next
  case (PDone i)
  with assms(2,4) have "p1 = p" by simp
  with assms(1) show ?thesis by simp
qed (use assms(3) in simp_all)

definition shutdown_ok :: "'db collector \<Rightarrow> bool" where
  "shutdown_ok s \<longleftrightarrow> drained (cl_pipe s)
     \<and> (cl_phase s = Serving \<longleftrightarrow> \<not> pl_closed (cl_pipe s))
     \<and> (cl_phase s = Closing \<or> cl_phase s = Exited \<longrightarrow> no_worker s)
     \<and> (\<not> cl_loop s \<longrightarrow> (cl_phase s = Closing \<or> cl_phase s = Exited) \<and> tb_agg (cl_topo s) = [])
     \<and> (cl_phase s = Exited \<longrightarrow> \<not> cl_loop s)"

lemma idle_step:
  assumes "list_all (\<lambda>w. \<not> wk_running w) (pl_workers p)" "worker_event ev"
  shows "pl_step procs (ps, p) ev = Some (ps, p)"
proof -
  have "\<not> live p i" for i using assms(1) by (auto simp: live_def list_all_length)
  with assms(2) show ?thesis by (cases ev) simp_all
qed

lemma shutdown_step:
  assumes "collector_step E s ev s1" "shutdown_ok s" "\<not> pl_cancelled (cl_pipe s1)"
  shows "shutdown_ok s1"
  using assms(1)
proof (cases rule: collector_step.cases)
  case (grpc req p r rp)
  from Export_enters [OF grpc(4)] have b: "same_but_queue (cl_pipe s) p" by blast
  with assms(2) grpc(3) drained_enter [OF _ b] show ?thesis
    by (auto simp: grpc(2) shutdown_ok_def no_worker_def same_but_queue_def)
next
  case (http rq p r rp)
  from http_enters [OF http(4)] have b: "same_but_queue (cl_pipe s) p" by blast
  with assms(2) drained_enter [OF _ b] show ?thesis
    by (auto simp: http(2) shutdown_ok_def no_worker_def same_but_queue_def)
next
  case (work wev clk st b p)
  from work_step [OF work(5,4)] have same: "pl_closed p = pl_closed (cl_pipe s)" "pl_cancelled p = pl_cancelled (cl_pipe s)"
    by blast+
  show ?thesis
  proof (cases "cl_phase s = Closing \<or> cl_phase s = Exited")
    case True
    with assms(2) have "no_worker s" by (simp add: shutdown_ok_def)
    from idle_step [OF this [unfolded no_worker_def] work(4), of "processors E clk" "(cl_store s, cl_topo s)"] work(5)
    show ?thesis using assms(2) by (simp add: work(2) shutdown_ok_def no_worker_def)
  next
    case False
    have "drained p"
      by (rule drained_work [OF _ _ work(4,5)]) (use assms(2,3) same in \<open>simp_all add: shutdown_ok_def work(2)\<close>)
    with False assms(2) same show ?thesis by (simp add: work(2) shutdown_ok_def)
  qed
next
  case (loop lev st b l)
  have nc: "\<not> pl_cancelled (cl_pipe s)" using assms(3) by (simp add: loop(2))
  show ?thesis
  proof (cases "cl_loop s")
    case False
    then show ?thesis using loop(4) assms(2) by (auto simp: loop(2) shutdown_ok_def no_worker_def)
  next
    case True
    show ?thesis
    proof (cases "\<exists>clk. lev = StopRequested clk")
      case True
      then have "tb_agg b = []" "\<not> l" "cl_phase s = Closing"
        using loop(3,4) \<open>cl_loop s\<close> by (auto dest: arg_cong [where f = "\<lambda>x. tb_agg (snd (fst x))"])
      then show ?thesis using assms(2) by (simp add: loop(2) shutdown_ok_def no_worker_def)
    next
      case False
      then have "l" using loop(3,4) \<open>cl_loop s\<close> nc by (cases lev) auto
      then show ?thesis using assms(2) \<open>cl_loop s\<close> by (simp add: loop(2) shutdown_ok_def no_worker_def)
    qed
  qed
next
  case (serve_returns sev)
  then show ?thesis using assms(2) by (auto simp: shutdown_ok_def serve_enabled_def drained_def no_worker_def)
qed (use assms(2,3) in \<open>auto simp: shutdown_ok_def no_worker_def\<close>)

end
