(* ===== verification/CommandsProps.thy ===== *)
theory CommandsProps
  imports Commands
begin

text \<open>
  What the three programs make of their settings: which of them they start with, the retention of the
  dumps and where its arithmetic wraps, the first administrator, the waiting for a database, the
  certificate of the webhook.
\<close>

section \<open>Waiting\<close>

lemma attempts_from_success:
  "attempts_from attempt done ce le n k = Inr s \<longleftrightarrow>
    (\<exists>m \<ge> n. m < n + k \<and> attempt m = Inr s \<and> (\<forall>j. n \<le> j \<and> j < m \<longrightarrow> (\<exists>e. attempt j = Inl e) \<and> \<not> done j))"
proof (induction k arbitrary: n le)
  case (Suc k)
  show ?case
  proof (cases "attempt n")
    case (Inr t)
    then show ?thesis by (auto intro: exI [of _ n]) (metis Inl_Inr_False Inr le_less linorder_not_less nat_less_le sum.inject(2))
  next
    case (Inl e)
    show ?thesis
    proof (cases "done n")
      case True
      with Inl show ?thesis by (auto intro!: exI [of _ n] simp: order.strict_iff_order)
    next
      case False
      let ?Q = "\<lambda>j. (\<exists>e. attempt j = Inl e) \<and> \<not> done j"
      have "?Q n" using Inl False by blast
      then have all: "(\<forall>j. n \<le> j \<and> j < m \<longrightarrow> ?Q j) \<longleftrightarrow> (\<forall>j. Suc n \<le> j \<and> j < m \<longrightarrow> ?Q j)" for m
        by (auto simp: Suc_le_eq) (metis order.order_iff_strict)+
      have "(n \<le> m \<and> m < n + Suc k \<and> attempt m = Inr s) \<longleftrightarrow> (Suc n \<le> m \<and> m < Suc n + k \<and> attempt m = Inr s)" for m
        using Inl by (cases "m = n") auto
      then have "(\<exists>m \<ge> n. m < n + Suc k \<and> attempt m = Inr s \<and> (\<forall>j. n \<le> j \<and> j < m \<longrightarrow> ?Q j))
        \<longleftrightarrow> (\<exists>m \<ge> Suc n. m < Suc n + k \<and> attempt m = Inr s \<and> (\<forall>j. Suc n \<le> j \<and> j < m \<longrightarrow> ?Q j))"
        unfolding all by blast
      with Inl False Suc.IH show ?thesis by simp
    qed
  qed
qed auto

text \<open>The programs wait for their databases and no longer than thirty attempts: the one connection
  they use is that of the first attempt that succeeds, provided that the context did not end before.\<close>

theorem retry_takes_first_success:
  "openStoreWithRetry attempt done = Inr s \<longleftrightarrow>
    (\<exists>m \<ge> 1. m \<le> 30 \<and> attempt m = Inr s \<and> (\<forall>j. 1 \<le> j \<and> j < m \<longrightarrow> (\<exists>e. attempt j = Inl e) \<and> \<not> done j))"
proof -
  have "m < 1 + 30 \<longleftrightarrow> m \<le> 30" for m :: nat by auto
  then show ?thesis unfolding openStoreWithRetry_def attempts_from_success by simp
qed

theorem retry_takes_first_success_witness:
  "(openStoreWithRetry (\<lambda>n. if n < 3 then Inl ''refused'' else Inr n) (\<lambda>_. False) = Inr (3 :: nat)) = True"
  using retry_takes_first_success [of "\<lambda>n. if n < 3 then Inl ''refused'' else Inr n" "\<lambda>_. False" 3]
  by (auto intro!: exI [of _ 3])

section \<open>The collector\<close>

lemma default_shards: "New (topo_settings e) = Some b \<Longrightarrow> tb_cfg b = topo_settings e" "New (topo_settings e) \<noteq> None"
  by (auto simp: New_def topo_settings_def DefaultConfig_def round_up_pow2.simps wrap_i64_def)

text \<open>The collector starts exactly with settings that make sense to the timers of Go: a time to live of
  at least two nanoseconds, positive intervals and, where there are workers, a batch size that is not
  negative. Any other value that the reader accepts, 0s for an interval, ends the process with a
  panic; a queue size that is not positive replaces the settings of the pipeline by the defaults.\<close>

theorem collector_starts_iff:
  "collector_components e \<noteq> None \<longleftrightarrow>
    2 \<le> Duration_setting e ''TOPOLOGY_PAIR_TTL'' (30 * 10 ^ 9) \<and> 0 < Duration_setting e ''TOPOLOGY_FLUSH_INTERVAL'' (15 * 10 ^ 9)
    \<and> (Int_setting e ''QUEUE_SIZE'' 200000 \<le> 0 \<or> Int_setting e ''WORKERS'' 4 \<le> 0
       \<or> 0 \<le> Int_setting e ''BATCH_SIZE'' 5000 \<and> 0 < Duration_setting e ''FLUSH_INTERVAL'' (2 * 10 ^ 9))"
proof -
  have ttl: "go_div d 2 \<le> 0 \<longleftrightarrow> \<not> 2 \<le> d" for d :: int
  proof (cases "0 \<le> d")
    case True
    then show ?thesis by (simp add: go_div_nonneg) linarith
  next
    case False
    then show ?thesis by (simp add: go_div_def sgn_if)
  qed
  obtain b where b: "New (topo_settings e) = Some b" "tb_cfg b = topo_settings e"
    using default_shards [of e] by blast
  have "topo_start b = None \<longleftrightarrow> \<not> (2 \<le> Duration_setting e ''TOPOLOGY_PAIR_TTL'' (30 * 10 ^ 9)
      \<and> 0 < Duration_setting e ''TOPOLOGY_FLUSH_INTERVAL'' (15 * 10 ^ 9))"
    by (simp add: topo_start_def b(2) ttl) (auto simp: topo_settings_def DefaultConfig_def)
  moreover have "Start (pl_New (pipe_settings e)) = None \<longleftrightarrow>
      \<not> (Int_setting e ''QUEUE_SIZE'' 200000 \<le> 0 \<or> Int_setting e ''WORKERS'' 4 \<le> 0
       \<or> 0 \<le> Int_setting e ''BATCH_SIZE'' 5000 \<and> 0 < Duration_setting e ''FLUSH_INTERVAL'' (2 * 10 ^ 9))"
    by (auto simp: Start_def pl_New_def pipe_settings_def pl_DefaultConfig_def Let_def)
  ultimately show ?thesis
    by (auto simp: collector_components_def collector_settings_def Let_def b(1) split: option.splits)
qed

section \<open>The retention of the dumps\<close>

lemma wrap_i64_over: "2 ^ 63 \<le> x \<Longrightarrow> x < 2 ^ 64 \<Longrightarrow> wrap_i64 x = x - 2 ^ 64"
proof -
  assume x: "2 ^ 63 \<le> x" "x < 2 ^ 64"
  have "take_bit 64 x = take_bit 64 (x - 2 ^ 64)" by (simp add: take_bit_eq_mod)
  then have "signed_take_bit 63 x = signed_take_bit 63 (x - 2 ^ 64)" by (simp add: signed_take_bit_eq_iff_take_bit_eq)
  also have "\<dots> = x - 2 ^ 64" using x wrap_i64_id [of "x - 2 ^ 64"] by (simp add: wrap_i64_def)
  finally show ?thesis by (simp add: wrap_i64_def)
qed

text \<open>The retention of the dumps is the number of days of the setting up to 106751 of them. From 106752
  days on the product leaves the 64 bits of a duration and is negative: the first round of the
  janitor, at the start of the program, counts every dump as past its age.\<close>

theorem retention_wraps:
  assumes d: "Int_setting e ''DUMP_RETENTION_DAYS'' 7 = d"
    and past: "\<forall>a \<in> set artifacts. da_created_at a \<le> rd_now rd"
  shows "(0 \<le> d \<and> d \<le> 106751 \<longrightarrow> dr_MaxAge (api_retention e) = d * (24 * 3600 * 10 ^ 9))
    \<and> (106752 \<le> d \<and> d \<le> 213503 \<longrightarrow> dr_MaxAge (api_retention e) < 0
         \<and> expired_dumps rd (api_retention e) artifacts = artifacts)"
proof -
  have age: "dr_MaxAge (api_retention e) = wrap_i64 (wrap_i64 (d * 24) * (3600 * 10 ^ 9))" by (simp add: api_retention_def d)
  have low: "dr_MaxAge (api_retention e) = d * (24 * 3600 * 10 ^ 9)" if "0 \<le> d" "d \<le> 106751"
    using that wrap_i64_id [of "d * 24"] wrap_i64_id [of "d * 24 * (3600 * 10 ^ 9)"] by (simp add: age)
  have high: "dr_MaxAge (api_retention e) < 0" if "106752 \<le> d" "d \<le> 213503"
    using that wrap_i64_id [of "d * 24"] wrap_i64_over [of "d * 24 * (3600 * 10 ^ 9)"] by (simp add: age)
  have "expired_dumps rd (api_retention e) artifacts = artifacts" if "106752 \<le> d" "d \<le> 213503"
    using high [OF that] past by (force simp: expired_dumps_def filter_id_conv)
  with low high show ?thesis by blast
qed

definition example_dump :: artifact_row where
  "example_dump = \<lparr>da_id = ''d'', da_instance_id = None, da_service_name = ''shop'', da_kind = ''heap'',
     da_filename = ''shop.dmp'', da_bytes = 10, da_status = ''ready'', da_error = [], da_created_by = ''ann'', da_created_at = 1\<rparr>"

definition example_now :: janitor_round where
  "example_now = \<lparr>rd_now = 5, rd_later = 5, rd_list_faults = (\<lambda>_. False), rd_del_faults = (\<lambda>_ _. False),
     rd_fs_fault = (\<lambda>_. False), rd_readdir_fault = False, rd_order = (\<lambda>xs. xs)\<rparr>"

theorem retention_wraps_witness:
  "dr_MaxAge (api_retention []) = 7 * (24 * 3600 * 10 ^ 9)
    \<and> dr_MaxAge (api_retention (set_env ''DUMP_RETENTION_DAYS'' (int_string 110000) [])) < 0
    \<and> expired_dumps example_now (api_retention (set_env ''DUMP_RETENTION_DAYS'' (int_string 110000) [])) [example_dump] = [example_dump]"
proof -
  have "Int_setting [] ''DUMP_RETENTION_DAYS'' 7 = 7" by (simp add: Int_setting_def LookupEnv_def)
  moreover have "Int_setting (set_env ''DUMP_RETENTION_DAYS'' (int_string 110000) []) ''DUMP_RETENTION_DAYS'' 7 = 110000"
    by (simp add: Int_setting_def atoi_int_string)
  moreover have "\<forall>a \<in> set [example_dump]. da_created_at a \<le> rd_now example_now" by (simp add: example_dump_def example_now_def)
  ultimately show ?thesis
    using retention_wraps [of "[]" 7 "[example_dump]" example_now]
      retention_wraps [of "set_env ''DUMP_RETENTION_DAYS'' (int_string 110000) []" 110000 "[example_dump]" example_now]
    by simp
qed

section \<open>The first administrator\<close>

text \<open>(C34) The first start of the API over an empty database opens the door to exactly one account: the
  e-mail address and the password of the settings, or the default address and the generated
  password that the log shows, sign in as an active administrator. A later start changes nothing,
  whatever the settings say by then.\<close>

theorem first_start_opens_the_door:
  assumes h: "en_bcrypt ie password = Some h" and c: "en_check ie h password"
    and e: "email = (if String_setting e ''ADMIN_EMAIL'' [] = [] then ''admin@nabiz.local'' else String_setting e ''ADMIN_EMAIL'' [])"
    and p: "password = (if String_setting e ''ADMIN_PASSWORD'' [] = [] then rnd else String_setting e ''ADMIN_PASSWORD'' [])"
    and len: "8 \<le> length password" "trim_space email \<noteq> []" and empty: "db_users db = []"
    and w: "io_env w = ie" "io_faults w = (\<lambda>_ _. False)" and tok: "\<not> has_id se_token_hash (db_sessions db) (hashToken ie (io_random w 0))"
  shows "\<exists>sv. api_start e ie (\<lambda>_. False) nid rnd now tmp fs db = Inr (sv, True, if String_setting e ''ADMIN_PASSWORD'' [] = [] then rnd else [])
    \<and> (\<exists>u. db_users (sv_db sv) = [u] \<and> us_email u = trim_space email \<and> is_active_admin u)
    \<and> rp_status (fst (handleLogin w (Inr (email, password)) r sv)) = 200
    \<and> (\<forall>e2 nid2 rnd2 now2. \<exists>sv2. api_start e2 ie (\<lambda>_. False) nid2 rnd2 now2 tmp fs (sv_db sv) = Inr (sv2, False, []) \<and> sv_db sv2 = sv_db sv)"
proof -
  let ?u = "\<lparr>us_id = nid, us_email = trim_space email, us_name = trim_space ''System Administrator'', us_password_hash = h,
     us_is_super_admin = True, us_is_active = True, us_created_at = now, us_updated_at = now, us_last_login_at = None\<rparr>"
  let ?db = "db\<lparr>db_users := [?u]\<rparr>"
  let ?sv = "(new_server ?db (String_setting e ''DUMP_DIR'' (tmp @ ''/nabiz-dumps'')) fs)\<lparr>sv_retention := api_retention e\<rparr>"
  have b: "Bootstrap ie (\<lambda>_. False) nid rnd now db (String_setting e ''ADMIN_EMAIL'' []) (String_setting e ''ADMIN_PASSWORD'' [])
      = (Inr (True, if String_setting e ''ADMIN_PASSWORD'' [] = [] then rnd else []), ?db)"
    using len empty h unfolding Bootstrap_def Let_def e [symmetric] p [symmetric]
    by (simp add: CreateUser_def has_id_def Let_def)
  then have start: "api_start e ie (\<lambda>_. False) nid rnd now tmp fs db = Inr (?sv, True, if String_setting e ''ADMIN_PASSWORD'' [] = [] then rnd else [])"
    by (simp add: api_start_def)
  have auth: "Authenticate ie (\<lambda>_. False) t ?db email password = (Inr ?u, db\<lparr>db_users := [?u\<lparr>us_last_login_at := Some t\<rparr>]\<rparr>)" for t
    using c by (simp add: Authenticate_def)
  have "rp_status (fst (handleLogin w (Inr (email, password)) r ?sv)) = 200"
    using tok by (simp add: handleLogin_def Let_def new_server_def newLoginLimiter_def allow_def w auth sign_in_def CreateSession_def
        has_id_def LoadAccess_def set_cookie_def respond_def)
  moreover have "\<exists>sv2. api_start e2 ie (\<lambda>_. False) nid2 rnd2 now2 tmp fs ?db = Inr (sv2, False, []) \<and> sv_db sv2 = ?db"
    for e2 nid2 rnd2 now2
    by (simp add: api_start_def Bootstrap_def new_server_def)
  ultimately show ?thesis using start by (intro exI [of _ ?sv]) (simp add: new_server_def is_active_admin_def)
qed

definition first_env :: env where
  "first_env = set_env ''ADMIN_PASSWORD'' ''secret12'' []"

theorem first_start_opens_the_door_witness:
  "\<exists>sv. api_start first_env example_env (\<lambda>_. False) ''u1'' ''generated'' 5 ''/tmp'' \<lparr>fs_files = [], fs_dirs = []\<rparr> empty_idb = Inr (sv, True, [])
    \<and> rp_status (fst (handleLogin (example_io\<lparr>io_faults := \<lambda>_ _. False\<rparr>) (Inr (''admin@nabiz.local'', ''secret12'')) example_http sv)) = 200"
proof -
  have p: "String_setting first_env ''ADMIN_PASSWORD'' [] = ''secret12''" by (simp add: first_env_def String_setting_def)
  have e: "String_setting first_env ''ADMIN_EMAIL'' [] = []" by (simp add: first_env_def String_setting_def LookupEnv_def set_env_def)
  have h: "en_bcrypt example_env ''secret12'' = Some ''h:secret12''" "en_check example_env ''h:secret12'' ''secret12''"
    by (simp_all add: example_env_def)
  have t: "trim_space ''admin@nabiz.local'' \<noteq> []" by (simp add: trim_eval)
  have w: "io_env (example_io\<lparr>io_faults := \<lambda>_ _. False\<rparr>) = example_env" by (simp add: example_io_def)
  have d: "db_users empty_idb = []" "\<not> has_id se_token_hash (db_sessions empty_idb) k" for k
    by (simp_all add: empty_idb_def has_id_def)
  have "\<exists>sv. api_start first_env example_env (\<lambda>_. False) ''u1'' ''generated'' 5 ''/tmp'' \<lparr>fs_files = [], fs_dirs = []\<rparr> empty_idb
      = Inr (sv, True, if String_setting first_env ''ADMIN_PASSWORD'' [] = [] then ''generated'' else [])
    \<and> (\<exists>u. db_users (sv_db sv) = [u] \<and> us_email u = trim_space ''admin@nabiz.local'' \<and> is_active_admin u)
    \<and> rp_status (fst (handleLogin (example_io\<lparr>io_faults := \<lambda>_ _. False\<rparr>) (Inr (''admin@nabiz.local'', ''secret12'')) example_http sv)) = 200
    \<and> (\<forall>e2 nid2 rnd2 now2. \<exists>sv2. api_start e2 example_env (\<lambda>_. False) nid2 rnd2 now2 ''/tmp'' \<lparr>fs_files = [], fs_dirs = []\<rparr> (sv_db sv)
        = Inr (sv2, False, []) \<and> sv_db sv2 = sv_db sv)"
    by (rule first_start_opens_the_door [OF h]) (simp_all add: p e t w d)
  then show ?thesis unfolding p by auto
qed

section \<open>The certificate of the webhook\<close>

text \<open>A JSON patch operation that replaces the bundle of a webhook.\<close>

definition apply_bundle_op :: "string list \<Rightarrow> patch_op \<Rightarrow> string list" where
  "apply_bundle_op bs o' = map (\<lambda>(i, b). if pa_op o' = ''replace'' \<and> pa_path o' = bundle_path i then pa_value o' else b) (enumerate 0 bs)"

lemma bundle_path_inj: "bundle_path i = bundle_path j \<Longrightarrow> i = j"
  using nat_string_inj by (simp add: bundle_path_def)

lemma apply_one: "apply_bundle_op bs \<lparr>pa_op = ''replace'', pa_path = bundle_path i, pa_value = ca\<rparr> = bs[i := ca]"
proof (rule nth_equalityI)
  fix k
  assume "k < length (apply_bundle_op bs \<lparr>pa_op = ''replace'', pa_path = bundle_path i, pa_value = ca\<rparr>)"
  then show "apply_bundle_op bs \<lparr>pa_op = ''replace'', pa_path = bundle_path i, pa_value = ca\<rparr> ! k = bs[i := ca] ! k"
    using bundle_path_inj [of i k] by (cases "i = k") (auto simp: apply_bundle_op_def nth_enumerate_eq)
qed (simp add: apply_bundle_op_def)

text \<open>The operator's patch writes its certificate into every webhook of the configuration and nothing
  else: the operations turn the bundles, whatever they were, into as many copies of its own.\<close>

theorem every_bundle_replaced: "foldl apply_bundle_op bs (bundle_ops (length bs) ca) = replicate (length bs) ca"
proof -
  have "foldl apply_bundle_op bs (bundle_ops n ca) = replicate n ca @ drop n bs" if "n \<le> length bs" for n
    using that
  proof (induction n)
    case (Suc n)
    then have "foldl apply_bundle_op bs (bundle_ops (Suc n) ca) = (replicate n ca @ drop n bs)[n := ca]"
      by (simp add: bundle_ops_def apply_one)
    also have "\<dots> = replicate (Suc n) ca @ drop (Suc n) bs"
      using Suc.prems by (simp add: list_update_append replicate_append_same Cons_nth_drop_Suc [symmetric])
    finally show ?case .
  qed (simp add: bundle_ops_def)
  from this [of "length bs"] show ?thesis by simp
qed

end
