(* ===== verification/CollectorTheorems.thy ===== *)
theory CollectorTheorems
  imports CollectorProps CommandsProps
begin

text \<open>
  The collector from end to end: every span it accepted is in the queue, in a batch, in the table or
  counted as failed, at every moment; a shutdown that no signal started loses nothing, and every
  shutdown can complete; one that a signal started loses what waits, and the topology derived from the
  last batches is never written.
\<close>

section \<open>Runs from the start\<close>

lemma components_start:
  assumes "collector_components e = Some (b, p)"
  shows "balance b = 0 \<and> pl_queue p = [] \<and> \<not> pl_closed p \<and> pls_Failed (pl_stats p) = 0
    \<and> (\<forall>w \<in> set (pl_workers p). wk_batch w = [] \<and> wk_running w)"
proof -
  from assms obtain b0 where b: "New (co_topo (collector_settings e)) = Some b0" "topo_start b0 = Some b"
    and p: "Start (pl_New (co_pipe (collector_settings e))) = Some p"
    by (auto simp: collector_components_def Let_def split: option.splits)
  from b have "balance b = 0"
    by (auto simp: New_def topo_start_def Let_def balance_def total_calls_def accounted_def zero_stats_def
        split: option.splits if_splits)
  moreover from p have "pl_queue p = [] \<and> \<not> pl_closed p \<and> pls_Failed (pl_stats p) = 0
    \<and> (\<forall>w \<in> set (pl_workers p). wk_batch w = [] \<and> wk_running w)"
    by (auto simp: Start_def pl_New_def Let_def zero_pl_stats_def split: if_splits)
  ultimately show ?thesis by blast
qed

lemma start_state:
  assumes "collector_start e d = Some s0"
  shows "ledger E rows s0 [] s0 \<and> shutdown_ok s0 \<and> calls_due E rows s0 = total_calls (stored_edges E rows s0)"
proof -
  from assms obtain b p where c: "collector_components e = Some (b, p)"
    and s0: "s0 = \<lparr>cl_recv = zero_recv_stats, cl_pipe = p, cl_store = (d, zero_ch_stats), cl_topo = b,
      cl_loop = True, cl_phase = Serving\<rparr>" by (auto simp: collector_start_def split: option.splits)
  note f = components_start [OF c]
  have "concat (map wk_batch (pl_workers p)) = []" using f by simp
  then have "in_flight p = {#}" using f by (simp add: in_flight_def)
  then have "ledger E rows s0 [] s0"
    using f by (auto simp: ledger_def s0 zero_ch_stats_def zero_recv_stats_def recv_balance_def
        intro!: exI [where x = "[]"])
  moreover have "shutdown_ok s0" using f by (auto simp: s0 shutdown_ok_def drained_def no_worker_def)
  moreover have "balance (cl_topo s0) = 0" using f by (simp add: s0)
  ultimately show ?thesis by (simp add: calls_due_def)
qed

lemma cancelled_stays: "collector_step E s ev s1 \<Longrightarrow> pl_cancelled (cl_pipe s) \<Longrightarrow> pl_cancelled (cl_pipe s1)"
proof (induction rule: collector_step.cases)
  case (grpc s req p r rp)
  from Export_enters [OF grpc(5)] grpc show ?case by (auto simp: same_but_queue_def)
next
  case (http s rq p r rp)
  from http_enters [OF http(5)] http show ?case by (auto simp: same_but_queue_def)
next
  case (work s wev clk st b p)
  from work_step [OF work(6,5)] work show ?case by auto
qed auto

lemma graceful_run:
  assumes "collector_run E s0 acc s" "ch_driver_ok (ce_drv E) rows" "is_order (ce_orda E)" "writes_succeed E"
    "shutdown_ok s0" "\<not> pl_cancelled (cl_pipe s)"
  shows "shutdown_ok s \<and> calls_due E rows s = calls_due E rows s0"
  using assms
proof (induction rule: collector_run.induct)
  case (run_step acc s ev s1)
  from run_step.hyps(2) run_step.prems(5) have nc: "\<not> pl_cancelled (cl_pipe s)" by (metis cancelled_stays)
  note ih = run_step.IH [OF run_step.prems(1-4) nc]
  from shutdown_step [OF run_step.hyps(2) conjunct1 [OF ih] run_step.prems(5)]
    calls_due_step [OF run_step.prems(1-3) run_step.hyps(2) nc] ih
  show ?case by simp
qed simp

section \<open>A shutdown completes\<close>

definition tick0 :: "nat \<Rightarrow> time" where
  "tick0 i = 0"

lemma switch_off: "i < length bs \<Longrightarrow> bs ! i \<Longrightarrow> length (filter id (bs[i := False])) < length (filter id bs)"
proof (induction bs arbitrary: i)
  case (Cons b bs)
  then show ?case by (cases i) auto
qed simp

definition to_do :: "pipeline \<Rightarrow> nat" where
  "to_do p = length (pl_queue p) + length (filter id (map wk_running (pl_workers p)))"

lemma flush_running: "map wk_running (pl_workers (snd (flush_worker procs i (ps, p)))) = map wk_running (pl_workers p)"
  by (cases "i < length (pl_workers p)") (simp_all add: flush_worker_eq map_update list_update_beyond list_update_same_conv)

lemma take_running:
  "i < length (pl_workers p) \<Longrightarrow>
    map wk_running (pl_workers (snd (take_chunk procs i chunk rest (ps, p)))) = map wk_running (pl_workers p)"
  by (simp add: take_chunk_def Let_def flush_running) (simp add: upd_pl_stats_def map_update list_update_same_conv)

lemma drain_progress:
  assumes "pl_closed p" "live p i"
  shows "\<exists>ps1 p1. pl_step procs (ps, p) (PRecv i) = Some (ps1, p1) \<and> to_do p1 < to_do p
    \<and> length (pl_workers p1) = length (pl_workers p)"
proof (cases "pl_queue p")
  case Nil
  let ?p = "snd (flush_worker procs i (ps, p))"
  have i: "i < length (pl_workers p)" "map wk_running (pl_workers p) ! i" using assms(2) by (simp_all add: live_def)
  have "map wk_running (pl_workers (snd (exit_worker i (flush_worker procs i (ps, p))))) =
      (map wk_running (pl_workers p))[i := False]"
    by (simp add: exit_worker_def map_update flush_running)
  with switch_off [of i "map wk_running (pl_workers p)"] i
  have "to_do (snd (exit_worker i (flush_worker procs i (ps, p)))) < to_do p"
    by (simp add: to_do_def exit_frame flush_frame Nil)
  moreover have "pl_step procs (ps, p) (PRecv i) = Some (exit_worker i (flush_worker procs i (ps, p)))"
    using assms Nil by simp
  ultimately show ?thesis
    by (intro exI [of _ "fst (exit_worker i (flush_worker procs i (ps, p)))"]
        exI [of _ "snd (exit_worker i (flush_worker procs i (ps, p)))"]) (simp add: exit_worker_def)
next
  case (Cons chunk rest)
  from drain_step [OF assms(2) Cons, of procs ps] obtain s1 where s1:
    "pl_step procs (ps, p) (PRecv i) = Some s1" "pl_queue (snd s1) = rest" by blast
  moreover have "s1 = take_chunk procs i chunk rest (ps, p)" using s1(1) assms(2) Cons by simp
  then have "map wk_running (pl_workers (snd s1)) = map wk_running (pl_workers p)"
    using assms(2) by (simp add: live_def take_running)
  ultimately show ?thesis
    using Cons by (intro exI [of _ "fst s1"] exI [of _ "snd s1"]) (auto simp: to_do_def dest: arg_cong [where f = length])
qed

lemma workers_drain:
  assumes "cl_phase s \<noteq> Exited" "pl_closed (cl_pipe s)"
  shows "\<exists>s1. collector_run E s [] s1 \<and> no_worker s1 \<and> cl_phase s1 = cl_phase s
    \<and> pl_cancelled (cl_pipe s1) = pl_cancelled (cl_pipe s)
    \<and> length (pl_workers (cl_pipe s1)) = length (pl_workers (cl_pipe s)) \<and> cl_loop s1 = cl_loop s"
  using assms
proof (induction "to_do (cl_pipe s)" arbitrary: s rule: less_induct)
  case less
  show ?case
  proof (cases "no_worker s")
    case True
    then show ?thesis by (auto intro: run_start)
  next
    case False
    then obtain i where i: "live (cl_pipe s) i" by (auto simp: no_worker_def list_all_length live_def)
    from drain_progress [OF less.prems(2) i, of "processors E tick0" "(cl_store s, cl_topo s)"] obtain ps1 p1 where
      p1: "pl_step (processors E tick0) ((cl_store s, cl_topo s), cl_pipe s) (PRecv i) = Some (ps1, p1)"
      "to_do p1 < to_do (cl_pipe s)" "length (pl_workers p1) = length (pl_workers (cl_pipe s))" by blast
    from work_step [OF p1(1)] have same: "pl_closed p1 = pl_closed (cl_pipe s)" "pl_cancelled p1 = pl_cancelled (cl_pipe s)"
      by simp_all
    let ?s = "s\<lparr>cl_pipe := p1, cl_store := fst ps1, cl_topo := snd ps1\<rparr>"
    have step: "collector_step E s (EWork (PRecv i) tick0) ?s"
      using less.prems(1) p1(1) by (intro collector_step.work) simp_all
    from less.hyps [of ?s] p1(2) less.prems same obtain s1 where s1: "collector_run E ?s [] s1" "no_worker s1"
      "cl_phase s1 = cl_phase s" "pl_cancelled (cl_pipe s1) = pl_cancelled (cl_pipe s)"
      "length (pl_workers (cl_pipe s1)) = length (pl_workers p1)" "cl_loop s1 = cl_loop s" by auto
    from run_append [OF s1(1) run_step [OF run_start step]] have "collector_run E s [] s1" by simp
    with s1 p1(3) show ?thesis by auto
  qed
qed

definition phase_ok :: "'db collector \<Rightarrow> bool" where
  "phase_ok s \<longleftrightarrow> (cl_phase s = Serving \<longleftrightarrow> \<not> pl_closed (cl_pipe s))"

lemma phase_step: "collector_step E s ev s1 \<Longrightarrow> phase_ok s \<Longrightarrow> phase_ok s1"
proof (induction rule: collector_step.cases)
  case (grpc s req p r rp)
  from Export_enters [OF grpc(5)] grpc show ?case by (auto simp: phase_ok_def same_but_queue_def)
next
  case (http s rq p r rp)
  from http_enters [OF http(5)] http show ?case by (auto simp: phase_ok_def same_but_queue_def)
next
  case (work s wev clk st b p)
  from work_step [OF work(6,5)] work show ?case by (auto simp: phase_ok_def)
qed (auto simp: phase_ok_def serve_enabled_def)

lemma phase_run: "collector_run E s0 acc s \<Longrightarrow> phase_ok s0 \<Longrightarrow> phase_ok s"
  by (induction rule: collector_run.induct) (auto intro: phase_step)

lemma run_one: "collector_run E s0 acc s \<Longrightarrow> collector_step E s ev s1 \<Longrightarrow> accepted E s ev = [] \<Longrightarrow> collector_run E s0 acc s1"
  using run_step [of E s0 acc s ev s1] by simp

lemma exit_from_closing:
  assumes "cl_phase s = Closing"
  shows "\<exists>s1. collector_run E s [] s1 \<and> cl_phase s1 = Exited \<and> cl_pipe s1 = cl_pipe s"
proof -
  obtain s1 where s1: "collector_run E s [] s1" "\<not> cl_loop s1" "cl_phase s1 = Closing" "cl_pipe s1 = cl_pipe s"
  proof (cases "cl_loop s")
    case True
    let ?ev = "StopRequested (\<lambda>_. 0)"
    obtain st b where l: "loop_step (WriteEdges (ce_drv E) (ce_db E) (write_cancelled s ?ev)) (ce_ordp E) (ce_orda E)
        ((cl_store s, cl_topo s), cl_loop s) ?ev = ((st, b), False)"
      using True by (simp add: prod_eq_iff)
    have "collector_step E s (ELoop ?ev) (s\<lparr>cl_store := st, cl_topo := b, cl_loop := False\<rparr>)"
      by (rule collector_step.loop [OF _ l]) (simp add: assms)
    from that [OF run_one [OF run_start this]] assms show ?thesis by simp
  qed (use assms that [OF run_start] in auto)
  have "collector_step E s1 EExit (s1\<lparr>cl_phase := Exited\<rparr>)" by (rule collector_step.exits [OF s1(3,2)])
  from run_one [OF s1(1) this] s1(4) show ?thesis by auto
qed

lemma exit_from_draining:
  assumes "cl_phase s = Draining" "pl_closed (cl_pipe s)"
  shows "\<exists>s1. collector_run E s [] s1 \<and> cl_phase s1 = Exited
    \<and> pl_cancelled (cl_pipe s1) = pl_cancelled (cl_pipe s)
    \<and> length (pl_workers (cl_pipe s1)) = length (pl_workers (cl_pipe s))"
proof -
  from workers_drain [of s E] assms obtain s1 where s1: "collector_run E s [] s1" "no_worker s1" "cl_phase s1 = Draining"
    "pl_cancelled (cl_pipe s1) = pl_cancelled (cl_pipe s)"
    "length (pl_workers (cl_pipe s1)) = length (pl_workers (cl_pipe s))" by auto
  let ?s = "s1\<lparr>cl_phase := Closing\<rparr>"
  from collector_step.workers_done [OF s1(3,2), of E] have r: "collector_run E s [] ?s"
    by (rule run_one [OF s1(1)]) simp
  from exit_from_closing [of ?s E] obtain s2 where "collector_run E ?s [] s2" "cl_phase s2 = Exited" "cl_pipe s2 = cl_pipe ?s"
    by auto
  with run_append [OF this(1) r] s1(4,5) show ?thesis by auto
qed

lemma exit_reachable:
  assumes "phase_ok s"
  shows "\<exists>s1. collector_run E s [] s1 \<and> cl_phase s1 = Exited
    \<and> pl_cancelled (cl_pipe s1) = pl_cancelled (cl_pipe s)
    \<and> length (pl_workers (cl_pipe s1)) = length (pl_workers (cl_pipe s))"
proof (cases "cl_phase s")
  case Serving
  let ?s = "s\<lparr>cl_pipe := (cl_pipe s)\<lparr>pl_closed := True\<rparr>, cl_phase := Draining\<rparr>"
  have "collector_step E s (EServeReturns (GrpcEnded None)) ?s"
    by (rule collector_step.serve_returns) (simp add: serve_enabled_def Serving)
  then have r: "collector_run E s [] ?s" by (rule run_one [OF run_start]) simp
  from exit_from_draining [of ?s E] obtain s1 where "collector_run E ?s [] s1" "cl_phase s1 = Exited"
    "pl_cancelled (cl_pipe s1) = pl_cancelled (cl_pipe s)"
    "length (pl_workers (cl_pipe s1)) = length (pl_workers (cl_pipe s))" by auto
  with run_append [OF this(1) r] show ?thesis by auto
next
  case Draining
  with exit_from_draining [of s E] assms show ?thesis by (simp add: phase_ok_def)
next
  case Closing
  with exit_from_closing [of s E] show ?thesis by auto
qed (use run_start in auto)

section \<open>Examples\<close>

definition example_collector_env :: "mem_db collector_env" where
  "example_collector_env = \<lparr>ce_drv = mem_driver, ce_db = ''nabiz'', ce_hash = (\<lambda>_. 0), ce_ordp = rev, ce_orda = rev,
     ce_fmt = (\<lambda>_. []), ce_codecs = example_codecs\<rparr>"

definition entry_request :: "resource_spans list" where
  "entry_request = [\<lparr>rs_Resource = None, rs_ScopeSpans = [\<lparr>ss_Scope = None,
     ss_Spans = [example_pb\<lparr>pb_Kind := 2, pb_Attributes := []\<rparr>]\<rparr>]\<rparr>]"

definition entry_span :: span where
  "entry_span = hd (ConvertTraces (\<lambda>_. []) entry_request)"

lemma entry_spans: "ConvertTraces (\<lambda>_. []) entry_request = [entry_span]"
  by (simp add: entry_span_def ConvertTraces_def entry_request_def convert_scope_def Let_def)

lemma entry_span_kind: "sp_Kind entry_span = KindServer" "sp_ParentSpanID entry_span = []"
  by (simp_all add: entry_span_def ConvertTraces_def entry_request_def convert_scope_def Let_def convertSpan_def
      fill_header_def fill_resource_def example_pb_def case_prod_unfold zero_span_def kind_defs split: option.split)

definition one_worker :: pipeline where
  "one_worker = (pl_New pl_DefaultConfig)\<lparr>pl_workers := [\<lparr>wk_batch = [], wk_running = True\<rparr>]\<rparr>"

definition example_start :: "mem_db collector" where
  "example_start = \<lparr>cl_recv = zero_recv_stats, cl_pipe = one_worker, cl_store = ([], zero_ch_stats),
     cl_topo = example_builder, cl_loop = True, cl_phase = Serving\<rparr>"

lemma one_worker_fields:
  "pl_queue one_worker = []" "\<not> pl_closed one_worker" "pl_cap one_worker = 160" "\<not> pl_cancelled one_worker"
  "pl_workers one_worker = [\<lparr>wk_batch = [], wk_running = True\<rparr>]" "pl_stats one_worker = zero_pl_stats"
  "plc_BatchSize (pl_cfg one_worker) = 5000"
  by (simp_all add: one_worker_def pl_New_def pl_DefaultConfig_def chunk_cap_def go_div_def zero_pl_stats_def)

definition queued_one :: pipeline where
  "queued_one = one_worker\<lparr>pl_queue := [[entry_span]], pl_stats := zero_pl_stats\<lparr>pls_Enqueued := 1, pls_QueueDepth := 1\<rparr>\<rparr>"

definition batched_one :: pipeline where
  "batched_one = one_worker\<lparr>pl_workers := [\<lparr>wk_batch = [entry_span], wk_running = True\<rparr>],
     pl_stats := zero_pl_stats\<lparr>pls_Enqueued := 1\<rparr>\<rparr>"

definition one_received :: recv_stats where
  "one_received = \<lparr>rvs_SpansReceived = 1, rvs_SpansDropped = 0, rvs_Requests = 1, rvs_Errors = 0\<rparr>"

lemma Accept_one: "Accept one_worker [entry_span] = Some (queued_one, 0)"
  by (simp add: Accept_def one_worker_fields queued_one_def upd_pl_stats_def zero_pl_stats_def)

lemma example_receive:
  "collector_exec example_collector_env example_start (EGrpc entry_request) =
     Some (example_start\<lparr>cl_pipe := queued_one, cl_recv := one_received\<rparr>)"
  "accepted example_collector_env example_start (EGrpc entry_request) = [entry_span]"
  by (simp_all add: example_start_def example_collector_env_def Export_def consume_def entry_spans count_request_def
     Accept_one one_received_def zero_recv_stats_def accepted_def one_worker_fields)

lemma example_batch:
  "pl_step procs (sb, queued_one) (PRecv 0) = Some (sb, batched_one)"
  by (simp add: live_def queued_one_def batched_one_def one_worker_def take_chunk_def Let_def upd_pl_stats_def zero_pl_stats_def
     pl_New_def pl_DefaultConfig_def)

lemma example_refused:
  "ch_Process mem_driver ''nabiz'' True st [entry_span] =
     ((fst st, (snd st)\<lparr>ch_WriteErrors := ch_WriteErrors (snd st) + 1\<rparr>),
      Some (''could not prepare the span batch: '' @ ''context canceled''))"
  by (simp add: ch_Process_def write_batch_def write_error_def mem_driver_def)

definition entry_recorded :: builder where
  "entry_recorded = observeServer (\<lambda>_. 0) 0 example_builder entry_span"

lemma entry_topology: "Process (\<lambda>_. 0) example_builder (zip (map tick0 [0..<1]) [entry_span]) = entry_recorded"
  "tb_agg entry_recorded \<noteq> []"
  by (simp_all add: Process_def observe_def entry_span_kind kind_defs tick0_def entry_recorded_def observeServer_def
     record_edge_def upd_stats_def Let_def)

definition signalled :: "pipeline" where
  "signalled = batched_one\<lparr>pl_cancelled := True, pl_workers := [\<lparr>wk_batch = [], wk_running = False\<rparr>],
     pl_stats := zero_pl_stats\<lparr>pls_Enqueued := 1, pls_Processed := 1, pls_Failed := 1\<rparr>\<rparr>"

lemma example_done:
  "pl_step (processors example_collector_env tick0) ((([], zero_ch_stats), example_builder), batched_one\<lparr>pl_cancelled := True\<rparr>) (PDone 0)
    = Some ((([], zero_ch_stats\<lparr>ch_WriteErrors := 1\<rparr>), entry_recorded), signalled)"
  using entry_topology(1)
  by (simp add: live_def batched_one_def one_worker_def pl_New_def flush_worker_eq exit_worker_def Let_def
     dispatch_eq feed_processors failures_processors example_collector_env_def example_refused signalled_def zero_pl_stats_def
     zero_ch_stats_def)

text \<open>The program with no settings.\<close>

lemma settings_unset: "Int_setting [] k d = d" "Duration_setting [] k d = d" "Bool_setting [] k c = c"
  by (simp_all add: Int_setting_def Duration_setting_def Bool_setting_def String_setting_def LookupEnv_def)

lemma default_start:
  obtains s0 where "collector_start [] ([] :: mem_db) = Some s0" "cl_phase s0 = Serving"
    "pl_queue (cl_pipe s0) = []" "\<not> pl_closed (cl_pipe s0)" "\<not> pl_cancelled (cl_pipe s0)"
    "pl_cap (cl_pipe s0) = 160" "length (pl_workers (cl_pipe s0)) = 4" "cl_store s0 = ([], zero_ch_stats)"
    "cl_recv s0 = zero_recv_stats"
proof -
  obtain b where b: "New (topo_settings []) = Some b" "tb_cfg b = topo_settings []"
    using default_shards [of "[]"] by blast
  have t: "topo_start b = Some b"
    by (simp add: topo_start_def b(2) topo_settings_def DefaultConfig_def settings_unset go_div_def)
  have s: "Start (pl_New (pipe_settings [])) = Some ((pl_New pl_DefaultConfig)
      \<lparr>pl_workers := replicate 4 \<lparr>wk_batch = [], wk_running = True\<rparr>\<rparr>)"
    by (simp add: Start_def pl_New_def pipe_settings_def pl_DefaultConfig_def settings_unset Let_def)
  have c: "collector_components [] = Some (b, (pl_New pl_DefaultConfig)
      \<lparr>pl_workers := replicate 4 \<lparr>wk_batch = [], wk_running = True\<rparr>\<rparr>)"
    by (simp add: collector_components_def collector_settings_def b(1) t s)
  show ?thesis
    by (rule that [of "the (collector_start [] [])"])
      (simp_all add: collector_start_def c pl_New_def pl_DefaultConfig_def chunk_cap_def go_div_def)
qed

text \<open>A run of it that accepts a request and ends.\<close>

lemma default_run:
  obtains s0 s where "collector_start [] ([] :: mem_db) = Some s0"
    "collector_run example_collector_env s0 [entry_span] s" "cl_phase s = Exited" "\<not> pl_cancelled (cl_pipe s)"
    "length (pl_workers (cl_pipe s)) = 4" "cl_store s0 = ([], zero_ch_stats)"
proof -
  obtain s0 where s0: "collector_start [] ([] :: mem_db) = Some s0" "cl_phase s0 = Serving"
    "pl_queue (cl_pipe s0) = []" "\<not> pl_closed (cl_pipe s0)" "\<not> pl_cancelled (cl_pipe s0)"
    "pl_cap (cl_pipe s0) = 160" "length (pl_workers (cl_pipe s0)) = 4" "cl_store s0 = ([], zero_ch_stats)"
    "cl_recv s0 = zero_recv_stats" by (rule default_start)
  let ?E = example_collector_env
  obtain p where "Accept (cl_pipe s0) [entry_span] = Some (p, 0)"
    using s0(3,4,6) by (simp add: Accept_def)
  then obtain p r rp where e: "Export Accept (ce_fmt ?E) (cl_pipe s0, cl_recv s0) entry_request = Some ((p, r), rp)"
    by (simp add: Export_def consume_def entry_spans count_request_def example_collector_env_def Let_def)
  let ?s1 = "s0\<lparr>cl_pipe := p, cl_recv := r\<rparr>"
  have "accepted ?E s0 (EGrpc entry_request) = [entry_span]"
    using s0(3,4,6) by (simp add: accepted_def example_collector_env_def entry_spans)
  then have r1: "collector_run ?E s0 [entry_span] ?s1"
    using run_step [OF run_start collector_step.grpc [OF s0(2) e]] by simp
  from Export_enters [OF e] have b: "same_but_queue (cl_pipe s0) p" by blast
  then have "phase_ok ?s1" using s0(2,4) by (simp add: phase_ok_def same_but_queue_def)
  from exit_reachable [OF this, of ?E] obtain s1 where s1: "collector_run ?E ?s1 [] s1" "cl_phase s1 = Exited"
    "pl_cancelled (cl_pipe s1) = pl_cancelled p" "length (pl_workers (cl_pipe s1)) = length (pl_workers p)" by auto
  from run_append [OF s1(1) r1] have "collector_run ?E s0 [entry_span] s1" by simp
  with that [OF s0(1) this s1(2)] s0(5,7,8) s1(3,4) b show ?thesis by (simp add: same_but_queue_def)
qed

lemma example_env_ok: "ch_driver_ok (ce_drv example_collector_env) mem_rows" "is_order (ce_orda example_collector_env)"
  "writes_succeed example_collector_env" "ce_db example_collector_env = ''nabiz''"
  by (simp_all add: example_collector_env_def mem_driver_ok is_order_rev writes_succeed_def)
    (simp add: WriteEdges_def write_batch_def mem_driver_def first_error_none)

section \<open>After a signal\<close>

definition loop_ended :: "mem_db collector" where
  "loop_ended = example_start\<lparr>cl_pipe := batched_one\<lparr>pl_cancelled := True\<rparr>, cl_recv := one_received, cl_loop := False\<rparr>"

lemma example_rotation: "rotate_all rev clk example_builder = example_builder"
  by (simp add: rotate_all_def rotate_shard_def example_builder_def set_shard_def empty_shard_def Let_def)

lemma example_until_signal: "collector_run example_collector_env example_start [entry_span] loop_ended"
proof -
  let ?E = example_collector_env and ?s1 = "example_start\<lparr>cl_pipe := queued_one, cl_recv := one_received\<rparr>"
  let ?s2 = "example_start\<lparr>cl_pipe := batched_one, cl_recv := one_received\<rparr>"
  let ?s3 = "example_start\<lparr>cl_pipe := batched_one\<lparr>pl_cancelled := True\<rparr>, cl_recv := one_received\<rparr>"
  have "collector_exec ?E ?s1 (EWork (PRecv 0) tick0) = Some ?s2"
    using example_batch [of "processors ?E tick0" "(([], zero_ch_stats), example_builder)"] by (simp add: example_start_def del: pl_step.simps)
  moreover have "collector_exec ?E ?s2 ESignal = Some ?s3" by simp
  moreover have "collector_exec ?E ?s3 (ELoop (CtxDone (\<lambda>_. 0))) = Some loop_ended"
    by (simp add: loop_ended_def example_start_def example_collector_env_def example_rotation flush_def)
      (simp add: example_builder_def)
  ultimately have "collector_execs ?E example_start [EGrpc entry_request, EWork (PRecv 0) tick0, ESignal, ELoop (CtxDone (\<lambda>_. 0))]
      = Some ([entry_span], loop_ended)"
    using example_receive by (simp del: collector_exec.simps)
  then show ?thesis by (rule execs_run)
qed

lemma example_ending:
  "\<exists>s. collector_run example_collector_env loop_ended [] s \<and> cl_phase s = Exited \<and> tb_agg (cl_topo s) \<noteq> []"
proof -
  let ?E = example_collector_env
  let ?s1 = "loop_ended\<lparr>cl_pipe := signalled, cl_store := ([], zero_ch_stats\<lparr>ch_WriteErrors := 1\<rparr>), cl_topo := entry_recorded\<rparr>"
  let ?s2 = "?s1\<lparr>cl_pipe := signalled\<lparr>pl_closed := True\<rparr>, cl_phase := Draining\<rparr>"
  have "collector_exec ?E loop_ended (EWork (PDone 0) tick0) = Some ?s1"
    using example_done by (simp add: loop_ended_def example_start_def del: pl_step.simps)
  moreover have "collector_exec ?E ?s1 (EServeReturns ServeCancelled) = Some ?s2"
    by (simp add: serve_enabled_def loop_ended_def example_start_def signalled_def)
  moreover have "collector_exec ?E ?s2 EWorkersDone = Some (?s2\<lparr>cl_phase := Closing\<rparr>)"
    by (simp add: no_worker_def signalled_def)
  moreover have "collector_exec ?E (?s2\<lparr>cl_phase := Closing\<rparr>) EExit = Some (?s2\<lparr>cl_phase := Exited\<rparr>)"
    by (simp add: loop_ended_def)
  ultimately have "collector_execs ?E loop_ended [EWork (PDone 0) tick0, EServeReturns ServeCancelled, EWorkersDone, EExit]
      = Some ([], ?s2\<lparr>cl_phase := Exited\<rparr>)"
    by (simp del: collector_exec.simps)
  from execs_run [OF this] entry_topology(2) show ?thesis by auto
qed

lemma refused_batch:
  assumes "\<And>db sql. dr_prepare drv True db sql \<noteq> None" "spans \<noteq> []"
  shows "snd (ch_Process drv db True st spans) \<noteq> None"
  using assms(1) [of "fst st" "qualifyInsert InsertSpansSQL db"] assms(2)
  by (auto simp: ch_Process_def write_batch_def write_error_def)

lemma after_signal:
  assumes "ch_driver_ok (ce_drv E) rows" "\<And>db sql. dr_prepare (ce_drv E) True db sql \<noteq> None"
    and "collector_run E s0 acc s" "pl_cancelled (cl_pipe s0)" "\<not> cl_loop s0"
  shows "(pl_cancelled (cl_pipe s) \<and> \<not> cl_loop s) \<and> stored_edges E rows s = stored_edges E rows s0
    \<and> span_rows rows (ce_db E) (cl_store s) = span_rows rows (ce_db E) (cl_store s0)"
  using assms(3)
proof (induction rule: collector_run.induct)
  case (run_step acc s ev s1)
  note c = cancelled_stays [OF run_step.hyps(2)]
  from run_step.hyps(2) have "\<not> cl_loop s1 \<and> stored_edges E rows s1 = stored_edges E rows s
    \<and> span_rows rows (ce_db E) (cl_store s1) = span_rows rows (ce_db E) (cl_store s)"
  proof (cases rule: collector_step.cases)
    case (work wev clk st b p)
    show ?thesis
    proof (cases "flushed (cl_pipe s) wev = []")
      case True
      with work_step [OF work(5,4)] run_step.IH show ?thesis by (simp add: work(2) stored_edges_def)
    next
      case False
      obtain st2 r where p: "ch_Process (ce_drv E) (ce_db E) True (cl_store s) (flushed (cl_pipe s) wev) = (st2, r)"
        by fastforce
      with refused_batch [OF assms(2) False, where db = "ce_db E" and st = "cl_store s"] have "r \<noteq> None" by simp
      with Process_rows [OF assms(1) p] Process_frame [OF assms(1) p] work_step [OF work(5,4)] False p run_step.IH
      show ?thesis by (simp add: work(2) stored_edges_def feed_processors)
    qed
  next
    case (loop lev st b l)
    with run_step.IH show ?thesis by (simp add: stored_edges_def)
  qed (use run_step.IH in \<open>simp_all add: stored_edges_def\<close>)
  with c run_step.IH show ?case by simp
qed (use assms(4,5) in simp)

section \<open>Properties\<close>

text \<open>(C5) The collector accounts for every span it accepted, at every moment of every run, through any
  shutdown: it is in the queue or in a batch, or it is one of the new rows of the spans table, or it was
  in a batch the database refused, and the counters the collector serves are the sizes of these parts.\<close>

theorem collector_accounts_for_spans:
  assumes "ch_driver_ok (ce_drv E) rows" "collector_start e d = Some s0" "collector_run E s0 acc s"
  shows "\<exists>stored lost. mset acc = in_flight (cl_pipe s) + mset stored + mset lost
    \<and> span_rows rows (ce_db E) (cl_store s) = span_rows rows (ce_db E) (cl_store s0) @ map span_row stored
    \<and> ch_SpansWritten (snd (cl_store s)) = of_nat (length stored)
    \<and> pls_Failed (pl_stats (cl_pipe s)) = of_nat (length lost)
    \<and> rvs_SpansReceived (cl_recv s) - rvs_SpansDropped (cl_recv s) = of_nat (length acc)"
  using ledger_run [OF assms(3,1)] start_state [OF assms(2), of E rows]
  by (simp add: ledger_def recv_balance_def)

theorem collector_accounts_for_spans_witness:
  "\<exists>s0 s stored lost. collector_start [] ([] :: mem_db) = Some s0 \<and> collector_run example_collector_env s0 [entry_span] s
    \<and> mset [entry_span] = in_flight (cl_pipe s) + mset stored + mset lost
    \<and> span_rows mem_rows ''nabiz'' (cl_store s) = map span_row stored"
proof -
  obtain s0 s where r: "collector_start [] ([] :: mem_db) = Some s0"
    "collector_run example_collector_env s0 [entry_span] s" "cl_store s0 = ([], zero_ch_stats)"
    by (rule default_run)
  have "span_rows mem_rows ''nabiz'' (cl_store s0) = []" by (simp add: r(3) span_rows_def mem_rows_def)
  with collector_accounts_for_spans [OF example_env_ok(1) r(1,2)] r(1,2) show ?thesis
    by (auto simp: example_env_ok(4))
qed



text \<open>(C29) The signal is no such shutdown. \<open>main\<close> means to drain the queue first and to write the topology
  then, but the signal ends the loop of the topology and cancels the context the workers write with:
  with a database that refuses a cancelled context neither table changes any more, whatever is still
  queued, batched or recorded.\<close>

theorem signal_ends_writing:
  assumes "ch_driver_ok (ce_drv E) rows" "\<And>db sql. dr_prepare (ce_drv E) True db sql \<noteq> None"
    and "collector_run E s0 acc s" "pl_cancelled (cl_pipe s0)" "\<not> cl_loop s0"
  shows "stored_edges E rows s = stored_edges E rows s0
    \<and> span_rows rows (ce_db E) (cl_store s) = span_rows rows (ce_db E) (cl_store s0)"
  using after_signal [OF assms] by blast

theorem signal_ends_writing_witness:
  "\<exists>s. collector_run example_collector_env example_start [entry_span] s \<and> cl_phase s = Exited
    \<and> stored_edges example_collector_env mem_rows s = []
    \<and> span_rows mem_rows ''nabiz'' (cl_store s) = [] \<and> tb_agg (cl_topo s) \<noteq> []"
proof -
  have ok: "ch_driver_ok (ce_drv example_collector_env) mem_rows" "ce_db example_collector_env = ''nabiz''"
    "\<And>db sql. dr_prepare (ce_drv example_collector_env) True db sql \<noteq> None"
    by (simp_all add: example_collector_env_def mem_driver_ok) (simp add: mem_driver_def)
  from example_ending obtain s where s: "collector_run example_collector_env loop_ended [] s" "cl_phase s = Exited"
    "tb_agg (cl_topo s) \<noteq> []" by blast
  have "stored_edges example_collector_env mem_rows loop_ended = []"
    "span_rows mem_rows ''nabiz'' (cl_store loop_ended) = []"
    by (simp_all add: loop_ended_def example_start_def stored_edges_def edge_rows_def span_rows_def mem_rows_def)
  with signal_ends_writing [OF ok(1,3) s(1)] ok(2) run_append [OF s(1) example_until_signal] s(2,3)
  show ?thesis by (auto simp: loop_ended_def)
qed

text \<open>(C32) A shutdown can always complete: from every state of every run, in any phase and whatever is
  queued, there are steps of the workers, of the topology's loop and of \<open>main\<close>, without further requests,
  that bring the program to its end.\<close>

theorem shutdown_can_complete:
  assumes "collector_start e d = Some s0" "collector_run E s0 acc s"
  shows "\<exists>s1. collector_run E s [] s1 \<and> cl_phase s1 = Exited"
proof -
  have "phase_ok s0" using start_state [OF assms(1), of E undefined] by (simp add: shutdown_ok_def phase_ok_def)
  from exit_reachable [OF phase_run [OF assms(2) this], of E] show ?thesis by blast
qed

theorem shutdown_can_complete_witness:
  "\<exists>s0 s1. collector_start [] ([] :: mem_db) = Some s0 \<and> collector_run example_collector_env s0 [] s1 \<and> cl_phase s1 = Exited"
proof -
  obtain s0 where s0: "collector_start [] ([] :: mem_db) = Some s0" by (rule default_start)
  from shutdown_can_complete [OF s0 run_start, of example_collector_env] s0 show ?thesis by blast
qed

end
