(* ===== verification/Tables.thy ===== *)
theory Tables
  imports TraceView Storage "HOL-Library.List_Lexorder" "HOL-Library.Char_ord"
begin

text \<open>
  internal/storage/clickhouse/schema.go and the queries of internal/api/server.go: the tables the
  telemetry is answered from. A materialised view turns each inserted block of spans into partial rows
  of an aggregating table; the database merges partial rows of one key whenever it likes; a query
  groups what it finds. The state of a table is the list of its partial rows, and every order of
  inserts and merges is a derivation of \<open>view_state\<close>.
\<close>

section \<open>Aggregating tables\<close>

inductive merge_step :: "('p \<Rightarrow> 'p \<Rightarrow> bool) \<Rightarrow> ('p \<Rightarrow> 'p \<Rightarrow> 'p) \<Rightarrow> 'p list \<Rightarrow> 'p list \<Rightarrow> bool" for same comb where
  merge: "same p q \<Longrightarrow> merge_step same comb (xs @ p # ys @ q # zs) (xs @ comb p q # ys @ zs)"

inductive view_state ::
  "('p \<Rightarrow> 'p \<Rightarrow> bool) \<Rightarrow> ('p \<Rightarrow> 'p \<Rightarrow> 'p) \<Rightarrow> ('r list \<Rightarrow> 'p list) \<Rightarrow> 'r list \<Rightarrow> 'p list \<Rightarrow> bool" for same comb mv where
  empty: "view_state same comb mv [] []"
| insert: "view_state same comb mv rows parts \<Longrightarrow> view_state same comb mv (rows @ rs) (parts @ mv rs)"
| merged: "view_state same comb mv rows parts \<Longrightarrow> merge_step same comb parts parts1 \<Longrightarrow>
    view_state same comb mv rows parts1"

inductive_cases merge_stepE: "merge_step same comb parts parts1"

text \<open>Adding up values for which order and grouping do not matter.\<close>

locale adding =
  fixes add :: "'v \<Rightarrow> 'v \<Rightarrow> 'v" and zero :: 'v
  assumes add_assoc: "add (add a b) c = add a (add b c)"
    and add_commute: "add a b = add b a"
    and add_zero: "add zero a = a"
begin

definition added :: "'v list \<Rightarrow> 'v" where
  "added xs = foldr add xs zero"

lemma add_left_commute: "add a (add b c) = add b (add a c)"
  by (metis add_assoc add_commute)

lemma added_simps: "added [] = zero" "added (x # xs) = add x (added xs)"
  by (simp_all add: added_def)

lemma added_append: "added (xs @ ys) = add (added xs) (added ys)"
  by (induction xs) (simp_all add: added_simps add_zero add_assoc)

text \<open>Adding up group by group is adding up at once.\<close>

lemma added_filter_split:
  "(\<And>x. \<not> (P x \<and> Q x)) \<Longrightarrow>
    add (added (map v (filter P xs))) (added (map v (filter Q xs))) = added (map v (filter (\<lambda>x. P x \<or> Q x) xs))"
proof (induction xs)
  case (Cons x xs)
  then show ?case
    using Cons.prems [of x] by (auto simp: added_simps add_assoc add_left_commute)
qed (simp add: added_simps add_zero)

lemma added_groups:
  "distinct ks \<Longrightarrow> added (map (\<lambda>i. added (map v (filter (\<lambda>x. k x = i) xs))) ks) = added (map v (filter (\<lambda>x. k x \<in> set ks) xs))"
proof (induction ks)
  case (Cons i ks)
  then have "added (map (\<lambda>i. added (map v (filter (\<lambda>x. k x = i) xs))) (i # ks)) =
      added (map v (filter (\<lambda>x. k x = i \<or> k x \<in> set ks) xs))"
    using added_filter_split [of "\<lambda>x. k x = i" "\<lambda>x. k x \<in> set ks"] by (auto simp: added_simps)
  then show ?case by simp
qed (simp add: added_simps)

end

text \<open>One column of partial rows that are merged: what is merged has one key, which the merged row keeps,
  and the column adds up.\<close>

locale merging_column = adding add zero for add :: "'v \<Rightarrow> 'v \<Rightarrow> 'v" and zero :: 'v +
  fixes same :: "'p \<Rightarrow> 'p \<Rightarrow> bool" and comb :: "'p \<Rightarrow> 'p \<Rightarrow> 'p" and key :: "'p \<Rightarrow> 'k" and val :: "'p \<Rightarrow> 'v"
  assumes same_key: "same p q \<Longrightarrow> key p = key q"
    and comb_key: "same p q \<Longrightarrow> key (comb p q) = key q"
    and comb_val: "same p q \<Longrightarrow> val (comb p q) = add (val p) (val q)"
begin

definition parts_total :: "('k \<Rightarrow> bool) \<Rightarrow> 'p list \<Rightarrow> 'v" where
  "parts_total P parts = added (map val (filter (\<lambda>p. P (key p)) parts))"

lemma parts_total_append: "parts_total P (parts @ qs) = add (parts_total P parts) (parts_total P qs)"
  by (simp add: parts_total_def added_append)

lemma parts_total_cons:
  "parts_total P (p # parts) = (if P (key p) then add (val p) (parts_total P parts) else parts_total P parts)"
  by (simp add: parts_total_def added_simps)

lemma merge_total: "merge_step same comb parts parts1 \<Longrightarrow> parts_total P parts1 = parts_total P parts"
proof (induction rule: merge_step.induct)
  case (merge p q xs ys zs)
  then show ?case
    by (simp add: parts_total_cons parts_total_append comb_key comb_val same_key add_assoc add_left_commute [of "val q"])
qed

lemma merge_keys: "merge_step same comb parts parts1 \<Longrightarrow> key ` set parts1 = key ` set parts"
proof (induction rule: merge_step.induct)
  case (merge p q xs ys zs)
  then show ?case by (auto simp: same_key comb_key)
qed

text \<open>A table that is inserted into directly: whatever was merged, the partial rows of a set of keys add
  up to the inserted ones.\<close>

lemma table_total: "view_state same comb (\<lambda>rs. rs) rows parts \<Longrightarrow> parts_total P parts = parts_total P rows"
proof (induction rule: view_state.induct)
  case (insert rows parts rs)
  then show ?case by (simp add: parts_total_append)
next
  case (merged rows parts parts1)
  then show ?case by (simp add: merge_total)
qed simp

lemma table_keys: "view_state same comb (\<lambda>rs. rs) rows parts \<Longrightarrow> key ` set parts = key ` set rows"
  by (induction rule: view_state.induct) (simp_all add: image_Un merge_keys)

end

text \<open>A column of a materialised view, with its value for an inserted row. The view makes one partial row
  for each key of a block, which holds what the rows of the block with that key add up to.\<close>

locale aggregated_column = merging_column add zero same comb key val
  for add :: "'v \<Rightarrow> 'v \<Rightarrow> 'v" and zero :: 'v and same :: "'p \<Rightarrow> 'p \<Rightarrow> bool" and comb :: "'p \<Rightarrow> 'p \<Rightarrow> 'p"
    and key :: "'p \<Rightarrow> 'k" and val :: "'p \<Rightarrow> 'v" +
  fixes mv :: "'r list \<Rightarrow> 'p list" and grp :: "'k \<Rightarrow> 'r list \<Rightarrow> 'p" and rkey :: "'r \<Rightarrow> 'k" and rval :: "'r \<Rightarrow> 'v"
  assumes view_groups: "mv rs = map (\<lambda>i. grp i (filter (\<lambda>r. rkey r = i) rs)) (remdups (map rkey rs))"
    and group_key: "key (grp i rs) = i"
    and group_val: "rs \<noteq> [] \<Longrightarrow> \<forall>r \<in> set rs. rkey r = i \<Longrightarrow> val (grp i rs) = foldr add (map rval rs) zero"
begin

definition rows_total :: "('k \<Rightarrow> bool) \<Rightarrow> 'r list \<Rightarrow> 'v" where
  "rows_total P rs = added (map rval (filter (\<lambda>r. P (rkey r)) rs))"

lemma rows_total_append: "rows_total P (rs @ qs) = add (rows_total P rs) (rows_total P qs)"
  by (simp add: rows_total_def added_append)

lemma block_total: "parts_total P (mv rs) = rows_total P rs"
proof -
  let ?ks = "filter P (remdups (map rkey rs))"
  have "map val (filter (\<lambda>p. P (key p)) (mv rs)) = map (\<lambda>i. val (grp i (filter (\<lambda>r. rkey r = i) rs))) ?ks"
    by (simp add: view_groups filter_map comp_def group_key)
  also have "\<dots> = map (\<lambda>i. added (map rval (filter (\<lambda>r. rkey r = i) rs))) ?ks"
    unfolding added_def by (intro map_cong refl group_val) (auto simp: filter_empty_conv)
  finally have "parts_total P (mv rs) = added (map rval (filter (\<lambda>r. rkey r \<in> set ?ks) rs))"
    by (simp add: parts_total_def added_groups del: set_filter)
  moreover have "filter (\<lambda>r. rkey r \<in> set ?ks) rs = filter (\<lambda>r. P (rkey r)) rs"
    by (rule filter_cong) auto
  ultimately show ?thesis by (simp only: rows_total_def)
qed

text \<open>However the inserts were cut into blocks and whatever was merged, the partial rows of a set of keys
  add up to the inserted rows of those keys.\<close>

lemma view_total: "view_state same comb mv rows parts \<Longrightarrow> parts_total P parts = rows_total P rows"
proof (induction rule: view_state.induct)
  case (insert rows parts rs)
  then show ?case by (simp add: parts_total_append rows_total_append block_total)
next
  case (merged rows parts parts1)
  then show ?case by (simp add: merge_total)
qed (simp add: parts_total_def rows_total_def)

lemma block_keys: "key ` set (mv rs) = rkey ` set rs"
  by (simp add: view_groups image_image group_key)

text \<open>The keys of the partial rows are those of the inserted rows.\<close>

lemma view_keys: "view_state same comb mv rows parts \<Longrightarrow> key ` set parts = rkey ` set rows"
  by (induction rule: view_state.induct) (simp_all add: image_Un block_keys merge_keys)

end

section \<open>The index of the traces\<close>

record trace_part =
  ti_id :: string
  ti_start :: time
  ti_end :: time
  ti_root_service :: string
  ti_root_name :: string
  ti_duration_ns :: u64
  ti_spans :: u64
  ti_errors :: u64
  ti_services :: "string list"

definition row_string :: "string \<Rightarrow> col list \<Rightarrow> string" where
  "row_string name r = col_string (column name r)"

definition row_time :: "col list \<Rightarrow> time" where
  "row_time r = (case column ''timestamp'' r of CTime t \<Rightarrow> t | _ \<Rightarrow> 0)"

definition is_root_row :: "col list \<Rightarrow> bool" where
  "is_root_row r \<longleftrightarrow> row_string ''parent_span_id'' r = []"

text \<open>\<open>anyIf\<close> takes the first value it meets, and is empty when it meets none.\<close>

definition any_if :: "(col list \<Rightarrow> bool) \<Rightarrow> (col list \<Rightarrow> string) \<Rightarrow> col list list \<Rightarrow> string" where
  "any_if P f rs = (case find P rs of Some r \<Rightarrow> f r | None \<Rightarrow> [])"

fun min_of :: "time list \<Rightarrow> time" where
  "min_of [] = 0"
| "min_of [x] = x"
| "min_of (x # y # xs) = min x (min_of (y # xs))"

fun max_of :: "time list \<Rightarrow> time" where
  "max_of [] = 0"
| "max_of [x] = x"
| "max_of (x # y # xs) = max x (max_of (y # xs))"

definition trace_index_group :: "string \<Rightarrow> col list list \<Rightarrow> trace_part" where
  "trace_index_group i rs = \<lparr>ti_id = i, ti_start = min_of (map row_time rs), ti_end = max_of (map row_time rs),
     ti_root_service = any_if is_root_row (row_string ''service_name'') rs,
     ti_root_name = any_if is_root_row (row_string ''name'') rs,
     ti_duration_ns = max_dur (map row_duration (filter is_root_row rs)),
     ti_spans = of_nat (length rs), ti_errors = of_nat (length (filter row_is_error rs)),
     ti_services = remdups (map (row_string ''service_name'') rs)\<rparr>"

definition row_trace :: "col list \<Rightarrow> string" where
  "row_trace r = row_string ''trace_id'' r"

definition trace_index_mv :: "col list list \<Rightarrow> trace_part list" where
  "trace_index_mv rs = map (\<lambda>i. trace_index_group i (filter (\<lambda>r. row_trace r = i) rs)) (remdups (map row_trace rs))"

text \<open>Partial rows of one trace are merged when they are of the same partition, the day of their start.\<close>

definition day_of :: "time \<Rightarrow> int" where
  "day_of t = t div (86400 * 10 ^ 9)"

definition same_trace :: "trace_part \<Rightarrow> trace_part \<Rightarrow> bool" where
  "same_trace p q \<longleftrightarrow> ti_id p = ti_id q \<and> day_of (ti_start p) = day_of (ti_start q)"

definition merge_traces :: "trace_part \<Rightarrow> trace_part \<Rightarrow> trace_part" where
  "merge_traces p q = \<lparr>ti_id = ti_id q, ti_start = min (ti_start p) (ti_start q), ti_end = max (ti_end p) (ti_end q),
     ti_root_service = max (ti_root_service p) (ti_root_service q), ti_root_name = max (ti_root_name p) (ti_root_name q),
     ti_duration_ns = max (ti_duration_ns p) (ti_duration_ns q), ti_spans = ti_spans p + ti_spans q,
     ti_errors = ti_errors p + ti_errors q, ti_services = remdups (ti_services p @ ti_services q)\<rparr>"

abbreviation trace_index :: "col list list \<Rightarrow> trace_part list \<Rightarrow> bool" where
  "trace_index \<equiv> view_state same_trace merge_traces trace_index_mv"

text \<open>Its columns. The times of a trace have no neutral element: \<open>None\<close> is that of no row.\<close>

fun opt_comb :: "('a \<Rightarrow> 'a \<Rightarrow> 'a) \<Rightarrow> 'a option \<Rightarrow> 'a option \<Rightarrow> 'a option" where
  "opt_comb f None b = b"
| "opt_comb f (Some a) None = Some a"
| "opt_comb f (Some a) (Some b) = Some (f a b)"

lemma opt_comb_laws:
  assumes "\<And>a b c. f (f a b) c = f a (f b c)" "\<And>a b. f a b = f b a"
  shows "opt_comb f (opt_comb f a b) c = opt_comb f a (opt_comb f b c)" "opt_comb f a b = opt_comb f b a"
  by (cases a; cases b; cases c; simp add: assms(1)) (cases a; cases b; simp add: assms(2))

lemma min_of_added: "rs \<noteq> [] \<Longrightarrow> foldr (opt_comb min) (map (\<lambda>r. Some (v r)) rs) None = Some (min_of (map v rs))"
proof (induction rs)
  case (Cons r rs)
  then show ?case by (cases rs) simp_all
qed simp

lemma max_of_added: "rs \<noteq> [] \<Longrightarrow> foldr (opt_comb max) (map (\<lambda>r. Some (v r)) rs) None = Some (max_of (map v rs))"
proof (induction rs)
  case (Cons r rs)
  then show ?case by (cases rs) simp_all
qed simp

lemma count_added: "foldr (+) (map (\<lambda>r. 1 :: 'a :: comm_semiring_1) rs) 0 = of_nat (length rs)"
  "foldr (+) (map (\<lambda>r. if P r then 1 else 0 :: 'a) rs) 0 = of_nat (length (filter P rs))"
  by (induction rs) (simp_all add: algebra_simps)

lemma max_dur_Cons: "max_dur (d # ds) = max d (max_dur ds)"
proof -
  have "max_dur (d # ds) = Max (insert d (insert 0 (set ds)))" by (simp only: max_dur_def list.set insert_commute)
  also have "\<dots> = max d (Max (insert 0 (set ds)))" by (rule Max_insert) simp_all
  finally show ?thesis by (simp only: max_dur_def)
qed

lemma max_dur_Nil: "max_dur [] = 0"
  by (simp add: max_dur_def)

lemma max_dur_added: "foldr max (map v rs) 0 = max_dur (map v rs)"
  "foldr max (map (\<lambda>r. if P r then v r else 0) rs) 0 = max_dur (map v (filter P rs))"
  by (induction rs) (simp_all add: max_dur_Cons max_dur_Nil)

lemma services_added: "foldr (\<union>) (map (\<lambda>r. {f r}) rs) {} = f ` set rs"
  by (induction rs) simp_all

lemmas trace_column_laws = same_trace_def merge_traces_def trace_index_mv_def trace_index_group_def

interpretation trace_spans: aggregated_column "(+)" "0 :: u64" same_trace merge_traces ti_id ti_spans
    trace_index_mv trace_index_group row_trace "\<lambda>r. 1"
  by unfold_locales (simp_all add: trace_column_laws count_added)

interpretation trace_errors: aggregated_column "(+)" "0 :: u64" same_trace merge_traces ti_id ti_errors
    trace_index_mv trace_index_group row_trace "\<lambda>r. if row_is_error r then 1 else 0"
  by unfold_locales (simp_all add: trace_column_laws count_added)

interpretation trace_durations: aggregated_column max "0 :: u64" same_trace merge_traces ti_id ti_duration_ns
    trace_index_mv trace_index_group row_trace "\<lambda>r. if is_root_row r then row_duration r else 0"
  by unfold_locales (simp_all add: trace_column_laws max_dur_added(2) ac_simps)

interpretation trace_services: aggregated_column "(\<union>)" "{}" same_trace merge_traces ti_id "\<lambda>p. set (ti_services p)"
    trace_index_mv trace_index_group row_trace "\<lambda>r. {row_string ''service_name'' r}"
  by unfold_locales (auto simp: trace_column_laws services_added)

interpretation trace_starts: aggregated_column "opt_comb min" None same_trace merge_traces ti_id "\<lambda>p. Some (ti_start p)"
    trace_index_mv trace_index_group row_trace "\<lambda>r. Some (row_time r)"
  by unfold_locales (fact opt_comb_laws(1) [OF min.assoc min.commute] opt_comb_laws(2) [OF min.assoc min.commute]
      | simp add: trace_column_laws min_of_added)+

interpretation trace_ends: aggregated_column "opt_comb max" None same_trace merge_traces ti_id "\<lambda>p. Some (ti_end p)"
    trace_index_mv trace_index_group row_trace "\<lambda>r. Some (row_time r)"
  by unfold_locales (fact opt_comb_laws(1) [OF max.assoc max.commute] opt_comb_laws(2) [OF max.assoc max.commute]
      | simp add: trace_column_laws max_of_added)+

section \<open>The request metrics\<close>

type_synonym op_part = "(int \<times> col list) \<times> op_stat"

definition operation_stats_block :: "col list list \<Rightarrow> op_part list" where
  "operation_stats_block rs =
     map (\<lambda>k. (k, operation_stats_mv rs k)) (remdups (map op_key rs))"

definition same_operation :: "op_part \<Rightarrow> op_part \<Rightarrow> bool" where
  "same_operation p q \<longleftrightarrow> fst p = fst q"

definition merge_stats :: "op_part \<Rightarrow> op_part \<Rightarrow> op_part" where
  "merge_stats p q = (fst q, \<lparr>os_calls = os_calls (snd p) + os_calls (snd q), os_errors = os_errors (snd p) + os_errors (snd q),
     os_duration_sum_ns = os_duration_sum_ns (snd p) + os_duration_sum_ns (snd q),
     os_duration_max_ns = max (os_duration_max_ns (snd p)) (os_duration_max_ns (snd q))\<rparr>)"

abbreviation operation_stats :: "col list list \<Rightarrow> op_part list \<Rightarrow> bool" where
  "operation_stats \<equiv> view_state same_operation merge_stats operation_stats_block"

lemmas stats_column_laws = same_operation_def merge_stats_def operation_stats_block_def operation_stats_mv_def Let_def

lemma all_keys: "\<forall>r \<in> set rs. k r = i \<Longrightarrow> filter (\<lambda>r. k r = i) rs = rs"
  by simp

lemma sum_added: "foldr (+) (map v rs) (0 :: 'a :: comm_monoid_add) = sum_list (map v rs)"
  by (induction rs) simp_all

interpretation stats_calls: aggregated_column "(+)" "0 :: nat" same_operation merge_stats fst "\<lambda>p. os_calls (snd p)"
    operation_stats_block "\<lambda>k rs. (k, operation_stats_mv rs k)" op_key "\<lambda>r. 1"
  by unfold_locales (simp_all add: stats_column_laws all_keys count_added del: One_nat_def)

interpretation stats_errors: aggregated_column "(+)" "0 :: nat" same_operation merge_stats fst "\<lambda>p. os_errors (snd p)"
    operation_stats_block "\<lambda>k rs. (k, operation_stats_mv rs k)" op_key "\<lambda>r. if row_is_error r then 1 else 0"
  by unfold_locales (simp_all add: stats_column_laws all_keys count_added del: One_nat_def)

interpretation stats_durations: aggregated_column "(+)" "0 :: u64" same_operation merge_stats fst "\<lambda>p. os_duration_sum_ns (snd p)"
    operation_stats_block "\<lambda>k rs. (k, operation_stats_mv rs k)" op_key row_duration
  by unfold_locales (simp_all add: stats_column_laws all_keys sum_added)

interpretation stats_maxima: aggregated_column max "0 :: u64" same_operation merge_stats fst "\<lambda>p. os_duration_max_ns (snd p)"
    operation_stats_block "\<lambda>k rs. (k, operation_stats_mv rs k)" op_key row_duration
  by unfold_locales (simp_all add: stats_column_laws all_keys max_dur_added(1) ac_simps)

section \<open>The queries over the metrics\<close>

text \<open>The columns of a key, in the order of the view.\<close>

definition op_column :: "nat \<Rightarrow> int \<times> col list \<Rightarrow> string" where
  "op_column i k = col_string (snd k ! i)"

text \<open>The bounds of a query are compared with the bucket, the start of its minute.\<close>

definition bucket_within :: "time \<Rightarrow> time \<Rightarrow> int \<Rightarrow> bool" where
  "bucket_within f t bucket \<longleftrightarrow> f \<le> bucket * 10 ^ 9 \<and> bucket * 10 ^ 9 < t"

definition by_calls :: "('a \<Rightarrow> u64) \<Rightarrow> 'a list \<Rightarrow> 'a list" where
  "by_calls calls = sort_key (\<lambda>r. - int (unat (calls r)))"

text \<open>The query of \<open>handleServices\<close>; \<open>qm\<close> is the merging of the quantile states, which the database
  keeps beside the columns.\<close>

definition services_where :: "time \<Rightarrow> time \<Rightarrow> sql \<Rightarrow> int \<times> col list \<Rightarrow> bool" where
  "services_where f t flt k \<longleftrightarrow> bucket_within f t (fst k) \<and> op_column 2 k \<in> {''server'', ''consumer''}
     \<and> service_row_passes flt (op_column 0 k)"

definition services_group :: "(op_part list \<Rightarrow> rat list) \<Rightarrow> string \<Rightarrow> op_part list \<Rightarrow> service_row" where
  "services_group qm svc g = \<lparr>sr_service = svc,
     sr_ns = (case g of [] \<Rightarrow> [] | p # _ \<Rightarrow> op_column 3 (fst p)), sr_wl = (case g of [] \<Rightarrow> [] | p # _ \<Rightarrow> op_column 4 (fst p)),
     sr_calls = of_nat (sum_list (map (\<lambda>p. os_calls (snd p)) g)), sr_errs = of_nat (sum_list (map (\<lambda>p. os_errors (snd p)) g)),
     sr_durSum = sum_list (map (\<lambda>p. os_duration_sum_ns (snd p)) g),
     sr_durMax = max_dur (map (\<lambda>p. os_duration_max_ns (snd p)) g), sr_q = qm g\<rparr>"

definition services_query :: "(op_part list \<Rightarrow> rat list) \<Rightarrow> op_part list \<Rightarrow> time \<Rightarrow> time \<Rightarrow> sql \<Rightarrow> service_row list" where
  "services_query qm parts f t flt =
     (let sel = filter (\<lambda>p. services_where f t flt (fst p)) parts
      in by_calls sr_calls (map (\<lambda>svc. services_group qm svc (filter (\<lambda>p. op_column 0 (fst p) = svc) sel))
           (remdups (map (\<lambda>p. op_column 0 (fst p)) sel))))"

text \<open>The query of \<open>handleOperations\<close>.\<close>

definition operations_where :: "time \<Rightarrow> time \<Rightarrow> string \<Rightarrow> int \<times> col list \<Rightarrow> bool" where
  "operations_where f t service k \<longleftrightarrow> bucket_within f t (fst k) \<and> op_column 0 k = service"

definition operations_group :: "(op_part list \<Rightarrow> rat list) \<Rightarrow> string \<times> string \<Rightarrow> op_part list \<Rightarrow> operation_row" where
  "operations_group qm ok g = \<lparr>or_op = fst ok, or_kind = snd ok,
     or_calls = of_nat (sum_list (map (\<lambda>p. os_calls (snd p)) g)), or_errs = of_nat (sum_list (map (\<lambda>p. os_errors (snd p)) g)),
     or_durSum = sum_list (map (\<lambda>p. os_duration_sum_ns (snd p)) g), or_qs = qm g\<rparr>"

definition operations_query :: "(op_part list \<Rightarrow> rat list) \<Rightarrow> op_part list \<Rightarrow> time \<Rightarrow> time \<Rightarrow> string \<Rightarrow> operation_row list" where
  "operations_query qm parts f t service =
     (let sel = filter (\<lambda>p. operations_where f t service (fst p)) parts; ok = (\<lambda>p. (op_column 1 (fst p), op_column 2 (fst p)))
      in take 500 (by_calls or_calls (map (\<lambda>k. operations_group qm k (filter (\<lambda>p. ok p = k) sel)) (remdups (map ok sel)))))"

section \<open>The queries over the index\<close>

text \<open>What the conditions of a search say of a partial row; a condition takes its arguments from the front
  of those that are left.\<close>

definition search_cond :: "string \<Rightarrow> sql_arg list \<Rightarrow> trace_part \<Rightarrow> bool \<times> sql_arg list" where
  "search_cond c args p =
     (if c = ''start >= ? AND start < ?'' then
        (case args of ATime f # ATime t # rest \<Rightarrow> (f \<le> ti_start p \<and> ti_start p < t, rest) | _ \<Rightarrow> (False, args))
      else if c = ''hasAny(services, ?)'' then
        (case args of AStrs xs # rest \<Rightarrow> (list_ex (\<lambda>s. s \<in> set xs) (ti_services p), rest) | _ \<Rightarrow> (False, args))
      else if c = ''has(services, ?)'' then
        (case args of AStr s # rest \<Rightarrow> (s \<in> set (ti_services p), rest) | _ \<Rightarrow> (False, args))
      else if c = ''duration_ns >= ?'' then
        (case args of AU64 n # rest \<Rightarrow> (n \<le> ti_duration_ns p, rest) | _ \<Rightarrow> (False, args))
      else if c = ''errors > 0'' then (0 < ti_errors p, args)
      else (False, args))"

fun search_conds :: "string list \<Rightarrow> sql_arg list \<Rightarrow> trace_part \<Rightarrow> bool" where
  "search_conds [] args p = True"
| "search_conds (c # cs) args p = (case search_cond c args p of (ok, rest) \<Rightarrow> ok \<and> search_conds cs rest p)"

text \<open>The conditions hold of a partial row before the rows of a trace are grouped.\<close>

definition search_group :: "string \<Rightarrow> trace_part list \<Rightarrow> trace_row" where
  "search_group i g = \<lparr>tw_id = i, tw_rootSvc = foldr max (map ti_root_service g) [],
     tw_rootName = foldr max (map ti_root_name g) [], tw_start = min_of (map ti_start g),
     tw_durNS = max_dur (map ti_duration_ns g), tw_spans = sum_list (map ti_spans g),
     tw_errs = sum_list (map ti_errors g), tw_services = remdups (concat (map ti_services g))\<rparr>"

definition search_query :: "trace_part list \<Rightarrow> string list \<Rightarrow> sql_arg list \<Rightarrow> int \<Rightarrow> trace_row list" where
  "search_query parts conds args limit =
     (let sel = filter (search_conds conds args) parts
      in take (nat limit) (sort_key (\<lambda>r. - tw_start r)
           (map (\<lambda>i. search_group i (filter (\<lambda>p. ti_id p = i) sel)) (remdups (map ti_id sel)))))"

text \<open>The database reads the conditions from the text of the query.\<close>

definition search_texts :: "string list" where
  "search_texts = [''start >= ? AND start < ?'', ''hasAny(services, ?)'', ''has(services, ?)'', ''duration_ns >= ?'', ''errors > 0'']"

definition leading_text :: "string \<Rightarrow> string option" where
  "leading_text s = find (\<lambda>c. has_prefix s c) search_texts"

lemma leading_text_nonempty: "leading_text s = Some c \<Longrightarrow> c \<noteq> []"
  unfolding leading_text_def by (drule findD) (auto simp: search_texts_def)

function where_conds :: "string \<Rightarrow> string list option" where
  "where_conds s =
     (case leading_text s of
        None \<Rightarrow> None
      | Some c \<Rightarrow>
          let rest = drop (length c) s in
          if rest = [] then Some [c]
          else if has_prefix rest '' AND '' then map_option (\<lambda>cs. c # cs) (where_conds (drop 5 rest))
          else None)"
  by pat_completeness auto
termination
  by (relation "measure length") (auto dest: leading_text_nonempty)

declare where_conds.simps [simp del]

definition search_answer :: "trace_part list \<Rightarrow> string \<Rightarrow> sql_arg list \<Rightarrow> int \<Rightarrow> trace_row list" where
  "search_answer parts text args limit =
     (case where_conds text of None \<Rightarrow> [] | Some conds \<Rightarrow> search_query parts conds args limit)"

text \<open>The two queries of \<open>handleTraceDetail\<close>: the range of the trace, which is also the check of access,
  and its spans.\<close>

definition trace_range :: "trace_part list \<Rightarrow> string \<Rightarrow> sql \<Rightarrow> (time \<times> time) option" where
  "trace_range parts traceID flt =
     (let sel = filter (\<lambda>p. ti_id p = traceID \<and> trace_row_passes flt (ti_services p)) parts
      in if sel = [] then None else Some (min_of (map ti_start sel), max_of (map ti_end sel)))"

definition span_record_of :: "col list \<Rightarrow> span_record" where
  "span_record_of r = \<lparr>rc_spanID = row_string ''span_id'' r, rc_parentID = row_string ''parent_span_id'' r,
     rc_name = row_string ''name'' r, rc_kind = row_string ''kind'' r, rc_svc = row_string ''service_name'' r,
     rc_ns = row_string ''k8s_namespace'' r, rc_pod = row_string ''k8s_pod'' r,
     rc_workload = row_string ''k8s_workload'' r, rc_node = row_string ''k8s_node'' r, rc_ts = row_time r,
     rc_durNS = row_duration r, rc_status = row_string ''status_code'' r, rc_statusMsg = row_string ''status_message'' r,
     rc_attrs = (case column ''span_attributes'' r of CMap m \<Rightarrow> Some m | _ \<Rightarrow> None),
     rc_evTimes = (case column ''events_timestamp'' r of CTimes ts \<Rightarrow> ts | _ \<Rightarrow> []),
     rc_evNames = (case column ''events_name'' r of CStrings ns \<Rightarrow> ns | _ \<Rightarrow> []),
     rc_evAttrs = (case column ''events_attributes'' r of CMaps ms \<Rightarrow> map Some ms | _ \<Rightarrow> [])\<rparr>"

definition detail_query :: "col list list \<Rightarrow> string \<Rightarrow> time \<Rightarrow> time \<Rightarrow> span_record list" where
  "detail_query rows traceID a b =
     take 10000 (sort_key rc_ts (map span_record_of
       (filter (\<lambda>r. row_trace r = traceID \<and> a \<le> row_time r \<and> row_time r \<le> b) rows)))"

end
