(* ===== verification/TablesProps.thy ===== *)
theory TablesProps
  imports Tables
begin

text \<open>
  What the telemetry answers mean, from the stored spans to the response: the metrics of a service are
  those of its spans, whatever was merged; the index of the traces adds up to their spans; a search and
  the detail of a trace stay within the scope; and where the answer depends on what the database has
  merged.
\<close>

section \<open>The columns of a span\<close>

lemma span_columns:
  "row_trace (span_row s) = sp_TraceID s" "row_string ''service_name'' (span_row s) = sp_ServiceName s"
  "row_string ''parent_span_id'' (span_row s) = sp_ParentSpanID s" "row_string ''name'' (span_row s) = sp_Name s"
  "row_time (span_row s) = sp_Timestamp s" "row_duration (span_row s) = sp_DurationNS s"
  by (simp_all add: row_trace_def row_string_def row_time_def row_duration_def column_def span_row_def
      InsertSpansColumns_def flattenEvents_def flattenLinks_def)

lemma span_root: "is_root_row (span_row s) \<longleftrightarrow> sp_ParentSpanID s = []"
  by (simp add: is_root_row_def span_columns)

lemma span_key: "op_key (span_row s) = (minute_of (sp_Timestamp s),
    [CString (sp_ServiceName s), CString (sp_Name s), CString (SpanKind_String (sp_Kind s)),
     CString (sp_K8sNamespace s), CString (sp_K8sWorkload s)])"
  by (simp add: op_key_def column_def span_row_def InsertSpansColumns_def flattenEvents_def flattenLinks_def)

lemma op_columns: "op_column 0 (op_key (span_row s)) = sp_ServiceName s"
  "op_column 1 (op_key (span_row s)) = sp_Name s"
  "op_column 2 (op_key (span_row s)) = SpanKind_String (sp_Kind s)"
  "fst (op_key (span_row s)) = minute_of (sp_Timestamp s)"
  by (simp_all add: span_key op_column_def)

section \<open>The metrics of a set of keys\<close>

definition in_group :: "(int \<times> col list \<Rightarrow> bool) \<Rightarrow> span list \<Rightarrow> span list" where
  "in_group P spans = filter (\<lambda>s. P (op_key (span_row s))) spans"

lemma in_group_rows: "filter (\<lambda>r. P (op_key r)) (map span_row spans) = map span_row (in_group P spans)"
  by (simp add: in_group_def filter_map comp_def)

lemma stats_of_spans:
  assumes "operation_stats (map span_row spans) parts"
  shows "sum_list (map (\<lambda>p. os_calls (snd p)) (filter (\<lambda>p. P (fst p)) parts)) = length (in_group P spans)"
    and "sum_list (map (\<lambda>p. os_errors (snd p)) (filter (\<lambda>p. P (fst p)) parts)) = length (filter IsError (in_group P spans))"
    and "sum_list (map (\<lambda>p. os_duration_sum_ns (snd p)) (filter (\<lambda>p. P (fst p)) parts)) =
      sum_list (map sp_DurationNS (in_group P spans))"
    and "max_dur (map (\<lambda>p. os_duration_max_ns (snd p)) (filter (\<lambda>p. P (fst p)) parts)) =
      max_dur (map sp_DurationNS (in_group P spans))"
  using stats_calls.view_total [OF assms, of P] stats_errors.view_total [OF assms, of P]
    stats_durations.view_total [OF assms, of P] stats_maxima.view_total [OF assms, of P]
  by (simp_all add: stats_calls.parts_total_def stats_calls.rows_total_def stats_calls.added_def
      stats_errors.parts_total_def stats_errors.rows_total_def 
      stats_durations.parts_total_def stats_durations.rows_total_def trace_spans.added_def
      stats_maxima.parts_total_def stats_maxima.rows_total_def trace_durations.added_def
      in_group_rows count_added sum_added max_dur_added(1) comp_def row_is_error_iff span_columns
      del: One_nat_def)

lemma stats_keys: "operation_stats (map span_row spans) parts \<Longrightarrow> fst ` set parts = (\<lambda>s. op_key (span_row s)) ` set spans"
  by (simp add: stats_calls.view_keys image_image)

section \<open>Services\<close>

text \<open>The spans a row of the services is about.\<close>

definition counted :: "time \<Rightarrow> time \<Rightarrow> string \<Rightarrow> span \<Rightarrow> bool" where
  "counted f t svc s \<longleftrightarrow> bucket_within f t (minute_of (sp_Timestamp s))
     \<and> SpanKind_String (sp_Kind s) \<in> {''server'', ''consumer''} \<and> sp_ServiceName s = svc"

lemma services_where_counted:
  "services_where f t flt (op_key (span_row s)) \<and> op_column 0 (op_key (span_row s)) = svc \<longleftrightarrow>
    service_row_passes flt svc \<and> counted f t svc s"
  by (auto simp: services_where_def counted_def op_columns)

lemma distinct_by_calls: "distinct (map f (by_calls c xs)) = distinct (map f xs)"
  unfolding by_calls_def by (rule mset_eq_imp_distinct_iff) (simp only: mset_map mset_sort)

lemma services_query_rows:
  assumes "operation_stats (map span_row spans) parts"
  shows "distinct (map sr_service (services_query qm parts f t flt))
    \<and> sr_service ` set (services_query qm parts f t flt) =
        {svc. service_row_passes flt svc \<and> (\<exists>s \<in> set spans. counted f t svc s)}
    \<and> (\<forall>x \<in> set (services_query qm parts f t flt). let g = filter (counted f t (sr_service x)) spans in
        sr_calls x = of_nat (length g) \<and> sr_errs x = of_nat (length (filter IsError g))
        \<and> sr_durSum x = sum_list (map sp_DurationNS g) \<and> sr_durMax x = max_dur (map sp_DurationNS g))"
proof -
  let ?sel = "filter (\<lambda>p. services_where f t flt (fst p)) parts"
  let ?svcs = "remdups (map (\<lambda>p. op_column 0 (fst p)) ?sel)"
  let ?row = "\<lambda>svc. services_group qm svc (filter (\<lambda>p. op_column 0 (fst p) = svc) ?sel)"
  have q: "services_query qm parts f t flt = by_calls sr_calls (map ?row ?svcs)"
    by (simp add: services_query_def Let_def)
  have names: "map sr_service (map ?row ?svcs) = ?svcs"
    by (simp add: comp_def services_group_def)
  then have "distinct (map sr_service (services_query qm parts f t flt))"
    by (simp only: q distinct_by_calls distinct_remdups)
  moreover have svcs: "set ?svcs = {svc. service_row_passes flt svc \<and> (\<exists>s \<in> set spans. counted f t svc s)}"
  proof -
    have "set ?svcs = op_column 0 ` fst ` {p \<in> set parts. services_where f t flt (fst p)}" by (simp add: image_image)
    also have "fst ` {p \<in> set parts. services_where f t flt (fst p)} = {k \<in> fst ` set parts. services_where f t flt k}"
      by blast
    also have "\<dots> = (\<lambda>s. op_key (span_row s)) ` {s \<in> set spans. services_where f t flt (op_key (span_row s))}"
      unfolding stats_keys [OF assms] by blast
    also have "op_column 0 ` \<dots> = {svc. service_row_passes flt svc \<and> (\<exists>s \<in> set spans. counted f t svc s)}"
      by (simp only: image_image) (auto simp: services_where_def counted_def op_columns)
    finally show ?thesis .
  qed
  moreover have "sr_service ` set (services_query qm parts f t flt) = set ?svcs"
    by (simp only: q by_calls_def set_sort set_map [symmetric] names)
  moreover have "let g = filter (counted f t (sr_service x)) spans in
        sr_calls x = of_nat (length g) \<and> sr_errs x = of_nat (length (filter IsError g))
        \<and> sr_durSum x = sum_list (map sp_DurationNS g) \<and> sr_durMax x = max_dur (map sp_DurationNS g)"
    if "x \<in> set (services_query qm parts f t flt)" for x
  proof -
    from that obtain svc where svc: "svc \<in> set ?svcs" "x = ?row svc" unfolding q by_calls_def by auto
    with svcs have passes: "service_row_passes flt svc" by simp
    let ?P = "\<lambda>k. services_where f t flt k \<and> op_column 0 k = svc"
    have g: "in_group ?P spans = filter (counted f t svc) spans"
      by (simp add: in_group_def services_where_counted passes)
    have "filter (\<lambda>p. op_column 0 (fst p) = svc) ?sel = filter (\<lambda>p. ?P (fst p)) parts"
      by (simp add: conj_commute)
    with svc(2) have x: "x = services_group qm svc (filter (\<lambda>p. ?P (fst p)) parts)" by simp
    show ?thesis
      unfolding Let_def x by (simp add: services_group_def stats_of_spans [OF assms, of ?P] g)
  qed
  ultimately show ?thesis by simp
qed

section \<open>The index\<close>

lemma max_dur_if: "max_dur (map (\<lambda>x. if P x then v x else 0) xs) = max_dur (map v (filter P xs))"
  by (simp only: max_dur_added(1) [symmetric] max_dur_added(2))

lemma index_of_spans:
  assumes "trace_index (map span_row spans) parts"
  defines "g \<equiv> \<lambda>i. filter (\<lambda>p. ti_id p = i) parts" and "ss \<equiv> \<lambda>i. filter (\<lambda>s. sp_TraceID s = i) spans"
  shows "sum_list (map ti_spans (g i)) = of_nat (length (ss i))"
    and "sum_list (map ti_errors (g i)) = of_nat (length (filter IsError (ss i)))"
    and "(\<Union>p \<in> set (g i). set (ti_services p)) = sp_ServiceName ` set (ss i)"
    and "max_dur (map ti_duration_ns (g i)) = max_dur (map sp_DurationNS (filter (\<lambda>s. sp_ParentSpanID s = []) (ss i)))"
    and "ti_id ` set parts = sp_TraceID ` set spans"
    and "g i \<noteq> [] \<Longrightarrow> min_of (map ti_start (g i)) = min_of (map sp_Timestamp (ss i))
      \<and> max_of (map ti_end (g i)) = max_of (map sp_Timestamp (ss i))"
proof -
  let ?P = "\<lambda>k. k = i"
  have rows: "filter (\<lambda>r. row_trace r = i) (map span_row spans) = map span_row (ss i)"
    by (simp add: ss_def filter_map comp_def span_columns)
  note total = trace_spans.view_total [OF assms(1), of ?P] trace_errors.view_total [OF assms(1), of ?P]
    trace_services.view_total [OF assms(1), of ?P] trace_durations.view_total [OF assms(1), of ?P]
    trace_starts.view_total [OF assms(1), of ?P] trace_ends.view_total [OF assms(1), of ?P]
  show "sum_list (map ti_spans (g i)) = of_nat (length (ss i))"
    using total(1) by (simp add: trace_spans.parts_total_def trace_spans.rows_total_def trace_spans.added_def
        rows sum_added g_def comp_def sum_list_triv)
  show "sum_list (map ti_errors (g i)) = of_nat (length (filter IsError (ss i)))"
    using total(2) by (simp add: trace_errors.parts_total_def trace_errors.rows_total_def trace_spans.added_def
        rows count_added sum_added g_def filter_map comp_def row_is_error_iff ss_def span_columns)
  have union: "foldr (\<union>) (map f xs) {} = (\<Union>x \<in> set xs. f x)" for f :: "'x \<Rightarrow> string set" and xs
    by (induction xs) simp_all
  show "(\<Union>p \<in> set (g i). set (ti_services p)) = sp_ServiceName ` set (ss i)"
    using total(3) by (simp add: trace_services.parts_total_def trace_services.rows_total_def trace_services.added_def
        rows union g_def span_columns) blast
  show "max_dur (map ti_duration_ns (g i)) = max_dur (map sp_DurationNS (filter (\<lambda>s. sp_ParentSpanID s = []) (ss i)))"
    using total(4) by (simp add: trace_durations.parts_total_def trace_durations.rows_total_def trace_durations.added_def
        rows max_dur_added(1) max_dur_if g_def span_columns span_root comp_def)
  show "ti_id ` set parts = sp_TraceID ` set spans"
    by (simp add: trace_spans.view_keys [OF assms(1)] image_image span_columns)
  show "min_of (map ti_start (g i)) = min_of (map sp_Timestamp (ss i))
      \<and> max_of (map ti_end (g i)) = max_of (map sp_Timestamp (ss i))" if "g i \<noteq> []"
  proof -
    from that have "i \<in> ti_id ` set parts" by (auto simp: g_def filter_empty_conv)
    then have "ss i \<noteq> []"
      by (auto simp: trace_spans.view_keys [OF assms(1)] span_columns ss_def filter_empty_conv)
    with that total(5,6) show ?thesis
      by (simp add: trace_starts.parts_total_def trace_starts.rows_total_def trace_starts.added_def
          trace_ends.parts_total_def trace_ends.rows_total_def trace_ends.added_def
          rows comp_def span_columns min_of_added max_of_added g_def)
  qed
qed

text \<open>A partial row starts where one of its spans does.\<close>

lemma min_of_in: "xs \<noteq> [] \<Longrightarrow> min_of xs \<in> set xs"
  by (induction xs rule: min_of.induct) (auto simp: min_def)

lemma index_starts: "trace_index rows parts \<Longrightarrow>
    \<forall>p \<in> set parts. \<exists>r \<in> set rows. row_trace r = ti_id p \<and> row_time r = ti_start p"
proof (induction rule: view_state.induct)
  case (insert rows parts rs)
  have "\<exists>r \<in> set rs. row_trace r = ti_id p \<and> row_time r = ti_start p" if p: "p \<in> set (trace_index_mv rs)" for p
  proof -
    from p obtain i where i: "i \<in> row_trace ` set rs" "p = trace_index_group i (filter (\<lambda>r. row_trace r = i) rs)"
      by (auto simp: trace_index_mv_def)
    from i(1) have "map row_time (filter (\<lambda>r. row_trace r = i) rs) \<noteq> []" by (auto simp: filter_empty_conv)
    from min_of_in [OF this] show ?thesis by (auto simp: i(2) trace_index_group_def)
  qed
  with insert.IH show ?case by auto
next
  case (merged rows parts parts1)
  from merged.hyps(2) merged.IH show ?case
    by (cases rule: merge_step.cases) (auto simp: same_trace_def merge_traces_def min_def)
qed simp

section \<open>The conditions of a search\<close>

lemma strip_and: "trim_prefix ('' AND '' @ s) '' AND '' = s"
  by (simp add: trim_prefix_def has_prefix_def)

text \<open>The conditions and arguments of a search, with its least duration if it has one.\<close>

definition texts_of :: "scope \<Rightarrow> telemetry_query \<Rightarrow> u64 option \<Rightarrow> string list" where
  "texts_of sc qp d =
     [''start >= ? AND start < ?''] @ (if sc_unrestricted sc then [] else [''hasAny(services, ?)''])
      @ (if tq_service qp = [] then [] else [''has(services, ?)'']) @ (case d of None \<Rightarrow> [] | Some n \<Rightarrow> [''duration_ns >= ?''])
      @ (if tq_onlyErrors qp = ''true'' then [''errors > 0''] else [])"

definition args_of :: "time \<Rightarrow> time \<Rightarrow> scope \<Rightarrow> telemetry_query \<Rightarrow> u64 option \<Rightarrow> sql_arg list" where
  "args_of f t sc qp d =
     [ATime f, ATime t] @ (if sc_unrestricted sc then [] else [AStrs (sc_services sc)])
      @ (if tq_service qp = [] then [] else [AStr (tq_service qp)]) @ (case d of None \<Rightarrow> [] | Some n \<Rightarrow> [AU64 n])"

lemma search_conditions_form:
  assumes "search_conditions parse_ms f t sc qp = Some (conds, args)"
  obtains d where
    "conds = texts_of sc qp d"
    "args = args_of f t sc qp d"
    "d = (if tq_minDurationMs qp = [] then None else parse_ms (tq_minDurationMs qp))"
    "tq_minDurationMs qp = [] \<or> d \<noteq> None"
proof -
  define x where "x = '' AND '' @ ''hasAny(services, ?)''"
  have x: "x \<noteq> []" "trim_prefix x '' AND '' = ''hasAny(services, ?)''"
    unfolding x_def by simp (rule strip_and)
  have flt: "filterTraces sc = (if sc_unrestricted sc then ([], []) else (x, [sc_services sc]))"
    by (simp add: filterTraces_def x_def)
  let ?d = "if tq_minDurationMs qp = [] then None else parse_ms (tq_minDurationMs qp)"
  note u = assms [unfolded search_conditions_def Let_def flt]
  have d: "tq_minDurationMs qp = [] \<or> ?d \<noteq> None"
    using u by (cases "tq_minDurationMs qp = []"; cases "parse_ms (tq_minDurationMs qp)") simp_all
  have "conds = texts_of sc qp ?d
    \<and> args = args_of f t sc qp ?d"
    using u by (cases "sc_unrestricted sc"; cases "tq_service qp = []"; cases "tq_minDurationMs qp = []";
        cases "parse_ms (tq_minDurationMs qp)"; cases "tq_onlyErrors qp = ''true''")
      (simp_all add: x texts_of_def args_of_def)
  with d show ?thesis by (intro that [of ?d]) blast+
qed

text \<open>The texts and their arguments stay in step, whichever conditions a request adds.\<close>

lemma search_cond_simps:
  "search_cond ''start >= ? AND start < ?'' (ATime f # ATime t # args) p = (f \<le> ti_start p \<and> ti_start p < t, args)"
  "search_cond ''hasAny(services, ?)'' (AStrs xs # args) p = (list_ex (\<lambda>s. s \<in> set xs) (ti_services p), args)"
  "search_cond ''has(services, ?)'' (AStr s # args) p = (s \<in> set (ti_services p), args)"
  "search_cond ''duration_ns >= ?'' (AU64 n # args) p = (n \<le> ti_duration_ns p, args)"
  "search_cond ''errors > 0'' args p = (0 < ti_errors p, args)"
  by (simp_all add: search_cond_def)

lemma search_conditions_mean:
  assumes "search_conditions parse_ms f t sc qp = Some (conds, args)"
  shows "search_conds conds args p \<longleftrightarrow> f \<le> ti_start p \<and> ti_start p < t \<and> trace_row_passes (filterTraces sc) (ti_services p)
    \<and> (tq_service qp \<noteq> [] \<longrightarrow> tq_service qp \<in> set (ti_services p))
    \<and> (tq_minDurationMs qp \<noteq> [] \<longrightarrow> (\<exists>n. parse_ms (tq_minDurationMs qp) = Some n \<and> n \<le> ti_duration_ns p))
    \<and> (tq_onlyErrors qp = ''true'' \<longrightarrow> 0 < ti_errors p)"
proof -
  have pass: "trace_row_passes (filterTraces sc) (ti_services p) \<longleftrightarrow>
      sc_unrestricted sc \<or> list_ex (\<lambda>s. s \<in> set (sc_services sc)) (ti_services p)"
    by (simp add: trace_row_passes_def filterTraces_def)
  from assms obtain d where form: "conds = texts_of sc qp d"
    "args = args_of f t sc qp d"
    "d = (if tq_minDurationMs qp = [] then None else parse_ms (tq_minDurationMs qp))"
    "tq_minDurationMs qp = [] \<or> d \<noteq> None" by (rule search_conditions_form)
  have dur: "(tq_minDurationMs qp \<noteq> [] \<longrightarrow> (\<exists>n. parse_ms (tq_minDurationMs qp) = Some n \<and> n \<le> ti_duration_ns p))
      \<longleftrightarrow> (case d of None \<Rightarrow> True | Some n \<Rightarrow> n \<le> ti_duration_ns p)"
    using form(3,4) by (cases "tq_minDurationMs qp = []"; cases d) auto
  show ?thesis
    unfolding form(1,2) texts_of_def args_of_def pass dur
    by (cases "sc_unrestricted sc"; cases "tq_service qp = []"; cases d; cases "tq_onlyErrors qp = ''true''")
      (simp_all only: if_True if_False option.case append.simps search_conds.simps search_cond_simps prod.case simp_thms conj_assoc
        not_True_eq_False not_False_eq_True)
qed

lemma prefix_chars: "has_prefix (a # s) (b # p) \<longleftrightarrow> a = b \<and> has_prefix s p" "has_prefix s []"
  by (auto simp: has_prefix_def)

lemma leading_texts:
  "leading_text (''start >= ? AND start < ?'' @ rest) = Some ''start >= ? AND start < ?''"
  "leading_text (''hasAny(services, ?)'' @ rest) = Some ''hasAny(services, ?)''"
  "leading_text (''has(services, ?)'' @ rest) = Some ''has(services, ?)''"
  "leading_text (''duration_ns >= ?'' @ rest) = Some ''duration_ns >= ?''"
  "leading_text (''errors > 0'' @ rest) = Some ''errors > 0''"
  unfolding leading_text_def search_texts_def find.simps by (simp_all add: prefix_chars)

lemma leading_text_of:
  assumes "c \<in> set search_texts"
  shows "leading_text (c @ rest) = Some c"
  using assms unfolding search_texts_def list.set insert_iff empty_iff
  by (elim disjE FalseE) (simp_all only: leading_texts)

lemma where_conds_join:
  "conds \<noteq> [] \<Longrightarrow> set conds \<subseteq> set search_texts \<Longrightarrow> where_conds (join conds '' AND '') = Some conds"
proof (induction conds)
  case (Cons c cs)
  have lead: "leading_text (c @ rest) = Some c" for rest using Cons.prems(2) by (intro leading_text_of) simp
  show ?case
  proof (cases cs)
    case Nil
    with lead [of "[]"] show ?thesis by (simp add: where_conds.simps [of c])
  next
    case (Cons c1 cs1)
    let ?rest = "join cs '' AND ''"
    have j: "join (c # cs) '' AND '' = c @ '' AND '' @ ?rest" by (simp add: Cons)
    have "where_conds ?rest = Some cs" using Cons.IH Cons.prems Cons by simp
    then show ?thesis
      unfolding j by (subst where_conds.simps) (simp add: lead has_prefix_def)
  qed
qed simp

lemma search_texts_known:
  assumes "search_conditions parse_ms f t sc qp = Some (conds, args)"
  shows "conds \<noteq> [] \<and> set conds \<subseteq> set search_texts"
proof -
  from assms obtain d where form: "conds = texts_of sc qp d" "args = args_of f t sc qp d"
    "d = (if tq_minDurationMs qp = [] then None else parse_ms (tq_minDurationMs qp))"
    "tq_minDurationMs qp = [] \<or> d \<noteq> None" by (rule search_conditions_form)
  show ?thesis
    unfolding form(1) texts_of_def search_texts_def
    by (cases "sc_unrestricted sc"; cases "tq_service qp = []"; cases d; cases "tq_onlyErrors qp = ''true''")
      (simp_all only: if_True if_False option.case append.simps list.set insert_subset empty_subsetI insert_iff simp_thms list.distinct)
qed

lemma search_query_row:
  assumes "x \<in> set (search_query parts conds args limit)"
  obtains i where "x = search_group i (filter (\<lambda>p. search_conds conds args p \<and> ti_id p = i) parts)" "tw_id x = i"
    "filter (\<lambda>p. search_conds conds args p \<and> ti_id p = i) parts \<noteq> []"
proof -
  let ?sel = "filter (search_conds conds args) parts"
  let ?rows = "map (\<lambda>i. search_group i (filter (\<lambda>p. ti_id p = i) ?sel)) (remdups (map ti_id ?sel))"
  have "x \<in> set (sort_key (\<lambda>r. - tw_start r) ?rows)"
    using assms unfolding search_query_def Let_def by (rule in_set_takeD)
  then have "x \<in> (\<lambda>i. search_group i (filter (\<lambda>p. ti_id p = i) ?sel)) ` (ti_id ` set ?sel)"
    by (simp only: set_sort set_map set_remdups)
  then obtain i where i: "i \<in> ti_id ` set ?sel" "x = search_group i (filter (\<lambda>p. ti_id p = i) ?sel)" by blast
  from i(1) obtain p where "p \<in> set parts" "search_conds conds args p" "ti_id p = i" by auto
  then have "filter (\<lambda>p. search_conds conds args p \<and> ti_id p = i) parts \<noteq> []" by (auto simp: filter_empty_conv)
  with that [of i] i(2) show ?thesis by (simp add: search_group_def)
qed

lemma search_body:
  assumes "timeRange parse now qp = Inr (f, t)"
    and "handleTraceSearch parse parse_ms now qp (\<lambda>text args n. Rows (map Inr (search_answer parts text args n))) r sv =
      (respond 200 (TracesBody f t xs), sv1)"
  shows "xs = [] \<or> (\<exists>conds args. search_conditions parse_ms f t (scopeFor r) qp = Some (conds, args)
      \<and> xs = map trace_summary_of (search_query parts conds args (search_limit qp)))"
proof -
  have answer: "search_answer parts (join conds '' AND '') args n = search_query parts conds args n"
    if "search_conditions parse_ms f t (scopeFor r) qp = Some (conds, args)" for conds args n
    using where_conds_join search_texts_known [OF that] by (simp add: search_answer_def)
  with assms show ?thesis
    by (auto simp: handleTraceSearch_def Let_def respond_def writeError_def split: if_splits option.splits prod.splits)
qed

section \<open>Properties\<close>

text \<open>(C15) The services answered are those in scope that served a request in the range, each once, and
  their numbers are those of the stored spans: the calls are the server and consumer spans of the
  service whose minute lies in the range, the errors those of them that the program counts as errors,
  average and maximum those of their durations, however the spans were inserted and merged.\<close>

theorem services_report_spans:
  assumes "operation_stats (map span_row spans) parts" "timeRange parse now qp = Inr (f, t)" "\<not> scope_empty (scopeFor r)"
  shows "\<exists>xs. handleServices parse now qp (\<lambda>f t flt. Rows (map Inr (services_query qm parts f t flt))) r sv =
      (respond 200 (ServicesBody f t xs), sv)
    \<and> distinct (map ss_Service xs)
    \<and> set (map ss_Service xs) = {svc. allows (scopeFor r) svc \<and> (\<exists>s \<in> set spans. counted f t svc s)}
    \<and> list_all (\<lambda>x. let g = filter (counted f t (ss_Service x)) spans in
        ss_Calls x = of_nat (length g) \<and> ss_Errors x = of_nat (length (filter IsError g))
        \<and> ss_AvgMS x = nsToMS (avg (sum_list (map sp_DurationNS g)) (of_nat (length g)))
        \<and> ss_MaxMS x = nsToMS (float_u64 (max_dur (map sp_DurationNS g)))) xs"
proof -
  let ?q = "services_query qm parts f t (filterServiceName (scopeFor r) ''service_name'')"
  let ?xs = "map (service_summary_of (of_int (time_sub t f) / 10 ^ 9)) ?q"
  have h: "handleServices parse now qp (\<lambda>f t flt. Rows (map Inr (services_query qm parts f t flt))) r sv =
      (respond 200 (ServicesBody f t ?xs), sv)"
    by (simp add: handleServices_def assms(2,3) Let_def)
  have names: "map ss_Service ?xs = map sr_service ?q" by (simp add: service_summary_of_def)
  note rows = services_query_rows [OF assms(1), of qm f t "filterServiceName (scopeFor r) ''service_name''"]
  have "distinct (map ss_Service ?xs)" using rows by (simp only: names)
  moreover have "set (map ss_Service ?xs) = {svc. allows (scopeFor r) svc \<and> (\<exists>s \<in> set spans. counted f t svc s)}"
    using rows by (simp only: names set_map service_row_allowed)
  moreover have "list_all (\<lambda>x. let g = filter (counted f t (ss_Service x)) spans in
        ss_Calls x = of_nat (length g) \<and> ss_Errors x = of_nat (length (filter IsError g))
        \<and> ss_AvgMS x = nsToMS (avg (sum_list (map sp_DurationNS g)) (of_nat (length g)))
        \<and> ss_MaxMS x = nsToMS (float_u64 (max_dur (map sp_DurationNS g)))) ?xs"
    using rows by (auto simp: list_all_iff service_summary_of_def Let_def)
  ultimately show ?thesis using h by blast
qed

text \<open>(C17) The index of the traces adds up to the spans: for every trace the partial rows that the inserts
  and merges have left hold together as many spans and errors as the trace has, the services of its
  spans, its first and last timestamp and the longest of its root spans.\<close>

theorem trace_index_refines_spans:
  assumes "trace_index (map span_row spans) parts"
  shows "ti_id ` set parts = sp_TraceID ` set spans
    \<and> (let g = filter (\<lambda>p. ti_id p = i) parts; ss = filter (\<lambda>s. sp_TraceID s = i) spans in
        sum_list (map ti_spans g) = of_nat (length ss)
        \<and> sum_list (map ti_errors g) = of_nat (length (filter IsError ss))
        \<and> (\<Union>p \<in> set g. set (ti_services p)) = sp_ServiceName ` set ss
        \<and> max_dur (map ti_duration_ns g) = max_dur (map sp_DurationNS (filter (\<lambda>s. sp_ParentSpanID s = []) ss))
        \<and> (g = [] \<or> (min_of (map ti_start g) = min_of (map sp_Timestamp ss) \<and> max_of (map ti_end g) = max_of (map sp_Timestamp ss))))"
  using index_of_spans(1-4) [OF assms, of i] index_of_spans(5) [OF assms] index_of_spans(6) [OF assms, of i]
  by (simp add: Let_def) blast

text \<open>(C18) A search stays within the scope: every trace it answers has a span of a service that the
  request may see. The conditions it is filtered by are read back from the text of the query.\<close>

theorem search_confined:
  assumes "trace_index (map span_row spans) parts" "timeRange parse now qp = Inr (f, t)"
    and "handleTraceSearch parse parse_ms now qp (\<lambda>text args n. Rows (map Inr (search_answer parts text args n))) r sv =
      (respond 200 (TracesBody f t xs), sv1)"
  shows "list_all (\<lambda>x. \<exists>s \<in> set spans. sp_TraceID s = tr_TraceID x \<and> allows (scopeFor r) (sp_ServiceName s)) xs"
proof -
  have one: "\<exists>s \<in> set spans. sp_TraceID s = tw_id y \<and> allows (scopeFor r) (sp_ServiceName s)"
    if y: "y \<in> set (search_query parts conds args n)"
      and c: "search_conditions parse_ms f t (scopeFor r) qp = Some (conds, args)" for y conds args n
  proof -
    from y obtain i where "tw_id y = i" "filter (\<lambda>p. search_conds conds args p \<and> ti_id p = i) parts \<noteq> []"
      by (rule search_query_row)
    then obtain p where p: "p \<in> set parts" "search_conds conds args p" "ti_id p = tw_id y"
      by (auto simp: filter_empty_conv)
    from p(2) have "trace_row_passes (filterTraces (scopeFor r)) (ti_services p)"
      by (simp add: search_conditions_mean [OF c])
    then consider "sc_unrestricted (scopeFor r)" | svc where "svc \<in> set (ti_services p)" "allows (scopeFor r) svc"
      by (auto simp: trace_row_allowed)
    then show ?thesis
    proof cases
      case 1
      from p(1,3) have "tw_id y \<in> sp_TraceID ` set spans" using index_of_spans(5) [OF assms(1)] by (metis image_eqI)
      with 1 show ?thesis by (auto simp: allows_def)
    next
      case 2
      have "svc \<in> (\<Union>p \<in> set (filter (\<lambda>p. ti_id p = tw_id y) parts). set (ti_services p))"
        using 2(1) p(1,3) by auto
      then have "svc \<in> sp_ServiceName ` set (filter (\<lambda>s. sp_TraceID s = tw_id y) spans)"
        by (simp only: index_of_spans(3) [OF assms(1)])
      with 2(2) show ?thesis by auto
    qed
  qed
  from search_body [OF assms(2,3)] have "xs = [] \<or> (\<exists>conds args. search_conditions parse_ms f t (scopeFor r) qp = Some (conds, args)
      \<and> xs = map trace_summary_of (search_query parts conds args (search_limit qp)))" .
  then show ?thesis using one by (auto simp: list_all_iff trace_summary_of_def)
qed

text \<open>An unrestricted search without further conditions counts every span: what it says of a trace whose
  spans all lie in the range are the numbers of the whole trace, whatever was merged.\<close>

theorem search_counts_spans:
  assumes "trace_index (map span_row spans) parts" "timeRange parse now qp = Inr (f, t)"
    and "handleTraceSearch parse parse_ms now qp (\<lambda>text args n. Rows (map Inr (search_answer parts text args n))) r sv =
      (respond 200 (TracesBody f t xs), sv1)"
    and "sc_unrestricted (scopeFor r)" "tq_service qp = []" "tq_minDurationMs qp = []" "tq_onlyErrors qp \<noteq> ''true''"
    and "x \<in> set xs" "\<And>s. s \<in> set spans \<Longrightarrow> sp_TraceID s = tr_TraceID x \<Longrightarrow> f \<le> sp_Timestamp s \<and> sp_Timestamp s < t"
  shows "tr_Spans x = of_nat (length (filter (\<lambda>s. sp_TraceID s = tr_TraceID x) spans))
    \<and> tr_Errors x = of_nat (length (filter (\<lambda>s. sp_TraceID s = tr_TraceID x \<and> IsError s) spans))"
proof -
  from search_body [OF assms(2,3)] assms(8) obtain conds args
    where c: "search_conditions parse_ms f t (scopeFor r) qp = Some (conds, args)"
    and xs: "xs = map trace_summary_of (search_query parts conds args (search_limit qp))" by auto
  from assms(8) obtain y where y: "y \<in> set (search_query parts conds args (search_limit qp))" "x = trace_summary_of y"
    by (auto simp: xs)
  let ?i = "tr_TraceID x"
  from y(1) obtain i where i: "y = search_group i (filter (\<lambda>p. search_conds conds args p \<and> ti_id p = i) parts)" "tw_id y = i"
    by (rule search_query_row)
  have id: "i = ?i" using i(2) by (simp only: y(2) trace_summary_of_def trace_summary.simps)
  define g where "g = filter (\<lambda>p. search_conds conds args p \<and> ti_id p = ?i) parts"
  have g: "y = search_group ?i g" unfolding g_def by (rule i(1) [unfolded id])
  have "search_conds conds args p" if "p \<in> set parts" "ti_id p = ?i" for p
  proof -
    from index_starts [OF assms(1)] that obtain s where "s \<in> set spans" "sp_TraceID s = ?i" "sp_Timestamp s = ti_start p"
      by (auto simp: span_columns)
    with assms(9) [of s] show ?thesis
      by (simp add: search_conditions_mean [OF c] assms(5-7) trace_row_allowed assms(4))
  qed
  then have all: "g = filter (\<lambda>p. ti_id p = ?i) parts" unfolding g_def by (intro filter_cong) auto
  have "tr_Spans x = tw_spans y" "tr_Errors x = tw_errs y" by (simp_all only: y(2) trace_summary_of_def trace_summary.simps)
  moreover have "tw_spans y = sum_list (map ti_spans g)" "tw_errs y = sum_list (map ti_errors g)"
    using arg_cong [OF g, of tw_spans] arg_cong [OF g, of tw_errs] by (simp_all only: search_group_def trace_row.simps)
  ultimately have "tr_Spans x = of_nat (length (filter (\<lambda>s. sp_TraceID s = ?i) spans))"
    "tr_Errors x = of_nat (length (filter IsError (filter (\<lambda>s. sp_TraceID s = ?i) spans)))"
    by (simp_all only: all index_of_spans(1,2) [OF assms(1)])
  then show ?thesis by (simp only: filter_filter)
qed

text \<open>The detail of a trace of which no span is in scope is the answer for a trace that does not
  exist: nothing of it is shown, and the two cannot be told apart.\<close>

theorem detail_confined:
  assumes "trace_index (map span_row spans) parts" "length (hr_id r) = 32"
  shows "(\<exists>s \<in> set spans. sp_TraceID s = hr_id r \<and> allows (scopeFor r) (sp_ServiceName s))
    \<or> handleTraceDetail mo (trace_range parts) ask r sv = (writeErrorCode 404 ''trace not found'' ''not_found'', sv)"
proof (cases "trace_range parts (hr_id r) (filterTraces (scopeFor r))")
  case None
  then show ?thesis using assms(2) by (simp add: handleTraceDetail_def Let_def)
next
  case (Some ab)
  then obtain p where p: "p \<in> set parts" "ti_id p = hr_id r" "trace_row_passes (filterTraces (scopeFor r)) (ti_services p)"
    by (auto simp: trace_range_def Let_def filter_empty_conv split: if_splits)
  then consider "sc_unrestricted (scopeFor r)" | svc where "svc \<in> set (ti_services p)" "allows (scopeFor r) svc"
    by (auto simp: trace_row_allowed)
  then show ?thesis
  proof cases
    case 1
    from p(1,2) have "hr_id r \<in> sp_TraceID ` set spans" using index_of_spans(5) [OF assms(1)] by (metis image_eqI)
    with 1 show ?thesis by (auto simp: allows_def)
  next
    case 2
    have "svc \<in> (\<Union>p \<in> set (filter (\<lambda>p. ti_id p = hr_id r) parts). set (ti_services p))"
      using 2(1) p(1,2) by auto
    then have "svc \<in> sp_ServiceName ` set (filter (\<lambda>s. sp_TraceID s = hr_id r) spans)"
      by (simp only: index_of_spans(3) [OF assms(1)])
    with 2(2) show ?thesis by auto
  qed
qed

section \<open>Where the answer depends on what was merged\<close>

text \<open>A trace through two services, whose spans came in two inserts.\<close>

definition shop_span :: span where
  "shop_span = zero_span\<lparr>sp_TraceID := ''t'', sp_ServiceName := ''shop''\<rparr>"

definition ledger_span :: span where
  "ledger_span = zero_span\<lparr>sp_TraceID := ''t'', sp_ServiceName := ''ledger'', sp_StatusCode := StatusError\<rparr>"

definition part_of :: "span \<Rightarrow> trace_part" where
  "part_of s = hd (trace_index_mv [span_row s])"

lemma one_part: "trace_index_mv [span_row s] = [part_of s]"
  by (simp add: part_of_def trace_index_mv_def)

lemma part_fields: "ti_id (part_of s) = sp_TraceID s" "ti_start (part_of s) = sp_Timestamp s"
  "ti_services (part_of s) = [sp_ServiceName s]" "ti_spans (part_of s) = 1"
  "ti_errors (part_of s) = (if IsError s then 1 else 0)"
  by (simp_all add: part_of_def trace_index_mv_def trace_index_group_def span_columns row_is_error_iff)

definition two_inserts :: "trace_part list" where
  "two_inserts = [part_of shop_span, part_of ledger_span]"

definition one_merged :: "trace_part list" where
  "one_merged = [merge_traces (part_of shop_span) (part_of ledger_span)]"

lemma two_inserts_index: "trace_index [span_row shop_span, span_row ledger_span] two_inserts"
proof -
  have "trace_index ([] @ [span_row shop_span]) ([] @ trace_index_mv [span_row shop_span])"
    by (rule view_state.insert) (rule view_state.empty)
  then have "trace_index (([] @ [span_row shop_span]) @ [span_row ledger_span])
      (([] @ trace_index_mv [span_row shop_span]) @ trace_index_mv [span_row ledger_span])"
    by (rule view_state.insert)
  then show ?thesis by (simp add: one_part two_inserts_def)
qed

lemma one_merged_index: "trace_index [span_row shop_span, span_row ledger_span] one_merged"
proof (rule view_state.merged [OF two_inserts_index])
  have "same_trace (part_of shop_span) (part_of ledger_span)"
    by (simp add: same_trace_def part_fields shop_span_def ledger_span_def zero_span_def)
  with merge_step.merge [of same_trace "part_of shop_span" "part_of ledger_span" merge_traces "[]" "[]" "[]"]
  show "merge_step same_trace merge_traces two_inserts one_merged"
    by (simp add: two_inserts_def one_merged_def)
qed

definition shop_only :: scope where
  "shop_only = \<lparr>sc_unrestricted = False, sc_services = [''shop'']\<rparr>"

definition any_search :: telemetry_query where
  "any_search = \<lparr>tq_from = [], tq_to = [], tq_service = [], tq_level = [], tq_minDurationMs = [], tq_onlyErrors = [], tq_limit = []\<rparr>"

text \<open>The conditions of a search hold of partial rows: what a request with a scope is told of one and the
  same trace, one span without an error or two spans with an error, changes with the merges.\<close>

theorem search_depends_on_merging:
  "\<exists>conds args. search_conditions (\<lambda>_. None) (- 1) 1 shop_only any_search = Some (conds, args)
    \<and> map (\<lambda>x. (tw_spans x, tw_errs x)) (search_query two_inserts conds args 100) = [(1, 0)]
    \<and> map (\<lambda>x. (tw_spans x, tw_errs x)) (search_query one_merged conds args 100) = [(2, 1)]
    \<and> trace_index [span_row shop_span, span_row ledger_span] two_inserts
    \<and> trace_index [span_row shop_span, span_row ledger_span] one_merged"
proof -
  have "\<exists>x. search_conditions (\<lambda>_. None) (- 1) 1 shop_only any_search = Some x"
    by (simp add: search_conditions_def Let_def any_search_def)
  then obtain conds args where c: "search_conditions (\<lambda>_. None) (- 1) 1 shop_only any_search = Some (conds, args)"
    by (metis surj_pair)
  have cond: "search_conds conds args p \<longleftrightarrow> - 1 \<le> ti_start p \<and> ti_start p < 1 \<and> ''shop'' \<in> set (ti_services p)" for p
    by (simp add: search_conditions_mean [OF c] trace_row_allowed any_search_def) (auto simp: shop_only_def allows_def)
  note f = part_fields shop_span_def ledger_span_def zero_span_def IsError_def status_defs
  have "filter (search_conds conds args) two_inserts = [part_of shop_span]"
    by (simp add: two_inserts_def cond f)
  then have "map (\<lambda>x. (tw_spans x, tw_errs x)) (search_query two_inserts conds args 100) = [(1, 0)]"
    by (simp add: search_query_def search_group_def f)
  moreover have "filter (search_conds conds args) one_merged = one_merged"
    by (simp add: one_merged_def cond merge_traces_def f)
  then have "map (\<lambda>x. (tw_spans x, tw_errs x)) (search_query one_merged conds args 100) = [(2, 1)]"
    by (simp add: search_query_def search_group_def one_merged_def merge_traces_def f)
  ultimately show ?thesis using c two_inserts_index one_merged_index
    by (intro exI [of _ conds] exI [of _ args] conjI)
qed

section \<open>Witnesses\<close>

definition shop_request :: request where
  "shop_request = example_http\<lparr>hr_access := Some \<lparr>ac_User = None, ac_Permissions = [], ac_Projects = [],
     ac_Applications = [''shop'']\<rparr>, hr_project := []\<rparr>"

lemma shop_scope: "scopeFor shop_request = shop_only"
  by (simp add: scopeFor_def shop_request_def shop_only_def SeesEverything_def)

definition served_span :: span where
  "served_span = shop_span\<lparr>sp_Kind := KindServer\<rparr>"

lemma one_insert: "view_state same comb mv rs (mv rs)"
  using view_state.insert [OF view_state.empty, of same comb mv rs] by (simp add: view_state.empty)

theorem services_report_spans_witness:
  "\<exists>xs. handleServices (\<lambda>_. None) 60000000000 any_search
      (\<lambda>f t flt. Rows (map Inr (services_query (\<lambda>_. []) (operation_stats_block (map span_row [served_span])) f t flt))) shop_request ann_server
      = (respond 200 (ServicesBody (- 3540000000000) 60000000000 xs), ann_server)
    \<and> set (map ss_Service xs) = {''shop''}"
proof -
  have st: "operation_stats (map span_row [served_span]) (operation_stats_block (map span_row [served_span]))"
    by (rule one_insert)
  have tr: "timeRange (\<lambda>_. None) 60000000000 any_search = Inr (- 3540000000000, 60000000000)"
    by (simp add: timeRange_def any_search_def)
  have ne: "\<not> scope_empty (scopeFor shop_request)" by (simp add: shop_scope scope_empty_def shop_only_def)
  have "{svc. allows (scopeFor shop_request) svc \<and> (\<exists>s \<in> set [served_span]. counted (- 3540000000000) 60000000000 svc s)} = {''shop''}"
    by (auto simp: shop_scope shop_only_def allows_def counted_def served_span_def shop_span_def bucket_within_def minute_of_def
        zero_span_def SpanKind_String_def kind_defs)
  with services_report_spans [OF st tr ne, of "\<lambda>_. []" ann_server] show ?thesis by auto
qed

theorem trace_index_refines_spans_witness:
  "sum_list (map ti_spans (filter (\<lambda>p. ti_id p = ''t'') two_inserts)) = of_nat (length (filter (\<lambda>s. sp_TraceID s = ''t'') [shop_span, ledger_span]))
    \<and> ti_id ` set two_inserts = sp_TraceID ` set [shop_span, ledger_span]"
  using trace_index_refines_spans [of "[shop_span, ledger_span]" two_inserts "''t''"] two_inserts_index
  by (simp add: Let_def)

text \<open>A search by the one who may see the shop finds the trace.\<close>

lemma shop_search:
  obtains xs where "handleTraceSearch (\<lambda>_. None) (\<lambda>_. None) 60000000000 any_search
      (\<lambda>text args n. Rows (map Inr (search_answer two_inserts text args n))) shop_request ann_server
      = (respond 200 (TracesBody (- 3540000000000) 60000000000 xs), ann_server)" "map tr_TraceID xs = [''t'']"
proof -
  have tr: "timeRange (\<lambda>_. None) 60000000000 any_search = Inr (- 3540000000000, 60000000000)"
    by (simp add: timeRange_def any_search_def)
  have "\<exists>x. search_conditions (\<lambda>_. None) (- 3540000000000) 60000000000 shop_only any_search = Some x"
    by (simp add: search_conditions_def Let_def any_search_def)
  then obtain conds args where c: "search_conditions (\<lambda>_. None) (- 3540000000000) 60000000000 shop_only any_search = Some (conds, args)"
    by (metis surj_pair)
  note f = part_fields shop_span_def ledger_span_def zero_span_def
  have "filter (search_conds conds args) two_inserts = [part_of shop_span]"
    by (simp add: two_inserts_def search_conditions_mean [OF c] trace_row_allowed any_search_def f)
      (simp add: shop_only_def allows_def)
  then have q: "map (tr_TraceID \<circ> trace_summary_of) (search_query two_inserts conds args 100) = [''t'']"
    by (simp add: search_query_def search_group_def trace_summary_of_def f)
  have ne: "\<not> scope_empty shop_only" by (simp add: scope_empty_def shop_only_def)
  have lim: "search_limit any_search = 100" by (simp add: search_limit_def any_search_def)
  have "where_conds (join conds '' AND '') = Some conds"
    using where_conds_join search_texts_known [OF c] by blast
  with tr c ne lim have "handleTraceSearch (\<lambda>_. None) (\<lambda>_. None) 60000000000 any_search
      (\<lambda>text args n. Rows (map Inr (search_answer two_inserts text args n))) shop_request ann_server
      = (respond 200 (TracesBody (- 3540000000000) 60000000000 (map trace_summary_of (search_query two_inserts conds args 100))), ann_server)"
    by (simp add: handleTraceSearch_def shop_scope search_answer_def)
  from that [OF this] q show ?thesis by simp
qed

theorem search_confined_witness:
  "\<exists>xs :: trace_summary list. map tr_TraceID xs = [''t''] \<and> list_all (\<lambda>x. \<exists>s \<in> set [shop_span, ledger_span]. sp_TraceID s = tr_TraceID x
      \<and> allows shop_only (sp_ServiceName s)) xs"
proof -
  obtain xs where h: "handleTraceSearch (\<lambda>_. None) (\<lambda>_. None) 60000000000 any_search
      (\<lambda>text args n. Rows (map Inr (search_answer two_inserts text args n))) shop_request ann_server
      = (respond 200 (TracesBody (- 3540000000000) 60000000000 xs), ann_server)" "map tr_TraceID xs = [''t'']"
    by (rule shop_search)
  have tr: "timeRange (\<lambda>_. None) 60000000000 any_search = Inr (- 3540000000000, 60000000000)"
    by (simp add: timeRange_def any_search_def)
  have ix: "trace_index (map span_row [shop_span, ledger_span]) two_inserts" using two_inserts_index by simp
  from search_confined [OF ix tr h(1)] h(2) show ?thesis unfolding shop_scope by (intro exI [of _ xs] conjI)
qed

definition secret_request :: request where
  "secret_request = shop_request\<lparr>hr_id := replicate 32 CHR ''f''\<rparr>"

theorem detail_confined_witness:
  "handleTraceDetail \<lparr>mo_slices = (\<lambda>x. x), mo_hotspots = (\<lambda>x. x)\<rparr> (trace_range two_inserts) (\<lambda>_ _ _. Rows []) secret_request ann_server =
    (writeErrorCode 404 ''trace not found'' ''not_found'', ann_server)"
proof -
  have ix: "trace_index (map span_row [shop_span, ledger_span]) two_inserts" using two_inserts_index by simp
  have len: "length (hr_id secret_request) = 32" by (simp add: secret_request_def)
  have "\<not> (\<exists>s \<in> set [shop_span, ledger_span]. sp_TraceID s = hr_id secret_request \<and> allows (scopeFor secret_request) (sp_ServiceName s))"
    by (simp add: shop_span_def ledger_span_def secret_request_def numeral_eq_Suc)
  with detail_confined [OF ix len, of "\<lparr>mo_slices = (\<lambda>x. x), mo_hotspots = (\<lambda>x. x)\<rparr>" "\<lambda>_ _ _. Rows []" ann_server] show ?thesis by blast
qed

end
