(* ===== verification/EdgeTable.thy ===== *)
theory EdgeTable
  imports TablesProps
begin

text \<open>
  The table service_edges of internal/storage/clickhouse/schema.go and the query of \<open>handleTopology\<close>:
  partial rows of one edge are merged, an answer groups them at a level. The property goes from the rows
  inserted to the graph answered.
\<close>

section \<open>The edges\<close>

text \<open>The table of the edges is written to directly; its partial rows with the same ordering key are merged.\<close>

definition same_edge :: "edge_sample \<Rightarrow> edge_sample \<Rightarrow> bool" where
  "same_edge p q \<longleftrightarrow> es_Bucket p = es_Bucket q \<and> es_Key p = es_Key q"

definition merge_edges :: "edge_sample \<Rightarrow> edge_sample \<Rightarrow> edge_sample" where
  "merge_edges p q = \<lparr>es_Bucket = es_Bucket q, es_Key = es_Key q, es_Calls = es_Calls p + es_Calls q,
     es_Errors = es_Errors p + es_Errors q, es_DurationSumNS = es_DurationSumNS p + es_DurationSumNS q,
     es_DurationMaxNS = max (es_DurationMaxNS p) (es_DurationMaxNS q),
     es_Buckets = map (\<lambda>i. es_Buckets p ! i + es_Buckets q ! i) [0..<BucketCount]\<rparr>"

abbreviation service_edges :: "edge_sample list \<Rightarrow> edge_sample list \<Rightarrow> bool" where
  "service_edges \<equiv> view_state same_edge merge_edges (\<lambda>rs. rs)"

definition edge_id :: "edge_sample \<Rightarrow> int \<times> edge_key" where
  "edge_id e = (es_Bucket e, es_Key e)"

lemmas edge_column_laws = same_edge_def merge_edges_def edge_id_def

interpretation edge_calls: merging_column "(+)" "0 :: u64" same_edge merge_edges edge_id es_Calls
  by unfold_locales (simp_all add: edge_column_laws)

interpretation edge_errors: merging_column "(+)" "0 :: u64" same_edge merge_edges edge_id es_Errors
  by unfold_locales (simp_all add: edge_column_laws)

interpretation edge_durations: merging_column "(+)" "0 :: u64" same_edge merge_edges edge_id es_DurationSumNS
  by unfold_locales (simp_all add: edge_column_laws)

interpretation edge_maxima: merging_column max "0 :: u64" same_edge merge_edges edge_id es_DurationMaxNS
  by unfold_locales (simp_all add: edge_column_laws ac_simps)

interpretation edge_bucket: merging_column "(+)" "0 :: u64" same_edge merge_edges edge_id "\<lambda>e. if i < BucketCount then es_Buckets e ! i else 0"
  for i
  by unfold_locales (simp_all add: edge_column_laws del: BucketCount_14)

text \<open>The query of \<open>handleTopology\<close>: the two expressions of a level, which the database reads from the
  text of the query, the conditions, the groups.\<close>

definition level_names :: "string \<Rightarrow> edge_key \<Rightarrow> string \<times> string" where
  "level_names level k =
     (if level = ''workload'' then
        (if ek_ClientWorkload k \<noteq> [] then ek_ClientNamespace k @ ''/'' @ ek_ClientWorkload k else ek_Client k,
         if ek_ServerWorkload k \<noteq> [] then ek_ServerNamespace k @ ''/'' @ ek_ServerWorkload k else ek_Server k)
      else if level = ''namespace'' then
        (if ek_ClientNamespace k \<noteq> [] then ek_ClientNamespace k else ek_Client k,
         if ek_ServerNamespace k \<noteq> [] then ek_ServerNamespace k else ek_Server k)
      else (ek_Client k, ek_Server k))"

definition level_of :: "string \<times> string \<Rightarrow> string" where
  "level_of exprs = (case find (\<lambda>l. groupExprs l = exprs) [''workload'', ''namespace''] of Some l \<Rightarrow> l | None \<Rightarrow> ''service'')"

definition edge_group :: "string \<Rightarrow> edge_key \<Rightarrow> (string \<times> string) \<times> conn_type" where
  "edge_group level k = (level_names level k, ek_ConnType k)"

definition edges_where :: "time \<Rightarrow> time \<Rightarrow> sql \<Rightarrow> int \<times> edge_key \<Rightarrow> bool" where
  "edges_where f t flt ik \<longleftrightarrow> bucket_within f t (fst ik) \<and> edge_row_passes flt (ek_Client (snd ik)) (ek_Server (snd ik))"

text \<open>\<open>any\<close> gives some value of the group: here that of its first row.\<close>

definition topology_row :: "(string \<times> string) \<times> conn_type \<Rightarrow> edge_sample list \<Rightarrow> edge_row_t" where
  "topology_row g es = (let k = es_Key (hd es) in
     \<lparr>er_src = fst (fst g), er_dst = snd (fst g), er_connType = ConnType_String (snd g),
      er_clientNS = ek_ClientNamespace k, er_clientWL = ek_ClientWorkload k,
      er_serverNS = ek_ServerNamespace k, er_serverWL = ek_ServerWorkload k,
      er_calls = sum_list (map es_Calls es), er_errs = sum_list (map es_Errors es),
      er_durSum = sum_list (map es_DurationSumNS es), er_durMax = max_dur (map es_DurationMaxNS es),
      er_buckets = map (\<lambda>i. sum_list (map (\<lambda>e. es_Buckets e ! i) es)) [0..<BucketCount]\<rparr>)"

definition topology_query :: "edge_sample list \<Rightarrow> string \<Rightarrow> time \<Rightarrow> time \<Rightarrow> sql \<Rightarrow> edge_row_t list" where
  "topology_query parts level f t flt =
     (let sel = filter (\<lambda>e. edges_where f t flt (edge_id e)) parts;
          grp = (\<lambda>e. edge_group level (es_Key e))
      in take 2000 (by_calls er_calls (filter (\<lambda>x. 0 < er_calls x)
           (map (\<lambda>g. topology_row g (filter (\<lambda>e. grp e = g) sel)) (remdups (map grp sel))))))"

section \<open>The edges answered\<close>

lemma level_of_exprs: "level_names (level_of (groupExprs level)) = level_names level"
  by (rule ext) (auto simp: level_of_def groupExprs_def level_names_def)

lemma ConnType_inj: "ConnType_String a = ConnType_String b \<longleftrightarrow> a = b"
  by (metis conn_roundtrip)

text \<open>The inserted edges that a group of an answer is about.\<close>

definition edge_counted :: "time \<Rightarrow> time \<Rightarrow> sql \<Rightarrow> string \<Rightarrow> (string \<times> string) \<times> conn_type \<Rightarrow> edge_sample \<Rightarrow> bool" where
  "edge_counted f t flt level g e \<longleftrightarrow> edges_where f t flt (edge_id e) \<and> edge_group level (es_Key e) = g"

lemma edges_of_table:
  fixes f t :: time and flt :: sql and level :: string and g :: "(string \<times> string) \<times> conn_type"
  assumes "service_edges rows parts"
  defines "sel \<equiv> filter (edge_counted f t flt level g)"
  shows "sum_list (map es_Calls (sel parts)) = sum_list (map es_Calls (sel rows))"
    and "sum_list (map es_Errors (sel parts)) = sum_list (map es_Errors (sel rows))"
    and "sum_list (map es_DurationSumNS (sel parts)) = sum_list (map es_DurationSumNS (sel rows))"
    and "max_dur (map es_DurationMaxNS (sel parts)) = max_dur (map es_DurationMaxNS (sel rows))"
    and "i < BucketCount \<Longrightarrow> sum_list (map (\<lambda>e. es_Buckets e ! i) (sel parts)) = sum_list (map (\<lambda>e. es_Buckets e ! i) (sel rows))"
proof -
  let ?P = "\<lambda>ik. edges_where f t flt ik \<and> edge_group level (snd ik) = g"
  have sel: "sel = filter (\<lambda>e. ?P (edge_id e))" by (simp add: sel_def edge_counted_def [abs_def] edge_id_def)
  note total = edge_calls.table_total [OF assms(1), of ?P] edge_errors.table_total [OF assms(1), of ?P]
    edge_durations.table_total [OF assms(1), of ?P] edge_maxima.table_total [OF assms(1), of ?P]
    edge_bucket.table_total [OF assms(1), of i ?P]
  show "sum_list (map es_Calls (sel parts)) = sum_list (map es_Calls (sel rows))"
    using total(1) by (simp add: sel edge_calls.parts_total_def trace_spans.added_def sum_added)
  show "sum_list (map es_Errors (sel parts)) = sum_list (map es_Errors (sel rows))"
    using total(2) by (simp add: sel edge_errors.parts_total_def trace_spans.added_def sum_added)
  show "sum_list (map es_DurationSumNS (sel parts)) = sum_list (map es_DurationSumNS (sel rows))"
    using total(3) by (simp add: sel edge_durations.parts_total_def trace_spans.added_def sum_added)
  show "max_dur (map es_DurationMaxNS (sel parts)) = max_dur (map es_DurationMaxNS (sel rows))"
    using total(4) by (simp add: sel edge_maxima.parts_total_def trace_durations.added_def max_dur_added(1))
  show "sum_list (map (\<lambda>e. es_Buckets e ! i) (sel parts)) = sum_list (map (\<lambda>e. es_Buckets e ! i) (sel rows))" if "i < BucketCount"
    using total(5) [unfolded edge_bucket.parts_total_def trace_spans.added_def sum_added] that by (simp add: sel)
qed

text \<open>A group is named by its ends and its type.\<close>

definition group_name :: "(string \<times> string) \<times> conn_type \<Rightarrow> string \<times> string \<times> string" where
  "group_name g = (fst (fst g), snd (fst g), ConnType_String (snd g))"

definition row_name :: "edge_row_t \<Rightarrow> string \<times> string \<times> string" where
  "row_name x = (er_src x, er_dst x, er_connType x)"

lemma group_name_inj: "inj group_name"
  by (rule injI) (auto simp: group_name_def ConnType_inj prod_eq_iff)

definition named_edges :: "time \<Rightarrow> time \<Rightarrow> sql \<Rightarrow> string \<Rightarrow> string \<times> string \<times> string \<Rightarrow> edge_sample list \<Rightarrow> edge_sample list" where
  "named_edges f t flt level n es =
     filter (\<lambda>e. edges_where f t flt (edge_id e) \<and> group_name (edge_group level (es_Key e)) = n) es"

lemma named_edges_counted: "named_edges f t flt level (group_name g) es = filter (edge_counted f t flt level g) es"
  by (simp add: named_edges_def edge_counted_def [abs_def] inj_eq [OF group_name_inj])

text \<open>The groups are taken from the partial rows: there are no others in the inserted rows.\<close>

definition edge_groups :: "time \<Rightarrow> time \<Rightarrow> sql \<Rightarrow> string \<Rightarrow> edge_sample list \<Rightarrow> ((string \<times> string) \<times> conn_type) list" where
  "edge_groups f t flt level es = remdups (map (\<lambda>e. edge_group level (es_Key e)) (filter (\<lambda>e. edges_where f t flt (edge_id e)) es))"

lemma set_edge_groups: "set (edge_groups f t flt level es) =
    (\<lambda>ik. edge_group level (snd ik)) ` {ik \<in> edge_id ` set es. edges_where f t flt ik}"
proof -
  have "{ik \<in> edge_id ` set es. edges_where f t flt ik} = edge_id ` {e \<in> set es. edges_where f t flt (edge_id e)}" by blast
  then show ?thesis by (simp add: edge_groups_def image_image edge_id_def [of e for e])
qed

lemma edge_groups_table:
  assumes "service_edges rows parts"
  shows "set (edge_groups f t flt level parts) = set (edge_groups f t flt level rows)"
    and "length (edge_groups f t flt level parts) = length (edge_groups f t flt level rows)"
proof -
  show eq: "set (edge_groups f t flt level parts) = set (edge_groups f t flt level rows)"
    by (simp only: set_edge_groups edge_calls.table_keys [OF assms])
  have "distinct (edge_groups f t flt level es)" for es by (simp add: edge_groups_def)
  with eq show "length (edge_groups f t flt level parts) = length (edge_groups f t flt level rows)"
    by (metis distinct_card)
qed

lemma topology_query_few:
  assumes "length (edge_groups f t flt level parts) \<le> 2000"
  shows "topology_query parts level f t flt = by_calls er_calls (filter (\<lambda>x. 0 < er_calls x)
    (map (\<lambda>g. topology_row g (filter (edge_counted f t flt level g) parts)) (edge_groups f t flt level parts)))"
proof -
  have c: "filter (\<lambda>e. edge_group level (es_Key e) = g) (filter (\<lambda>e. edges_where f t flt (edge_id e)) parts) =
      filter (edge_counted f t flt level g) parts" for g
    by (simp add: edge_counted_def [abs_def] conj_commute)
  have "length (filter (\<lambda>x. 0 < er_calls x) (map h (edge_groups f t flt level parts))) \<le> 2000" for h
    using assms by (metis le_trans length_filter_le length_map)
  then have "length (by_calls er_calls (filter (\<lambda>x. 0 < er_calls x) (map h (edge_groups f t flt level parts)))) \<le> 2000" for h
    by (simp only: by_calls_def length_sort)
  then show ?thesis
    unfolding topology_query_def Let_def c edge_groups_def [symmetric] by (rule take_all)
qed

definition row_of_edges :: "edge_row_t \<Rightarrow> edge_sample list \<Rightarrow> bool" where
  "row_of_edges x es \<longleftrightarrow> er_calls x = sum_list (map es_Calls es) \<and> er_errs x = sum_list (map es_Errors es)
     \<and> er_durSum x = sum_list (map es_DurationSumNS es) \<and> er_durMax x = max_dur (map es_DurationMaxNS es)
     \<and> er_buckets x = map (\<lambda>i. sum_list (map (\<lambda>e. es_Buckets e ! i) es)) [0..<BucketCount]"

lemma topology_row_table:
  assumes "service_edges rows parts"
  shows "row_name (topology_row g (filter (edge_counted f t flt level g) parts)) = group_name g"
    and "row_of_edges (topology_row g (filter (edge_counted f t flt level g) parts)) (filter (edge_counted f t flt level g) rows)"
proof -
  show "row_name (topology_row g (filter (edge_counted f t flt level g) parts)) = group_name g"
    by (simp add: topology_row_def Let_def row_name_def group_name_def)
  show "row_of_edges (topology_row g (filter (edge_counted f t flt level g) parts)) (filter (edge_counted f t flt level g) rows)"
    unfolding row_of_edges_def topology_row_def Let_def
    using edges_of_table [OF assms, where f = f and t = t and flt = flt and level = level and g = g] by (simp del: BucketCount_14)
qed

lemma topology_query_rows:
  assumes st: "service_edges rows parts" and few: "length (edge_groups f t flt level rows) \<le> 2000"
  defines "answer \<equiv> topology_query parts level f t flt"
  shows "distinct (map row_name answer)"
    and "row_name ` set answer = {n. 0 < sum_list (map es_Calls (named_edges f t flt level n rows))}"
    and "\<forall>x \<in> set answer. row_of_edges x (named_edges f t flt level (row_name x) rows)"
proof -
  let ?row = "\<lambda>g. topology_row g (filter (edge_counted f t flt level g) parts)"
  let ?gs = "filter (\<lambda>g. 0 < er_calls (?row g)) (edge_groups f t flt level parts)"
  have q: "answer = by_calls er_calls (map ?row ?gs)"
    using topology_query_few [of f t flt level parts] few edge_groups_table(2) [OF st, of f t flt level]
    by (simp add: answer_def filter_map comp_def)
  have names: "map row_name (map ?row ?gs) = map group_name ?gs"
    by (simp add: topology_row_table [OF st])
  have "distinct (map group_name ?gs)"
    by (simp add: distinct_map inj_on_subset [OF group_name_inj] edge_groups_def)
  then show "distinct (map row_name answer)" unfolding q distinct_by_calls names .
  have row: "row_of_edges (?row g) (named_edges f t flt level (group_name g) rows)" for g
    unfolding named_edges_counted by (rule topology_row_table [OF st])
  have "row_name ` set answer = group_name ` set ?gs"
    unfolding q by_calls_def set_sort set_map [symmetric] names ..
  also have "\<dots> = {n. 0 < sum_list (map es_Calls (named_edges f t flt level n rows))}"
  proof (intro equalityI subsetI)
    fix n assume "n \<in> group_name ` set ?gs"
    then show "n \<in> {n. 0 < sum_list (map es_Calls (named_edges f t flt level n rows))}"
      using row by (auto simp: row_of_edges_def)
  next
    fix n assume n: "n \<in> {n. 0 < sum_list (map es_Calls (named_edges f t flt level n rows))}"
    then have "named_edges f t flt level n rows \<noteq> []" by auto
    then obtain e where e: "e \<in> set rows" "edges_where f t flt (edge_id e)" "n = group_name (edge_group level (es_Key e))"
      by (auto simp: named_edges_def filter_empty_conv)
    then have "edge_group level (es_Key e) \<in> set (edge_groups f t flt level parts)"
      unfolding edge_groups_table(1) [OF st] by (auto simp: edge_groups_def)
    with n e(3) row [of "edge_group level (es_Key e)"] show "n \<in> group_name ` set ?gs"
      by (simp add: row_of_edges_def)
  qed
  finally show "row_name ` set answer = {n. 0 < sum_list (map es_Calls (named_edges f t flt level n rows))}" .
  show "\<forall>x \<in> set answer. row_of_edges x (named_edges f t flt level (row_name x) rows)"
    using row by (auto simp: q by_calls_def topology_row_table [OF st])
qed

section \<open>Properties\<close>

definition edge_name :: "graph_edge \<Rightarrow> string \<times> string \<times> string" where
  "edge_name e = (ge_Source e, ge_Target e, ge_Type e)"


text \<open>Two samples of one edge, merged into one row.\<close>

definition shop_edge :: "u64 \<Rightarrow> edge_sample" where
  "shop_edge n = \<lparr>es_Bucket = 0, es_Key = \<lparr>ek_Client = ''shop'', ek_Server = ''ledger'', ek_ClientNamespace = ''web'',
     ek_ClientWorkload = [], ek_ServerNamespace = [], ek_ServerWorkload = [], ek_ClientNode = [], ek_ServerNode = [],
     ek_ConnType = ConnService\<rparr>, es_Calls = n, es_Errors = 1, es_DurationSumNS = 10, es_DurationMaxNS = 10,
     es_Buckets = replicate BucketCount 0\<rparr>"


end
