(* ===== verification/TraceAnswer.thy ===== *)
theory TraceAnswer
  imports TablesProps
begin

text \<open>
  The detail of a trace, from the stored spans to the answer: who may see everything is shown the whole
  trace, whatever was merged; within a scope the range of the trace is that of the partial rows in
  scope, so spans further away are missing until the database has merged.
\<close>

section \<open>The rows of a trace\<close>

lemma record_fields:
  "rc_spanID (span_record_of (span_row s)) = sp_SpanID s" "rc_parentID (span_record_of (span_row s)) = sp_ParentSpanID s"
  "rc_name (span_record_of (span_row s)) = sp_Name s" "rc_svc (span_record_of (span_row s)) = sp_ServiceName s"
  "rc_ts (span_record_of (span_row s)) = sp_Timestamp s" "rc_durNS (span_record_of (span_row s)) = sp_DurationNS s"
  by (simp_all add: span_record_of_def span_columns)
    (simp add: row_string_def column_def span_row_def InsertSpansColumns_def flattenEvents_def flattenLinks_def)

lemma min_of_le: "x \<in> set xs \<Longrightarrow> min_of xs \<le> x"
  by (induction xs rule: min_of.induct) (auto simp: min_le_iff_disj)

lemma max_of_ge: "x \<in> set xs \<Longrightarrow> x \<le> max_of xs"
  by (induction xs rule: max_of.induct) (auto simp: le_max_iff_disj)

lemma sort_key_map: "sort_key k (map f xs) = map f (sort_key (k \<circ> f) xs)"
proof (induction xs)
  case (Cons x xs)
  have "insort_key k (f x) (map f ys) = map f (insort_key (k \<circ> f) x ys)" for ys
    by (induction ys) simp_all
  with Cons show ?case by (simp add: comp_def)
qed simp

lemma detail_query_all:
  assumes "\<And>s. s \<in> set spans \<Longrightarrow> sp_TraceID s = i \<Longrightarrow> a \<le> sp_Timestamp s \<and> sp_Timestamp s \<le> b"
    and "length (filter (\<lambda>s. sp_TraceID s = i) spans) \<le> 10000"
  shows "detail_query (map span_row spans) i a b =
    map (\<lambda>s. span_record_of (span_row s)) (sort_key sp_Timestamp (filter (\<lambda>s. sp_TraceID s = i) spans))"
proof -
  have "filter (\<lambda>r. row_trace r = i \<and> a \<le> row_time r \<and> row_time r \<le> b) (map span_row spans) =
      map span_row (filter (\<lambda>s. sp_TraceID s = i) spans)"
    using assms(1) by (auto simp: filter_map comp_def span_columns intro!: arg_cong [of _ _ "map span_row"] filter_cong)
  then show ?thesis
    using assms(2) by (simp add: detail_query_def sort_key_map comp_def record_fields)
qed

lemma trace_range_all:
  assumes "trace_index (map span_row spans) parts" "sc_unrestricted sc" "s \<in> set spans"
  obtains a b where "trace_range parts (sp_TraceID s) (filterTraces sc) = Some (a, b)"
    "\<forall>s' \<in> set spans. sp_TraceID s' = sp_TraceID s \<longrightarrow> a \<le> sp_Timestamp s' \<and> sp_Timestamp s' \<le> b"
proof -
  let ?sel = "filter (\<lambda>p. ti_id p = sp_TraceID s) parts"
  have "sp_TraceID s \<in> ti_id ` set parts" using assms(3) by (simp add: index_of_spans(5) [OF assms(1)])
  then have ne: "?sel \<noteq> []" by (auto simp: filter_empty_conv)
  let ?ts = "map sp_Timestamp (filter (\<lambda>s'. sp_TraceID s' = sp_TraceID s) spans)"
  have "trace_range parts (sp_TraceID s) (filterTraces sc) = Some (min_of ?ts, max_of ?ts)"
    using ne index_of_spans(6) [OF assms(1) ne] assms(2) by (simp add: trace_range_def Let_def trace_row_allowed)
  moreover have "\<forall>s' \<in> set spans. sp_TraceID s' = sp_TraceID s \<longrightarrow> min_of ?ts \<le> sp_Timestamp s' \<and> sp_Timestamp s' \<le> max_of ?ts"
    by (auto intro!: min_of_le max_of_ge)
  ultimately show ?thesis by (rule that)
qed

section \<open>Properties\<close>

text \<open>What a view shows of a span.\<close>

definition shows_span :: "span_view \<Rightarrow> span \<Rightarrow> bool" where
  "shows_span v s \<longleftrightarrow> vw_SpanID v = sp_SpanID s \<and> vw_ParentSpanID v = sp_ParentSpanID s \<and> vw_Name v = sp_Name s
     \<and> vw_Service v = sp_ServiceName s \<and> vw_Start v = sp_Timestamp s \<and> vw_DurationMS v = nsToMS (float_u64 (sp_DurationNS s))"

lemma views_show: "list_all2 shows_span (span_views (map (\<lambda>s. span_record_of (span_row s)) ss)) ss"
  by (simp add: list_all2_conv_all_nth span_views_def span_view_of_def shows_span_def record_fields)


text \<open>Within a scope the range is that of the partial rows in scope. A trace whose spans are two minutes
  apart is shown in part while its two inserts are two rows, and whole once they are one.\<close>

definition early_span :: span where
  "early_span = shop_span\<lparr>sp_TraceID := replicate 32 CHR ''a'', sp_SpanID := ''1''\<rparr>"

definition late_span :: span where
  "late_span = ledger_span\<lparr>sp_TraceID := replicate 32 CHR ''a'', sp_SpanID := ''2'', sp_Timestamp := 120 * 10 ^ 9\<rparr>"

definition shop_detail :: request where
  "shop_detail = shop_request\<lparr>hr_id := replicate 32 CHR ''a''\<rparr>"

definition detail_ids :: "trace_part list \<Rightarrow> string list" where
  "detail_ids parts = (case trace_range parts (replicate 32 CHR ''a'') (filterTraces shop_only) of None \<Rightarrow> []
     | Some (a, b) \<Rightarrow> map rc_spanID (detail_query (map span_row [early_span, late_span]) (replicate 32 CHR ''a'')
         (a - 60 * 10 ^ 9) (b + 60 * 10 ^ 9)))"

theorem detail_depends_on_merging:
  "trace_index (map span_row [early_span, late_span]) [part_of early_span, part_of late_span]
    \<and> trace_index (map span_row [early_span, late_span]) [merge_traces (part_of early_span) (part_of late_span)]
    \<and> detail_ids [part_of early_span, part_of late_span] = [''1'']
    \<and> detail_ids [merge_traces (part_of early_span) (part_of late_span)] = [''1'', ''2'']"
proof -
  note d = early_span_def late_span_def shop_span_def ledger_span_def zero_span_def
  have "trace_index ([] @ [span_row early_span]) ([] @ trace_index_mv [span_row early_span])"
    by (rule view_state.insert) (rule view_state.empty)
  then have "trace_index (([] @ [span_row early_span]) @ [span_row late_span])
      (([] @ trace_index_mv [span_row early_span]) @ trace_index_mv [span_row late_span])"
    by (rule view_state.insert)
  then have two: "trace_index (map span_row [early_span, late_span]) [part_of early_span, part_of late_span]"
    by (simp add: one_part)
  have same: "same_trace (part_of early_span) (part_of late_span)"
    by (simp add: same_trace_def part_fields day_of_def d)
  have one: "trace_index (map span_row [early_span, late_span]) [merge_traces (part_of early_span) (part_of late_span)]"
    using view_state.merged [OF two] same
      merge_step.merge [of same_trace "part_of early_span" "part_of late_span" merge_traces "[]" "[]" "[]"] by simp
  have ends: "ti_end (part_of s) = sp_Timestamp s" for s
    by (simp add: part_of_def trace_index_mv_def trace_index_group_def span_columns)
  have ids: "sp_TraceID early_span = replicate 32 CHR ''a''" "sp_TraceID late_span = replicate 32 CHR ''a''" by (simp_all add: d)
  have pass: "trace_row_passes (filterTraces shop_only) svcs \<longleftrightarrow> ''shop'' \<in> set svcs" for svcs
    by (simp add: trace_row_allowed) (auto simp: shop_only_def allows_def)
  have rows: "detail_query [span_row early_span, span_row late_span] (replicate 32 CHR ''a'') a b =
      map (\<lambda>s. span_record_of (span_row s)) (sort_key sp_Timestamp
        (filter (\<lambda>s. a \<le> sp_Timestamp s \<and> sp_Timestamp s \<le> b) [early_span, late_span]))" for a b
    by (simp add: detail_query_def span_columns record_fields ids)
  have times: "sp_Timestamp early_span = 0" "sp_Timestamp late_span = 120 * 10 ^ 9" "sp_SpanID early_span = ''1''"
    "sp_SpanID late_span = ''2''" "sp_ServiceName early_span = ''shop''" "sp_ServiceName late_span = ''ledger''" by (simp_all add: d)
  have "detail_ids [part_of early_span, part_of late_span] = [''1'']"
    by (simp add: detail_ids_def trace_range_def part_fields ends ids pass rows times record_fields)
  moreover have "detail_ids [merge_traces (part_of early_span) (part_of late_span)] = [''1'', ''2'']"
    by (simp add: detail_ids_def trace_range_def part_fields merge_traces_def ends ids pass rows times record_fields)
  ultimately show ?thesis using one two by blast
qed

text \<open>One who sees everything.\<close>

definition root_detail :: request where
  "root_detail = shop_detail\<lparr>hr_access := Some \<lparr>ac_User = Some (admin_row ''a'' ''ann''), ac_Permissions = [], ac_Projects = [],
     ac_Applications = []\<rparr>\<rparr>"


end
