(* ===== verification/Operator.thy ===== *)
theory Operator
  imports CommandsProps
begin

text \<open>
  internal/k8s/certs.go and cmd/operator/main.go: the certificates of the webhook, made anew at every
  start, and the operator from its settings to the answers it serves. Keys, signatures and encodings
  are those of Go's crypto packages and parameters.
\<close>

section \<open>Certificates\<close>

datatype key_usage = DigitalSignature | KeyEncipherment | CertSign

datatype ext_key_usage = ServerAuth

record cert_template =
  ce_SerialNumber :: int
  ce_CommonName :: string
  ce_Organization :: "string list"
  ce_NotBefore :: time
  ce_NotAfter :: time
  ce_IsCA :: bool
  ce_KeyUsage :: "key_usage list"
  ce_ExtKeyUsage :: "ext_key_usage list"
  ce_BasicConstraintsValid :: bool
  ce_DNSNames :: "string list"

text \<open>A certificate that was issued: the template, the name of its issuer, the public key it is for and
  the public key its signature is verified with.\<close>

record 'pk certificate = cert_template +
  ce_Issuer :: "string \<times> string list"
  ce_PublicKey :: 'pk
  ce_SignedFor :: 'pk

record 'k tls_pair =
  tp_certificate :: string
  tp_key :: 'k

text \<open>The packages: \<open>xl_generate n\<close> is the n-th key generated, \<open>xl_create\<close> gives the encoding of a
  certificate, \<open>xl_pem\<close> the text around an encoding.\<close>

record ('k, 'pk) x509 =
  xl_generate :: "nat \<Rightarrow> string + 'k"
  xl_public :: "'k \<Rightarrow> 'pk"
  xl_create :: "cert_template \<Rightarrow> cert_template \<Rightarrow> 'pk \<Rightarrow> 'k \<Rightarrow> string + string"
  xl_parse :: "string \<Rightarrow> string + 'pk certificate"
  xl_pkcs1 :: "'k \<Rightarrow> string"
  xl_pem :: "string \<Rightarrow> string \<Rightarrow> string + string"
  xl_pair :: "string \<Rightarrow> string \<Rightarrow> string + 'k tls_pair"

definition hour :: int where
  "hour = 3600 * 10 ^ 9"

text \<open>The clock is read four times.\<close>

definition ca_template :: "(nat \<Rightarrow> time) \<Rightarrow> int \<Rightarrow> cert_template" where
  "ca_template now validity = \<lparr>ce_SerialNumber = 1, ce_CommonName = ''nabiz-webhook-ca'', ce_Organization = [''nabiz''],
     ce_NotBefore = now 0 - hour, ce_NotAfter = now 1 + validity, ce_IsCA = True,
     ce_KeyUsage = [CertSign, DigitalSignature], ce_ExtKeyUsage = [], ce_BasicConstraintsValid = True, ce_DNSNames = []\<rparr>"

definition dns_names :: "string \<Rightarrow> string \<Rightarrow> string list" where
  "dns_names svc ns = [svc, svc @ ''.'' @ ns, svc @ ''.'' @ ns @ ''.svc'', svc @ ''.'' @ ns @ ''.svc.cluster.local'']"

definition server_template :: "(nat \<Rightarrow> time) \<Rightarrow> int \<Rightarrow> string \<Rightarrow> string \<Rightarrow> cert_template" where
  "server_template now validity svc ns = \<lparr>ce_SerialNumber = 2, ce_CommonName = dns_names svc ns ! 2,
     ce_Organization = [''nabiz''], ce_NotBefore = now 2 - hour, ce_NotAfter = now 3 + validity, ce_IsCA = False,
     ce_KeyUsage = [DigitalSignature, KeyEncipherment], ce_ExtKeyUsage = [ServerAuth], ce_BasicConstraintsValid = False,
     ce_DNSNames = dns_names svc ns\<rparr>"

text \<open>The three encodings and the pair that is read back from two of them.\<close>

definition encode_pair :: "('k, 'pk) x509 \<Rightarrow> 'k \<Rightarrow> string \<Rightarrow> string \<Rightarrow> string + ('k tls_pair \<times> string)" where
  "encode_pair lib key server_der ca_der =
     (case xl_pem lib ''CERTIFICATE'' server_der of Inl e \<Rightarrow> Inl e
      | Inr cert_pem \<Rightarrow>
     (case xl_pem lib ''RSA PRIVATE KEY'' (xl_pkcs1 lib key) of Inl e \<Rightarrow> Inl e
      | Inr key_pem \<Rightarrow>
     (case xl_pem lib ''CERTIFICATE'' ca_der of Inl e \<Rightarrow> Inl e
      | Inr ca_pem \<Rightarrow>
     (case xl_pair lib cert_pem key_pem of Inl e \<Rightarrow> Inl e
      | Inr pair \<Rightarrow> Inr (pair, ca_pem)))))"

definition SelfSignedCert ::
  "('k, 'pk) x509 \<Rightarrow> (nat \<Rightarrow> time) \<Rightarrow> string \<Rightarrow> string \<Rightarrow> int \<Rightarrow> string + ('k tls_pair \<times> string)" where
  "SelfSignedCert lib now svc ns validity =
     (case xl_generate lib 0 of Inl e \<Rightarrow> Inl e
      | Inr ca_key \<Rightarrow>
     (let ca_tmpl = ca_template now validity in
      case xl_create lib ca_tmpl ca_tmpl (xl_public lib ca_key) ca_key of Inl e \<Rightarrow> Inl e
      | Inr ca_der \<Rightarrow>
     (case xl_parse lib ca_der of Inl e \<Rightarrow> Inl e
      | Inr ca_cert \<Rightarrow>
     (case xl_generate lib 1 of Inl e \<Rightarrow> Inl e
      | Inr server_key \<Rightarrow>
     (case xl_create lib (server_template now validity svc ns) (cert_template.truncate ca_cert) (xl_public lib server_key) ca_key of
        Inl e \<Rightarrow> Inl e
      | Inr server_der \<Rightarrow> encode_pair lib server_key server_der ca_der)))))"

section \<open>The configuration of the webhooks\<close>

text \<open>What the operator finds of the cluster: whether it can reach it, and the bundles of the webhooks of
  each configuration; a patch is applied to them or refused.\<close>

record cluster =
  cu_config :: "string option"
  cu_client :: "string option"
  cu_refused :: "string option"
  cu_bundles :: "string \<Rightarrow> string list option"

definition cluster_get :: "cluster \<Rightarrow> string \<Rightarrow> string + nat" where
  "cluster_get cu name = (case cu_bundles cu name of None \<Rightarrow> Inl ''not found'' | Some bs \<Rightarrow> Inr (length bs))"

definition cluster_patch :: "cluster \<Rightarrow> string \<Rightarrow> patch_op list \<Rightarrow> string option" where
  "cluster_patch cu name ops = cu_refused cu"

text \<open>The cluster after \<open>patchCABundle\<close>.\<close>

definition cluster_after :: "cluster \<Rightarrow> string \<Rightarrow> string \<Rightarrow> cluster" where
  "cluster_after cu name ca =
     (case cu_bundles cu name of
        None \<Rightarrow> cu
      | Some bs \<Rightarrow>
          if patchCABundle (cu_config cu) (cu_client cu) (cluster_get cu) (cluster_patch cu) name ca = None
          then cu\<lparr>cu_bundles := (cu_bundles cu)(name \<mapsto> foldl apply_bundle_op bs (bundle_ops (length bs) ca))\<rparr>
          else cu)"

section \<open>nabiz-operator\<close>

record 'k operator =
  op_pair :: "'k tls_pair"
  op_webhook :: webhook
  op_addr :: string
  op_stats_addr :: string

text \<open>From the start to the call of \<open>ListenAndServeTLS\<close>; \<open>Inl\<close> is the message with which the program
  ends.\<close>

definition operator_start ::
  "('k, 'pk) x509 \<Rightarrow> (nat \<Rightarrow> time) \<Rightarrow> env \<Rightarrow> cluster \<Rightarrow> (string + 'k operator) \<times> cluster" where
  "operator_start lib now e cu =
     (let ns = String_setting e ''NAMESPACE'' ''nabiz'';
          svc = String_setting e ''WEBHOOK_SERVICE'' ''nabiz-operator'';
          name = String_setting e ''WEBHOOK_CONFIG'' ''nabiz-dotnet-injector''
      in case SelfSignedCert lib now svc ns (10 * 365 * 24 * hour) of
        Inl err \<Rightarrow> (Inl (''could not generate the certificate: '' @ err), cu)
      | Inr (pair, ca) \<Rightarrow>
          (case patchCABundle (cu_config cu) (cu_client cu) (cluster_get cu) (cluster_patch cu) name ca of
             Some err \<Rightarrow> (Inl (''could not update the MutatingWebhookConfiguration: '' @ err), cluster_after cu name ca)
           | None \<Rightarrow>
               (Inr \<lparr>op_pair = pair, op_webhook = NewWebhook (operator_config e),
                  op_addr = String_setting e ''WEBHOOK_ADDR'' '':9443'', op_stats_addr = String_setting e ''STATS_ADDR'' '':8888''\<rparr>,
                cluster_after cu name ca)))"

text \<open>The two servers. A pattern with GET also takes HEAD.\<close>

datatype op_answer =
    Review admission_response
  | Text string
  | Counters "(string \<times> int) list"
  | Refused int

definition webhook_Handler :: "'p library \<Rightarrow> string \<Rightarrow> string \<Rightarrow> string \<Rightarrow> webhook \<Rightarrow> op_answer \<times> webhook" where
  "webhook_Handler lib meth path body wh =
     (if path = ''/mutate'' then
        (if meth = ''POST'' then (case handleMutate lib body wh of (rsp, wh1) \<Rightarrow> (Review rsp, wh1)) else (Refused 405, wh))
      else if path = ''/healthz'' then
        (if meth \<in> set [''GET'', ''HEAD''] then (Text ''ok'', wh) else (Refused 405, wh))
      else (Refused 404, wh))"

definition stats_Handler :: "string \<Rightarrow> string \<Rightarrow> webhook \<Rightarrow> op_answer" where
  "stats_Handler meth path wh =
     (if path = ''/healthz'' then (if meth \<in> set [''GET'', ''HEAD''] then Text ''ok'' else Refused 405)
      else if path = ''/stats'' then
        (if meth \<in> set [''GET'', ''HEAD''] then Counters (webhook_counters (wh_stats wh)) else Refused 405)
      else Refused 404)"

section \<open>The API server\<close>

text \<open>What the documentation of the packages promises. A certificate that was created is read back as the
  template, with the name of the parent and the keys, its times in seconds; the text around an encoding
  is undone by \<open>unpem\<close>; a pair is made of a certificate and the key it is for.\<close>

definition in_seconds :: "time \<Rightarrow> time" where
  "in_seconds t = t div 10 ^ 9 * 10 ^ 9"

definition issued :: "cert_template \<Rightarrow> cert_template \<Rightarrow> 'pk \<Rightarrow> 'pk \<Rightarrow> 'pk certificate" where
  "issued tmpl parent pub signer =
     cert_template.extend (tmpl\<lparr>ce_NotBefore := in_seconds (ce_NotBefore tmpl), ce_NotAfter := in_seconds (ce_NotAfter tmpl)\<rparr>)
       \<lparr>ce_Issuer = (ce_CommonName parent, ce_Organization parent), ce_PublicKey = pub, ce_SignedFor = signer\<rparr>"

definition x509_law :: "('k, 'pk) x509 \<Rightarrow> (string \<Rightarrow> (string \<times> string) option) \<Rightarrow> bool" where
  "x509_law lib unpem \<longleftrightarrow>
     (\<forall>tmpl parent pub k der. xl_create lib tmpl parent pub k = Inr der \<longrightarrow>
        xl_parse lib der = Inr (issued tmpl parent pub (xl_public lib k)))
   \<and> (\<forall>typ b s. xl_pem lib typ b = Inr s \<longrightarrow> unpem s = Some (typ, b))
   \<and> (\<forall>c k p. xl_pair lib c k = Inr p \<longrightarrow> unpem c = Some (''CERTIFICATE'', tp_certificate p)
        \<and> unpem k = Some (''RSA PRIVATE KEY'', xl_pkcs1 lib (tp_key p)))"

text \<open>The API server dials \<open>host\<close> at the time \<open>t\<close> and checks what the operator presents against a bundle.\<close>

definition signed_by :: "'pk certificate \<Rightarrow> 'pk certificate \<Rightarrow> bool" where
  "signed_by ca c \<longleftrightarrow> ce_IsCA ca \<and> ce_BasicConstraintsValid ca \<and> CertSign \<in> set (ce_KeyUsage ca)
     \<and> ce_Issuer c = (ce_CommonName ca, ce_Organization ca) \<and> ce_SignedFor c = ce_PublicKey ca"

definition valid_at :: "time \<Rightarrow> 'pk certificate \<Rightarrow> bool" where
  "valid_at t c \<longleftrightarrow> ce_NotBefore c \<le> t \<and> t \<le> ce_NotAfter c"

definition accepts_tls ::
  "('k, 'pk) x509 \<Rightarrow> (string \<Rightarrow> (string \<times> string) option) \<Rightarrow> string \<Rightarrow> string \<Rightarrow> time \<Rightarrow> 'k tls_pair \<Rightarrow> bool" where
  "accepts_tls lib unpem bundle host t pair =
     (case unpem bundle of None \<Rightarrow> False
      | Some (typ, der) \<Rightarrow>
     (case xl_parse lib der of Inl e \<Rightarrow> False
      | Inr ca \<Rightarrow>
     (case xl_parse lib (tp_certificate pair) of Inl e \<Rightarrow> False
      | Inr c \<Rightarrow> typ = ''CERTIFICATE'' \<and> signed_by ca c \<and> valid_at t ca \<and> valid_at t c \<and> ServerAuth \<in> set (ce_ExtKeyUsage c)
          \<and> host \<in> set (ce_DNSNames c))))"

lemma encode_pair_law:
  assumes "x509_law lib unpem" "encode_pair lib key server_der ca_der = Inr (pair, ca)"
  shows "unpem ca = Some (''CERTIFICATE'', ca_der)" "tp_certificate pair = server_der"
proof -
  from assms(2) obtain cert_pem key_pem where
    "xl_pem lib ''CERTIFICATE'' server_der = Inr cert_pem" "xl_pem lib ''CERTIFICATE'' ca_der = Inr ca"
    "xl_pair lib cert_pem key_pem = Inr pair"
    by (auto simp: encode_pair_def split: sum.splits)
  with assms(1) have "unpem cert_pem = Some (''CERTIFICATE'', server_der)" "unpem ca = Some (''CERTIFICATE'', ca_der)"
    "unpem cert_pem = Some (''CERTIFICATE'', tp_certificate pair)"
    unfolding x509_law_def by blast+
  then show "unpem ca = Some (''CERTIFICATE'', ca_der)" "tp_certificate pair = server_der" by simp_all
qed

text \<open>What \<open>SelfSignedCert\<close> returns: the two certificates, as they are read back.\<close>

lemma SelfSignedCert_chain:
  fixes lib :: "('k, 'pk) x509"
  assumes "x509_law lib unpem" "SelfSignedCert lib now svc ns validity = Inr (pair, ca)"
  obtains ca_key server_key ca_der where
    "xl_generate lib 0 = Inr ca_key" "xl_generate lib 1 = Inr server_key" "unpem ca = Some (''CERTIFICATE'', ca_der)"
    "xl_parse lib ca_der =
      Inr (issued (ca_template now validity) (ca_template now validity) (xl_public lib ca_key) (xl_public lib ca_key))"
    "xl_parse lib (tp_certificate pair) =
      Inr (issued (server_template now validity svc ns) (ca_template now validity) (xl_public lib server_key) (xl_public lib ca_key))"
proof -
  from assms(2) obtain ca_key ca_der ca_cert server_key server_der where c:
    "xl_generate lib 0 = Inr ca_key" "xl_generate lib 1 = Inr server_key"
    "xl_create lib (ca_template now validity) (ca_template now validity) (xl_public lib ca_key) ca_key = Inr ca_der"
    "xl_parse lib ca_der = Inr ca_cert"
    "xl_create lib (server_template now validity svc ns) (cert_template.truncate ca_cert) (xl_public lib server_key) ca_key = Inr server_der"
    "encode_pair lib server_key server_der ca_der = Inr (pair, ca)"
    by (auto simp: SelfSignedCert_def Let_def split: sum.splits)
  note e = encode_pair_law [OF assms(1) c(6)]
  have parse: "xl_create lib tmpl parent pub k = Inr der \<Longrightarrow> xl_parse lib der = Inr (issued tmpl parent pub (xl_public lib k))"
    for tmpl parent pub k der using assms(1) by (simp add: x509_law_def)
  have "ca_cert = issued (ca_template now validity) (ca_template now validity) (xl_public lib ca_key) (xl_public lib ca_key)"
    using parse [OF c(3)] c(4) by simp
  then have "issued tmpl (cert_template.truncate ca_cert) pub signer = issued tmpl (ca_template now validity) pub signer"
    for tmpl and pub signer :: 'pk
    by (simp add: issued_def cert_template.defs ca_template_def)
  then have "xl_parse lib (tp_certificate pair) =
      Inr (issued (server_template now validity svc ns) (ca_template now validity) (xl_public lib server_key) (xl_public lib ca_key))"
    using parse [OF c(5)] e(2) by (simp only:)
  with that [OF c(1,2) e(1) parse [OF c(3)]] show ?thesis .
qed

lemma issued_fields:
  "ce_CommonName (issued tmpl parent pub signer) = ce_CommonName tmpl"
  "ce_Organization (issued tmpl parent pub signer) = ce_Organization tmpl"
  "ce_NotBefore (issued tmpl parent pub signer) = in_seconds (ce_NotBefore tmpl)"
  "ce_NotAfter (issued tmpl parent pub signer) = in_seconds (ce_NotAfter tmpl)"
  "ce_IsCA (issued tmpl parent pub signer) = ce_IsCA tmpl"
  "ce_KeyUsage (issued tmpl parent pub signer) = ce_KeyUsage tmpl"
  "ce_ExtKeyUsage (issued tmpl parent pub signer) = ce_ExtKeyUsage tmpl"
  "ce_BasicConstraintsValid (issued tmpl parent pub signer) = ce_BasicConstraintsValid tmpl"
  "ce_DNSNames (issued tmpl parent pub signer) = ce_DNSNames tmpl"
  "ce_Issuer (issued tmpl parent pub signer) = (ce_CommonName parent, ce_Organization parent)"
  "ce_PublicKey (issued tmpl parent pub signer) = pub" "ce_SignedFor (issued tmpl parent pub signer) = signer"
  by (simp_all add: issued_def cert_template.defs)

lemma in_seconds_mono: "a \<le> b \<Longrightarrow> in_seconds a \<le> in_seconds b"
  by (simp add: in_seconds_def zdiv_mono1)

text \<open>What the API server accepts of one start, by the bundle of that start and by that of another.\<close>

lemma accepts_own:
  assumes "x509_law lib unpem" "SelfSignedCert lib now svc ns validity = Inr (pair, ca)" "now 0 \<le> now 2" "now 1 \<le> now 3"
  shows "accepts_tls lib unpem ca host t pair \<longleftrightarrow>
    host \<in> set (dns_names svc ns) \<and> in_seconds (now 2 - hour) \<le> t \<and> t \<le> in_seconds (now 1 + validity)"
proof -
  obtain ca_key server_key ca_der where c: "unpem ca = Some (''CERTIFICATE'', ca_der)"
    "xl_parse lib ca_der =
      Inr (issued (ca_template now validity) (ca_template now validity) (xl_public lib ca_key) (xl_public lib ca_key))"
    "xl_parse lib (tp_certificate pair) =
      Inr (issued (server_template now validity svc ns) (ca_template now validity) (xl_public lib server_key) (xl_public lib ca_key))"
    by (rule SelfSignedCert_chain [OF assms(1,2)])
  have "in_seconds (now 0 - hour) \<le> in_seconds (now 2 - hour)" "in_seconds (now 1 + validity) \<le> in_seconds (now 3 + validity)"
    using assms(3,4) by (simp_all add: in_seconds_mono)
  then show ?thesis
    by (auto simp: accepts_tls_def c issued_fields signed_by_def valid_at_def ca_template_def server_template_def)
qed

lemma refuses_other:
  assumes "x509_law lib unpem" "SelfSignedCert lib now svc ns validity = Inr (pair, ca)"
    and "x509_law lib1 unpem" "SelfSignedCert lib1 now1 svc1 ns1 validity1 = Inr (pair1, ca1)"
    and "lib1 = lib\<lparr>xl_generate := g\<rparr>" "xl_generate lib 0 = Inr k" "g 0 = Inr k1" "xl_public lib k \<noteq> xl_public lib k1"
  shows "\<not> accepts_tls lib unpem ca1 host t pair"
proof -
  obtain ca_key server_key ca_der where c: "xl_generate lib 0 = Inr ca_key" "unpem ca = Some (''CERTIFICATE'', ca_der)"
    "xl_parse lib (tp_certificate pair) =
      Inr (issued (server_template now validity svc ns) (ca_template now validity) (xl_public lib server_key) (xl_public lib ca_key))"
    by (rule SelfSignedCert_chain [OF assms(1,2)])
  obtain ca_key1 ca_der1 where d: "xl_generate lib1 0 = Inr ca_key1" "unpem ca1 = Some (''CERTIFICATE'', ca_der1)"
    "xl_parse lib1 ca_der1 =
      Inr (issued (ca_template now1 validity1) (ca_template now1 validity1) (xl_public lib1 ca_key1) (xl_public lib1 ca_key1))"
    by (rule SelfSignedCert_chain [OF assms(3,4)])
  have "ca_key = k" "ca_key1 = k1" using c(1) d(1) assms(5-7) by simp_all
  then show ?thesis using assms(5,8) d(3) by (simp add: accepts_tls_def d(2) c(3) issued_fields signed_by_def)
qed

section \<open>Properties\<close>

lemma patch_replaces:
  assumes "patchCABundle (cu_config cu) (cu_client cu) (cluster_get cu) (cluster_patch cu) name ca = None"
  obtains bs :: "string list" where "bs \<noteq> []" "cluster_after cu name ca = cu\<lparr>cu_bundles := (cu_bundles cu)(name \<mapsto> replicate (length bs) ca)\<rparr>"
proof -
  from assms obtain n where n: "cluster_get cu name = Inr n" "bundle_ops n ca \<noteq> []"
    by (auto simp: patchCABundle_def Let_def split: option.splits sum.splits if_splits)
  then obtain bs where bs: "cu_bundles cu name = Some bs" "n = length bs"
    by (auto simp: cluster_get_def split: option.splits)
  with n(2) have "bs \<noteq> []" by (auto simp: bundle_ops_def)
  moreover have "cluster_after cu name ca = cu\<lparr>cu_bundles := (cu_bundles cu)(name \<mapsto> replicate (length bs) ca)\<rparr>"
    using assms by (simp add: cluster_after_def bs(1) every_bundle_replaced)
  ultimately show ?thesis by (rule that)
qed

lemma operator_started:
  assumes "operator_start lib now e cu = (Inr o', cu1)"
  defines "ns \<equiv> String_setting e ''NAMESPACE'' ''nabiz''" and "svc \<equiv> String_setting e ''WEBHOOK_SERVICE'' ''nabiz-operator''"
    and "name \<equiv> String_setting e ''WEBHOOK_CONFIG'' ''nabiz-dotnet-injector''"
  obtains ca and bs :: "string list" where "SelfSignedCert lib now svc ns (10 * 365 * 24 * hour) = Inr (op_pair o', ca)" "bs \<noteq> []"
    "cu1 = cu\<lparr>cu_bundles := (cu_bundles cu)(name \<mapsto> replicate (length bs) ca)\<rparr>"
proof -
  from assms obtain ca where c: "SelfSignedCert lib now svc ns (10 * 365 * 24 * hour) = Inr (op_pair o', ca)"
    "patchCABundle (cu_config cu) (cu_client cu) (cluster_get cu) (cluster_patch cu) name ca = None" "cu1 = cluster_after cu name ca"
    by (auto simp: operator_start_def Let_def split: sum.splits option.splits)
  from c(2) obtain bs :: "string list" where "bs \<noteq> []" "cluster_after cu name ca = cu\<lparr>cu_bundles := (cu_bundles cu)(name \<mapsto> replicate (length bs) ca)\<rparr>"
    by (rule patch_replaces)
  with that [OF c(1)] c(3) show ?thesis by simp
qed


text \<open>A second operator with the same configuration takes the webhooks over: once it has started, the
  certificate of the first is accepted nowhere, for no name and at no time, so two replicas cannot
  serve side by side.\<close>

theorem later_operator_takes_over:
  assumes "x509_law lib unpem" "operator_start lib now e cu = (Inr o', cu1)"
    and "x509_law (lib\<lparr>xl_generate := g\<rparr>) unpem" "operator_start (lib\<lparr>xl_generate := g\<rparr>) now1 e cu1 = (Inr o1, cu2)"
    and "xl_generate lib 0 = Inr k" "g 0 = Inr k1" "xl_public lib k \<noteq> xl_public lib k1"
  shows "\<exists>bs. cu_bundles cu2 (String_setting e ''WEBHOOK_CONFIG'' ''nabiz-dotnet-injector'') = Some bs
    \<and> list_all (\<lambda>b. \<forall>host t. \<not> accepts_tls lib unpem b host t (op_pair o')) bs"
proof -
  obtain ca where s: "SelfSignedCert lib now (String_setting e ''WEBHOOK_SERVICE'' ''nabiz-operator'')
      (String_setting e ''NAMESPACE'' ''nabiz'') (10 * 365 * 24 * hour) = Inr (op_pair o', ca)"
    by (rule operator_started [OF assms(2)])
  obtain ca1 and bs :: "string list" where s1: "SelfSignedCert (lib\<lparr>xl_generate := g\<rparr>) now1 (String_setting e ''WEBHOOK_SERVICE'' ''nabiz-operator'')
      (String_setting e ''NAMESPACE'' ''nabiz'') (10 * 365 * 24 * hour) = Inr (op_pair o1, ca1)" "bs \<noteq> []"
    "cu2 = cu1\<lparr>cu_bundles := (cu_bundles cu1)(String_setting e ''WEBHOOK_CONFIG'' ''nabiz-dotnet-injector'' \<mapsto> replicate (length bs) ca1)\<rparr>"
    by (rule operator_started [OF assms(4)])
  from refuses_other [OF assms(1) s assms(3) s1(1) refl assms(5,6,7)] s1(3) show ?thesis
    by (simp add: list_all_iff)
qed

section \<open>Witnesses\<close>

text \<open>Packages for the two templates of one moment: keys are numbers, written out in the encodings.\<close>

definition ten_years :: int where
  "ten_years = 10 * 365 * 24 * hour"

definition some_ca :: cert_template where
  "some_ca = ca_template (\<lambda>_. 0) ten_years"

definition some_server :: cert_template where
  "some_server = server_template (\<lambda>_. 0) ten_years ''nabiz-operator'' ''nabiz''"

definition some_der :: "char \<Rightarrow> nat \<Rightarrow> nat \<Rightarrow> string" where
  "some_der c pub signer = c # replicate pub CHR ''a'' @ replicate signer CHR ''b''"

definition some_parse :: "string \<Rightarrow> string + nat certificate" where
  "some_parse s = (case s of [] \<Rightarrow> Inl ''asn1''
     | c # r \<Rightarrow> Inr (issued (if c = CHR ''C'' then some_ca else some_server) some_ca
         (length (filter ((=) CHR ''a'') r)) (length (filter ((=) CHR ''b'') r))))"

definition some_unpem :: "string \<Rightarrow> (string \<times> string) option" where
  "some_unpem s = (case s of [] \<Rightarrow> None
     | c # b \<Rightarrow> Some (if c = CHR ''c'' then ''CERTIFICATE'' else ''RSA PRIVATE KEY'', b))"

definition some_pem :: "string \<Rightarrow> string \<Rightarrow> string + string" where
  "some_pem typ b = (if typ = ''CERTIFICATE'' then Inr (CHR ''c'' # b)
     else if typ = ''RSA PRIVATE KEY'' then Inr (CHR ''k'' # b) else Inl ''type'')"

definition some_create :: "cert_template \<Rightarrow> cert_template \<Rightarrow> nat \<Rightarrow> nat \<Rightarrow> string + string" where
  "some_create tmpl parent pub k =
     (if parent \<noteq> some_ca then Inl ''parent''
      else if tmpl = some_ca then Inr (some_der CHR ''C'' pub k)
      else if tmpl = some_server then Inr (some_der CHR ''S'' pub k) else Inl ''template'')"

definition some_pair :: "string \<Rightarrow> string \<Rightarrow> string + nat tls_pair" where
  "some_pair c k =
     (if hd c = CHR ''c'' \<and> c \<noteq> [] \<and> k = CHR ''k'' # replicate (length k - 1) CHR ''a''
      then Inr \<lparr>tp_certificate = tl c, tp_key = length k - 1\<rparr> else Inl ''pair'')"

definition some_x509 :: "nat \<Rightarrow> (nat, nat) x509" where
  "some_x509 n = \<lparr>xl_generate = (\<lambda>i. Inr (n + i)), xl_public = (\<lambda>k. k), xl_create = some_create, xl_parse = some_parse,
     xl_pkcs1 = (\<lambda>k. replicate k CHR ''a''), xl_pem = some_pem, xl_pair = some_pair\<rparr>"

lemma some_times: "issued some_ca some_ca p q = cert_template.extend some_ca
    \<lparr>ce_Issuer = (''nabiz-webhook-ca'', [''nabiz'']), ce_PublicKey = p, ce_SignedFor = q\<rparr>"
  by (simp add: issued_def some_ca_def ca_template_def in_seconds_def hour_def ten_years_def cert_template.defs)

lemma some_law: "x509_law (some_x509 n) some_unpem"
  unfolding x509_law_def
proof (intro conjI allI impI)
  fix tmpl parent pub k der
  assume "xl_create (some_x509 n) tmpl parent pub k = Inr der"
  then have "parent = some_ca" "tmpl = some_ca \<and> der = some_der CHR ''C'' pub k \<or> tmpl = some_server \<and> der = some_der CHR ''S'' pub k"
    by (auto simp: some_x509_def some_create_def split: if_splits)
  then show "xl_parse (some_x509 n) der = Inr (issued tmpl parent pub (xl_public (some_x509 n) k))"
    by (auto simp: some_x509_def some_parse_def some_der_def)
next
  fix c k p
  assume "xl_pair (some_x509 n) c k = Inr p"
  then have c: "c \<noteq> []" "hd c = CHR ''c''" "k = CHR ''k'' # replicate (length k - 1) CHR ''a''"
    and p: "p = \<lparr>tp_certificate = tl c, tp_key = length k - 1\<rparr>"
    by (auto simp: some_x509_def some_pair_def split: if_splits)
  from c(1,2) p show "some_unpem c = Some (''CERTIFICATE'', tp_certificate p)" by (cases c) (simp_all add: some_unpem_def)
  have "some_unpem (CHR ''k'' # b) = Some (''RSA PRIVATE KEY'', b)" for b by (simp add: some_unpem_def)
  then have "some_unpem k = Some (''RSA PRIVATE KEY'', replicate (length k - 1) CHR ''a'')" by (subst c(3)) blast
  then show "some_unpem k = Some (''RSA PRIVATE KEY'', xl_pkcs1 (some_x509 n) (tp_key p))"
    by (simp add: p some_x509_def)
qed (auto simp: some_x509_def some_pem_def some_unpem_def split: if_splits)

lemma some_generate: "(some_x509 n)\<lparr>xl_generate := (\<lambda>i. Inr (m + i))\<rparr> = some_x509 m"
  by (simp add: some_x509_def)

lemma some_cert: "\<exists>pair ca. SelfSignedCert (some_x509 n) (\<lambda>_. 0) ''nabiz-operator'' ''nabiz'' ten_years = Inr (pair, ca)"
proof -
  have t: "ca_template (\<lambda>_. 0) ten_years = some_ca"
    "server_template (\<lambda>_. 0) ten_years ''nabiz-operator'' ''nabiz'' = some_server"
    by (simp_all add: some_ca_def some_server_def)
  have ne: "some_server \<noteq> some_ca"
  proof
    assume "some_server = some_ca"
    then have "ce_IsCA some_server = ce_IsCA some_ca" by simp
    then show False by (simp add: some_server_def some_ca_def server_template_def ca_template_def)
  qed
  have trunc: "cert_template.truncate (issued some_ca some_ca p q) = some_ca" for p q
    by (simp add: some_times cert_template.defs)
  show ?thesis
    by (simp add: SelfSignedCert_def Let_def t some_x509_def some_create_def some_parse_def some_der_def trunc ne
        encode_pair_def some_pem_def some_pair_def)
qed

text \<open>A cluster that can be reached, with two webhooks.\<close>

definition some_cluster :: "string list \<Rightarrow> cluster" where
  "some_cluster bs = \<lparr>cu_config = None, cu_client = None, cu_refused = None, cu_bundles = [''nabiz-dotnet-injector'' \<mapsto> bs]\<rparr>"

lemma no_settings: "String_setting [] key d = d"
  by (simp add: String_setting_def LookupEnv_def)

lemma some_start:
  "bs \<noteq> [] \<Longrightarrow> \<exists>o' bs1. operator_start (some_x509 n) (\<lambda>_. 0) [] (some_cluster bs) = (Inr o', some_cluster bs1) \<and> bs1 \<noteq> []"
proof -
  assume bs: "bs \<noteq> []"
  obtain pair ca where c: "SelfSignedCert (some_x509 n) (\<lambda>_. 0) ''nabiz-operator'' ''nabiz'' ten_years = Inr (pair, ca)"
    using some_cert by blast
  have "bundle_ops (length bs) ca \<noteq> []" using bs by (simp add: bundle_ops_def)
  then have p: "patchCABundle None None (cluster_get (some_cluster bs)) (cluster_patch (some_cluster bs)) ''nabiz-dotnet-injector'' ca = None"
    by (simp add: patchCABundle_def Let_def some_cluster_def cluster_get_def cluster_patch_def)
  then have "cluster_after (some_cluster bs) ''nabiz-dotnet-injector'' ca = some_cluster (replicate (length bs) ca)"
    by (simp add: cluster_after_def some_cluster_def every_bundle_replaced)
  moreover have "cu_config (some_cluster bs) = None" "cu_client (some_cluster bs) = None" by (simp_all add: some_cluster_def)
  ultimately have "operator_start (some_x509 n) (\<lambda>_. 0) [] (some_cluster bs) =
      (Inr \<lparr>op_pair = pair, op_webhook = NewWebhook (operator_config []), op_addr = '':9443'', op_stats_addr = '':8888''\<rparr>,
       some_cluster (replicate (length bs) ca))"
    using c [unfolded ten_years_def] p by (simp add: operator_start_def Let_def no_settings)
  with bs show ?thesis by (intro exI conjI) (assumption, simp)
qed


theorem later_operator_takes_over_witness:
  "\<exists>o' cu1 o1 cu2 bs. operator_start (some_x509 0) (\<lambda>_. 0) [] (some_cluster [[], []]) = (Inr o', cu1)
    \<and> operator_start (some_x509 7) (\<lambda>_. 0) [] cu1 = (Inr o1, cu2)
    \<and> cu_bundles cu2 ''nabiz-dotnet-injector'' = Some bs
    \<and> list_all (\<lambda>b. \<not> accepts_tls (some_x509 0) some_unpem b ''nabiz-operator.nabiz.svc'' 0 (op_pair o')) bs"
proof -
  obtain o' bs1 where s: "operator_start (some_x509 0) (\<lambda>_. 0) [] (some_cluster [[], []]) = (Inr o', some_cluster bs1)" "bs1 \<noteq> []"
    using some_start [of "[[], []]" 0] by auto
  obtain o1 bs2 where s1: "operator_start (some_x509 7) (\<lambda>_. 0) [] (some_cluster bs1) = (Inr o1, some_cluster bs2)"
    using some_start [OF s(2), of 7] by auto
  have k: "xl_generate (some_x509 0) 0 = Inr 0" "(\<lambda>i. Inr ((7 :: nat) + i)) 0 = Inr 7"
    "xl_public (some_x509 0) 0 \<noteq> xl_public (some_x509 0) 7" by (simp_all add: some_x509_def)
  note takes_over = later_operator_takes_over [where lib = "some_x509 0" and g = "\<lambda>i. Inr (7 + i)", unfolded some_generate]
  obtain bs where "cu_bundles (some_cluster bs2) ''nabiz-dotnet-injector'' = Some bs"
    "list_all (\<lambda>b. \<forall>host t. \<not> accepts_tls (some_x509 0) some_unpem b host t (op_pair o')) bs"
    using takes_over [OF some_law s(1) some_law s1 k] by (auto simp: no_settings)
  with s s1 show ?thesis by (auto simp: list_all_iff)
qed

end
