(* ===== verification/Restart.thy ===== *)
theory Restart
  imports ApiProgram DiagRuns
begin

text \<open>
  A restart of nabiz-api while a dump is being fetched: the record is in the database, its job was in
  the process. What the new process makes of such a record.
\<close>

section \<open>Stranded records\<close>

definition stranded :: "string \<Rightarrow> api_server \<Rightarrow> bool" where
  "stranded did sv \<longleftrightarrow> did \<notin> fj_artifact ` set (sv_jobs sv)
     \<and> (\<forall>a \<in> set (db_artifacts (sv_db sv)). da_id a = did \<longrightarrow> da_status a = ''pending'')"

text \<open>The identifiers of records are random: a new record does not take that of an old one.\<close>

fun other_record :: "string \<Rightarrow> diag_event \<Rightarrow> bool" where
  "other_record did (ECapture w sl body r) = (io_random w 3 \<noteq> did)"
| "other_record did e = True"

lemma stranded_fs [simp]: "stranded did (sv\<lparr>sv_fs := fs1\<rparr>) = stranded did sv"
  by (simp add: stranded_def)

lemma end_job_stranded:
  assumes "stranded did sv" "row_change k (sv_db sv) db1" "k \<noteq> did"
  shows "stranded did (end_job j (sv\<lparr>sv_db := db1\<rparr>))" "stranded did (end_job j (sv\<lparr>sv_fs := fs1, sv_db := db1\<rparr>))"
  using assms by (auto simp: stranded_def end_job_def row_change_def)

lemma set_job_stranded [simp]: "stranded did (set_job j sv) = stranded did sv"
proof -
  have "fj_artifact ` set (sv_jobs (set_job j sv)) = fj_artifact ` set (sv_jobs sv)" by (rule ids_same) simp
  then show ?thesis unfolding stranded_def by (simp add: set_job_def)
qed

lemma job_stranded:
  assumes "stranded did sv" "fj_artifact j \<noteq> did"
  shows "stranded did (job_fail flt m j sv)" "stranded did (job_register j sv)"
    "stranded did (job_asked decode flt rep j sv)" "stranded did (store_dump flt fault oe now c body ce cl j sv)"
    "stranded did (job_fetched flt fault oe now d c j sv)"
proof -
  have fail: "stranded did (job_fail f m' j (sv\<lparr>sv_fs := fs1\<rparr>)) \<and> stranded did (job_fail f m' j sv)" for f m' fs1
    using assms end_job_stranded [OF _ row_change_artifact(1), of did "sv\<lparr>sv_fs := fs1\<rparr>"]
      end_job_stranded [OF _ row_change_artifact(2), of did "sv\<lparr>sv_fs := fs1\<rparr>"]
      end_job_stranded(1) [OF assms(1) row_change_artifact(1)] end_job_stranded(1) [OF assms(1) row_change_artifact(2)]
    by (simp add: job_fail_def)
  then show "stranded did (job_fail flt m j sv)" by blast
  show "stranded did (job_register j sv)"
  proof -
    have "stranded did (set_job (j\<lparr>fj_phase := JobAsking\<rparr>) sv)" using assms(1) by simp
    then show ?thesis by (simp add: job_register_def stranded_def)
  qed
  show "stranded did (job_asked decode flt rep j sv)"
    using fail assms(1) by (auto simp: job_asked_def split: sum.split)
  show store: "stranded did (store_dump flt fault oe now c body ce cl j sv)" for c body ce cl
    using fail assms end_job_stranded(2) [OF assms(1) row_change_artifact(3) assms(2)]
    by (auto simp: store_dump_def Let_def split: option.split)
  show "stranded did (job_fetched flt fault oe now d c j sv)"
    using fail store by (auto simp: job_fetched_def split: download.split)
qed

lemma with_job_stranded:
  "stranded did sv \<Longrightarrow> (\<And>j. fj_artifact j \<noteq> did \<Longrightarrow> stranded did (f j sv)) \<Longrightarrow> stranded did (with_job k f sv)"
proof (cases "find (\<lambda>j. fj_artifact j = k) (sv_jobs sv)")
  case (Some j)
  assume h: "stranded did sv" "\<And>j. fj_artifact j \<noteq> did \<Longrightarrow> stranded did (f j sv)"
  from Some have "j \<in> set (sv_jobs sv)" by (auto dest: findD)
  with h(1) have "fj_artifact j \<noteq> did" by (auto simp: stranded_def)
  with h(2) Some show ?thesis by (simp add: with_job_def)
qed (simp add: with_job_def)

lemma fewer_stranded:
  "stranded did sv \<Longrightarrow> set (db_artifacts (sv_db sv1)) \<subseteq> set (db_artifacts (sv_db sv)) \<Longrightarrow> sv_jobs sv1 = sv_jobs sv \<Longrightarrow> stranded did sv1"
  by (auto simp: stranded_def)

lemma capture_stranded:
  assumes "stranded did sv" "io_random w 3 \<noteq> did"
  shows "stranded did (snd (handleCapture w sl body r sv))"
proof -
  have "stranded did (sv\<lparr>sv_db := db1\<rparr>)" if "CreateArtifact flt nid now (sv_db sv) i s k w' = (Inl e, db1)" for flt nid now i s k w' e db1
    using that assms(1) by (auto simp: CreateArtifact_def split: if_splits)
  moreover have "stranded did (sv\<lparr>sv_db := db1, sv_jobs := sv_jobs sv @ [j]\<rparr>)"
    if "CreateArtifact flt (io_random w 3) now (sv_db sv) i s k w' = (Inr n, db1)" "fj_artifact j = n"
    for flt now i s k w' n db1 j
    using that assms by (auto simp: CreateArtifact_def stranded_def new_artifact_def split: if_splits)
  ultimately show ?thesis using assms(1)
    by (auto simp: handleCapture_def Let_def split: sum.split option.split prod.split)
qed

lemma stranded_step:
  assumes "stranded did sv" "other_record did e"
  shows "stranded did (diag_step sv e)"
proof (cases e)
  case (ECapture w sl body r)
  with assms capture_stranded show ?thesis by simp
next
  case (ECancel w decode sl net r)
  with assms(1) show ?thesis by (simp add: fewer_stranded handleCancelCapture_frame)
next
  case (EDelete w r)
  have "stranded did (sv\<lparr>sv_fs := fs1, sv_db := db1\<rparr>) \<and> stranded did (sv\<lparr>sv_db := db1\<rparr>)"
    if "DeleteArtifact flt (sv_db sv) i = (x, db1)" for fs1 flt i x db1
    using that assms(1) by (auto simp: stranded_def DeleteArtifact_def split: if_splits)
  with assms(1) EDelete show ?thesis
    by (auto simp: handleDeleteArtifact_def Let_def split: sum.split prod.split unit.split)
next
  case (EClean rd)
  obtain P where "db_artifacts (sv_db (cleanDumps rd sv)) = filter P (db_artifacts (sv_db sv))"
    using cleanDumps_rows(1) by blast
  with assms(1) EClean cleanDumps_rows(2) show ?thesis by (auto intro: fewer_stranded)
next
  case (EFetched k flt fault oe now d)
  with assms(1) show ?thesis by (auto intro!: with_job_stranded simp: job_stranded split: job_phase.split)
qed (use assms(1) in \<open>auto intro!: with_job_stranded simp: job_stranded\<close>)

lemma stranded_run: "stranded did sv \<Longrightarrow> list_all (other_record did) es \<Longrightarrow> stranded did (foldl diag_step sv es)"
  by (induction es arbitrary: sv) (simp_all add: stranded_step)

lemma Bootstrap_artifacts: "db_artifacts (snd (Bootstrap env flt nid rnd now db e p)) = db_artifacts db"
  by (auto simp: Bootstrap_def CreateUser_def Let_def split: option.split prod.split sum.split)

section \<open>Properties\<close>

text \<open>(C20) A dump that is being fetched when the API restarts never ends: the new process finds the record
  pending and has no job for it, so whatever is captured, fetched, cancelled or cleaned from then on the
  record says pending as long as it exists. Only its deletion, by a user or by its age, ends it.\<close>

theorem restart_strands_dumps:
  assumes "dumps_ok sv" "a \<in> set (db_artifacts (sv_db sv))" "da_status a = ''pending''"
    and "schema_law w" "api_main e w (sv_db sv) = (Serving sv1 sl (created, generated), db1)"
    and "list_all (other_record (da_id a)) es"
  shows "a \<in> set (db_artifacts (sv_db sv1)) \<and> sv_jobs sv1 = []
    \<and> list_all (\<lambda>b. da_id b = da_id a \<longrightarrow> da_status b = ''pending'') (db_artifacts (sv_db (foldl diag_step sv1 es)))"
proof -
  note start = api_main_serving(1) [OF assms(4,5)]
  have rows: "db_artifacts (sv_db sv1) = db_artifacts (sv_db sv)"
    using Bootstrap_artifacts api_start_parts(1) [OF start] by (metis snd_conv)
  have jobs: "sv_jobs sv1 = []"
    using start by (auto simp: api_start_def new_server_def split: prod.splits sum.splits)
  have "distinct (map da_id (db_artifacts (sv_db sv)))" using assms(1) by (simp add: dumps_ok_def)
  then have "b = a" if "b \<in> set (db_artifacts (sv_db sv))" "da_id b = da_id a" for b
    using that assms(2) by (auto simp: distinct_map inj_on_def)
  then have "stranded (da_id a) sv1" using assms(3) by (auto simp: stranded_def jobs rows)
  from stranded_run [OF this assms(6)] show ?thesis
    using assms(2) by (simp add: rows jobs stranded_def list_all_iff)
qed

theorem restart_strands_dumps_witness:
  "\<exists>sv1 sl created db1. api_main first_env first_world (sv_db shop_server) = (Serving sv1 sl created, db1)
    \<and> (let sv2 = foldl diag_step sv1 (ECancel example_io (\<lambda>_. Inr (True, [])) None (\<lambda>_. Reply 200 [])
           (example_http\<lparr>hr_id := ''art00001''\<rparr>) # shop_events)
       in list_all (\<lambda>b. da_id b = ''art00001'' \<longrightarrow> da_status b = ''pending'') (db_artifacts (sv_db sv2)))"
proof -
  let ?a = "new_artifact ''art00001'' 0 ''i'' ''shop'' ''cpu'' ''ann''"
  let ?es = "ECancel example_io (\<lambda>_. Inr (True, [])) None (\<lambda>_. Reply 200 []) (example_http\<lparr>hr_id := ''art00001''\<rparr>) # shop_events"
  have a: "?a \<in> set (db_artifacts (sv_db shop_server))" "da_status ?a = ''pending''"
    by (simp_all add: shop_server_def new_server_def new_artifact_def)
  have "db_users (sv_db shop_server) = []" by (simp add: shop_server_def new_server_def shop_db_def empty_idb_def)
  then obtain sv1 sl db1 where m: "api_main first_env first_world (sv_db shop_server) = (Serving sv1 sl (True, []), db1)"
    using first_start by blast
  have es: "list_all (other_record (da_id ?a)) ?es" by simp
  have id: "da_id ?a = ''art00001''" by (simp add: new_artifact_def)
  show ?thesis unfolding Let_def
    using restart_strands_dumps [OF shop_server_ok(1) a first_world_law m es, unfolded id] m by blast
qed

end
