(* ===== verification/Spec2Isabelle.thy ===== *)
theory Spec2Isabelle
  imports TopologyProps Receiver Storage DumpAccess AdminProps ServerProps TelemetryProps TraceProps CollectorTheorems EdgeTable TraceAnswer Operator Restart
begin

text \<open>
  A model of nabiz, a tracing system for Kubernetes clusters: a collector that receives OpenTelemetry
  spans and derives a service graph from them, an API with a user interface, and an operator that
  instruments the pods of .NET applications. The model follows the Go code under src/ function by
  function; PROJECT.json maps each definition to its lines.

  \<^bold>\<open>The program.\<close> Three programs share the packages under src/internal.

  \<^item> nabiz-collector (cmd/collector): the receiver (otlp) converts export requests to spans and offers
    them to the pipeline, whose workers hand batches to the storage (storage/clickhouse) and to the
    builder of the service graph (topology); the loop of the builder writes its edges to the storage.
  \<^item> nabiz-api (cmd/api): the server (api) answers from two databases. Users, role groups, projects,
    sessions, agents and dumps are in the control plane (identity, PostgreSQL); services, operations,
    traces and edges are in the tables the collector fills (ClickHouse). Dumps are fetched from the agents
    by jobs, kept as files, and cleaned by a janitor.
  \<^item> nabiz-operator (cmd/operator): makes a certificate, writes its authority into the webhook
    configuration of the cluster and serves the admission webhook (k8s).

  \<^bold>\<open>The theories.\<close> One component per theory: first its records, then its operations in the order of the
  source. The theories whose names end in Props, Theorems or Spec hold lemmas and properties.

  \<^item> Prelude: integer widths, Go's maps as association lists without double keys, \<open>None\<close> for a panic; the
    locales \<open>keyed_table\<close> and \<open>invariant_machine\<close>. GoStrings, GoTime, Paths: what the program uses of
    strings, strconv, encoding/hex, time and path/filepath.
  \<^item> Span (model/span.go), Convert (otlp/convert.go), Receiver (otlp/receiver.go: both entry points, the
    two servers and the end of \<open>Serve\<close>), Pipeline (pipeline/pipeline.go), Interfaces (the consumer and
    the processor, through which these parts meet, as the locales \<open>span_consumer\<close> and \<open>span_processor\<close>).
  \<^item> Topology, TopologySpec, TopologyProps (topology/graph.go): pairing of client and server spans in two
    generations per shard, aggregation to edges, rotation, flush.
  \<^item> Storage (storage/clickhouse/store.go, schema.go): rows, batches, counters, migration. Tables: the
    aggregating tables, their materialised views and merges, and the queries of the API over them;
    TablesProps; EdgeTable: the table of the edges, the query of the topology and their property;
    TraceAnswer: the detail of a trace from the stored spans.
  \<^item> Collector, CollectorProps, CollectorTheorems (cmd/collector/main.go): all of these as one program,
    an inductive step relation in which requests, workers, ticks, the signal and the shutdown come in any
    order; \<open>collector_exec\<close> computes the same steps.
  \<^item> Identity, IdentityProps, IdentityTheorems, IdentityDiag, DiagTheorems (identity/*.go): the tables as
    lists of rows, an operation for every method of the store; a fault may stop any statement.
  \<^item> Http, Auth, Authz, Admin, AdminProps, ApiDiag, DiagRuns, Dumps, DumpTheorems, DumpAccess,
    TelemetryData, Telemetry, TelemetryProps, TraceView, TraceProps (api/*.go): state of the server,
    sessions and sign-in, scope of a request, control plane endpoints, dumps and their jobs, janitor,
    telemetry endpoints.
  \<^item> Server, ServerProps (api/server.go, web.go): the routes with their guards behind the session middleware;
    \<open>server_step\<close> is one request, job step, janitor round or purge.
  \<^item> Config (config/config.go), Inject, InjectProps (k8s/inject.go), Webhook (k8s/webhook.go), Commands,
    CommandsProps (cmd/*/main.go: settings and start), ApiProgram (cmd/api/main.go as a whole, with the
    opening of the databases), Restart (what a restart makes of the dumps), Operator (cmd/operator/main.go as a whole, k8s/certs.go).

  \<^bold>\<open>How the code is read.\<close> A struct is a record, an enumeration a datatype, a \<open>uint64\<close> a 64-bit word that
  wraps, a Go \<open>int\<close> an integer with its wrap-around where the code can reach it; a string is a list of
  bytes; a time is its nanoseconds. An operation takes the state and returns it; an error is \<open>Inl\<close>, a
  panic \<open>None\<close>. Where goroutines interleave, one step is what happens under one lock or at one channel
  operation, and runs are lists of steps in any order. Every loop is structural or has a measure; the one
  loop of the source that may not end, the doubling in \<open>New\<close> of the topology, is a partial function, and
  it is proved for which settings it returns. Waiting for a database is bounded by thirty attempts, as in
  the code. No definition needs fuel.

  \<^bold>\<open>Parameters.\<close> Code outside src/ is an argument: the ClickHouse driver, PostgreSQL's collation and
  identifiers, bcrypt, AES-GCM and SHA-256, the protobuf and JSON codecs, gzip, the printing of doubles,
  the order in which a map is iterated, the hash of the shards, the clock, random values, the network, the
  client of the cluster, the JSON patch library, and the X.509 packages. What is relied on of them is a
  named predicate (\<open>ch_driver_ok\<close>, \<open>sealer_ok\<close>, \<open>patch_law\<close>, \<open>x509_law\<close>, \<open>schema_law\<close>, \<open>is_order\<close>) and is
  instantiated in the witnesses. A \<open>float64\<close> is a rational number: rates and milliseconds are exact where
  Go rounds. The SQL of the program is its meaning over lists of rows: for the control plane the change
  each statement describes with the constraints of the schema, for the telemetry the grouping and
  filtering of the query. A statement is atomic and so is a transaction; statements of several requests
  interleave between operations, not within one.

  \<^bold>\<open>The locales.\<close> \<open>span_consumer\<close> is interpreted on \<open>Accept\<close> of the pipeline and used by the receiver,
  \<open>span_processor\<close> and \<open>edge_sink\<close> on the storage and used by the collector; \<open>keyed_table\<close> on Go's maps;
  \<open>invariant_machine\<close> on the steps of the pipeline, the builder, the limiter, the control plane (for its
  keys, and for its last administrator), the dumps, the webhook and the server; \<open>adding\<close>,
  \<open>merging_column\<close> and \<open>aggregated_column\<close> on every column of the three aggregating tables: what their
  partial rows add up to does not depend on how inserts were cut into blocks or what was merged.

  \<^bold>\<open>What is proved.\<close>

  \<^item> The collector: every accepted span is waiting, stored or counted as failed at every moment, a shutdown
    that no signal started loses nothing, every shutdown can complete. The builder: its sharded,
    two-generation table refines one table, its aggregate refines the specification of an edge as a fold
    over its calls, the order in which the two spans of a call arrive does not matter, the table is
    bounded. The edges it flushes reach the table, and the rows match the schema.
  \<^item> The telemetry: services and edges answered are those of the stored spans and edges within range and
    scope, whatever the database merged; the index of the traces adds up to its spans; searches and
    details stay in scope, and who sees everything is shown the whole trace; the topology is a graph; a
    quantile lies in the bucket of the true one.
  \<^item> The API: every change a request makes is one its permissions allow, only administrators manage users
    and projects, keys and references hold and an active administrator remains in every run, from the first
    start of the program on; access and scope meet their specifications; the limiter bounds the
    guesses; a new password ends the sessions; a dump is pending exactly while its job runs, is reached
    only within its project, and downloads as it was fetched; the janitor keeps age and quota.
  \<^item> The operator: injection leaves the application as it was and instruments it completely; the webhook
    never blocks a pod; the API server accepts the operator's certificate, for exactly the names and the
    time it was made for, and a second operator invalidates it.

  \<^bold>\<open>What modelling showed.\<close> A signal cancels the workers and the loop of the topology before the queue is
  drained, against the comment in \<open>main\<close>: what waits is not written. The
  conditions of a trace search hold of partial rows before they are grouped, so a search within a scope
  changes its numbers with the merges of the database (\<open>search_depends_on_merging\<close>), and the detail of a
  trace its spans (\<open>detail_depends_on_merging\<close>). The limiter admits
  nineteen guesses across two adjoining windows; saving a project is not atomic
  (\<open>project_save_not_atomic\<close>); one deletes oneself by another spelling of the identifier
  (\<open>self_delete_by_spelling\<close>); a file name an agent returns can leave the dump directory
  (\<open>dump_name_escapes\<close>); a restart of the API leaves the dumps it was fetching pending; a retention
  beyond 106751 days wraps (\<open>retention_wraps\<close>). PROJECT.json lists these and the smaller ones with their
  lines.

  \<^bold>\<open>Not modelled.\<close> The engine of ClickHouse beyond inserts, views and merges: codecs, indexes, partitions
  other than their role in a merge, and the expiry of rows by their TTL. Sockets, TLS handshakes and
  timeouts of servers and clients. The percentiles of services and operations, which the database keeps as
  states of its own. Logging. The embedded user interface is its list of files. The .NET agent under
  src/agent is another program in another language.
\<close>

end
